(* ===== verification/Keyro_Prelude.thy ===== *)
theory Keyro_Prelude
  imports
    "HOL-Library.Word"
    "HOL-Library.Stream"
    "HOL-Library.Char_ord"
    "HOL-Library.List_Lexorder"
    "HOL-Library.Product_Lexorder"
    "HOL-Library.Multiset"
    "HOL-Library.Sublist"
begin

text \<open>
  What the components share: the machine integer types, Rust's \<open>Result\<close> as a sum with its
  combinators (\<open>?\<close>, \<open>map_err\<close>, \<open>ok_or\<close>, \<open>collect\<close>), effectful calls as state passing functions
  with a small triple to reason about them, \<open>str::trim\<close> on UTF-8 bytes, decimal printing, and
  saturating \<open>u64\<close> arithmetic.  A Rust \<open>String\<close> is the list of its UTF-8 bytes.
\<close>

section \<open>Types\<close>

type_synonym u8 = "8 word"
type_synonym u16 = "16 word"
type_synonym u64 = "64 word"

text \<open>A UUID is a 128-bit value; its text form belongs to the \<open>uuid\<close> crate.\<close>

type_synonym uuid = "128 word"

named_theorems io_simps "how the effect combinators compute"
named_theorems triple_intro "introduction rules of the effect triple"

section \<open>Results\<close>

text \<open>\<open>Inl\<close> is \<open>Err\<close>, \<open>Inr\<close> is \<open>Ok\<close>.  \<open>res_bind\<close> is the \<open>?\<close> operator.\<close>

fun res_bind :: "'e + 'a \<Rightarrow> ('a \<Rightarrow> 'e + 'b) \<Rightarrow> 'e + 'b" where
  "res_bind (Inl e) f = Inl e"
| "res_bind (Inr a) f = f a"

fun map_err :: "('e \<Rightarrow> 'f) \<Rightarrow> 'e + 'a \<Rightarrow> 'f + 'a" where
  "map_err g (Inl e) = Inl (g e)"
| "map_err g (Inr a) = Inr a"

fun ok_or :: "'e \<Rightarrow> 'a option \<Rightarrow> 'e + 'a" where
  "ok_or e None = Inl e"
| "ok_or e (Some a) = Inr a"

text \<open>\<open>iter().map(f).collect::<Result<Vec<_>, _>>()\<close> stops at the first error.\<close>

fun collect :: "('a \<Rightarrow> 'e + 'b) \<Rightarrow> 'a list \<Rightarrow> 'e + 'b list" where
  "collect f [] = Inr []"
| "collect f (x # xs) =
     (case f x of
        Inl e \<Rightarrow> Inl e
      | Inr y \<Rightarrow> (case collect f xs of Inl e \<Rightarrow> Inl e | Inr ys \<Rightarrow> Inr (y # ys)))"

lemma res_bind_Inr [simp]:
  "res_bind r f = Inr b \<longleftrightarrow> (\<exists>a. r = Inr a \<and> f a = Inr b)"
  by (cases r) auto

lemma res_bind_Inl:
  "res_bind r f = Inl e \<longleftrightarrow> r = Inl e \<or> (\<exists>a. r = Inr a \<and> f a = Inl e)"
  by (cases r) auto

lemma map_err_Inr [simp]: "map_err g r = Inr a \<longleftrightarrow> r = Inr a"
  by (cases r) auto

lemma map_err_Inl: "map_err g r = Inl e \<longleftrightarrow> (\<exists>e'. r = Inl e' \<and> e = g e')"
  by (cases r) auto

lemma ok_or_Inr [simp]: "ok_or e x = Inr a \<longleftrightarrow> x = Some a"
  by (cases x) auto

lemma collect_Inr_iff:
  "collect f xs = Inr ys \<longleftrightarrow> list_all2 (\<lambda>x y. f x = Inr y) xs ys"
proof (induction xs arbitrary: ys)
  case Nil
  then show ?case by auto
next
  case (Cons x xs)
  then show ?case
    by (cases ys; cases "f x"; cases "collect f xs") auto
qed

lemma collect_map_Inr:
  "(\<And>x. x \<in> set xs \<Longrightarrow> f x = Inr (g x)) \<Longrightarrow> collect f xs = Inr (map g xs)"
  by (induction xs) auto

lemma collect_total:
  "(\<And>x. x \<in> set xs \<Longrightarrow> \<exists>y. f x = Inr y) \<Longrightarrow> \<exists>ys. collect f xs = Inr ys"
proof (induction xs)
  case (Cons x xs)
  then obtain y ys where "f x = Inr y" and "collect f xs = Inr ys" by fastforce
  then show ?case by simp
qed simp

lemma collect_append:
  "collect f (xs @ ys) =
     res_bind (collect f xs) (\<lambda>as. res_bind (collect f ys) (\<lambda>bs. Inr (as @ bs)))"
proof (induction xs)
  case Nil
  show ?case by (cases "collect f ys") auto
next
  case (Cons x xs)
  then show ?case
    by (cases "f x"; cases "collect f xs"; cases "collect f ys") auto
qed

lemma collect_length: "collect f xs = Inr ys \<Longrightarrow> length ys = length xs"
  by (auto simp: collect_Inr_iff dest: list_all2_lengthD)

section \<open>Effects\<close>

text \<open>
  A call with effects takes the state and returns its result and the new state, on the error
  path as well.
\<close>

type_synonym ('w, 'e, 'a) io = "'w \<Rightarrow> ('e + 'a) \<times> 'w"

definition io_return :: "'a \<Rightarrow> ('w, 'e, 'a) io" where
  "io_return a = (\<lambda>w. (Inr a, w))"

definition io_fail :: "'e \<Rightarrow> ('w, 'e, 'a) io" where
  "io_fail e = (\<lambda>w. (Inl e, w))"

definition io_of_res :: "'e + 'a \<Rightarrow> ('w, 'e, 'a) io" where
  "io_of_res r = (\<lambda>w. (r, w))"

definition io_bind :: "('w, 'e, 'a) io \<Rightarrow> ('a \<Rightarrow> ('w, 'e, 'b) io) \<Rightarrow> ('w, 'e, 'b) io" where
  "io_bind m f = (\<lambda>w. case m w of (Inl e, w') \<Rightarrow> (Inl e, w') | (Inr a, w') \<Rightarrow> f a w')"

definition io_map_err :: "('e \<Rightarrow> 'f) \<Rightarrow> ('w, 'e, 'a) io \<Rightarrow> ('w, 'f, 'a) io" where
  "io_map_err g m = (\<lambda>w. case m w of (r, w') \<Rightarrow> (map_err g r, w'))"

text \<open>\<open>match m { Ok(a) => f(a), Err(e) => g(e) }\<close>\<close>

definition io_try ::
  "('w, 'e, 'a) io \<Rightarrow> ('a \<Rightarrow> ('w, 'f, 'b) io) \<Rightarrow> ('e \<Rightarrow> ('w, 'f, 'b) io) \<Rightarrow> ('w, 'f, 'b) io" where
  "io_try m f g = (\<lambda>w. case m w of (Inl e, w') \<Rightarrow> g e w' | (Inr a, w') \<Rightarrow> f a w')"

lemma io_return_apply [simp, io_simps]: "io_return a w = (Inr a, w)"
  by (simp add: io_return_def)

lemma io_fail_apply [simp, io_simps]: "io_fail e w = (Inl e, w)"
  by (simp add: io_fail_def)

lemma io_of_res_apply [simp, io_simps]: "io_of_res r w = (r, w)"
  by (simp add: io_of_res_def)

lemma io_bind_Inr_apply [io_simps]: "m w = (Inr a, w') \<Longrightarrow> io_bind m f w = f a w'"
  by (simp add: io_bind_def)

lemma io_bind_Inl_apply [io_simps]: "m w = (Inl e, w') \<Longrightarrow> io_bind m f w = (Inl e, w')"
  by (simp add: io_bind_def)

lemma io_bind_return [simp]: "io_bind (io_return a) f = f a"
  by (simp add: io_bind_def io_return_def)

lemma io_bind_fail [simp]: "io_bind (io_fail e) f = io_fail e"
  by (simp add: io_bind_def io_fail_def)

lemma io_bind_eq_Inr:
  "io_bind m f w = (Inr b, w') \<longleftrightarrow> (\<exists>a w1. m w = (Inr a, w1) \<and> f a w1 = (Inr b, w'))"
  by (auto simp: io_bind_def split: prod.splits sum.splits)

lemma io_bind_eq_Inl:
  "io_bind m f w = (Inl e, w') \<longleftrightarrow>
     m w = (Inl e, w') \<or> (\<exists>a w1. m w = (Inr a, w1) \<and> f a w1 = (Inl e, w'))"
  by (auto simp: io_bind_def split: prod.splits sum.splits)

lemma io_map_err_eq_Inr [simp]:
  "io_map_err g m w = (Inr a, w') \<longleftrightarrow> m w = (Inr a, w')"
  by (cases "m w") (auto simp: io_map_err_def)

lemma io_map_err_eq_Inl:
  "io_map_err g m w = (Inl e, w') \<longleftrightarrow> (\<exists>e'. m w = (Inl e', w') \<and> e = g e')"
  by (cases "m w") (auto simp: io_map_err_def map_err_Inl)

subsection \<open>A triple for effects\<close>

text \<open>
  \<open>triple P m Q E\<close>: from a state with \<open>P\<close>, a successful \<open>m\<close> ends with \<open>Q\<close> of its value and the
  new state, a failing \<open>m\<close> with \<open>E\<close> of the new state.
\<close>

definition triple ::
  "('w \<Rightarrow> bool) \<Rightarrow> ('w, 'e, 'a) io \<Rightarrow> ('a \<Rightarrow> 'w \<Rightarrow> bool) \<Rightarrow> ('w \<Rightarrow> bool) \<Rightarrow> bool" where
  "triple P m Q E \<longleftrightarrow>
     (\<forall>w. P w \<longrightarrow> (case m w of (Inl _, w') \<Rightarrow> E w' | (Inr a, w') \<Rightarrow> Q a w'))"

lemma tripleI:
  assumes "\<And>w a w'. P w \<Longrightarrow> m w = (Inr a, w') \<Longrightarrow> Q a w'"
    and "\<And>w e w'. P w \<Longrightarrow> m w = (Inl e, w') \<Longrightarrow> E w'"
  shows "triple P m Q E"
  using assms by (auto simp: triple_def split: prod.splits sum.splits)

lemma triple_Inr: "triple P m Q E \<Longrightarrow> P w \<Longrightarrow> m w = (Inr a, w') \<Longrightarrow> Q a w'"
  by (auto simp: triple_def dest: spec [of _ w])

lemma triple_Inl: "triple P m Q E \<Longrightarrow> P w \<Longrightarrow> m w = (Inl e, w') \<Longrightarrow> E w'"
  by (auto simp: triple_def dest: spec [of _ w])

lemma triple_snd:
  "triple P m (\<lambda>_. Q) Q \<Longrightarrow> P w \<Longrightarrow> Q (snd (m w))"
  by (cases "m w"; cases "fst (m w)") (auto dest: triple_Inr triple_Inl)

lemma triple_return [triple_intro]: "(\<And>w. P w \<Longrightarrow> Q a w) \<Longrightarrow> triple P (io_return a) Q E"
  by (simp add: triple_def)

lemma triple_fail [triple_intro]: "(\<And>w. P w \<Longrightarrow> E w) \<Longrightarrow> triple P (io_fail e) Q E"
  by (simp add: triple_def)

lemma triple_of_res:
  "(\<And>w a. P w \<Longrightarrow> r = Inr a \<Longrightarrow> Q a w) \<Longrightarrow> (\<And>w. P w \<Longrightarrow> E w) \<Longrightarrow>
   triple P (io_of_res r) Q E"
  by (auto simp: triple_def split: sum.splits)

lemma triple_bind:
  "triple P m R E \<Longrightarrow> (\<And>a. triple (R a) (f a) Q E) \<Longrightarrow> triple P (io_bind m f) Q E"
  by (rule tripleI) (auto simp: io_bind_eq_Inr io_bind_eq_Inl dest: triple_Inr triple_Inl)

lemma io_try_eq:
  "io_try m f g w = (r, w') \<longleftrightarrow>
     (\<exists>a w1. m w = (Inr a, w1) \<and> f a w1 = (r, w')) \<or>
     (\<exists>e w1. m w = (Inl e, w1) \<and> g e w1 = (r, w'))"
  by (auto simp: io_try_def split: prod.splits sum.splits)

lemma triple_try:
  assumes "triple P m R F" and "\<And>a. triple (R a) (f a) Q E" and "\<And>e. triple F (g e) Q E"
  shows "triple P (io_try m f g) Q E"
  by (rule tripleI; simp only: io_try_eq; metis assms triple_Inr triple_Inl)

lemma triple_map_err: "triple P m Q E \<Longrightarrow> triple P (io_map_err g m) Q E"
  by (rule tripleI) (auto simp: io_map_err_eq_Inl dest: triple_Inr triple_Inl)

lemma triple_weaken:
  "triple P m Q E \<Longrightarrow> (\<And>w. P' w \<Longrightarrow> P w) \<Longrightarrow> (\<And>a w. Q a w \<Longrightarrow> Q' a w) \<Longrightarrow>
   (\<And>w. E w \<Longrightarrow> E' w) \<Longrightarrow> triple P' m Q' E'"
  by (rule tripleI) (blast dest: triple_Inr triple_Inl)+

text \<open>Facts that do not depend on the state, and a state described by some parameter.\<close>

lemma triple_pure: "(X \<Longrightarrow> triple P m Q E) \<Longrightarrow> triple (\<lambda>w. P w \<and> X) m Q E"
  by (auto simp: triple_def)

lemma triple_ex: "(\<And>x. triple (P x) m Q E) \<Longrightarrow> triple (\<lambda>w. \<exists>x. P x w) m Q E"
  by (rule tripleI) (blast dest: triple_Inr triple_Inl)+

text \<open>A state predicate that a call keeps whatever its outcome.\<close>

definition keeps :: "('w \<Rightarrow> bool) \<Rightarrow> ('w, 'e, 'a) io \<Rightarrow> bool" where
  "keeps P m \<longleftrightarrow> (\<forall>w. P w \<longrightarrow> P (snd (m w)))"

lemma keepsD: "keeps P m \<Longrightarrow> P w \<Longrightarrow> m w = (r, w') \<Longrightarrow> P w'"
  by (metis keeps_def snd_conv)

lemma keepsI: "(\<And>w r w'. P w \<Longrightarrow> m w = (r, w') \<Longrightarrow> P w') \<Longrightarrow> keeps P m"
  by (metis keeps_def prod.collapse)

lemma keeps_bind_value:
  "keeps P m \<Longrightarrow> (\<And>w a w'. m w = (Inr a, w') \<Longrightarrow> keeps P (f a)) \<Longrightarrow> keeps P (io_bind m f)"
  by (auto simp: keeps_def io_bind_def split: prod.splits sum.splits)

lemma keeps_pair [simp]: "keeps P (Pair r)"
  by (simp add: keeps_def)

lemma triple_keeps: "keeps P m \<Longrightarrow> triple P m (\<lambda>_. P) P"
  by (rule tripleI) (auto dest: keepsD)

lemma keeps_return [simp, intro]: "keeps P (io_return a)"
  by (simp add: keeps_def)

lemma keeps_fail [simp, intro]: "keeps P (io_fail e)"
  by (simp add: keeps_def)

lemma keeps_of_res [simp, intro]: "keeps P (io_of_res r)"
  by (simp add: keeps_def)

lemma keeps_bind [intro]:
  "keeps P m \<Longrightarrow> (\<And>a. keeps P (f a)) \<Longrightarrow> keeps P (io_bind m f)"
  by (rule keepsI) (auto simp: io_bind_def dest: keepsD split: prod.splits sum.splits)

lemma keeps_try [intro]:
  "keeps P m \<Longrightarrow> (\<And>a. keeps P (f a)) \<Longrightarrow> (\<And>e. keeps P (g e)) \<Longrightarrow> keeps P (io_try m f g)"
  by (rule keepsI) (auto simp: io_try_eq; blast dest: keepsD)

lemma keeps_map_err [intro]: "keeps P m \<Longrightarrow> keeps P (io_map_err g m)"
  by (rule keepsI) (auto simp: io_map_err_def dest: keepsD split: prod.splits)

section \<open>Text\<close>

text \<open>The UTF-8 encodings of the characters with the Unicode property \<open>White_Space\<close>.\<close>

definition white_space :: "string list" where
  "white_space = map (map char_of)
     [[9 :: nat], [10], [11], [12], [13], [32], [0xC2, 0x85], [0xC2, 0xA0], [0xE1, 0x9A, 0x80],
      [0xE2, 0x80, 0x80], [0xE2, 0x80, 0x81], [0xE2, 0x80, 0x82], [0xE2, 0x80, 0x83],
      [0xE2, 0x80, 0x84], [0xE2, 0x80, 0x85], [0xE2, 0x80, 0x86], [0xE2, 0x80, 0x87],
      [0xE2, 0x80, 0x88], [0xE2, 0x80, 0x89], [0xE2, 0x80, 0x8A], [0xE2, 0x80, 0xA8],
      [0xE2, 0x80, 0xA9], [0xE2, 0x80, 0xAF], [0xE2, 0x81, 0x9F], [0xE3, 0x80, 0x80]]"

text \<open>Drops the longest run of the given non-empty words from the front of a list.\<close>

function strip_words :: "'a list list \<Rightarrow> 'a list \<Rightarrow> 'a list" where
  "strip_words ws s =
     (case find (\<lambda>w. w \<noteq> [] \<and> take (length w) s = w) ws of
        None \<Rightarrow> s
      | Some w \<Rightarrow> strip_words ws (drop (length w) s))"
  by pat_completeness auto
termination
proof (relation "measure (\<lambda>(ws, s). length s)")
  fix ws and s w :: "'a list"
  assume "find (\<lambda>w. w \<noteq> [] \<and> take (length w) s = w) ws = Some w"
  then have "w \<noteq> []" and "take (length w) s = w"
    by (auto simp: find_Some_iff)
  then have "0 < length w" and "length w \<le> length s"
    by (simp, metis length_take min.cobounded1)
  then have "length s - length w < length s"
    by linarith
  then show "((ws, drop (length w) s), ws, s) \<in> measure (\<lambda>(ws, s). length s)"
    by simp
qed simp

declare strip_words.simps [simp del]

definition trim_start :: "string \<Rightarrow> string" where
  "trim_start s = strip_words white_space s"

definition trim_end :: "string \<Rightarrow> string" where
  "trim_end s = rev (strip_words (map rev white_space) (rev s))"

text \<open>\<open>str::trim\<close>.\<close>

definition trim :: "string \<Rightarrow> string" where
  "trim s = trim_end (trim_start s)"

lemma strip_words_step:
  assumes "find (\<lambda>w. w \<noteq> [] \<and> take (length w) s = w) ws = Some w"
  shows "strip_words ws s = strip_words ws (drop (length w) s)"
  using assms by (subst strip_words.simps) simp

lemma strip_words_stop:
  assumes "find (\<lambda>w. w \<noteq> [] \<and> take (length w) s = w) ws = None"
  shows "strip_words ws s = s"
  using assms by (subst strip_words.simps) simp

lemma strip_words_idem: "strip_words ws (strip_words ws s) = strip_words ws s"
proof (induction ws s rule: strip_words.induct)
  case (1 ws s)
  show ?case
  proof (cases "find (\<lambda>w. w \<noteq> [] \<and> take (length w) s = w) ws")
    case None
    then show ?thesis by (simp add: strip_words_stop)
  next
    case (Some w)
    then show ?thesis using 1 by (simp add: strip_words_step)
  qed
qed

lemma strip_words_split:
  "\<exists>us. set us \<subseteq> set ws \<and> s = concat us @ strip_words ws s"
proof (induction ws s rule: strip_words.induct)
  case (1 ws s)
  show ?case
  proof (cases "find (\<lambda>w. w \<noteq> [] \<and> take (length w) s = w) ws")
    case None
    then have "strip_words ws s = s" by (rule strip_words_stop)
    then show ?thesis by (intro exI [of _ "[]"]) simp
  next
    case (Some w)
    then have "w \<in> set ws" and w: "take (length w) s = w"
      by (auto simp: find_Some_iff)
    moreover obtain us where "set us \<subseteq> set ws"
      and "drop (length w) s = concat us @ strip_words ws (drop (length w) s)"
      using 1 [OF Some] by blast
    ultimately show ?thesis
      using append_take_drop_id [of "length w" s] strip_words_step [OF Some]
      by (intro exI [of _ "w # us"]) simp
  qed
qed

text \<open>When no word is a proper prefix of another, the words strip exactly their concatenations.\<close>

lemma strip_words_concat:
  assumes free: "\<And>u w. u \<in> set ws \<Longrightarrow> w \<in> set ws \<Longrightarrow> prefix u w \<Longrightarrow> u = w"
    and "set us \<subseteq> set ws" and "[] \<notin> set ws"
  shows "strip_words ws (concat us) = []"
  using assms(2)
proof (induction us)
  case Nil
  have "find (\<lambda>w. w \<noteq> [] \<and> take (length w) [] = w) ws = None"
    by (auto simp: find_None_iff)
  then show ?case by (simp add: strip_words_stop)
next
  case (Cons u us)
  let ?s = "concat (u # us)"
  have u: "u \<in> set ws" "u \<noteq> []" "prefix u ?s"
    using Cons.prems assms(3) by auto
  then have "find (\<lambda>w. w \<noteq> [] \<and> take (length w) ?s = w) ws \<noteq> None"
    by (auto simp: find_None_iff prefix_def)
  then obtain w where w: "find (\<lambda>w. w \<noteq> [] \<and> take (length w) ?s = w) ws = Some w"
    by blast
  then have "w \<in> set ws" and "take (length w) ?s = w"
    by (auto simp: find_Some_iff)
  then have "w \<in> set ws" and "prefix w ?s"
    by (simp, metis take_is_prefix)
  with u free have "w = u"
    using prefix_same_cases by blast
  with w Cons show ?case by (simp add: strip_words_step)
qed

lemma strip_words_eq_Nil:
  assumes "\<And>u w. u \<in> set ws \<Longrightarrow> w \<in> set ws \<Longrightarrow> prefix u w \<Longrightarrow> u = w" and "[] \<notin> set ws"
  shows "strip_words ws s = [] \<longleftrightarrow> (\<exists>us. set us \<subseteq> set ws \<and> concat us = s)"
  using strip_words_split [of ws s] strip_words_concat [OF assms(1) _ assms(2)]
  by (metis append_Nil2)

lemma white_space_free:
  "list_all (\<lambda>u. u \<noteq> [] \<and> list_all (\<lambda>w. (prefix u w \<longrightarrow> u = w) \<and> (prefix (rev u) (rev w) \<longrightarrow> u = w))
     white_space) white_space"
  by (simp add: white_space_def)

lemma white_space_prefix_free:
  "u \<in> set white_space \<Longrightarrow> w \<in> set white_space \<Longrightarrow> prefix u w \<Longrightarrow> u = w"
  using white_space_free by (simp add: list_all_iff)

lemma white_space_suffix_free:
  "u \<in> set (map rev white_space) \<Longrightarrow> w \<in> set (map rev white_space) \<Longrightarrow> prefix u w \<Longrightarrow> u = w"
  using white_space_free by (force simp: list_all_iff)

lemma white_space_nonempty: "[] \<notin> set white_space" "[] \<notin> set (map rev white_space)"
  using white_space_free by (auto simp: list_all_iff)

lemma concat_rev_map_rev: "concat (rev (map rev us)) = rev (concat us)"
  by (induction us) auto

text \<open>\<open>trim\<close> leaves nothing exactly when the text is made of white space only.\<close>

lemma trim_eq_Nil: "trim s = [] \<longleftrightarrow> (\<exists>us. set us \<subseteq> set white_space \<and> concat us = s)"
proof -
  let ?t = "strip_words white_space s"
  note front = strip_words_eq_Nil [OF white_space_prefix_free white_space_nonempty(1)]
  note rear = strip_words_eq_Nil [OF white_space_suffix_free white_space_nonempty(2)]
  have "?t = []" if "trim s = []"
  proof -
    from that have "strip_words (map rev white_space) (rev ?t) = []"
      by (simp add: trim_def trim_end_def trim_start_def)
    then obtain us where "set us \<subseteq> rev ` set white_space" and us: "concat us = rev ?t"
      using rear [of "rev ?t"] by auto
    then have "set (rev (map rev us)) \<subseteq> set white_space" by force
    moreover have "concat (rev (map rev us)) = ?t"
      using us by (simp add: concat_rev_map_rev)
    ultimately have "strip_words white_space ?t = []"
      using front by blast
    then show ?thesis by (simp add: strip_words_idem)
  qed
  moreover have "trim s = []" if "?t = []"
  proof -
    have "strip_words (map rev white_space) [] = []"
      by (rule strip_words_stop) (simp add: find_None_iff)
    with that show ?thesis by (simp add: trim_def trim_end_def trim_start_def)
  qed
  ultimately show ?thesis using front by blast
qed

lemma white_space_not_printable:
  "list_all (list_all (\<lambda>c. of_char c < (33 :: nat) \<or> (126 :: nat) < of_char c)) white_space"
  by (simp add: white_space_def of_char_of)

lemma printable_not_blank:
  assumes "c \<in> set s" and "33 \<le> (of_char c :: nat)" and "(of_char c :: nat) \<le> 126"
  shows "trim s \<noteq> []"
proof
  assume "trim s = []"
  then obtain us where us: "set us \<subseteq> set white_space" "concat us = s"
    by (auto simp: trim_eq_Nil)
  from assms(1) us(2) obtain w where "w \<in> set us" and "c \<in> set w" by auto
  with us(1) have "w \<in> set white_space" by blast
  with \<open>c \<in> set w\<close> white_space_not_printable
  have "of_char c < (33 :: nat) \<or> (126 :: nat) < of_char c"
    unfolding list_all_iff by blast
  with assms(2,3) show False by linarith
qed

text \<open>Decimal digits, as \<open>Display\<close> prints an unsigned integer.\<close>

fun show_nat :: "nat \<Rightarrow> string" where
  "show_nat n =
     (if n < 10 then [char_of (48 + n)] else show_nat (n div 10) @ [char_of (48 + n mod 10)])"

declare show_nat.simps [simp del]

text \<open>Reading the digits back.\<close>

definition digit_value :: "char \<Rightarrow> nat" where
  "digit_value c = of_char c - 48"

definition is_digit :: "char \<Rightarrow> bool" where
  "is_digit c \<longleftrightarrow> 48 \<le> (of_char c :: nat) \<and> (of_char c :: nat) \<le> 57"

definition read_nat :: "string \<Rightarrow> nat" where
  "read_nat s = foldl (\<lambda>n c. 10 * n + digit_value c) 0 s"

lemma of_char_digit: "n < 10 \<Longrightarrow> of_char (char_of (48 + n)) = (48 + n :: nat)"
  by (simp add: of_char_of)

lemma read_show_nat: "read_nat (show_nat n) = n \<and> show_nat n \<noteq> [] \<and> list_all is_digit (show_nat n)"
proof (induction n rule: show_nat.induct)
  case (1 n)
  have digit: "digit_value (char_of (48 + k)) = k" "is_digit (char_of (48 + k))" if "k < 10" for k
    using that by (simp_all add: digit_value_def is_digit_def of_char_digit)
  show ?case
  proof (cases "n < 10")
    case True
    then show ?thesis
      using digit [of n] by (simp add: show_nat.simps [of n] read_nat_def)
  next
    case False
    with 1 digit [of "n mod 10"] show ?thesis
      by (simp add: show_nat.simps [of n] read_nat_def)
  qed
qed

lemma show_nat_inject [simp]: "show_nat m = show_nat n \<longleftrightarrow> m = n"
  using read_show_nat by metis

section \<open>Machine integers\<close>

definition u64_max :: nat where
  "u64_max = 2 ^ 64 - 1"

text \<open>\<open>u64::saturating_add\<close> on values that fit.\<close>

definition sat_add64 :: "nat \<Rightarrow> nat \<Rightarrow> nat" where
  "sat_add64 a b = min (a + b) u64_max"

text \<open>\<open>u8::try_from\<close> of a \<open>u16\<close> and of an \<open>i64\<close>: \<open>None\<close> when the value does not fit.\<close>

definition u8_of_u16 :: "u16 \<Rightarrow> u8 option" where
  "u8_of_u16 v = (if unat v < 256 then Some (ucast v) else None)"

definition u8_of_int :: "int \<Rightarrow> u8 option" where
  "u8_of_int i = (if 0 \<le> i \<and> i < 256 then Some (word_of_int i) else None)"

lemma u8_of_u16_Some: "u8_of_u16 v = Some b \<longleftrightarrow> v = ucast b"
proof
  assume "u8_of_u16 v = Some b"
  then have v: "unat v < 256" and b: "b = ucast v"
    by (auto simp: u8_of_u16_def split: if_splits)
  have "unat (ucast b :: u16) = unat v"
    using v by (simp add: b unsigned_ucast_eq unsigned_take_bit_eq take_bit_nat_eq_self)
  then show "v = ucast b"
    by (simp add: word_unat_eq_iff)
next
  assume v: "v = ucast b"
  have "unat b < 256" using unsigned_less [where 'a = nat, of b] by simp
  then have "unat v < 256"
    using v by (simp add: unsigned_ucast_eq unsigned_take_bit_eq take_bit_nat_eq_self)
  moreover have "unat (ucast v :: u8) = unat b"
    using v \<open>unat b < 256\<close> by (simp add: unsigned_ucast_eq unsigned_take_bit_eq take_bit_nat_eq_self)
  ultimately show "u8_of_u16 v = Some b"
    by (simp add: u8_of_u16_def word_unat_eq_iff)
qed

lemma u8_of_int_uint [simp]: "u8_of_int (uint b) = Some b"
  using unsigned_less [where 'a = int, of b] by (simp add: u8_of_int_def)

lemma u8_of_int_Some: "u8_of_int i = Some b \<longleftrightarrow> i = uint b"
proof
  assume "u8_of_int i = Some b"
  then show "i = uint b"
    by (auto simp: u8_of_int_def uint_word_of_int split: if_splits)
qed simp

section \<open>Options and lists\<close>

lemma option_Some_eqI: "(\<And>v. x = Some v \<longleftrightarrow> y = Some v) \<Longrightarrow> x = y"
  by (cases x; cases y) auto

lemma find_by_key:
  "distinct (map f xs) \<Longrightarrow> x \<in> set xs \<Longrightarrow> find (\<lambda>y. f y = f x) xs = Some x"
proof (induction xs)
  case (Cons y ys)
  then show ?case by (cases "f y = f x") (auto simp: image_iff)
qed simp

lemma find_only:
  "length (filter P xs) \<le> 1 \<Longrightarrow> x \<in> set xs \<Longrightarrow> P x \<Longrightarrow> find P xs = Some x"
proof (induction xs)
  case (Cons y ys)
  then show ?case
    by (cases "P y") (auto simp: filter_empty_conv)
qed simp

lemma find_Some_mem: "find P xs = Some x \<Longrightarrow> x \<in> set xs \<and> P x"
  by (auto simp: find_Some_iff)

lemma find_None_mem: "find P xs = None \<longleftrightarrow> (\<forall>x \<in> set xs. \<not> P x)"
  by (auto simp: find_None_iff)

text \<open>Sorting only looks at how the keys compare.\<close>

lemma insort_key_order_cong:
  "(\<And>y. y \<in> set xs \<Longrightarrow> f x \<le> f y \<longleftrightarrow> g x \<le> g y) \<Longrightarrow> insort_key f x xs = insort_key g x xs"
  by (induction xs) auto

lemma sort_key_order_cong:
  "(\<And>x y. x \<in> set xs \<Longrightarrow> y \<in> set xs \<Longrightarrow> f x \<le> f y \<longleftrightarrow> g x \<le> g y) \<Longrightarrow>
   sort_key f xs = sort_key g xs"
proof (induction xs)
  case (Cons x xs)
  then show ?case
    using insort_key_order_cong [of "sort_key g xs" f x g] by simp
qed simp

end
