(* ===== verification/Keyro_Domain.thy ===== *)
theory Keyro_Domain
  imports Keyro_Prelude
begin

text \<open>
  \<open>crates/core-domain/src/lib.rs\<close>: the fixed device layout, profiles, controls, actions with safe
  URLs, assignments, and the check that exactly one profile is active.  The crates \<open>url\<close> and
  \<open>uuid\<close> are the record \<open>crates\<close>: every function that calls them takes it as an argument.
  Random identifiers (\<open>Uuid::new_v4\<close>) are read off a stream.
\<close>

section \<open>The crates \<open>url\<close> and \<open>uuid\<close>\<close>

record 'u crates =
  url_parse :: "string \<Rightarrow> 'u option"
  url_username :: "'u \<Rightarrow> string"
  url_password :: "'u \<Rightarrow> string option"
  url_scheme :: "'u \<Rightarrow> string"
  url_set_query :: "string option \<Rightarrow> 'u \<Rightarrow> 'u"
  url_set_fragment :: "string option \<Rightarrow> 'u \<Rightarrow> 'u"
  url_to_string :: "'u \<Rightarrow> string"
  uuid_parse_str :: "string \<Rightarrow> uuid option"
  uuid_to_string :: "uuid \<Rightarrow> string"

text \<open>The documented round trip of \<open>Uuid\<close>: what \<open>Display\<close> prints, \<open>parse_str\<close> reads back.\<close>

definition uuid_text_ok :: "'u crates \<Rightarrow> bool" where
  "uuid_text_ok C \<longleftrightarrow> (\<forall>u. uuid_parse_str C (uuid_to_string C u) = Some u)"

lemma uuid_to_string_inject:
  "uuid_text_ok C \<Longrightarrow> uuid_to_string C u = uuid_to_string C v \<longleftrightarrow> u = v"
  unfolding uuid_text_ok_def by (metis option.inject)

text \<open>\<open>Uuid::new_v4()\<close> takes the next value of the random source.\<close>

definition new_v4 :: "(uuid stream, 'e, uuid) io" where
  "new_v4 = (\<lambda>rng. (Inr (shd rng), stl rng))"

section \<open>Layout\<close>

definition PAGE_COUNT :: u8 where "PAGE_COUNT = 4"

definition KEY_ROWS :: u8 where "KEY_ROWS = 3"

definition KEY_COLUMNS :: u8 where "KEY_COLUMNS = 4"

definition KEYS_PER_PAGE :: u8 where "KEYS_PER_PAGE = KEY_ROWS * KEY_COLUMNS"

definition ENCODERS_PER_PAGE :: u8 where "ENCODERS_PER_PAGE = 2"

lemmas layout_defs =
  PAGE_COUNT_def KEY_ROWS_def KEY_COLUMNS_def KEYS_PER_PAGE_def ENCODERS_PER_PAGE_def

section \<open>Errors\<close>

datatype domain_error =
    EmptyProfileName
  | InvalidProfileId string
  | InvalidPageIndex u8
  | InvalidKeyIndex u8
  | InvalidEncoderIndex u8
  | InvalidUrl string
  | UnsupportedUrlScheme string
  | UrlCredentialsNotAllowed
  | ActiveProfileInvariant nat

text \<open>The \<open>Display\<close> text that \<open>thiserror\<close> derives from the \<open>#[error(..)]\<close> attributes.\<close>

fun domain_error_text :: "domain_error \<Rightarrow> string" where
  "domain_error_text EmptyProfileName = ''profile name cannot be empty''"
| "domain_error_text (InvalidProfileId s) = ''invalid profile id: '' @ s"
| "domain_error_text (InvalidPageIndex v) =
     ''page index '' @ show_nat (unat v) @ '' is outside the supported range 0..4''"
| "domain_error_text (InvalidKeyIndex v) =
     ''key index '' @ show_nat (unat v) @ '' is outside the supported range 0..12''"
| "domain_error_text (InvalidEncoderIndex v) =
     ''encoder index '' @ show_nat (unat v) @ '' is outside the supported range 0..2''"
| "domain_error_text (InvalidUrl s) = ''invalid url: '' @ s"
| "domain_error_text (UnsupportedUrlScheme s) = ''unsupported url scheme: '' @ s"
| "domain_error_text UrlCredentialsNotAllowed = ''url credentials are not allowed''"
| "domain_error_text (ActiveProfileInvariant n) =
     ''expected exactly one active profile, found '' @ show_nat n"

section \<open>Profiles\<close>

datatype profile_id = ProfileId uuid

definition profile_id_new :: "(uuid stream, 'e, profile_id) io" where
  "profile_id_new = io_bind new_v4 (\<lambda>u. io_return (ProfileId u))"

definition profile_id_parse :: "'u crates \<Rightarrow> string \<Rightarrow> domain_error + profile_id" where
  "profile_id_parse C value =
     (case uuid_parse_str C value of
        Some u \<Rightarrow> Inr (ProfileId u)
      | None \<Rightarrow> Inl (InvalidProfileId value))"

fun profile_id_to_string :: "'u crates \<Rightarrow> profile_id \<Rightarrow> string" where
  "profile_id_to_string C (ProfileId u) = uuid_to_string C u"

record profile =
  p_id :: profile_id
  p_name :: string
  p_is_active :: bool

definition validate_profile_name :: "string \<Rightarrow> domain_error + string" where
  "validate_profile_name name =
     (if trim name = [] then Inl EmptyProfileName else Inr name)"

definition profile_new :: "string \<Rightarrow> bool \<Rightarrow> (uuid stream, domain_error, profile) io" where
  "profile_new name is_active =
     io_bind (io_of_res (validate_profile_name name)) (\<lambda>name.
     io_bind profile_id_new (\<lambda>pid.
     io_return \<lparr>p_id = pid, p_name = name, p_is_active = is_active\<rparr>))"

definition profile_rename :: "profile \<Rightarrow> string \<Rightarrow> domain_error + profile" where
  "profile_rename self name =
     res_bind (validate_profile_name name) (\<lambda>name. Inr (self\<lparr>p_name := name\<rparr>))"

definition ensure_exactly_one_active :: "profile list \<Rightarrow> domain_error + unit" where
  "ensure_exactly_one_active profiles =
     (let active_count = length (filter p_is_active profiles)
      in if active_count = 1 then Inr () else Inl (ActiveProfileInvariant active_count))"

section \<open>Controls\<close>

datatype page_index = PageIndex u8
datatype key_index = KeyIndex u8
datatype encoder_index = EncoderIndex u8

definition page_index_new :: "u8 \<Rightarrow> domain_error + page_index" where
  "page_index_new value =
     (if value < PAGE_COUNT then Inr (PageIndex value) else Inl (InvalidPageIndex value))"

fun page_index_get :: "page_index \<Rightarrow> u8" where
  "page_index_get (PageIndex v) = v"

definition key_index_new :: "u8 \<Rightarrow> domain_error + key_index" where
  "key_index_new value =
     (if value < KEYS_PER_PAGE then Inr (KeyIndex value) else Inl (InvalidKeyIndex value))"

fun key_index_get :: "key_index \<Rightarrow> u8" where
  "key_index_get (KeyIndex v) = v"

definition encoder_index_new :: "u8 \<Rightarrow> domain_error + encoder_index" where
  "encoder_index_new value =
     (if value < ENCODERS_PER_PAGE then Inr (EncoderIndex value)
      else Inl (InvalidEncoderIndex value))"

fun encoder_index_get :: "encoder_index \<Rightarrow> u8" where
  "encoder_index_get (EncoderIndex v) = v"

datatype encoder_operation = Left | Right | Press

datatype control_id =
    Key page_index key_index
  | Encoder page_index encoder_index encoder_operation

definition control_key :: "u8 \<Rightarrow> u8 \<Rightarrow> domain_error + control_id" where
  "control_key page key =
     res_bind (page_index_new page) (\<lambda>page.
     res_bind (key_index_new key) (\<lambda>key.
     Inr (Key page key)))"

definition control_encoder ::
  "u8 \<Rightarrow> u8 \<Rightarrow> encoder_operation \<Rightarrow> domain_error + control_id" where
  "control_encoder page encoder operation =
     res_bind (page_index_new page) (\<lambda>page.
     res_bind (encoder_index_new encoder) (\<lambda>encoder.
     Inr (Encoder page encoder operation)))"

text \<open>
  The fields of the index types are private, so a \<open>ControlId\<close> is always one that \<open>key\<close> or
  \<open>encoder\<close> returned; \<open>wf_control\<close> says so.
\<close>

fun wf_control :: "control_id \<Rightarrow> bool" where
  "wf_control (Key p k) \<longleftrightarrow> page_index_get p < PAGE_COUNT \<and> key_index_get k < KEYS_PER_PAGE"
| "wf_control (Encoder p e op) \<longleftrightarrow>
     page_index_get p < PAGE_COUNT \<and> encoder_index_get e < ENCODERS_PER_PAGE"

section \<open>URLs, actions, assignments\<close>

datatype safe_url = SafeUrl string

definition safe_url_parse :: "'u crates \<Rightarrow> string \<Rightarrow> domain_error + safe_url" where
  "safe_url_parse C value =
     (case url_parse C value of
        None \<Rightarrow> Inl (InvalidUrl value)
      | Some parsed \<Rightarrow>
          if url_username C parsed \<noteq> [] \<or> url_password C parsed \<noteq> None
          then Inl UrlCredentialsNotAllowed
          else if url_scheme C parsed = ''http'' \<or> url_scheme C parsed = ''https''
          then Inr (SafeUrl value)
          else Inl (UnsupportedUrlScheme (url_scheme C parsed)))"

fun safe_url_as_str :: "safe_url \<Rightarrow> string" where
  "safe_url_as_str (SafeUrl s) = s"

definition redacted_for_log :: "'u crates \<Rightarrow> safe_url \<Rightarrow> string" where
  "redacted_for_log C self =
     (case url_parse C (safe_url_as_str self) of
        Some url \<Rightarrow> url_to_string C (url_set_fragment C None (url_set_query C None url))
      | None \<Rightarrow> ''<invalid-url>'')"

datatype action = OpenUrl safe_url

record assignment =
  a_profile_id :: profile_id
  a_control :: control_id
  a_actions :: "action list"

definition assignment_single ::
  "profile_id \<Rightarrow> control_id \<Rightarrow> action \<Rightarrow> domain_error + assignment" where
  "assignment_single profile_id control action =
     Inr \<lparr>a_profile_id = profile_id, a_control = control, a_actions = [action]\<rparr>"

definition first_action :: "assignment \<Rightarrow> action option" where
  "first_action self = (case a_actions self of [] \<Rightarrow> None | a # _ \<Rightarrow> Some a)"

text \<open>Values of the private types that the constructors can return.\<close>

definition wf_safe_url :: "'u crates \<Rightarrow> safe_url \<Rightarrow> bool" where
  "wf_safe_url C u \<longleftrightarrow> safe_url_parse C (safe_url_as_str u) = Inr u"

fun wf_action :: "'u crates \<Rightarrow> action \<Rightarrow> bool" where
  "wf_action C (OpenUrl u) \<longleftrightarrow> wf_safe_url C u"

definition wf_assignment :: "'u crates \<Rightarrow> assignment \<Rightarrow> bool" where
  "wf_assignment C a \<longleftrightarrow> wf_control (a_control a) \<and> list_all (wf_action C) (a_actions a)"

section \<open>Facts\<close>

subsection \<open>Identifiers\<close>

lemma profile_id_parse_to_string [simp]:
  "uuid_text_ok C \<Longrightarrow> profile_id_parse C (profile_id_to_string C pid) = Inr pid"
  by (cases pid) (simp add: profile_id_parse_def uuid_text_ok_def)

lemma profile_id_to_string_inject [simp]:
  "uuid_text_ok C \<Longrightarrow> profile_id_to_string C p = profile_id_to_string C q \<longleftrightarrow> p = q"
  by (cases p; cases q) (simp add: uuid_to_string_inject)

lemma new_v4_apply [simp]: "new_v4 rng = (Inr (shd rng), stl rng)"
  by (simp add: new_v4_def)

lemma profile_id_new_apply [simp]: "profile_id_new rng = (Inr (ProfileId (shd rng)), stl rng)"
  by (simp add: profile_id_new_def io_bind_def)

lemma profile_eq_iff:
  "(p :: profile) = q \<longleftrightarrow> p_id p = p_id q \<and> p_name p = p_name q \<and> p_is_active p = p_is_active q"
  by (cases p; cases q) simp

lemma assignment_eq_iff:
  "(a :: assignment) = b \<longleftrightarrow>
     a_profile_id a = a_profile_id b \<and> a_control a = a_control b \<and> a_actions a = a_actions b"
  by (cases a; cases b) simp

subsection \<open>Names\<close>

lemma validate_profile_name_Inr:
  "validate_profile_name name = Inr n \<longleftrightarrow> n = name \<and> trim name \<noteq> []"
  by (auto simp: validate_profile_name_def)

lemma validate_profile_name_Inl:
  "validate_profile_name name = Inl e \<longleftrightarrow> e = EmptyProfileName \<and> trim name = []"
  by (auto simp: validate_profile_name_def)

lemma profile_new_apply:
  "profile_new name act rng =
     (if trim name = [] then (Inl EmptyProfileName, rng)
      else (Inr \<lparr>p_id = ProfileId (shd rng), p_name = name, p_is_active = act\<rparr>, stl rng))"
  by (simp add: profile_new_def io_bind_def validate_profile_name_def)

lemma profile_rename_Inr:
  "profile_rename p name = Inr q \<longleftrightarrow> trim name \<noteq> [] \<and> q = p\<lparr>p_name := name\<rparr>"
  by (auto simp: profile_rename_def validate_profile_name_def)

lemma profile_rename_Inl:
  "profile_rename p name = Inl e \<longleftrightarrow> trim name = [] \<and> e = EmptyProfileName"
  by (auto simp: profile_rename_def validate_profile_name_def)

subsection \<open>Exactly one active profile\<close>

lemma ensure_exactly_one_active_Inr:
  "ensure_exactly_one_active ps = Inr u \<longleftrightarrow> length (filter p_is_active ps) = 1"
  by (auto simp: ensure_exactly_one_active_def Let_def)

lemma ensure_exactly_one_active_Inl:
  "ensure_exactly_one_active ps = Inl e \<longleftrightarrow>
     length (filter p_is_active ps) \<noteq> 1 \<and>
     e = ActiveProfileInvariant (length (filter p_is_active ps))"
  by (auto simp: ensure_exactly_one_active_def Let_def)

text \<open>When one profile is active, the first active one is the only one.\<close>

lemma find_only_active:
  assumes "length (filter p_is_active ps) = 1"
  obtains p where "find p_is_active ps = Some p" "p \<in> set ps" "p_is_active p"
    "\<And>q. q \<in> set ps \<Longrightarrow> p_is_active q \<Longrightarrow> q = p"
proof -
  obtain p where p: "filter p_is_active ps = [p]"
    using assms by (auto simp: length_Suc_conv)
  then have "find p_is_active ps = Some p"
  proof (induction ps)
    case (Cons q ps)
    then show ?case by (auto split: if_splits)
  qed simp
  moreover have "{q \<in> set ps. p_is_active q} = {p}"
    using p by (metis empty_set list.simps(15) set_filter)
  ultimately show thesis by (intro that) auto
qed

subsection \<open>Controls\<close>

lemma page_index_new_Inr: "page_index_new v = Inr p \<longleftrightarrow> v < PAGE_COUNT \<and> p = PageIndex v"
  by (auto simp: page_index_new_def)

lemma key_index_new_Inr: "key_index_new v = Inr k \<longleftrightarrow> v < KEYS_PER_PAGE \<and> k = KeyIndex v"
  by (auto simp: key_index_new_def)

lemma encoder_index_new_Inr:
  "encoder_index_new v = Inr e \<longleftrightarrow> v < ENCODERS_PER_PAGE \<and> e = EncoderIndex v"
  by (auto simp: encoder_index_new_def)

lemmas index_new_Inr = page_index_new_Inr key_index_new_Inr encoder_index_new_Inr

lemma control_key_Inr:
  "control_key p k = Inr c \<longleftrightarrow>
     p < PAGE_COUNT \<and> k < KEYS_PER_PAGE \<and> c = Key (PageIndex p) (KeyIndex k)"
  by (auto simp: control_key_def index_new_Inr)

lemma control_encoder_Inr:
  "control_encoder p e op = Inr c \<longleftrightarrow>
     p < PAGE_COUNT \<and> e < ENCODERS_PER_PAGE \<and> c = Encoder (PageIndex p) (EncoderIndex e) op"
  by (auto simp: control_encoder_def index_new_Inr)

lemma wf_control_iff_constructed:
  "wf_control c \<longleftrightarrow>
     (\<exists>p k. control_key p k = Inr c) \<or> (\<exists>p e op. control_encoder p e op = Inr c)"
proof (cases c)
  case (Key p k)
  then show ?thesis by (cases p; cases k) (auto simp: control_key_Inr control_encoder_Inr)
next
  case (Encoder p e op)
  then show ?thesis by (cases p; cases e) (auto simp: control_key_Inr control_encoder_Inr)
qed

lemma card_word_less: "card {v :: 'n::len word. v < n} = unat n"
proof -
  have "unat ` {v. v < n} = {..<unat n}"
  proof
    show "unat ` {v. v < n} \<subseteq> {..<unat n}" by (auto simp: word_less_nat_alt)
    show "{..<unat n} \<subseteq> unat ` {v. v < n}"
    proof
      fix m assume "m \<in> {..<unat n}"
      then have "m < unat n" by simp
      moreover have "unat n < 2 ^ LENGTH('n)" by (rule unsigned_less)
      ultimately have "m < 2 ^ LENGTH('n)" by linarith
      then have "unat (word_of_nat m :: 'n word) = m"
        by (simp add: unsigned_of_nat take_bit_nat_eq_self)
      with \<open>m < unat n\<close> show "m \<in> unat ` {v. v < n}"
        by (intro image_eqI [of _ _ "word_of_nat m"]) (simp_all add: word_less_nat_alt)
    qed
  qed
  moreover have "inj_on unat {v. v < n}" by (simp add: inj_on_def word_unat_eq_iff)
  ultimately show ?thesis by (metis card_image card_lessThan)
qed

lemma wf_controls_eq:
  "{c. wf_control c} =
     (\<lambda>(p, k). Key (PageIndex p) (KeyIndex k)) `
       ({p. p < PAGE_COUNT} \<times> {k. k < KEYS_PER_PAGE}) \<union>
     (\<lambda>(p, e, op). Encoder (PageIndex p) (EncoderIndex e) op) `
       ({p. p < PAGE_COUNT} \<times> {e. e < ENCODERS_PER_PAGE} \<times> {Left, Right, Press})"
  (is "_ = ?K \<union> ?E")
proof (rule set_eqI)
  fix c
  show "c \<in> {c. wf_control c} \<longleftrightarrow> c \<in> ?K \<union> ?E"
  proof (cases c)
    case (Key p k)
    then show ?thesis by (cases p; cases k) auto
  next
    case (Encoder p e op)
    then show ?thesis by (cases p; cases e; cases op) (auto simp: image_iff)
  qed
qed

lemma card_wf_controls: "card {c. wf_control c} = 72"
proof -
  let ?P = "{p. p < PAGE_COUNT}" and ?N = "{k. k < KEYS_PER_PAGE}"
    and ?M = "{e. e < ENCODERS_PER_PAGE}" and ?O = "{Left, Right, Press}"
  let ?f = "\<lambda>(p, k). Key (PageIndex p) (KeyIndex k)"
  let ?g = "\<lambda>(p, e, op). Encoder (PageIndex p) (EncoderIndex e) op"
  have "card (?f ` (?P \<times> ?N)) = 48"
    by (subst card_image) (auto simp: inj_on_def card_cartesian_product card_word_less layout_defs)
  moreover have "card (?g ` (?P \<times> ?M \<times> ?O)) = 24"
    by (subst card_image) (auto simp: inj_on_def card_cartesian_product card_word_less layout_defs)
  moreover have "?f ` (?P \<times> ?N) \<inter> ?g ` (?P \<times> ?M \<times> ?O) = {}"
    by auto
  ultimately show ?thesis
    by (simp add: wf_controls_eq card_Un_disjoint)
qed

subsection \<open>URLs\<close>

lemma safe_url_parse_Inr:
  "safe_url_parse C value = Inr u \<longleftrightarrow>
     u = SafeUrl value \<and>
     (\<exists>p. url_parse C value = Some p \<and> url_username C p = [] \<and> url_password C p = None \<and>
        url_scheme C p \<in> {''http'', ''https''})"
  by (auto simp: safe_url_parse_def split: option.splits if_splits)

lemma safe_url_parse_wf: "safe_url_parse C value = Inr u \<Longrightarrow> wf_safe_url C u"
  by (auto simp: wf_safe_url_def safe_url_parse_Inr)

lemma assignment_single_Inr [simp]:
  "assignment_single pid c act = Inr a \<longleftrightarrow>
     a = \<lparr>a_profile_id = pid, a_control = c, a_actions = [act]\<rparr>"
  by (auto simp: assignment_single_def)

lemma first_action_None: "first_action a = None \<longleftrightarrow> a_actions a = []"
  by (auto simp: first_action_def split: list.splits)

end
