(* ===== verification/Keyro_App.thy ===== *)
theory Keyro_App
  imports Keyro_Domain
begin

text \<open>
  \<open>crates/core-app/src/lib.rs\<close>: the commands, responses and events of Core, its errors, and
  \<open>CoreService\<close>, which is generic over a profile repository, a URL opener and an event sink.  The
  three traits are records of operations on one state type \<open>'w\<close>.  What a repository promises is
  the locale \<open>profile_repository\<close>, stated against the abstract state \<open>core_state\<close>; the locale
  \<open>service_env\<close> adds what the service needs of the opener, the sink and the random source, and
  the service is proved correct inside it.
\<close>

section \<open>Errors\<close>

datatype open_url_error = OpenUrlError (oue_message: string)

datatype app_error =
    AppDomain domain_error
  | AppOpenUrl open_url_error
  | Storage string
  | EventSink string
  | ActiveProfileMissing
  | ProfileNotFound
  | AssignmentNotFound
  | AssignmentHasNoAction

fun app_error_text :: "app_error \<Rightarrow> string" where
  "app_error_text (AppDomain e) = domain_error_text e"
| "app_error_text (AppOpenUrl e) = oue_message e"
| "app_error_text (Storage s) = ''storage error: '' @ s"
| "app_error_text (EventSink s) = ''event sink error: '' @ s"
| "app_error_text ActiveProfileMissing = ''active profile is missing''"
| "app_error_text ProfileNotFound = ''profile was not found''"
| "app_error_text AssignmentNotFound =
     ''assignment was not found for the active profile and control''"
| "app_error_text AssignmentHasNoAction = ''assignment has no action''"

section \<open>Commands, responses, events\<close>

datatype core_command =
    GetSnapshot
  | ListProfiles
  | CreateProfile string
  | RenameProfile profile_id string
  | SetActiveProfile profile_id
  | SaveAssignment assignment
  | ClearAssignment profile_id control_id
  | VirtualControlInput control_id

record snapshot_assignment =
  sn_profile_id :: profile_id
  sn_control :: control_id
  sn_actions :: "action list"

record snapshot_state =
  ss_profiles :: "profile list"
  ss_assignments :: "assignment list"

record device_layout =
  page_count :: u8
  key_rows :: u8
  key_columns :: u8
  encoder_count :: u8

definition MVP_DEVICE_LAYOUT :: device_layout where
  "MVP_DEVICE_LAYOUT =
     \<lparr>page_count = PAGE_COUNT, key_rows = KEY_ROWS, key_columns = KEY_COLUMNS,
      encoder_count = ENCODERS_PER_PAGE\<rparr>"

record core_snapshot =
  cs_layout :: device_layout
  cs_profiles :: "profile list"
  cs_assignments :: "snapshot_assignment list"

datatype core_response =
    RespSnapshot core_snapshot
  | RespProfiles "profile list"
  | RespProfile profile
  | RespAcknowledged

datatype action_run_id = ActionRunId uuid

fun action_run_id_to_string :: "'u crates \<Rightarrow> action_run_id \<Rightarrow> string" where
  "action_run_id_to_string C (ActionRunId u) = uuid_to_string C u"

datatype action_failure = OpenUrlFailed

datatype core_event =
    ActionRunning action_run_id profile_id control_id
  | ActionSucceeded action_run_id
  | ActionFailed action_run_id action_failure string

section \<open>The traits\<close>

record 'w repository_ops =
  ensure_default_profile :: "('w, app_error, profile) io"
  create_profile :: "string \<Rightarrow> ('w, app_error, profile) io"
  list_profiles :: "('w, app_error, profile list) io"
  rename_profile :: "profile_id \<Rightarrow> string \<Rightarrow> ('w, app_error, profile) io"
  set_active_profile :: "profile_id \<Rightarrow> ('w, app_error, unit) io"
  save_assignment :: "assignment \<Rightarrow> ('w, app_error, unit) io"
  clear_assignment :: "profile_id \<Rightarrow> control_id \<Rightarrow> ('w, app_error, unit) io"
  load_snapshot_state :: "('w, app_error, snapshot_state) io"
  find_assignment :: "profile_id \<Rightarrow> control_id \<Rightarrow> ('w, app_error, assignment option) io"

record 'w core_service =
  repository :: "'w repository_ops"
  url_opener :: "safe_url \<Rightarrow> ('w, open_url_error, unit) io"
  event_sink :: "core_event \<Rightarrow> ('w, app_error, unit) io"
  random_v4 :: "('w, app_error, uuid) io"

section \<open>The service\<close>

definition action_run_id_new :: "'w core_service \<Rightarrow> ('w, app_error, action_run_id) io" where
  "action_run_id_new self = io_bind (random_v4 self) (\<lambda>u. io_return (ActionRunId u))"

definition core_service_initialize :: "'w core_service \<Rightarrow> ('w, app_error, profile) io" where
  "core_service_initialize self =
     io_bind (ensure_default_profile (repository self)) (\<lambda>profile.
     io_bind (list_profiles (repository self)) (\<lambda>profiles.
     io_bind (io_of_res (map_err AppDomain (ensure_exactly_one_active profiles))) (\<lambda>_.
     io_return profile)))"

definition active_profile :: "'w core_service \<Rightarrow> ('w, app_error, profile) io" where
  "active_profile self =
     io_bind (list_profiles (repository self)) (\<lambda>profiles.
     io_bind (io_of_res (map_err AppDomain (ensure_exactly_one_active profiles))) (\<lambda>_.
     io_of_res (ok_or ActiveProfileMissing (find p_is_active profiles))))"

text \<open>The part of \<open>route_virtual_control\<close> that runs an action, once it has been found.\<close>

definition run_action ::
  "'w core_service \<Rightarrow> profile_id \<Rightarrow> control_id \<Rightarrow> action \<Rightarrow> ('w, app_error, unit) io" where
  "run_action self profile_id control action =
     io_bind (action_run_id_new self) (\<lambda>run_id.
     io_bind (event_sink self (ActionRunning run_id profile_id control)) (\<lambda>_.
     io_try
       (case action of OpenUrl url \<Rightarrow> io_map_err AppOpenUrl (url_opener self url))
       (\<lambda>_. io_bind (event_sink self (ActionSucceeded run_id)) (\<lambda>_. io_return ()))
       (\<lambda>error.
          io_bind
            (event_sink self (ActionFailed run_id OpenUrlFailed (app_error_text error)))
            (\<lambda>_. io_fail error))))"

definition route_virtual_control ::
  "'w core_service \<Rightarrow> control_id \<Rightarrow> ('w, app_error, unit) io" where
  "route_virtual_control self control =
     io_bind (active_profile self) (\<lambda>profile.
     io_bind (find_assignment (repository self) (p_id profile) control) (\<lambda>found.
     case found of
       None \<Rightarrow> io_fail AssignmentNotFound
     | Some assignment \<Rightarrow>
         (case first_action assignment of
            None \<Rightarrow> io_fail AssignmentHasNoAction
          | Some action \<Rightarrow> run_action self (p_id profile) control action)))"

definition snapshot_assignment_of :: "assignment \<Rightarrow> snapshot_assignment" where
  "snapshot_assignment_of a =
     \<lparr>sn_profile_id = a_profile_id a, sn_control = a_control a, sn_actions = a_actions a\<rparr>"

fun handle_command :: "'w core_service \<Rightarrow> core_command \<Rightarrow> ('w, app_error, core_response) io" where
  "handle_command self GetSnapshot =
     io_bind (load_snapshot_state (repository self)) (\<lambda>state.
     io_bind (io_of_res (map_err AppDomain (ensure_exactly_one_active (ss_profiles state)))) (\<lambda>_.
     io_return (RespSnapshot
       \<lparr>cs_layout = MVP_DEVICE_LAYOUT, cs_profiles = ss_profiles state,
        cs_assignments = map snapshot_assignment_of (ss_assignments state)\<rparr>)))"
| "handle_command self ListProfiles =
     io_bind (list_profiles (repository self)) (\<lambda>profiles.
     io_bind (io_of_res (map_err AppDomain (ensure_exactly_one_active profiles))) (\<lambda>_.
     io_return (RespProfiles profiles)))"
| "handle_command self (CreateProfile name) =
     io_bind (create_profile (repository self) name) (\<lambda>profile.
     io_return (RespProfile profile))"
| "handle_command self (RenameProfile profile_id name) =
     io_bind (rename_profile (repository self) profile_id name) (\<lambda>profile.
     io_return (RespProfile profile))"
| "handle_command self (SetActiveProfile profile_id) =
     io_bind (set_active_profile (repository self) profile_id) (\<lambda>_. io_return RespAcknowledged)"
| "handle_command self (SaveAssignment assignment) =
     io_bind (save_assignment (repository self) assignment) (\<lambda>_. io_return RespAcknowledged)"
| "handle_command self (ClearAssignment profile_id control) =
     io_bind (clear_assignment (repository self) profile_id control) (\<lambda>_.
     io_return RespAcknowledged)"
| "handle_command self (VirtualControlInput control) =
     io_bind (route_virtual_control self control) (\<lambda>_. io_return RespAcknowledged)"

text \<open>
  Commands whose assignments and controls satisfy the given conditions; the protocol adapter builds
  only those whose controls and URLs came from their constructors.
\<close>

fun command_ok :: "(assignment \<Rightarrow> bool) \<Rightarrow> (control_id \<Rightarrow> bool) \<Rightarrow> core_command \<Rightarrow> bool" where
  "command_ok storable usable (SaveAssignment a) \<longleftrightarrow> storable a"
| "command_ok storable usable (ClearAssignment _ c) \<longleftrightarrow> usable c"
| "command_ok storable usable (VirtualControlInput c) \<longleftrightarrow> usable c"
| "command_ok storable usable _ \<longleftrightarrow> True"

definition wf_command :: "'u crates \<Rightarrow> core_command \<Rightarrow> bool" where
  "wf_command C = command_ok (wf_assignment C) wf_control"

section \<open>What the service stores, abstractly\<close>

text \<open>
  The names of the profiles, the active profile if there is one, and for each assigned control of
  a profile its actions, in order and at least one.
\<close>

record core_state =
  st_names :: "profile_id \<rightharpoonup> string"
  st_active :: "profile_id option"
  st_actions :: "profile_id \<times> control_id \<rightharpoonup> action list"

definition spec_create :: "profile_id \<Rightarrow> string \<Rightarrow> core_state \<Rightarrow> core_state" where
  "spec_create pid name s = s\<lparr>st_names := (st_names s)(pid \<mapsto> name)\<rparr>"

definition spec_activate :: "profile_id \<Rightarrow> core_state \<Rightarrow> core_state" where
  "spec_activate pid s = s\<lparr>st_active := Some pid\<rparr>"

definition spec_save :: "assignment \<Rightarrow> core_state \<Rightarrow> core_state" where
  "spec_save a s =
     s\<lparr>st_actions := (st_actions s)((a_profile_id a, a_control a) :=
        (if a_actions a = [] then None else Some (a_actions a)))\<rparr>"

definition spec_clear :: "profile_id \<Rightarrow> control_id \<Rightarrow> core_state \<Rightarrow> core_state" where
  "spec_clear pid c s = s\<lparr>st_actions := (st_actions s)((pid, c) := None)\<rparr>"

lemmas spec_defs = spec_create_def spec_activate_def spec_save_def spec_clear_def

text \<open>A listed profile that is one of the state's.\<close>

definition is_profile :: "core_state \<Rightarrow> profile \<Rightarrow> bool" where
  "is_profile s p \<longleftrightarrow>
     st_names s (p_id p) = Some (p_name p) \<and> (p_is_active p \<longleftrightarrow> st_active s = Some (p_id p))"

text \<open>\<open>ps\<close> lists every profile of the state once.\<close>

definition lists_profiles :: "core_state \<Rightarrow> profile list \<Rightarrow> bool" where
  "lists_profiles s ps \<longleftrightarrow>
     distinct (map p_id ps) \<and> set ps = {p. is_profile s p}"

text \<open>\<open>as\<close> lists every assignment of the state once.\<close>

definition lists_assignments :: "core_state \<Rightarrow> assignment list \<Rightarrow> bool" where
  "lists_assignments s as \<longleftrightarrow>
     distinct (map (\<lambda>a. (a_profile_id a, a_control a)) as) \<and>
     set as = {a. st_actions s (a_profile_id a, a_control a) = Some (a_actions a)}"

text \<open>The active profile, if there is one, exists.\<close>

definition wf_state :: "core_state \<Rightarrow> bool" where
  "wf_state s \<longleftrightarrow>
     (\<forall>p. st_active s = Some p \<longrightarrow> p \<in> dom (st_names s)) \<and>
     (\<forall>k. st_actions s k \<noteq> Some [])"

lemma ensure_one_active_listed:
  assumes "lists_profiles s ps" and "wf_state s"
  shows "length (filter p_is_active ps) = (if st_active s = None then 0 else 1)"
proof (cases "st_active s")
  case None
  then show ?thesis
    using assms by (auto simp: lists_profiles_def is_profile_def filter_empty_conv)
next
  case (Some a)
  with assms(2) obtain n where n: "st_names s a = Some n"
    by (auto simp: wf_state_def)
  let ?p = "\<lparr>p_id = a, p_name = n, p_is_active = True\<rparr>"
  have "q \<in> set (filter p_is_active ps) \<longleftrightarrow> q = ?p" for q
    using assms(1) Some n by (auto simp: lists_profiles_def is_profile_def profile_eq_iff [of q])
  then have "set (filter p_is_active ps) = {?p}"
    by blast
  moreover have "distinct (filter p_is_active ps)"
    using assms(1) by (auto simp: lists_profiles_def distinct_map)
  ultimately have "length (filter p_is_active ps) = 1"
    using distinct_card [of "filter p_is_active ps"] by simp
  with Some show ?thesis by simp
qed

lemma ensure_listed_Inr:
  "lists_profiles s ps \<Longrightarrow> wf_state s \<Longrightarrow>
   ensure_exactly_one_active ps = Inr u \<longleftrightarrow> st_active s \<noteq> None"
  by (simp add: ensure_exactly_one_active_Inr ensure_one_active_listed)

text \<open>The state a command leaves when it succeeds, and what it answers.\<close>

fun command_spec :: "core_command \<Rightarrow> core_state \<Rightarrow> core_response \<Rightarrow> core_state \<Rightarrow> bool" where
  "command_spec GetSnapshot s r s' \<longleftrightarrow>
     s' = s \<and> st_active s \<noteq> None \<and>
     (\<exists>ps as. r = RespSnapshot
        \<lparr>cs_layout = MVP_DEVICE_LAYOUT, cs_profiles = ps,
         cs_assignments = map snapshot_assignment_of as\<rparr> \<and>
        lists_profiles s ps \<and> lists_assignments s as)"
| "command_spec ListProfiles s r s' \<longleftrightarrow>
     s' = s \<and> st_active s \<noteq> None \<and> (\<exists>ps. r = RespProfiles ps \<and> lists_profiles s ps)"
| "command_spec (CreateProfile name) s r s' \<longleftrightarrow>
     trim name \<noteq> [] \<and>
     (\<exists>pid. st_names s pid = None \<and> s' = spec_create pid name s \<and>
        r = RespProfile \<lparr>p_id = pid, p_name = name, p_is_active = False\<rparr>)"
| "command_spec (RenameProfile pid name) s r s' \<longleftrightarrow>
     trim name \<noteq> [] \<and> st_names s pid \<noteq> None \<and> s' = spec_create pid name s \<and>
     r = RespProfile \<lparr>p_id = pid, p_name = name, p_is_active = (st_active s = Some pid)\<rparr>"
| "command_spec (SetActiveProfile pid) s r s' \<longleftrightarrow>
     st_names s pid \<noteq> None \<and> st_active s \<noteq> None \<and> s' = spec_activate pid s \<and>
     r = RespAcknowledged"
| "command_spec (SaveAssignment a) s r s' \<longleftrightarrow>
     st_names s (a_profile_id a) \<noteq> None \<and> s' = spec_save a s \<and> r = RespAcknowledged"
| "command_spec (ClearAssignment pid c) s r s' \<longleftrightarrow>
     st_names s pid \<noteq> None \<and> s' = spec_clear pid c s \<and> r = RespAcknowledged"
| "command_spec (VirtualControlInput c) s r s' \<longleftrightarrow>
     s' = s \<and> r = RespAcknowledged \<and>
     (\<exists>a. st_active s = Some a \<and> st_actions s (a, c) \<noteq> None)"

lemma command_spec_wf: "command_spec cmd s r s' \<Longrightarrow> wf_state s \<Longrightarrow> wf_state s'"
  by (cases cmd) (auto simp: wf_state_def spec_defs split: if_splits)

lemma command_spec_active:
  "command_spec cmd s r s' \<Longrightarrow> st_active s \<noteq> None \<Longrightarrow> st_active s' \<noteq> None"
  by (cases cmd) (auto simp: spec_defs)

text \<open>
  The external effects of an action, in order: nothing if there is no action to run or the running
  event cannot be sent; otherwise the running event, then the URL opened once, then the outcome.
\<close>

definition route_effects ::
  "core_state \<Rightarrow> control_id \<Rightarrow> (core_event \<Rightarrow> 'x) \<Rightarrow> (safe_url \<Rightarrow> 'x list) \<Rightarrow> app_error + unit \<Rightarrow>
   'x list \<Rightarrow> bool" where
  "route_effects s c emitted opened r xs \<longleftrightarrow>
     xs = [] \<and> r \<noteq> Inr () \<or>
     (\<exists>a u as run.
        st_active s = Some a \<and> st_actions s (a, c) = Some (OpenUrl u # as) \<and>
        (case r of
           Inr _ \<Rightarrow>
             xs = emitted (ActionRunning run a c) # opened u @ [emitted (ActionSucceeded run)]
         | Inl e \<Rightarrow>
             xs = emitted (ActionRunning run a c) # opened u \<or>
             (\<exists>oe. e = AppOpenUrl oe \<and>
                xs = emitted (ActionRunning run a c) # opened u @
                     [emitted (ActionFailed run OpenUrlFailed (oue_message oe))])))"

text \<open>Every other command stays inside the repository.\<close>

definition command_effects ::
  "core_state \<Rightarrow> core_command \<Rightarrow> (core_event \<Rightarrow> 'y) \<Rightarrow> (safe_url \<Rightarrow> 'y list) \<Rightarrow>
   app_error + core_response \<Rightarrow> 'y list \<Rightarrow> bool" where
  "command_effects s cmd emitted opened r xs \<longleftrightarrow>
     (case cmd of
        VirtualControlInput c \<Rightarrow>
          route_effects s c emitted opened (case r of Inl e \<Rightarrow> Inl e | Inr _ \<Rightarrow> Inr ()) xs
      | _ \<Rightarrow> xs = [])"

section \<open>The contracts\<close>

text \<open>The state is a good one and stands for \<open>s\<close>.\<close>

definition stands_for :: "('w \<Rightarrow> bool) \<Rightarrow> ('w \<Rightarrow> core_state) \<Rightarrow> core_state \<Rightarrow> 'w \<Rightarrow> bool" where
  "stands_for good view s w \<longleftrightarrow> good w \<and> view w = s"

text \<open>What start-up may do to the state, whether it succeeds or not.\<close>

definition may_initialize :: "core_state \<Rightarrow> core_state \<Rightarrow> bool" where
  "may_initialize s s' \<longleftrightarrow>
     s' = s \<or>
     st_active s = None \<and>
     (\<exists>pid. st_names s pid = None \<and> s' = spec_activate pid (spec_create pid ''Default'' s))"

text \<open>
  Every operation of a repository leaves the abstract state alone when it fails, and does what its
  law says when it succeeds.
\<close>

locale profile_repository =
  fixes R :: "'w repository_ops"
    and good :: "'w \<Rightarrow> bool"
    and view :: "'w \<Rightarrow> core_state"
    and storable :: "assignment \<Rightarrow> bool"
    and usable :: "control_id \<Rightarrow> bool"
  assumes wf_view: "good w \<Longrightarrow> wf_state (view w)"
    and ensure_default_law:
      "triple (stands_for good view s) (ensure_default_profile R)
         (\<lambda>p w. good w \<and> is_profile (view w) p \<and> p_is_active p \<and>
            (case st_active s of
               Some _ \<Rightarrow> view w = s
             | None \<Rightarrow> st_names s (p_id p) = None \<and>
                 view w = spec_activate (p_id p) (spec_create (p_id p) ''Default'' s)))
         (stands_for good view s)"
    and create_law:
      "triple (stands_for good view s) (create_profile R name)
         (\<lambda>p w. stands_for good view (spec_create (p_id p) name s) w \<and> trim name \<noteq> [] \<and>
            st_names s (p_id p) = None \<and> p_name p = name \<and> \<not> p_is_active p)
         (stands_for good view s)"
    and list_law:
      "triple (stands_for good view s) (list_profiles R)
         (\<lambda>ps w. stands_for good view s w \<and> lists_profiles s ps)
         (stands_for good view s)"
    and rename_law:
      "triple (stands_for good view s) (rename_profile R pid name)
         (\<lambda>p w. stands_for good view (spec_create pid name s) w \<and> trim name \<noteq> [] \<and>
            st_names s pid \<noteq> None \<and>
            p = \<lparr>p_id = pid, p_name = name, p_is_active = (st_active s = Some pid)\<rparr>)
         (stands_for good view s)"
    and activate_law:
      "triple (stands_for good view s) (set_active_profile R pid)
         (\<lambda>_ w. stands_for good view (spec_activate pid s) w \<and> st_names s pid \<noteq> None \<and>
            st_active s \<noteq> None)
         (stands_for good view s)"
    and save_law:
      "storable a \<Longrightarrow>
       triple (stands_for good view s) (save_assignment R a)
         (\<lambda>_ w. stands_for good view (spec_save a s) w \<and> st_names s (a_profile_id a) \<noteq> None)
         (stands_for good view s)"
    and clear_law:
      "usable c \<Longrightarrow>
       triple (stands_for good view s) (clear_assignment R pid c)
         (\<lambda>_ w. stands_for good view (spec_clear pid c s) w \<and> st_names s pid \<noteq> None)
         (stands_for good view s)"
    and snapshot_law:
      "triple (stands_for good view s) (load_snapshot_state R)
         (\<lambda>r w. stands_for good view s w \<and> lists_profiles s (ss_profiles r) \<and>
            lists_assignments s (ss_assignments r))
         (stands_for good view s)"
    and find_law:
      "usable c \<Longrightarrow>
       triple (stands_for good view s) (find_assignment R pid c)
         (\<lambda>r w. stands_for good view s w \<and>
            r = map_option
                  (\<lambda>as. \<lparr>a_profile_id = pid, a_control = c, a_actions = as\<rparr>) (st_actions s (pid, c)))
         (stands_for good view s)"

text \<open>
  The service's environment: what the opener, the sink and the random source do to the repository
  (nothing) and to the trace of external effects.
\<close>

locale service_env = profile_repository "repository S" good view storable usable
  for S :: "'w core_service" and good :: "'w \<Rightarrow> bool" and view :: "'w \<Rightarrow> core_state"
    and storable :: "assignment \<Rightarrow> bool" and usable :: "control_id \<Rightarrow> bool" +
  fixes trace :: "'w \<Rightarrow> 'x list"
    and opened :: "safe_url \<Rightarrow> 'x list"
    and emitted :: "core_event \<Rightarrow> 'x"
  assumes repository_trace:
      "keeps (\<lambda>w. trace w = t) (list_profiles (repository S))"
      "keeps (\<lambda>w. trace w = t) (find_assignment (repository S) pid c)"
      "keeps (\<lambda>w. trace w = t) (load_snapshot_state (repository S))"
      "keeps (\<lambda>w. trace w = t) (create_profile (repository S) name)"
      "keeps (\<lambda>w. trace w = t) (rename_profile (repository S) pid name)"
      "keeps (\<lambda>w. trace w = t) (set_active_profile (repository S) pid)"
      "keeps (\<lambda>w. trace w = t) (save_assignment (repository S) a)"
      "keeps (\<lambda>w. trace w = t) (clear_assignment (repository S) pid c)"
    and random_frame:
      "keeps (stands_for good view s) (random_v4 S)"
      "keeps (\<lambda>w. trace w = t) (random_v4 S)"
    and opener_frame: "keeps (stands_for good view s) (url_opener S u)"
    and opener_trace: "url_opener S u w = (r, w') \<Longrightarrow> trace w' = trace w @ opened u"
    and sink_frame: "keeps (stands_for good view s) (event_sink S e)"
    and sink_trace:
      "event_sink S e w = (Inr (), w') \<Longrightarrow> trace w' = trace w @ [emitted e]"
      "event_sink S e w = (Inl err, w') \<Longrightarrow> trace w' = trace w"

section \<open>The service under its contracts\<close>

context profile_repository
begin

lemma stands_for_wf: "stands_for good view s w \<Longrightarrow> wf_state s"
  using wf_view by (auto simp: stands_for_def)

lemma check_active_law:
  "triple (\<lambda>w. stands_for good view s w \<and> lists_profiles s ps)
     (io_of_res (map_err AppDomain (ensure_exactly_one_active ps)))
     (\<lambda>_ w. stands_for good view s w \<and> lists_profiles s ps \<and> st_active s \<noteq> None)
     (stands_for good view s)"
  by (rule triple_of_res)
    (auto simp: ensure_listed_Inr stands_for_wf)

lemma list_checked_law:
  "triple (stands_for good view s)
     (io_bind (list_profiles R) (\<lambda>ps.
      io_bind (io_of_res (map_err AppDomain (ensure_exactly_one_active ps))) (\<lambda>_. f ps)))
     Q (stands_for good view s)"
  if "\<And>ps. lists_profiles s ps \<Longrightarrow> st_active s \<noteq> None \<Longrightarrow>
        triple (stands_for good view s) (f ps) Q (stands_for good view s)"
  by (rule triple_bind [OF list_law triple_bind [OF check_active_law]]) (rule triple_pure, simp add: that)

text \<open>Start-up: any service on the repository.\<close>

lemma initialize_law:
  assumes "repository S = R"
  shows "triple (stands_for good view s) (core_service_initialize S)
     (\<lambda>p w. good w \<and> is_profile (view w) p \<and> p_is_active p \<and>
        (case st_active s of
           Some _ \<Rightarrow> view w = s
         | None \<Rightarrow> st_names s (p_id p) = None \<and>
             view w = spec_activate (p_id p) (spec_create (p_id p) ''Default'' s)))
     (\<lambda>w. good w \<and> may_initialize s (view w))"
    (is "triple _ _ (\<lambda>p w. good w \<and> ?X p (view w)) ?E")
proof -
  have X: "?X p s' \<Longrightarrow> may_initialize s s'" for p s'
    by (auto simp: may_initialize_def split: option.splits)
  have rest: "triple (\<lambda>w. \<exists>s'. stands_for good view s' w \<and> ?X p s')
      (io_bind (list_profiles R) (\<lambda>profiles.
       io_bind (io_of_res (map_err AppDomain (ensure_exactly_one_active profiles))) (\<lambda>_.
       io_return p)))
      (\<lambda>p w. good w \<and> ?X p (view w)) ?E" for p
    by (intro triple_ex triple_pure triple_weaken [OF list_checked_law] triple_return)
      (auto simp: stands_for_def intro: X)
  show ?thesis
    unfolding core_service_initialize_def assms
    by (rule triple_bind [OF triple_weaken [OF ensure_default_law] rest])
      (auto simp: stands_for_def may_initialize_def)
qed

end

context service_env
begin

lemma active_profile_law:
  "triple (stands_for good view s) (active_profile S)
     (\<lambda>p w. stands_for good view s w \<and> st_active s = Some (p_id p)) (stands_for good view s)"
  unfolding active_profile_def
  by (intro list_checked_law triple_of_res)
    (auto simp: lists_profiles_def is_profile_def find_Some_iff dest!: nth_mem)

lemma run_action_frame: "keeps (stands_for good view s) (run_action S a c act)"
  unfolding run_action_def action_run_id_new_def
  by (intro keeps_bind keeps_try keeps_return keeps_fail random_frame sink_frame)
    (auto split: action.split intro: keeps_map_err opener_frame)

lemma route_law:
  assumes "usable c"
  shows "triple (stands_for good view s) (route_virtual_control S c)
     (\<lambda>_ w. stands_for good view s w \<and>
        (\<exists>a. st_active s = Some a \<and> st_actions s (a, c) \<noteq> None)) (stands_for good view s)"
  unfolding route_virtual_control_def
proof (intro triple_bind [OF active_profile_law] triple_pure triple_bind [OF find_law [OF assms]])
  fix p found
  assume a: "st_active s = Some (p_id p)"
    and f: "found = map_option (\<lambda>as. \<lparr>a_profile_id = p_id p, a_control = c, a_actions = as\<rparr>)
        (st_actions s (p_id p, c))"
  have "triple (stands_for good view s) (run_action S (p_id p) c act)
     (\<lambda>_ w. stands_for good view s w \<and>
        (\<exists>a. st_active s = Some a \<and> st_actions s (a, c) \<noteq> None)) (stands_for good view s)"
    if "found = Some as" for as act
  proof -
    from a f that have "\<exists>a. st_active s = Some a \<and> st_actions s (a, c) \<noteq> None"
      by (cases "st_actions s (p_id p, c)") auto
    then show ?thesis
      by (intro triple_weaken [OF triple_keeps [OF run_action_frame]]) simp_all
  qed
  then show "triple (stands_for good view s)
     (case found of None \<Rightarrow> io_fail AssignmentNotFound
      | Some assignment \<Rightarrow> case first_action assignment of None \<Rightarrow> io_fail AssignmentHasNoAction
        | Some action \<Rightarrow> run_action S (p_id p) c action)
     (\<lambda>_ w. stands_for good view s w \<and>
        (\<exists>a. st_active s = Some a \<and> st_actions s (a, c) \<noteq> None)) (stands_for good view s)"
    by (auto split: option.split intro: triple_fail)
qed

lemma run_action_effects:
  assumes "run_action S a c (OpenUrl u) w = (r, w')"
    and "st_active s = Some a" and "st_actions s (a, c) = Some (OpenUrl u # as)"
  shows "\<exists>xs. trace w' = trace w @ xs \<and> route_effects s c emitted opened r xs"
proof -
  obtain run w1 where "random_v4 S w = (run, w1)" by fastforce
  note w1 = this keepsD [OF random_frame(2) refl this]
  show ?thesis
  proof (cases run)
    case (Inl e)
    with assms(1) w1 show ?thesis
      by (auto simp: run_action_def action_run_id_new_def io_bind_def route_effects_def)
  next
    case (Inr v)
    let ?run = "ActionRunning (ActionRunId v) a c"
    obtain r2 w2 where e1: "event_sink S ?run w1 = (r2, w2)" by fastforce
    show ?thesis
    proof (cases r2)
      case (Inl e)
      with assms(1) w1 Inr e1 sink_trace(2) [of ?run w1 e w2] show ?thesis
        by (auto simp: run_action_def action_run_id_new_def io_bind_def route_effects_def)
    next
      case ok: (Inr x)
      obtain r3 w3 where o: "url_opener S u w2 = (r3, w3)" by fastforce
      have t3: "trace w3 = trace w @ emitted ?run # opened u"
        using ok w1 sink_trace(1) [of ?run w1 w2] e1 opener_trace [OF o] by simp
      show ?thesis
      proof (cases r3)
        case (Inl oe)
        let ?f = "ActionFailed (ActionRunId v) OpenUrlFailed (oue_message oe)"
        obtain r4 w4 where e2: "event_sink S ?f w3 = (r4, w4)" by fastforce
        then show ?thesis
          using assms w1 Inr e1 ok o t3 Inl sink_trace(1) [of ?f w3 w4] sink_trace(2) [of ?f w3 _ w4]
          by (cases r4) (auto simp: run_action_def action_run_id_new_def io_bind_def io_try_def
              io_map_err_def route_effects_def)
      next
        case (Inr y)
        let ?f = "ActionSucceeded (ActionRunId v)"
        obtain r4 w4 where e2: "event_sink S ?f w3 = (r4, w4)" by fastforce
        then show ?thesis
          using assms w1 \<open>run = Inr v\<close> e1 ok o t3 Inr sink_trace(1) [of ?f w3 w4]
            sink_trace(2) [of ?f w3 _ w4]
          by (cases r4) (auto simp: run_action_def action_run_id_new_def io_bind_def io_try_def
              io_map_err_def route_effects_def)
      qed
    qed
  qed
qed

text \<open>What an input does to the outside: see \<open>route_effects\<close>.\<close>

lemma active_profile_trace: "keeps (\<lambda>w. trace w = t) (active_profile S)"
  unfolding active_profile_def by (intro keeps_bind keeps_of_res repository_trace(1))

lemma route_trace:
  assumes c: "usable c" and s: "stands_for good view s w"
    and r: "route_virtual_control S c w = (r, w')"
  shows "\<exists>xs. trace w' = trace w @ xs \<and> route_effects s c emitted opened r xs"
proof -
  obtain r1 w1 where p: "active_profile S w = (r1, w1)" by fastforce
  then have t1: "trace w1 = trace w" by (rule keepsD [OF active_profile_trace refl])
  show ?thesis
  proof (cases r1)
    case (Inl e)
    with r p t1 show ?thesis
      by (auto simp: route_virtual_control_def io_bind_def route_effects_def)
  next
    case (Inr q)
    with triple_Inr [OF active_profile_law s] p
    have s1: "stands_for good view s w1" and a: "st_active s = Some (p_id q)" by auto
    obtain r2 w2 where f: "find_assignment (repository S) (p_id q) c w1 = (r2, w2)" by fastforce
    then have t2: "trace w2 = trace w" using t1 keepsD [OF repository_trace(2) refl] by metis
    show ?thesis
    proof (cases r2)
      case (Inl e)
      with r p f Inr t2 show ?thesis
        by (auto simp: route_virtual_control_def io_bind_def route_effects_def)
    next
      case found: (Inr b)
      with triple_Inr [OF find_law [OF c] s1] f
      have b: "b = map_option (\<lambda>as. \<lparr>a_profile_id = p_id q, a_control = c, a_actions = as\<rparr>)
        (st_actions s (p_id q, c))" by auto
      show ?thesis
      proof (cases "\<exists>u as. st_actions s (p_id q, c) = Some (OpenUrl u # as)")
        case True
        then obtain u as where as: "st_actions s (p_id q, c) = Some (OpenUrl u # as)" by auto
        with r p f Inr found b have "run_action S (p_id q) c (OpenUrl u) w2 = (r, w')"
          by (simp add: route_virtual_control_def io_bind_def first_action_def)
        from run_action_effects [OF this a as] t2 show ?thesis by simp
      next
        case False
        then have "st_actions s (p_id q, c) \<in> {None, Some []}"
          by (metis action.exhaust insertCI list.exhaust not_Some_eq)
        with r p f Inr found b t2 show ?thesis
          by (auto simp: route_virtual_control_def io_bind_def route_effects_def first_action_def)
      qed
    qed
  qed
qed

text \<open>A command that fails leaves the stored state alone; one that succeeds does what it says.\<close>

lemma handle_command_law:
  assumes "command_ok storable usable cmd"
  shows "triple (stands_for good view s) (handle_command S cmd)
     (\<lambda>r w. \<exists>s'. stands_for good view s' w \<and> command_spec cmd s r s') (stands_for good view s)"
proof (cases cmd)
  case GetSnapshot
  have "triple (\<lambda>w. stands_for good view s w \<and> lists_profiles s (ss_profiles st) \<and>
       lists_assignments s (ss_assignments st))
     (io_bind (io_of_res (map_err AppDomain (ensure_exactly_one_active (ss_profiles st)))) (\<lambda>_.
       io_return (RespSnapshot
         \<lparr>cs_layout = MVP_DEVICE_LAYOUT, cs_profiles = ss_profiles st,
          cs_assignments = map snapshot_assignment_of (ss_assignments st)\<rparr>)))
     (\<lambda>r w. \<exists>s'. stands_for good view s' w \<and> command_spec GetSnapshot s r s')
     (stands_for good view s)" for st
    by (rule triple_bind [OF triple_of_res [where Q =
        "\<lambda>_ w. stands_for good view s w \<and> lists_profiles s (ss_profiles st) \<and>
          lists_assignments s (ss_assignments st) \<and> st_active s \<noteq> None"]])
      (auto simp: ensure_listed_Inr stands_for_wf intro!: triple_return)
  with GetSnapshot show ?thesis by (auto intro: triple_bind [OF snapshot_law])
next
  case ListProfiles
  then show ?thesis by (auto intro!: list_checked_law triple_return)
next
  case (CreateProfile name)
  then show ?thesis
    by (auto intro!: triple_bind [OF create_law] triple_return simp: profile_eq_iff)
next
  case (RenameProfile pid name)
  then show ?thesis by (auto intro!: triple_bind [OF rename_law] triple_return)
next
  case (SetActiveProfile pid)
  then show ?thesis by (auto intro!: triple_bind [OF activate_law] triple_return)
next
  case (SaveAssignment a)
  with assms show ?thesis by (auto intro!: triple_bind [OF save_law] triple_return)
next
  case (ClearAssignment pid c)
  with assms show ?thesis by (auto intro!: triple_bind [OF clear_law] triple_return)
next
  case (VirtualControlInput c)
  with assms show ?thesis by (auto intro!: triple_bind [OF route_law] triple_return)
qed

lemma handle_command_trace:
  assumes ok: "command_ok storable usable cmd" and s: "stands_for good view s w"
    and r: "handle_command S cmd w = (r, w')"
  shows "\<exists>xs. trace w' = trace w @ xs \<and> command_effects s cmd emitted opened r xs"
proof (cases "\<exists>c. cmd = VirtualControlInput c")
  case True
  then obtain c where cmd: "cmd = VirtualControlInput c" by blast
  obtain r1 w1 where r1: "route_virtual_control S c w = (r1, w1)" by fastforce
  have "w1 = w'" and "r = (case r1 of Inl e \<Rightarrow> Inl e | Inr _ \<Rightarrow> Inr RespAcknowledged)"
    using r r1 cmd by (auto simp: io_bind_def split: sum.splits)
  with route_trace [OF _ s r1] ok cmd show ?thesis
    by (cases r1) (auto simp: command_effects_def)
next
  case False
  then have "keeps (\<lambda>w'. trace w' = trace w) (handle_command S cmd)"
    by (cases cmd) (auto intro!: keeps_bind repository_trace)
  from keepsD [OF this refl r] False show ?thesis
    by (cases cmd) (auto simp: command_effects_def)
qed

end

end
