(* ===== verification/Keyro_Sqlite.thy ===== *)
theory Keyro_Sqlite
  imports Keyro_App
begin

text \<open>
  The database of \<open>crates/core-storage-sqlite/src/lib.rs\<close>: the two tables with the constraints that
  \<open>migrate\<close> declares, one definition per SQL statement of the file, and the transactions.  The
  rows are kept in the order of insertion.  Whether the engine itself fails (I/O, a lock, a full
  disk) at a statement is read off the list \<open>faults\<close>: \<open>Some\<close> text is a failure, \<open>None\<close> or an
  exhausted list is none.  A statement that fails changes no table.
\<close>

section \<open>Tables\<close>

record profile_row =
  pr_id :: string
  pr_name :: string
  pr_is_active :: int
  pr_created_at :: string

record assignment_row =
  ar_profile_id :: string
  ar_page_index :: int
  ar_control_kind :: string
  ar_control_index :: int
  ar_control_operation :: string
  ar_action_position :: int
  ar_action_kind :: string
  ar_action_url :: "string option"

record tables =
  t_profiles :: "profile_row list"
  t_assignments :: "assignment_row list"

text \<open>
  An open connection: its tables, the \<open>foreign_keys\<close> pragma, the readings of the clock that
  \<open>CURRENT_TIMESTAMP\<close> will return, the random source of the process, and the engine's failures.
\<close>

record connection =
  db :: tables
  foreign_keys :: bool
  clock :: "string stream"
  rng :: "uuid stream"
  faults :: "string option list"

text \<open>\<open>rusqlite::Error\<close>, as far as the code builds or receives it.\<close>

datatype sql_error =
    SqliteFailure string
  | ConstraintViolation string
  | FromSqlConversionFailure domain_error
  | ToSqlConversionFailure domain_error
  | InvalidQuery

text \<open>The crates the storage uses: with \<open>url\<close> and \<open>uuid\<close>, the texts that \<open>rusqlite\<close> errors print.\<close>

record 'u deps =
  crates_of :: "'u crates"
  sql_error_text :: "sql_error \<Rightarrow> string"

section \<open>Statements\<close>

definition stmt ::
  "(connection \<Rightarrow> (sql_error + 'a) \<times> connection) \<Rightarrow> (connection, sql_error, 'a) io" where
  "stmt f = (\<lambda>c.
     case faults c of
       [] \<Rightarrow> f c
     | None # fs \<Rightarrow> f (c\<lparr>faults := fs\<rparr>)
     | Some msg # fs \<Rightarrow> (Inl (SqliteFailure msg), c\<lparr>faults := fs\<rparr>))"

text \<open>Preparing a statement and reading rows: only the engine can fail.\<close>

definition prepare :: "(connection, sql_error, unit) io" where
  "prepare = stmt (\<lambda>c. (Inr (), c))"

definition query :: "(tables \<Rightarrow> sql_error + 'a) \<Rightarrow> (connection, sql_error, 'a) io" where
  "query f = stmt (\<lambda>c. (f (db c), c))"

text \<open>A statement that rewrites the tables and returns the number of rows it changed.\<close>

definition execute :: "(tables \<Rightarrow> sql_error + nat \<times> tables) \<Rightarrow> (connection, sql_error, nat) io" where
  "execute f = stmt (\<lambda>c. case f (db c) of Inl e \<Rightarrow> (Inl e, c) | Inr (n, t) \<Rightarrow> (Inr n, c\<lparr>db := t\<rparr>))"

text \<open>Draws from the random source of the process.\<close>

definition with_rng :: "(uuid stream, 'e, 'a) io \<Rightarrow> (connection, 'e, 'a) io" where
  "with_rng m = (\<lambda>c. case m (rng c) of (r, g) \<Rightarrow> (r, c\<lparr>rng := g\<rparr>))"

text \<open>\<open>INSERT INTO profiles(id, name, is_active) VALUES (?1, ?2, act)\<close>; \<open>created_at\<close> is the clock's
  next reading.  The primary key, the CHECK and the partial unique index can refuse the row.\<close>

definition insert_profile :: "string \<Rightarrow> string \<Rightarrow> int \<Rightarrow> (connection, sql_error, nat) io" where
  "insert_profile pid name act = stmt (\<lambda>c.
     let row = \<lparr>pr_id = pid, pr_name = name, pr_is_active = act, pr_created_at = shd (clock c)\<rparr>;
         c' = c\<lparr>clock := stl (clock c)\<rparr>;
         rows = t_profiles (db c)
     in if act \<noteq> 0 \<and> act \<noteq> 1 then (Inl (ConstraintViolation ''CHECK''), c')
        else if list_ex (\<lambda>r. pr_id r = pid) rows
        then (Inl (ConstraintViolation ''profiles.id''), c')
        else if act = 1 \<and> list_ex (\<lambda>r. pr_is_active r = 1) rows
        then (Inl (ConstraintViolation ''only_one_active_profile''), c')
        else (Inr 1, c'\<lparr>db := (db c)\<lparr>t_profiles := rows @ [row]\<rparr>\<rparr>))"

text \<open>\<open>SELECT id, name, is_active FROM profiles ORDER BY created_at, name\<close>: bytewise on the texts;
  rows equal in both stay in the order of insertion, which SQL leaves open.\<close>

definition select_profiles :: "tables \<Rightarrow> profile_row list" where
  "select_profiles t = sort_key (\<lambda>r. (pr_created_at r, pr_name r)) (t_profiles t)"

text \<open>\<open>SELECT id, name, is_active FROM profiles WHERE is_active = 1\<close>, first row.\<close>

definition select_active :: "tables \<Rightarrow> profile_row option" where
  "select_active t = find (\<lambda>r. pr_is_active r = 1) (t_profiles t)"

text \<open>\<open>SELECT 1 FROM profiles WHERE id = ?1\<close>.\<close>

definition select_exists :: "string \<Rightarrow> tables \<Rightarrow> bool" where
  "select_exists pid t = list_ex (\<lambda>r. pr_id r = pid) (t_profiles t)"

text \<open>\<open>UPDATE profiles SET name = ?1 WHERE id = ?2\<close>.\<close>

definition update_name :: "string \<Rightarrow> string \<Rightarrow> (connection, sql_error, nat) io" where
  "update_name name pid = execute (\<lambda>t.
     Inr (length (filter (\<lambda>r. pr_id r = pid) (t_profiles t)),
          t\<lparr>t_profiles :=
             map (\<lambda>r. if pr_id r = pid then r\<lparr>pr_name := name\<rparr> else r) (t_profiles t)\<rparr>))"

text \<open>\<open>UPDATE profiles SET is_active = 0 WHERE is_active = 1\<close>.\<close>

definition update_deactivate :: "(connection, sql_error, nat) io" where
  "update_deactivate = execute (\<lambda>t.
     Inr (length (filter (\<lambda>r. pr_is_active r = 1) (t_profiles t)),
          t\<lparr>t_profiles :=
             map (\<lambda>r. if pr_is_active r = 1 then r\<lparr>pr_is_active := 0\<rparr> else r) (t_profiles t)\<rparr>))"

text \<open>\<open>UPDATE profiles SET is_active = 1 WHERE id = ?1\<close>: refused when two rows would be active.\<close>

definition update_activate :: "string \<Rightarrow> (connection, sql_error, nat) io" where
  "update_activate pid = execute (\<lambda>t.
     let rows = map (\<lambda>r. if pr_id r = pid then r\<lparr>pr_is_active := 1\<rparr> else r) (t_profiles t)
     in if 1 < length (filter (\<lambda>r. pr_is_active r = 1) rows)
        then Inl (ConstraintViolation ''only_one_active_profile'')
        else Inr (length (filter (\<lambda>r. pr_id r = pid) (t_profiles t)), t\<lparr>t_profiles := rows\<rparr>))"

text \<open>The \<open>WHERE\<close> clause that names a control of a profile.\<close>

type_synonym control_key = "int \<times> string \<times> int \<times> string"

fun on_control :: "string \<Rightarrow> control_key \<Rightarrow> assignment_row \<Rightarrow> bool" where
  "on_control pid (page, kind, index, operation) r \<longleftrightarrow>
     ar_profile_id r = pid \<and> ar_page_index r = page \<and> ar_control_kind r = kind \<and>
     ar_control_index r = index \<and> ar_control_operation r = operation"

text \<open>\<open>DELETE FROM assignments WHERE profile_id = ?1 AND .. AND control_operation = ?5\<close>.\<close>

definition delete_assignment :: "string \<Rightarrow> control_key \<Rightarrow> (connection, sql_error, nat) io" where
  "delete_assignment pid key = execute (\<lambda>t.
     Inr (length (filter (on_control pid key) (t_assignments t)),
          t\<lparr>t_assignments := filter (\<lambda>r. \<not> on_control pid key r) (t_assignments t)\<rparr>))"

definition row_key :: "assignment_row \<Rightarrow> string \<times> int \<times> string \<times> int \<times> string \<times> int" where
  "row_key r =
     (ar_profile_id r, ar_page_index r, ar_control_kind r, ar_control_index r,
      ar_control_operation r, ar_action_position r)"

text \<open>\<open>INSERT INTO assignments(..) VALUES (?1, .., ?8)\<close>: the primary key and, with the pragma on,
  the reference to \<open>profiles(id)\<close> can refuse the row.\<close>

definition insert_assignment :: "assignment_row \<Rightarrow> (connection, sql_error, nat) io" where
  "insert_assignment row = stmt (\<lambda>c.
     if list_ex (\<lambda>r. row_key r = row_key row) (t_assignments (db c))
     then (Inl (ConstraintViolation ''assignments''), c)
     else if foreign_keys c \<and> \<not> select_exists (ar_profile_id row) (db c)
     then (Inl (ConstraintViolation ''FOREIGN KEY''), c)
     else (Inr 1, c\<lparr>db := (db c)\<lparr>t_assignments := t_assignments (db c) @ [row]\<rparr>\<rparr>))"

text \<open>\<open>SELECT action_kind, action_url FROM assignments WHERE .. ORDER BY action_position\<close>.\<close>

definition select_actions :: "string \<Rightarrow> control_key \<Rightarrow> tables \<Rightarrow> assignment_row list" where
  "select_actions pid key t =
     sort_key ar_action_position (filter (on_control pid key) (t_assignments t))"

text \<open>\<open>SELECT profile_id, .. FROM assignments ORDER BY profile_id, page_index, control_kind,
  control_index, control_operation, action_position\<close>.\<close>

definition select_assignments :: "tables \<Rightarrow> assignment_row list" where
  "select_assignments t = sort_key row_key (t_assignments t)"

section \<open>Transactions\<close>

text \<open>
  \<open>connection.transaction()\<close>, a body with early returns, and \<open>commit()\<close>: when the body or the
  commit fails, the transaction is dropped, which rolls the tables back to where it began.
\<close>

definition transaction ::
  "(sql_error \<Rightarrow> 'e) \<Rightarrow> (connection, 'e, 'a) io \<Rightarrow> (connection, 'e, 'a) io" where
  "transaction err body =
     io_bind (io_map_err err prepare) (\<lambda>_ c.
       io_try (io_bind body (\<lambda>a. io_bind (io_map_err err prepare) (\<lambda>_. io_return a)))
         (\<lambda>a. io_return a)
         (\<lambda>e c'. (Inl e, c'\<lparr>db := db c\<rparr>)) c)"

section \<open>Facts\<close>

lemma stmt_cases:
  assumes "stmt f c = (r, c')"
  obtains msg where "r = Inl (SqliteFailure msg)" "db c' = db c" "foreign_keys c' = foreign_keys c"
  | c0 where "db c0 = db c" "foreign_keys c0 = foreign_keys c" "f c0 = (r, c')"
proof (cases "faults c")
  case Nil
  with assms show thesis by (intro that(2) [of c]) (simp_all add: stmt_def)
next
  case (Cons x fs)
  with assms show thesis
    by (cases x) (auto simp: stmt_def intro: that(1) that(2) [of "c\<lparr>faults := fs\<rparr>"])
qed

text \<open>A call that keeps tables and pragma.\<close>

definition reads_only :: "(connection, 'e, 'a) io \<Rightarrow> bool" where
  "reads_only m \<longleftrightarrow>
     (\<forall>c r c'. m c = (r, c') \<longrightarrow> db c' = db c \<and> foreign_keys c' = foreign_keys c)"

lemma reads_onlyD:
  "reads_only m \<Longrightarrow> m c = (r, c') \<Longrightarrow> db c' = db c \<and> foreign_keys c' = foreign_keys c"
  by (simp add: reads_only_def)

lemma reads_only_prepare [simp]: "reads_only prepare"
  by (auto simp: reads_only_def prepare_def elim!: stmt_cases)

lemma reads_only_query [simp]: "reads_only (query f)"
  by (auto simp: reads_only_def query_def elim!: stmt_cases)

lemma query_Inr: "query f c = (Inr a, c') \<Longrightarrow> f (db c) = Inr a"
  by (auto simp: query_def elim!: stmt_cases)

lemma reads_only_with_rng [simp]: "reads_only (with_rng m)"
  by (auto simp: reads_only_def with_rng_def split: prod.splits)

lemma with_rng_Inr: "with_rng m c = (Inr a, c') \<Longrightarrow> \<exists>g. m (rng c) = (Inr a, g)"
  by (auto simp: with_rng_def split: prod.splits)

lemma reads_only_return [simp]: "reads_only (io_return a)"
  by (simp add: reads_only_def)

lemma reads_only_fail [simp]: "reads_only (io_fail e)"
  by (simp add: reads_only_def)

lemma reads_only_of_res [simp]: "reads_only (io_of_res r)"
  by (simp add: reads_only_def)

lemma reads_only_map_err [intro]: "reads_only m \<Longrightarrow> reads_only (io_map_err g m)"
  by (auto simp: reads_only_def io_map_err_def split: prod.splits)

lemma reads_only_bind [intro]:
  assumes "reads_only m" and "\<And>a. reads_only (f a)"
  shows "reads_only (io_bind m f)"
proof -
  have "db c' = db c \<and> foreign_keys c' = foreign_keys c" if "io_bind m f c = (r, c')" for c r c'
  proof (cases "m c")
    case (Pair r1 c1)
    with that show ?thesis
      using reads_onlyD [OF assms(1) Pair] reads_onlyD [OF assms(2)]
      by (cases r1) (auto simp: io_bind_def)
  qed
  then show ?thesis by (simp add: reads_only_def)
qed

lemma execute_Inr:
  "execute f c = (Inr n, c') \<Longrightarrow>
   \<exists>t. f (db c) = Inr (n, t) \<and> db c' = t \<and> foreign_keys c' = foreign_keys c"
  by (auto simp: execute_def elim!: stmt_cases split: sum.splits)

lemma execute_Inl:
  "execute f c = (Inl e, c') \<Longrightarrow> db c' = db c \<and> foreign_keys c' = foreign_keys c"
  by (auto simp: execute_def elim!: stmt_cases split: sum.splits)

text \<open>A transaction either fails and changes nothing, or runs its body.\<close>

lemma transaction_Inl:
  assumes body: "\<And>c r c'. body c = (r, c') \<Longrightarrow> foreign_keys c' = foreign_keys c"
    and t: "transaction err body c = (Inl e, c')"
  shows "db c' = db c \<and> foreign_keys c' = foreign_keys c"
proof (cases "prepare c")
  case (Pair r c1)
  note p = reads_onlyD [OF reads_only_prepare Pair]
  show ?thesis
  proof (cases r)
    case (Inl e1)
    with t Pair p show ?thesis by (auto simp: transaction_def io_bind_def io_map_err_def)
  next
    case (Inr u)
    obtain r2 c2 where b: "body c1 = (r2, c2)" by fastforce
    obtain r3 c3 where q: "prepare c2 = (r3, c3)" by fastforce
    from t Pair p Inr b q body [OF b] reads_onlyD [OF reads_only_prepare q] show ?thesis
      by (auto simp: transaction_def io_bind_def io_map_err_def io_try_def split: sum.splits)
  qed
qed

lemma transaction_Inr:
  assumes "transaction err body c = (Inr a, c')"
  shows "\<exists>c1 c2. db c1 = db c \<and> foreign_keys c1 = foreign_keys c \<and> body c1 = (Inr a, c2) \<and>
    db c' = db c2 \<and> foreign_keys c' = foreign_keys c2"
proof -
  from assms obtain c1 where p: "prepare c = (Inr (), c1)"
    and t: "io_try (io_bind body (\<lambda>a. io_bind (io_map_err err prepare) (\<lambda>_. io_return a)))
      (\<lambda>a. io_return a) (\<lambda>e c'. (Inl e, c'\<lparr>db := db c1\<rparr>)) c1 = (Inr a, c')"
    by (auto simp: transaction_def io_bind_eq_Inr)
  from t obtain c2 where "body c1 = (Inr a, c2)" and "prepare c2 = (Inr (), c')"
    by (auto simp: io_try_eq io_bind_eq_Inr)
  with p show ?thesis
    by (intro exI [of _ c1] exI [of _ c2])
      (simp add: reads_onlyD [OF reads_only_prepare p] reads_onlyD [OF reads_only_prepare])
qed

lemma insert_profile_Inr:
  "insert_profile pid name act c = (Inr n, c') \<Longrightarrow>
   \<exists>row. pr_id row = pid \<and> pr_name row = name \<and> pr_is_active row = act \<and>
     db c' = (db c)\<lparr>t_profiles := t_profiles (db c) @ [row]\<rparr> \<and> foreign_keys c' = foreign_keys c \<and>
     \<not> select_exists (pr_id row) (db c) \<and>
     (act = 1 \<longrightarrow> (\<forall>r \<in> set (t_profiles (db c)). pr_is_active r \<noteq> 1))"
  unfolding insert_profile_def
  by (erule stmt_cases; (simp; fail)?;
      rule_tac x = "\<lparr>pr_id = pid, pr_name = name, pr_is_active = act, pr_created_at = shd (clock c0)\<rparr>" in exI)
    (auto simp: Let_def select_exists_def list_ex_iff split: if_splits)

lemma insert_profile_Inl:
  "insert_profile pid name act c = (Inl e, c') \<Longrightarrow> db c' = db c \<and> foreign_keys c' = foreign_keys c"
  unfolding insert_profile_def
  by (erule stmt_cases) (auto simp: Let_def split: if_splits)

lemma insert_assignment_Inr:
  "insert_assignment row c = (Inr n, c') \<Longrightarrow>
   db c' = (db c)\<lparr>t_assignments := t_assignments (db c) @ [row]\<rparr>"
  unfolding insert_assignment_def
  by (erule stmt_cases) (auto split: if_splits)

lemma insert_assignment_pragma:
  "insert_assignment row c = (r, c') \<Longrightarrow> foreign_keys c' = foreign_keys c"
  unfolding insert_assignment_def
  by (erule stmt_cases) (auto split: if_splits)

lemma execute_pragma: "execute f c = (r, c') \<Longrightarrow> foreign_keys c' = foreign_keys c"
  by (cases r) (auto dest: execute_Inr execute_Inl)

end
