(* ===== verification/Keyro_Storage.thy ===== *)
theory Keyro_Storage
  imports Keyro_Sqlite
begin

text \<open>
  \<open>crates/core-storage-sqlite/src/lib.rs\<close>: \<open>SqliteProfileRepository\<close>.  Every operation holds the
  connection's mutex while it uses the database; \<open>rename_profile\<close> takes it twice, first to list the
  profiles and then to update.  The invariant \<open>wf_tables\<close> and the abstraction \<open>sqlite_view\<close> make
  the repository an instance of the locale \<open>profile_repository\<close>, whatever the engine's failures.
\<close>

section \<open>Encoding of controls and actions\<close>

definition to_app_error :: "'u deps \<Rightarrow> sql_error \<Rightarrow> app_error" where
  "to_app_error K e = Storage (sql_error_text K e)"

fun encode_encoder_operation :: "encoder_operation \<Rightarrow> string" where
  "encode_encoder_operation Left = ''left''"
| "encode_encoder_operation Right = ''right''"
| "encode_encoder_operation Press = ''press''"

fun encode_control :: "control_id \<Rightarrow> control_key" where
  "encode_control (Key page key) =
     (uint (page_index_get page), ''key'', uint (key_index_get key), ''press'')"
| "encode_control (Encoder page encoder operation) =
     (uint (page_index_get page), ''encoder'', uint (encoder_index_get encoder),
      encode_encoder_operation operation)"

fun encode_action :: "action \<Rightarrow> string \<times> string option" where
  "encode_action (OpenUrl url) = (''open_url'', Some (safe_url_as_str url))"

definition decode_action :: "'u crates \<Rightarrow> string \<Rightarrow> string option \<Rightarrow> sql_error + action" where
  "decode_action C kind url =
     (if kind = ''open_url''
      then res_bind (ok_or InvalidQuery url) (\<lambda>url.
           res_bind (map_err ToSqlConversionFailure (safe_url_parse C url)) (\<lambda>url.
           Inr (OpenUrl url)))
      else Inl InvalidQuery)"

definition decode_encoder_operation :: "string \<Rightarrow> sql_error + encoder_operation" where
  "decode_encoder_operation value =
     (if value = ''left'' then Inr Left
      else if value = ''right'' then Inr Right
      else if value = ''press'' then Inr Press
      else Inl InvalidQuery)"

definition decode_control :: "int \<Rightarrow> string \<Rightarrow> int \<Rightarrow> string \<Rightarrow> sql_error + control_id" where
  "decode_control page control_kind control_index control_operation =
     res_bind (ok_or InvalidQuery (u8_of_int page)) (\<lambda>page.
     res_bind (ok_or InvalidQuery (u8_of_int control_index)) (\<lambda>control_index.
     if control_kind = ''key'' \<and> control_operation = ''press''
     then map_err FromSqlConversionFailure (control_key page control_index)
     else if control_kind = ''key'' then Inl InvalidQuery
     else if control_kind = ''encoder''
     then res_bind (decode_encoder_operation control_operation) (\<lambda>operation.
          map_err FromSqlConversionFailure (control_encoder page control_index operation))
     else Inl InvalidQuery))"

section \<open>Reading\<close>

definition profile_of_row :: "'u crates \<Rightarrow> profile_row \<Rightarrow> sql_error + profile" where
  "profile_of_row C row =
     res_bind (map_err FromSqlConversionFailure (profile_id_parse C (pr_id row))) (\<lambda>pid.
     Inr \<lparr>p_id = pid, p_name = pr_name row, p_is_active = (pr_is_active row = 1)\<rparr>)"

definition profile_exists :: "'u deps \<Rightarrow> profile_id \<Rightarrow> (connection, app_error, bool) io" where
  "profile_exists K profile_id =
     io_map_err (to_app_error K)
       (query (\<lambda>t. Inr (select_exists (profile_id_to_string (crates_of K) profile_id) t)))"

definition load_active_profile :: "'u deps \<Rightarrow> (connection, sql_error, profile option) io" where
  "load_active_profile K =
     query (\<lambda>t. case select_active t of
        None \<Rightarrow> Inr None
      | Some row \<Rightarrow> res_bind (profile_of_row (crates_of K) row) (\<lambda>p. Inr (Some p)))"

definition sqlite_list_profiles :: "'u deps \<Rightarrow> (connection, app_error, profile list) io" where
  "sqlite_list_profiles K =
     io_map_err (to_app_error K) (io_bind prepare (\<lambda>_.
       query (\<lambda>t. collect (profile_of_row (crates_of K)) (select_profiles t))))"

definition list_profiles_locked :: "'u deps \<Rightarrow> (connection, app_error, profile list) io" where
  "list_profiles_locked K =
     io_map_err (to_app_error K) (io_bind prepare (\<lambda>_.
       query (\<lambda>t. collect (profile_of_row (crates_of K)) (select_profiles t))))"

text \<open>The row of a \<open>SELECT\<close> over \<open>assignments\<close>, decoded left to right.\<close>

definition assignment_of_row ::
  "'u crates \<Rightarrow> assignment_row \<Rightarrow> sql_error + profile_id \<times> control_id \<times> action" where
  "assignment_of_row C row =
     res_bind (map_err FromSqlConversionFailure (profile_id_parse C (ar_profile_id row))) (\<lambda>pid.
     res_bind (decode_control (ar_page_index row) (ar_control_kind row) (ar_control_index row)
        (ar_control_operation row)) (\<lambda>control.
     res_bind (decode_action C (ar_action_kind row) (ar_action_url row)) (\<lambda>action.
     Inr (pid, control, action))))"

text \<open>The loop of \<open>list_assignments_locked\<close>: an action joins the first assignment with its profile
  and control, or starts one at the end.\<close>

fun push_action :: "profile_id \<Rightarrow> control_id \<Rightarrow> action \<Rightarrow> assignment list \<Rightarrow> assignment list" where
  "push_action pid control action [] =
     [\<lparr>a_profile_id = pid, a_control = control, a_actions = [action]\<rparr>]"
| "push_action pid control action (existing # rest) =
     (if a_profile_id existing = pid \<and> a_control existing = control
      then existing\<lparr>a_actions := a_actions existing @ [action]\<rparr> # rest
      else existing # push_action pid control action rest)"

fun group_assignments ::
  "(profile_id \<times> control_id \<times> action) list \<Rightarrow> assignment list \<Rightarrow> assignment list" where
  "group_assignments [] assignments = assignments"
| "group_assignments ((pid, control, action) # rows) assignments =
     group_assignments rows (push_action pid control action assignments)"

definition list_assignments_locked :: "'u deps \<Rightarrow> (connection, app_error, assignment list) io" where
  "list_assignments_locked K =
     io_map_err (to_app_error K) (io_bind prepare (\<lambda>_.
       query (\<lambda>t. res_bind (collect (assignment_of_row (crates_of K)) (select_assignments t))
         (\<lambda>rows. Inr (group_assignments rows [])))))"

definition sqlite_load_snapshot_state :: "'u deps \<Rightarrow> (connection, app_error, snapshot_state) io" where
  "sqlite_load_snapshot_state K =
     io_bind (list_profiles_locked K) (\<lambda>profiles.
     io_bind (list_assignments_locked K) (\<lambda>assignments.
     io_return \<lparr>ss_profiles = profiles, ss_assignments = assignments\<rparr>))"

definition sqlite_find_assignment ::
  "'u deps \<Rightarrow> profile_id \<Rightarrow> control_id \<Rightarrow> (connection, app_error, assignment option) io" where
  "sqlite_find_assignment K profile_id control =
     io_bind (io_map_err (to_app_error K) (io_bind prepare (\<lambda>_.
       query (\<lambda>t. collect
         (\<lambda>row. decode_action (crates_of K) (ar_action_kind row) (ar_action_url row))
         (select_actions (profile_id_to_string (crates_of K) profile_id) (encode_control control)
            t))))) (\<lambda>actions.
     io_return
       (if actions = [] then None
        else Some \<lparr>a_profile_id = profile_id, a_control = control, a_actions = actions\<rparr>))"

section \<open>Writing\<close>

definition sqlite_ensure_default_profile :: "'u deps \<Rightarrow> (connection, app_error, profile) io" where
  "sqlite_ensure_default_profile K =
     io_bind (io_map_err (to_app_error K) (load_active_profile K)) (\<lambda>existing.
     case existing of
       Some profile \<Rightarrow> io_return profile
     | None \<Rightarrow>
         io_bind (io_map_err AppDomain (with_rng (profile_new ''Default'' True))) (\<lambda>profile.
         io_bind (io_map_err (to_app_error K)
           (insert_profile (profile_id_to_string (crates_of K) (p_id profile)) (p_name profile) 1))
           (\<lambda>_. io_return profile)))"

definition sqlite_create_profile :: "'u deps \<Rightarrow> string \<Rightarrow> (connection, app_error, profile) io" where
  "sqlite_create_profile K name =
     io_bind (io_map_err AppDomain (with_rng (profile_new name False))) (\<lambda>profile.
     io_bind (io_map_err (to_app_error K)
       (insert_profile (profile_id_to_string (crates_of K) (p_id profile)) (p_name profile) 0))
       (\<lambda>_. io_return profile))"

text \<open>The second critical section of \<open>rename_profile\<close>, for the renamed profile.\<close>

definition rename_update :: "'u deps \<Rightarrow> profile_id \<Rightarrow> profile \<Rightarrow> (connection, app_error, profile) io" where
  "rename_update K profile_id profile =
     io_bind (io_map_err (to_app_error K)
       (update_name (p_name profile) (profile_id_to_string (crates_of K) profile_id))) (\<lambda>updated.
     if updated \<noteq> 1 then io_fail ProfileNotFound else io_return profile)"

definition sqlite_rename_profile ::
  "'u deps \<Rightarrow> profile_id \<Rightarrow> string \<Rightarrow> (connection, app_error, profile) io" where
  "sqlite_rename_profile K profile_id name =
     io_bind (sqlite_list_profiles K) (\<lambda>profiles.
     io_bind (io_of_res (ok_or ProfileNotFound (find (\<lambda>p. p_id p = profile_id) profiles))) (\<lambda>profile.
     io_bind (io_of_res (map_err AppDomain (profile_rename profile name))) (\<lambda>profile.
     rename_update K profile_id profile)))"

definition sqlite_set_active_profile :: "'u deps \<Rightarrow> profile_id \<Rightarrow> (connection, app_error, unit) io" where
  "sqlite_set_active_profile K profile_id =
     transaction (to_app_error K) (
       io_bind (profile_exists K profile_id) (\<lambda>exists.
       if \<not> exists then io_fail ProfileNotFound else
       io_bind (io_map_err (to_app_error K) update_deactivate) (\<lambda>updated.
       if updated = 0 then io_fail ActiveProfileMissing else
       io_bind (io_map_err (to_app_error K)
         (update_activate (profile_id_to_string (crates_of K) profile_id))) (\<lambda>updated.
       if updated \<noteq> 1 then io_fail ProfileNotFound else io_return ()))))"

text \<open>The row that stores one action of an assignment.\<close>

definition assignment_row_of ::
  "'u crates \<Rightarrow> profile_id \<Rightarrow> control_id \<Rightarrow> nat \<Rightarrow> action \<Rightarrow> assignment_row" where
  "assignment_row_of C profile_id control position action =
     (case (encode_action action, encode_control control) of
        ((kind, url), (page, control_kind, control_index, operation)) \<Rightarrow>
          \<lparr>ar_profile_id = profile_id_to_string C profile_id, ar_page_index = page,
           ar_control_kind = control_kind, ar_control_index = control_index,
           ar_control_operation = operation, ar_action_position = int position,
           ar_action_kind = kind, ar_action_url = url\<rparr>)"

text \<open>The loop \<open>for (position, action) in assignment.actions.iter().enumerate()\<close>.\<close>

fun insert_actions ::
  "'u deps \<Rightarrow> profile_id \<Rightarrow> control_id \<Rightarrow> nat \<Rightarrow> action list \<Rightarrow> (connection, app_error, unit) io" where
  "insert_actions K pid control position [] = io_return ()"
| "insert_actions K pid control position (action # actions) =
     io_bind (io_map_err (to_app_error K)
       (insert_assignment (assignment_row_of (crates_of K) pid control position action))) (\<lambda>_.
     insert_actions K pid control (Suc position) actions)"

definition sqlite_save_assignment :: "'u deps \<Rightarrow> assignment \<Rightarrow> (connection, app_error, unit) io" where
  "sqlite_save_assignment K assignment =
     transaction (to_app_error K) (
       io_bind (profile_exists K (a_profile_id assignment)) (\<lambda>exists.
       if \<not> exists then io_fail ProfileNotFound else
       io_bind (io_map_err (to_app_error K)
         (delete_assignment (profile_id_to_string (crates_of K) (a_profile_id assignment))
            (encode_control (a_control assignment)))) (\<lambda>_.
       insert_actions K (a_profile_id assignment) (a_control assignment) 0
         (a_actions assignment))))"

definition sqlite_clear_assignment ::
  "'u deps \<Rightarrow> profile_id \<Rightarrow> control_id \<Rightarrow> (connection, app_error, unit) io" where
  "sqlite_clear_assignment K profile_id control =
     io_bind (profile_exists K profile_id) (\<lambda>exists.
     if \<not> exists then io_fail ProfileNotFound else
     io_bind (io_map_err (to_app_error K)
       (delete_assignment (profile_id_to_string (crates_of K) profile_id) (encode_control control)))
       (\<lambda>_. io_return ()))"

definition sqlite_repository :: "'u deps \<Rightarrow> connection repository_ops" where
  "sqlite_repository K =
     \<lparr>ensure_default_profile = sqlite_ensure_default_profile K,
      create_profile = sqlite_create_profile K,
      list_profiles = sqlite_list_profiles K,
      rename_profile = sqlite_rename_profile K,
      set_active_profile = sqlite_set_active_profile K,
      save_assignment = sqlite_save_assignment K,
      clear_assignment = sqlite_clear_assignment K,
      load_snapshot_state = sqlite_load_snapshot_state K,
      find_assignment = sqlite_find_assignment K\<rparr>"

section \<open>Invariant and abstraction\<close>

definition wf_profile_rows :: "'u crates \<Rightarrow> profile_row list \<Rightarrow> bool" where
  "wf_profile_rows C rows \<longleftrightarrow>
     distinct (map pr_id rows) \<and> length (filter (\<lambda>r. pr_is_active r = 1) rows) \<le> 1 \<and>
     (\<forall>r \<in> set rows. (\<exists>pid. pr_id r = profile_id_to_string C pid) \<and>
        (pr_is_active r = 0 \<or> pr_is_active r = 1) \<and> trim (pr_name r) \<noteq> [])"

definition wf_assignment_rows :: "'u crates \<Rightarrow> tables \<Rightarrow> bool" where
  "wf_assignment_rows C t \<longleftrightarrow>
     distinct (map row_key (t_assignments t)) \<and>
     (\<forall>r \<in> set (t_assignments t). \<exists>pid c n act.
        select_exists (profile_id_to_string C pid) t \<and> wf_control c \<and> wf_action C act \<and>
        r = assignment_row_of C pid c n act)"

definition wf_tables :: "'u crates \<Rightarrow> tables \<Rightarrow> bool" where
  "wf_tables C t \<longleftrightarrow> wf_profile_rows C (t_profiles t) \<and> wf_assignment_rows C t"

definition sqlite_good :: "'u deps \<Rightarrow> connection \<Rightarrow> bool" where
  "sqlite_good K c \<longleftrightarrow>
     uuid_text_ok (crates_of K) \<and> foreign_keys c \<and> wf_tables (crates_of K) (db c)"

definition view_names :: "'u crates \<Rightarrow> tables \<Rightarrow> profile_id \<rightharpoonup> string" where
  "view_names C t pid =
     map_option pr_name (find (\<lambda>r. pr_id r = profile_id_to_string C pid) (t_profiles t))"

definition view_active :: "'u crates \<Rightarrow> tables \<Rightarrow> profile_id option" where
  "view_active C t =
     (case select_active t of
        None \<Rightarrow> None
      | Some r \<Rightarrow> (case profile_id_parse C (pr_id r) of Inl _ \<Rightarrow> None | Inr pid \<Rightarrow> Some pid))"

definition view_actions :: "'u crates \<Rightarrow> tables \<Rightarrow> profile_id \<times> control_id \<rightharpoonup> action list" where
  "view_actions C t = (\<lambda>(pid, c).
     case collect (\<lambda>r. decode_action C (ar_action_kind r) (ar_action_url r))
            (select_actions (profile_id_to_string C pid) (encode_control c) t) of
       Inl _ \<Rightarrow> None
     | Inr actions \<Rightarrow> if actions = [] then None else Some actions)"

definition tables_view :: "'u crates \<Rightarrow> tables \<Rightarrow> core_state" where
  "tables_view C t =
     \<lparr>st_names = view_names C t, st_active = view_active C t, st_actions = view_actions C t\<rparr>"

definition sqlite_view :: "'u deps \<Rightarrow> connection \<Rightarrow> core_state" where
  "sqlite_view K c = tables_view (crates_of K) (db c)"

end
