(* ===== verification/Keyro_Storage_View.thy ===== *)
theory Keyro_Storage_View
  imports Keyro_Storage
begin

text \<open>
  The tables as an abstract state: well-formed tables, what they decode to, and what inserting,
  updating and deleting rows does to the state that they stand for.
\<close>

section \<open>Codecs\<close>

lemma decode_encode_operation [simp]:
  "decode_encoder_operation (encode_encoder_operation op) = Inr op"
  by (cases op) (simp_all add: decode_encoder_operation_def)

lemma decode_encode_control:
  "wf_control c \<Longrightarrow> encode_control c = (page, kind, index, op) \<Longrightarrow>
   decode_control page kind index op = Inr c"
proof (cases c)
  case (Key p k)
  then show "wf_control c \<Longrightarrow> encode_control c = (page, kind, index, op) \<Longrightarrow> ?thesis"
    by (cases p; cases k) (auto simp: decode_control_def control_key_Inr)
next
  case (Encoder p e op')
  then show "wf_control c \<Longrightarrow> encode_control c = (page, kind, index, op) \<Longrightarrow> ?thesis"
    by (cases p; cases e) (auto simp: decode_control_def control_encoder_Inr)
qed

lemma decode_control_wf:
  "decode_control page kind index op = Inr c \<Longrightarrow>
   wf_control c \<and> encode_control c = (page, kind, index, op)"
  by (auto simp: decode_control_def decode_encoder_operation_def control_key_Inr control_encoder_Inr
      u8_of_int_Some split: if_splits)

lemma encode_control_inject:
  "wf_control c \<Longrightarrow> wf_control d \<Longrightarrow> encode_control c = encode_control d \<longleftrightarrow> c = d"
  by (metis decode_encode_control prod_cases4 sum.inject(2))

lemma decode_encode_action:
  "wf_action C act \<Longrightarrow> encode_action act = (kind, url) \<Longrightarrow> decode_action C kind url = Inr act"
  by (cases act) (auto simp: decode_action_def wf_safe_url_def)

lemma assignment_row_of_simps [simp]:
  "ar_profile_id (assignment_row_of C pid c n act) = profile_id_to_string C pid"
  "ar_action_position (assignment_row_of C pid c n act) = int n"
  "ar_action_kind (assignment_row_of C pid c n act) = fst (encode_action act)"
  "ar_action_url (assignment_row_of C pid c n act) = snd (encode_action act)"
  "on_control s k (assignment_row_of C pid c n act) \<longleftrightarrow>
     profile_id_to_string C pid = s \<and> encode_control c = k"
  by (cases k; auto simp: assignment_row_of_def split: prod.splits)+

lemma row_key_assignment_row_of:
  "row_key (assignment_row_of C pid c n act) =
     (case encode_control c of (page, kind, index, op) \<Rightarrow>
        (profile_id_to_string C pid, page, kind, index, op, int n))"
  by (auto simp: assignment_row_of_def row_key_def split: prod.splits)

lemma assignment_of_row_of:
  "uuid_text_ok C \<Longrightarrow> wf_control c \<Longrightarrow> wf_action C act \<Longrightarrow>
   assignment_of_row C (assignment_row_of C pid c n act) = Inr (pid, c, act)"
proof -
  assume a: "uuid_text_ok C" "wf_control c" "wf_action C act"
  obtain page kind index op where e: "encode_control c = (page, kind, index, op)"
    by (cases "encode_control c")
  obtain k u where f: "encode_action act = (k, u)" by (cases "encode_action act")
  from a e f show ?thesis
    by (simp add: assignment_of_row_def assignment_row_of_def decode_encode_control
        decode_encode_action)
qed

section \<open>Profiles\<close>

lemma profile_of_row_iff:
  assumes "uuid_text_ok C" and "\<exists>pid. pr_id r = profile_id_to_string C pid"
  shows "profile_of_row C r = Inr p \<longleftrightarrow>
    pr_id r = profile_id_to_string C (p_id p) \<and> pr_name r = p_name p \<and>
    (p_is_active p \<longleftrightarrow> pr_is_active r = 1)"
  using assms by (auto simp: profile_of_row_def profile_eq_iff)

lemma profile_of_row_ok:
  assumes "uuid_text_ok C" and "\<exists>pid. pr_id r = profile_id_to_string C pid"
  shows "\<exists>p. profile_of_row C r = Inr p"
  using assms by (auto simp: profile_of_row_def)

lemma view_names_iff:
  assumes "wf_profile_rows C (t_profiles t)"
  shows "view_names C t pid = Some n \<longleftrightarrow>
    (\<exists>r \<in> set (t_profiles t). pr_id r = profile_id_to_string C pid \<and> pr_name r = n)"
proof
  assume "view_names C t pid = Some n"
  then show "\<exists>r \<in> set (t_profiles t). pr_id r = profile_id_to_string C pid \<and> pr_name r = n"
    by (auto simp: view_names_def dest!: find_Some_mem)
next
  assume "\<exists>r \<in> set (t_profiles t). pr_id r = profile_id_to_string C pid \<and> pr_name r = n"
  then obtain r where "r \<in> set (t_profiles t)" "pr_id r = profile_id_to_string C pid" "pr_name r = n"
    by blast
  then show "view_names C t pid = Some n"
    using assms find_by_key [of pr_id "t_profiles t" r] by (simp add: view_names_def wf_profile_rows_def)
qed

lemma view_names_None:
  "view_names C t pid = None \<longleftrightarrow> \<not> select_exists (profile_id_to_string C pid) t"
  by (auto simp: view_names_def find_None_mem select_exists_def list_ex_iff)

lemma select_active_iff:
  assumes "wf_profile_rows C (t_profiles t)"
  shows "select_active t = Some r \<longleftrightarrow> r \<in> set (t_profiles t) \<and> pr_is_active r = 1"
  using assms find_only [of "\<lambda>r. pr_is_active r = 1" "t_profiles t" r]
  by (auto simp: select_active_def wf_profile_rows_def dest: find_Some_mem)

lemma view_active_iff:
  assumes "uuid_text_ok C" and "wf_profile_rows C (t_profiles t)"
  shows "view_active C t = Some pid \<longleftrightarrow>
    (\<exists>r \<in> set (t_profiles t). pr_id r = profile_id_to_string C pid \<and> pr_is_active r = 1)"
proof
  assume "view_active C t = Some pid"
  then obtain r where r: "r \<in> set (t_profiles t)" "pr_is_active r = 1"
    and "profile_id_parse C (pr_id r) = Inr pid"
    by (auto simp: view_active_def select_active_def dest!: find_Some_mem
        split: option.splits sum.splits)
  moreover from r(1) assms(2) obtain q where "pr_id r = profile_id_to_string C q"
    by (auto simp: wf_profile_rows_def)
  ultimately show
    "\<exists>r \<in> set (t_profiles t). pr_id r = profile_id_to_string C pid \<and> pr_is_active r = 1"
    using assms(1) by auto
next
  assume "\<exists>r \<in> set (t_profiles t). pr_id r = profile_id_to_string C pid \<and> pr_is_active r = 1"
  then obtain r where "r \<in> set (t_profiles t)" "pr_is_active r = 1"
    and r: "pr_id r = profile_id_to_string C pid" by blast
  then have "select_active t = Some r"
    using select_active_iff [OF assms(2)] by blast
  with r assms(1) show "view_active C t = Some pid"
    by (simp add: view_active_def)
qed

lemma view_active_None:
  assumes "uuid_text_ok C" and "wf_profile_rows C (t_profiles t)"
  shows "view_active C t = None \<longleftrightarrow> (\<forall>r \<in> set (t_profiles t). pr_is_active r \<noteq> 1)"
proof -
  have "view_active C t \<noteq> None \<longleftrightarrow> (\<exists>r \<in> set (t_profiles t). pr_is_active r = 1)"
    using view_active_iff [OF assms] assms(2) by (fastforce simp: wf_profile_rows_def)
  then show ?thesis by blast
qed

lemma is_profile_iff:
  assumes "uuid_text_ok C" and wf: "wf_profile_rows C (t_profiles t)"
  shows "is_profile (tables_view C t) p \<longleftrightarrow>
    (\<exists>r \<in> set (t_profiles t). profile_of_row C r = Inr p)"
proof
  assume "is_profile (tables_view C t) p"
  then obtain r where r: "r \<in> set (t_profiles t)" "pr_id r = profile_id_to_string C (p_id p)"
      "pr_name r = p_name p"
    and a: "p_is_active p \<longleftrightarrow> view_active C t = Some (p_id p)"
    by (auto simp: is_profile_def tables_view_def view_names_iff [OF wf])
  have "view_active C t = Some (p_id p) \<longleftrightarrow> pr_is_active r = 1"
    using r wf by (auto simp: view_active_iff [OF assms] wf_profile_rows_def distinct_map inj_on_def)
  with r a have "profile_of_row C r = Inr p"
    using assms(1) by (auto simp: profile_of_row_iff)
  with r(1) show "\<exists>r \<in> set (t_profiles t). profile_of_row C r = Inr p" by blast
next
  assume "\<exists>r \<in> set (t_profiles t). profile_of_row C r = Inr p"
  then obtain r where r: "r \<in> set (t_profiles t)" "pr_id r = profile_id_to_string C (p_id p)"
      "pr_name r = p_name p" "p_is_active p \<longleftrightarrow> pr_is_active r = 1"
    using assms wf by (auto simp: profile_of_row_iff wf_profile_rows_def)
  have "view_active C t = Some (p_id p) \<longleftrightarrow> pr_is_active r = 1"
    using r wf by (auto simp: view_active_iff [OF assms] wf_profile_rows_def distinct_map inj_on_def)
  with r show "is_profile (tables_view C t) p"
    by (auto simp: is_profile_def tables_view_def view_names_iff [OF wf])
qed

lemma collect_profiles_lists:
  assumes u: "uuid_text_ok C" and wf: "wf_profile_rows C (t_profiles t)"
    and ps: "collect (profile_of_row C) (select_profiles t) = Inr ps"
  shows "lists_profiles (tables_view C t) ps"
proof -
  let ?T = "profile_id_to_string C" and ?rows = "select_profiles t"
  have rows: "set ?rows = set (t_profiles t)" "mset (map pr_id ?rows) = mset (map pr_id (t_profiles t))"
    by (simp_all add: select_profiles_def)
  have len: "length ?rows = length ps" and conv: "\<And>i. i < length ps \<Longrightarrow> profile_of_row C (?rows ! i) = Inr (ps ! i)"
    using ps by (auto simp: collect_Inr_iff list_all2_conv_all_nth)
  have ids: "\<exists>pid. pr_id (?rows ! i) = ?T pid" if "i < length ps" for i
    using that wf rows(1) len nth_mem [of i ?rows] by (auto simp: wf_profile_rows_def)
  have "map pr_id ?rows = map (?T \<circ> p_id) ps"
    using len conv ids by (intro nth_equalityI) (auto simp: profile_of_row_iff [OF u])
  moreover have "distinct (map pr_id ?rows)"
    using wf rows(2) by (metis mset_eq_imp_distinct_iff wf_profile_rows_def)
  ultimately have "distinct (map p_id ps)"
    by (metis distinct_map map_map)
  moreover have "p \<in> set ps \<longleftrightarrow> (\<exists>r \<in> set (t_profiles t). profile_of_row C r = Inr p)" for p
    using len conv rows(1) by (auto simp: in_set_conv_nth) (metis in_set_conv_nth sum.inject(2))+
  ultimately show ?thesis
    by (auto simp: lists_profiles_def is_profile_iff [OF u wf])
qed

section \<open>Changes of the profiles\<close>

text \<open>A change of the profiles that drops no identifier keeps the assignments well-formed and seen
  as they were.\<close>

lemma wf_assignment_rows_profiles:
  assumes "wf_assignment_rows C t" and "\<And>s. select_exists s t \<Longrightarrow> select_exists s (t\<lparr>t_profiles := rows\<rparr>)"
  shows "wf_assignment_rows C (t\<lparr>t_profiles := rows\<rparr>)"
  using assms unfolding wf_assignment_rows_def by (simp, metis)

lemma view_actions_profiles [simp]: "view_actions C (t\<lparr>t_profiles := rows\<rparr>) = view_actions C t"
  by (simp add: view_actions_def select_actions_def fun_eq_iff)

lemma view_eqI:
  assumes u: "uuid_text_ok C" and wf: "wf_profile_rows C (t_profiles t)"
    and n: "\<And>pid n. st_names s pid = Some n \<longleftrightarrow>
      (\<exists>r \<in> set (t_profiles t). pr_id r = profile_id_to_string C pid \<and> pr_name r = n)"
    and a: "\<And>pid. st_active s = Some pid \<longleftrightarrow>
      (\<exists>r \<in> set (t_profiles t). pr_id r = profile_id_to_string C pid \<and> pr_is_active r = 1)"
    and "st_actions s = view_actions C t"
  shows "tables_view C t = s"
proof -
  have "view_names C t pid = st_names s pid" for pid
    by (rule option_Some_eqI) (simp only: n view_names_iff [OF wf])
  moreover have "view_active C t = st_active s"
    by (rule option_Some_eqI) (simp only: a view_active_iff [OF u wf])
  ultimately show ?thesis
    using assms(5) by (cases s) (auto simp: tables_view_def)
qed

lemma insert_profile_row:
  assumes u: "uuid_text_ok C" and wf: "wf_tables C t"
    and id: "pr_id row = profile_id_to_string C pid" and new: "\<not> select_exists (pr_id row) t"
    and act: "pr_is_active row = 0 \<or> pr_is_active row = 1 \<and> (\<forall>r \<in> set (t_profiles t). pr_is_active r \<noteq> 1)"
    and name: "trim (pr_name row) \<noteq> []"
  defines "t' \<equiv> t\<lparr>t_profiles := t_profiles t @ [row]\<rparr>"
  shows "wf_tables C t'"
    and "tables_view C t' =
      (if pr_is_active row = 1 then spec_activate pid else id) (spec_create pid (pr_name row) (tables_view C t))"
proof -
  have p: "wf_profile_rows C (t_profiles t)" using wf by (simp add: wf_tables_def)
  have fresh: "\<forall>r \<in> set (t_profiles t). pr_id r \<noteq> profile_id_to_string C pid"
    using new id by (auto simp: select_exists_def list_ex_iff)
  have len: "length (filter (\<lambda>r. pr_is_active r = 1) (t_profiles t')) \<le> 1"
    using p act by (auto simp: wf_profile_rows_def t'_def filter_empty_conv)
  have wfp: "wf_profile_rows C (t_profiles t')"
    using p act name id fresh len by (auto simp: wf_profile_rows_def t'_def)
  moreover have "wf_assignment_rows C t'"
    unfolding t'_def
    by (rule wf_assignment_rows_profiles) (use wf in \<open>auto simp: wf_tables_def select_exists_def\<close>)
  ultimately show "wf_tables C t'" by (simp add: wf_tables_def)
  show "tables_view C t' =
      (if pr_is_active row = 1 then spec_activate pid else id) (spec_create pid (pr_name row) (tables_view C t))"
  proof (rule view_eqI [OF u wfp], goal_cases)
    case (1 q n)
    then show ?case
      using fresh id by (auto simp: spec_defs tables_view_def t'_def view_names_iff [OF p]
          profile_id_to_string_inject [OF u])
  next
    case (2 q)
    then show ?case
      using act id by (auto simp: spec_defs tables_view_def t'_def view_active_iff [OF u p]
          profile_id_to_string_inject [OF u])
  next
    case 3
    then show ?case by (simp add: spec_defs tables_view_def t'_def)
  qed
qed

lemma length_filter_key:
  "distinct (map f xs) \<Longrightarrow> x \<in> set xs \<Longrightarrow> length (filter (\<lambda>y. f y = f x) xs) = 1"
proof (induction xs)
  case (Cons y ys)
  then show ?case by (cases "f y = f x") (auto simp: image_iff filter_empty_conv)
qed simp

text \<open>Renaming the row of a profile.\<close>

definition rename_row :: "string \<Rightarrow> string \<Rightarrow> profile_row \<Rightarrow> profile_row" where
  "rename_row pid name r = (if pr_id r = pid then r\<lparr>pr_name := name\<rparr> else r)"

lemma rename_row_simps [simp]:
  "pr_id (rename_row pid name r) = pr_id r"
  "pr_is_active (rename_row pid name r) = pr_is_active r"
  "pr_name (rename_row pid name r) = (if pr_id r = pid then name else pr_name r)"
  by (simp_all add: rename_row_def)

lemma select_exists_map:
  "(\<And>r. pr_id (f r) = pr_id r) \<Longrightarrow>
   select_exists s (t\<lparr>t_profiles := map f (t_profiles t)\<rparr>) = select_exists s t"
  by (simp add: select_exists_def list_ex_iff)

lemma rename_rows:
  assumes u: "uuid_text_ok C" and wf: "wf_tables C t" and name: "trim name \<noteq> []"
    and e: "select_exists (profile_id_to_string C pid) t"
  defines "t' \<equiv> t\<lparr>t_profiles := map (rename_row (profile_id_to_string C pid) name) (t_profiles t)\<rparr>"
  shows "wf_tables C t'" and "tables_view C t' = spec_create pid name (tables_view C t)"
proof -
  have p: "wf_profile_rows C (t_profiles t)" using wf by (simp add: wf_tables_def)
  have ids: "map pr_id (t_profiles t') = map pr_id (t_profiles t)"
    by (simp add: t'_def)
  have wfp: "wf_profile_rows C (t_profiles t')"
    using p name ids unfolding wf_profile_rows_def
    by (simp add: t'_def filter_map o_def)
  moreover have "wf_assignment_rows C t'"
    unfolding t'_def using wf
    by (intro wf_assignment_rows_profiles) (auto simp: wf_tables_def select_exists_map)
  ultimately show "wf_tables C t'" by (simp add: wf_tables_def)
  show "tables_view C t' = spec_create pid name (tables_view C t)"
  proof (rule view_eqI [OF u wfp], goal_cases)
    case (1 q n)
    then show ?case
      using e by (cases "q = pid") (auto simp: spec_defs tables_view_def t'_def view_names_iff [OF p]
          select_exists_def list_ex_iff profile_id_to_string_inject [OF u] cong: conj_cong)
  next
    case (2 q)
    then show ?case
      by (auto simp: spec_defs tables_view_def t'_def view_active_iff [OF u p])
  next
    case 3
    then show ?case by (simp add: spec_defs tables_view_def t'_def)
  qed
qed

text \<open>Switching the active flag to the row of a profile.\<close>

definition activate_row :: "string \<Rightarrow> profile_row \<Rightarrow> profile_row" where
  "activate_row pid r = r\<lparr>pr_is_active := (if pr_id r = pid then 1 else if pr_is_active r = 1 then 0 else pr_is_active r)\<rparr>"

lemma activate_row_simps [simp]:
  "pr_id (activate_row pid r) = pr_id r"
  "pr_name (activate_row pid r) = pr_name r"
  "pr_is_active (activate_row pid r) = 1 \<longleftrightarrow> pr_id r = pid"
  by (auto simp: activate_row_def)

lemma activate_rows:
  assumes u: "uuid_text_ok C" and wf: "wf_tables C t"
    and e: "select_exists (profile_id_to_string C pid) t"
  defines "t' \<equiv> t\<lparr>t_profiles := map (activate_row (profile_id_to_string C pid)) (t_profiles t)\<rparr>"
  shows "wf_tables C t'" and "tables_view C t' = spec_activate pid (tables_view C t)"
proof -
  let ?s = "profile_id_to_string C pid"
  have p: "wf_profile_rows C (t_profiles t)" using wf by (simp add: wf_tables_def)
  have ids: "map pr_id (t_profiles t') = map pr_id (t_profiles t)"
    by (simp add: t'_def)
  have "length (filter (\<lambda>r. pr_id r = ?s) rows) \<le> 1" if "distinct (map pr_id rows)" for rows
    using that by (induction rows) (auto simp: filter_empty_conv image_iff)
  then have "length (filter (\<lambda>r. pr_is_active r = 1) (t_profiles t')) \<le> 1"
    using p by (auto simp: t'_def filter_map o_def wf_profile_rows_def)
  then have wfp: "wf_profile_rows C (t_profiles t')"
    using p ids unfolding wf_profile_rows_def by (auto simp: t'_def filter_map o_def activate_row_def)
  moreover have "wf_assignment_rows C t'"
    unfolding t'_def using wf
    by (intro wf_assignment_rows_profiles) (auto simp: wf_tables_def select_exists_map)
  ultimately show "wf_tables C t'" by (simp add: wf_tables_def)
  show "tables_view C t' = spec_activate pid (tables_view C t)"
  proof (rule view_eqI [OF u wfp], goal_cases)
    case (1 q n)
    then show ?case
      by (auto simp: spec_defs tables_view_def t'_def view_names_iff [OF p])
  next
    case (2 q)
    then show ?case
      using e by (auto simp: spec_defs tables_view_def t'_def view_active_iff [OF u p]
          profile_id_to_string_inject [OF u] select_exists_def list_ex_iff)
  next
    case 3
    then show ?case by (simp add: spec_defs tables_view_def t'_def)
  qed
qed

section \<open>Changes of the assignments\<close>

lemma encode_control_inj: "encode_control c = encode_control d \<longleftrightarrow> c = d"
proof -
  have [simp]: "uint (page_index_get p) = uint (page_index_get q) \<longleftrightarrow> p = q" for p q
    by (cases p; cases q) (simp add: word_uint_eq_iff)
  have [simp]: "uint (key_index_get k) = uint (key_index_get l) \<longleftrightarrow> k = l" for k l
    by (cases k; cases l) (simp add: word_uint_eq_iff)
  have [simp]: "uint (encoder_index_get e) = uint (encoder_index_get f) \<longleftrightarrow> e = f" for e f
    by (cases e; cases f) (simp add: word_uint_eq_iff)
  have [simp]: "encode_encoder_operation a = encode_encoder_operation b \<longleftrightarrow> a = b" for a b
    by (cases a; cases b) simp_all
  show ?thesis by (cases c; cases d) auto
qed

text \<open>What \<open>decode_action\<close> makes of the rows of a control.\<close>

definition decode_row :: "'u crates \<Rightarrow> assignment_row \<Rightarrow> sql_error + action" where
  "decode_row C r = decode_action C (ar_action_kind r) (ar_action_url r)"

lemma decode_row_of [simp]:
  "wf_action C act \<Longrightarrow> decode_row C (assignment_row_of C pid c n act) = Inr act"
  by (simp add: decode_row_def decode_encode_action)

lemma view_actions_eq:
  "view_actions C t (pid, c) =
     (case collect (decode_row C) (select_actions (profile_id_to_string C pid) (encode_control c) t) of
        Inl _ \<Rightarrow> None | Inr actions \<Rightarrow> if actions = [] then None else Some actions)"
  by (simp add: view_actions_def decode_row_def [abs_def])

lemma view_names_assignments [simp]:
  "view_names C (t\<lparr>t_assignments := rows\<rparr>) = view_names C t"
  "view_active C (t\<lparr>t_assignments := rows\<rparr>) = view_active C t"
  "select_exists s (t\<lparr>t_assignments := rows\<rparr>) = select_exists s t"
  by (simp_all add: view_names_def view_active_def select_active_def select_exists_def fun_eq_iff)

lemma select_actions_filter:
  "select_actions s k (t\<lparr>t_assignments := filter P rows\<rparr>) =
     sort_key ar_action_position (filter (\<lambda>r. on_control s k r \<and> P r) rows)"
  by (simp add: select_actions_def filter_filter conj_commute)

lemma on_control_unique:
  "on_control s k r \<Longrightarrow> on_control s' k' r \<longleftrightarrow> s' = s \<and> k' = k"
  by (cases k; cases k') auto

lemma clear_rows:
  fixes pid c
  assumes u: "uuid_text_ok C" and wf: "wf_tables C t"
  defines "t' \<equiv> t\<lparr>t_assignments :=
    filter (\<lambda>r. \<not> on_control (profile_id_to_string C pid) (encode_control c) r) (t_assignments t)\<rparr>"
  shows "wf_tables C t'" and "tables_view C t' = spec_clear pid c (tables_view C t)"
proof -
  show "wf_tables C t'"
    using wf by (auto simp: wf_tables_def wf_assignment_rows_def t'_def intro: distinct_map_filter)
  have "view_actions C t' (q, d) = ((view_actions C t)((pid, c) := None)) (q, d)" for q d
  proof (cases "(q, d) = (pid, c)")
    case True
    then show ?thesis by (simp add: view_actions_eq t'_def select_actions_filter)
  next
    case False
    then have other: "on_control (profile_id_to_string C q) (encode_control d) r \<Longrightarrow>
        \<not> on_control (profile_id_to_string C pid) (encode_control c) r" for r
      by (auto simp: on_control_unique profile_id_to_string_inject [OF u] encode_control_inj)
    have "filter (\<lambda>r. on_control (profile_id_to_string C q) (encode_control d) r \<and>
        \<not> on_control (profile_id_to_string C pid) (encode_control c) r) (t_assignments t) =
      filter (on_control (profile_id_to_string C q) (encode_control d)) (t_assignments t)"
      by (rule filter_cong [OF refl]) (blast dest: other)
    with False show ?thesis
      by (auto simp add: view_actions_eq t'_def select_actions_filter) (simp_all add: select_actions_def)
  qed
  then have "view_actions C t' = (view_actions C t)((pid, c) := None)"
    by (intro ext) (simp only: split_paired_all)
  then show "tables_view C t' = spec_clear pid c (tables_view C t)"
    by (simp add: tables_view_def spec_clear_def t'_def)
qed

text \<open>The rows of an assignment.\<close>

definition rows_of :: "'u crates \<Rightarrow> profile_id \<Rightarrow> control_id \<Rightarrow> nat \<Rightarrow> action list \<Rightarrow> assignment_row list" where
  "rows_of C pid c n actions = map (\<lambda>(i, act). assignment_row_of C pid c i act) (enumerate n actions)"

lemma rows_of_simps [simp]:
  "rows_of C pid c n [] = []"
  "rows_of C pid c n (act # actions) =
     assignment_row_of C pid c n act # rows_of C pid c (Suc n) actions"
  by (simp_all add: rows_of_def)

lemma set_rows_of:
  "r \<in> set (rows_of C pid c n actions) \<Longrightarrow>
   \<exists>i act. n \<le> i \<and> act \<in> set actions \<and> r = assignment_row_of C pid c i act"
proof (induction actions arbitrary: n)
  case (Cons a actions)
  from Cons.prems Cons.IH [of "Suc n"] show ?case
    by (auto; meson Suc_leD)
qed simp

lemma filter_rows_of:
  "filter (on_control s k) (rows_of C pid c n actions) =
     (if s = profile_id_to_string C pid \<and> k = encode_control c then rows_of C pid c n actions else [])"
  by (induction actions arbitrary: n) auto

lemma distinct_rows_of: "distinct (map row_key (rows_of C pid c n actions))"
proof (induction actions arbitrary: n)
  case (Cons act actions)
  have "row_key (assignment_row_of C pid c n act) \<noteq> row_key r"
    if "r \<in> set (rows_of C pid c (Suc n) actions)" for r
    using set_rows_of [OF that] by (auto simp: row_key_assignment_row_of split: prod.splits)
  with Cons show ?case by auto
qed simp

lemma sorted_rows_of: "sorted (map ar_action_position (rows_of C pid c n actions))"
proof (induction actions arbitrary: n)
  case (Cons act actions)
  have "int n \<le> ar_action_position r" if "r \<in> set (rows_of C pid c (Suc n) actions)" for r
    using set_rows_of [OF that] by auto
  with Cons show ?case by auto
qed simp

lemma collect_rows_of:
  "\<forall>act \<in> set actions. wf_action C act \<Longrightarrow> collect (decode_row C) (rows_of C pid c n actions) = Inr actions"
  by (induction actions arbitrary: n) auto

lemma on_control_row_key:
  "row_key r = row_key r' \<Longrightarrow> on_control s k r = on_control s k r'"
  by (cases k) (auto simp: row_key_def)

lemma save_rows:
  assumes u: "uuid_text_ok C" and wf: "wf_tables C t" and a: "wf_assignment C a"
    and e: "select_exists (profile_id_to_string C (a_profile_id a)) t"
    and free: "\<forall>r \<in> set (t_assignments t).
      \<not> on_control (profile_id_to_string C (a_profile_id a)) (encode_control (a_control a)) r"
  defines "t' \<equiv> t\<lparr>t_assignments := t_assignments t @ rows_of C (a_profile_id a) (a_control a) 0 (a_actions a)\<rparr>"
  shows "wf_tables C t'" and "tables_view C t' = spec_save a (tables_view C t)"
proof -
  let ?p = "a_profile_id a" and ?c = "a_control a"
  let ?new = "rows_of C ?p ?c 0 (a_actions a)"
  have a': "wf_control ?c" "\<forall>act \<in> set (a_actions a). wf_action C act"
    using a by (auto simp: wf_assignment_def list_all_iff)
  have keys: "row_key r \<noteq> row_key r'" if "r \<in> set (t_assignments t)" and "r' \<in> set ?new" for r r'
  proof
    assume "row_key r = row_key r'"
    moreover have "on_control (profile_id_to_string C ?p) (encode_control ?c) r'"
      using set_rows_of [OF that(2)] by auto
    ultimately show False
      using free that(1) by (metis on_control_row_key)
  qed
  have "row_key ` set (t_assignments t) \<inter> row_key ` set ?new = {}"
  proof (rule equals0I, elim IntE imageE)
    fix x r r'
    assume "r \<in> set (t_assignments t)" "r' \<in> set ?new" "x = row_key r" "x = row_key r'"
    then show False using keys [of r r'] by simp
  qed
  then have "distinct (map row_key (t_assignments t'))"
    using wf by (simp add: t'_def wf_tables_def wf_assignment_rows_def distinct_rows_of)
  moreover have "\<exists>pid c n act. select_exists (profile_id_to_string C pid) t \<and> wf_control c \<and>
      wf_action C act \<and> r = assignment_row_of C pid c n act" if "r \<in> set ?new" for r
    using set_rows_of [OF that] e a' by blast
  ultimately show "wf_tables C t'"
    using wf unfolding wf_tables_def wf_assignment_rows_def by (auto simp: t'_def)
  have "view_actions C t' (q, d) = st_actions (spec_save a (tables_view C t)) (q, d)" for q d
  proof (cases "(q, d) = (?p, ?c)")
    case True
    have "filter (on_control (profile_id_to_string C ?p) (encode_control ?c)) (t_assignments t) = []"
      using free by (simp add: filter_empty_conv)
    with True show ?thesis
      by (auto simp: spec_save_def tables_view_def view_actions_eq t'_def select_actions_def filter_rows_of
          sorted_rows_of sort_key_id_if_sorted collect_rows_of [OF a'(2)])
  next
    case False
    then have "filter (on_control (profile_id_to_string C q) (encode_control d)) ?new = []"
      by (auto simp: filter_rows_of profile_id_to_string_inject [OF u] encode_control_inj)
    with False show ?thesis
      by (auto simp: spec_save_def tables_view_def view_actions_eq t'_def select_actions_def)
  qed
  then have "view_actions C t' = st_actions (spec_save a (tables_view C t))"
    by (intro ext) (simp only: split_paired_all)
  then show "tables_view C t' = spec_save a (tables_view C t)"
    by (simp add: tables_view_def spec_save_def t'_def)
qed

section \<open>Listing the assignments\<close>

abbreviation assignment_key :: "assignment \<Rightarrow> profile_id \<times> control_id" where
  "assignment_key a \<equiv> (a_profile_id a, a_control a)"

definition actions_at :: "assignment list \<Rightarrow> profile_id \<times> control_id \<rightharpoonup> action list" where
  "actions_at as = map_of (map (\<lambda>a. (assignment_key a, a_actions a)) as)"

lemma actions_at_simps [simp]:
  "actions_at [] k = None"
  "actions_at (a # as) k = (if assignment_key a = k then Some (a_actions a) else actions_at as k)"
  by (auto simp: actions_at_def)

lemma actions_at_push [simp]:
  "actions_at (push_action pid c act as) k =
     (if k = (pid, c)
      then Some (case actions_at as k of None \<Rightarrow> [act] | Some acts \<Rightarrow> acts @ [act])
      else actions_at as k)"
  by (induction as) auto

lemma push_action_keys:
  "set (map assignment_key (push_action pid c act as)) = insert (pid, c) (set (map assignment_key as))"
  by (induction as) auto

lemma push_action_distinct:
  "distinct (map assignment_key as) \<Longrightarrow> distinct (map assignment_key (push_action pid c act as))"
proof (induction as)
  case (Cons a as)
  then show ?case
    using push_action_keys [of pid c act as] by (cases "assignment_key a = (pid, c)") auto
qed simp

lemma group_assignments_distinct:
  "distinct (map assignment_key as) \<Longrightarrow> distinct (map assignment_key (group_assignments xs as))"
  by (induction xs as rule: group_assignments.induct) (simp_all add: push_action_distinct)

text \<open>The actions that the rows hold for a control.\<close>

definition actions_in :: "(profile_id \<times> control_id \<times> action) list \<Rightarrow> profile_id \<times> control_id \<Rightarrow> action list" where
  "actions_in xs k = map (\<lambda>(pid, c, act). act) (filter (\<lambda>(pid, c, act). (pid, c) = k) xs)"

lemma actions_at_group:
  "actions_at (group_assignments xs as) k =
     (case actions_at as k of
        Some acts \<Rightarrow> Some (acts @ actions_in xs k)
      | None \<Rightarrow> if actions_in xs k = [] then None else Some (actions_in xs k))"
  by (induction xs as rule: group_assignments.induct)
    (auto simp: actions_in_def split: option.splits)

lemma mem_actions_at:
  "distinct (map assignment_key as) \<Longrightarrow>
   a \<in> set as \<longleftrightarrow> actions_at as (assignment_key a) = Some (a_actions a)"
proof (induction as)
  case (Cons b as)
  show ?case
  proof (cases "assignment_key b = assignment_key a")
    case True
    then have "a \<notin> set as" using Cons.prems by (auto simp: image_iff)
    with True show ?thesis by (auto simp: assignment_eq_iff)
  next
    case False
    then have "a \<noteq> b" by auto
    with False Cons show ?thesis by auto
  qed
qed simp

lemma collect_actions_in:
  assumes u: "uuid_text_ok C"
    and "\<forall>r \<in> set rows. \<exists>pid c n act. wf_control c \<and> wf_action C act \<and> r = assignment_row_of C pid c n act"
    and "collect (assignment_of_row C) rows = Inr xs"
  shows "collect (decode_row C)
      (filter (on_control (profile_id_to_string C pid) (encode_control c)) rows) =
    Inr (actions_in xs (pid, c))"
  using assms(2,3)
proof (induction rows arbitrary: xs)
  case Nil
  then show ?case by (simp add: actions_in_def)
next
  case (Cons r rows)
  from Cons.prems(1) obtain q d n act where r: "wf_control d" "wf_action C act"
    "r = assignment_row_of C q d n act" by auto
  with Cons.prems(2) u obtain ys where ys: "collect (assignment_of_row C) rows = Inr ys"
    and "xs = (q, d, act) # ys"
    by (auto simp: assignment_of_row_of split: sum.splits)
  with r Cons.IH [OF _ ys] Cons.prems(1) show ?case
    by (auto simp: actions_in_def profile_id_to_string_inject [OF u] encode_control_inj)
qed

lemma select_actions_of_assignments:
  "select_actions s k t = filter (on_control s k) (select_assignments t)"
proof -
  have "row_key r \<le> row_key r' \<longleftrightarrow> ar_action_position r \<le> ar_action_position r'"
    if "on_control s k r" and "on_control s k r'" for r r'
    using that by (cases k) (auto simp: row_key_def)
  then have "sort_key row_key (filter (on_control s k) (t_assignments t)) =
      sort_key ar_action_position (filter (on_control s k) (t_assignments t))"
    by (intro sort_key_order_cong) auto
  then show ?thesis
    by (simp add: select_actions_def select_assignments_def filter_sort)
qed

lemma group_lists_assignments:
  assumes u: "uuid_text_ok C" and wf: "wf_assignment_rows C t"
    and xs: "collect (assignment_of_row C) (select_assignments t) = Inr xs"
  shows "lists_assignments (tables_view C t) (group_assignments xs [])"
proof -
  let ?as = "group_assignments xs []"
  have d: "distinct (map assignment_key ?as)"
    by (rule group_assignments_distinct) simp
  have "\<forall>r \<in> set (select_assignments t).
      \<exists>pid c n act. wf_control c \<and> wf_action C act \<and> r = assignment_row_of C pid c n act"
    using wf unfolding wf_assignment_rows_def select_assignments_def set_sort by blast
  from collect_actions_in [OF u this xs]
  have "view_actions C t (pid, c) = actions_at ?as (pid, c)" for pid c
    by (simp add: view_actions_eq select_actions_of_assignments actions_at_group)
  then show ?thesis
    using mem_actions_at [OF d] d by (auto simp: lists_assignments_def tables_view_def)
qed

end
