(* ===== verification/Keyro_Storage_Correct.thy ===== *)
theory Keyro_Storage_Correct
  imports Keyro_Storage_View
begin

text \<open>
  The SQLite repository keeps its invariant and refines the abstract state: the laws of
  \<open>profile_repository\<close> for every operation, and the interpretation of the locale on them.
\<close>

section \<open>The laws\<close>

abbreviation sqlite_stands :: "'u deps \<Rightarrow> core_state \<Rightarrow> connection \<Rightarrow> bool" where
  "sqlite_stands K \<equiv> stands_for (sqlite_good K) (sqlite_view K)"

lemma sqlite_stands_iff:
  "sqlite_stands K s c \<longleftrightarrow>
     uuid_text_ok (crates_of K) \<and> foreign_keys c \<and> wf_tables (crates_of K) (db c) \<and>
     tables_view (crates_of K) (db c) = s"
  by (auto simp: stands_for_def sqlite_good_def sqlite_view_def)

lemma sqlite_stands_exists:
  "sqlite_stands K s c \<Longrightarrow>
   select_exists (profile_id_to_string (crates_of K) pid) (db c) \<longleftrightarrow> st_names s pid \<noteq> None"
  using view_names_None [of "crates_of K" "db c" pid] by (auto simp: sqlite_stands_iff tables_view_def)

lemma sqlite_stands_same:
  "sqlite_stands K s c \<Longrightarrow> db c' = db c \<and> foreign_keys c' = foreign_keys c \<Longrightarrow> sqlite_stands K s c'"
  by (simp add: sqlite_stands_iff)

text \<open>A call that only reads keeps the abstract state and returns what it reads off the tables.\<close>

lemma reads_only_law:
  assumes "reads_only m" and "\<And>c a c'. m c = (Inr a, c') \<Longrightarrow> sqlite_stands K s c \<Longrightarrow> Q a"
  shows "triple (sqlite_stands K s) m (\<lambda>a c. sqlite_stands K s c \<and> Q a) (sqlite_stands K s)"
  using assms by (intro tripleI) (blast dest: reads_onlyD sqlite_stands_same)+

lemma prepared_query_Inr:
  "io_bind prepare (\<lambda>_. query f) c = (Inr a, c') \<Longrightarrow> f (db c) = Inr a"
  by (auto simp: io_bind_eq_Inr dest!: query_Inr reads_onlyD [OF reads_only_prepare])

lemma reads_only_prepared: "reads_only (io_map_err g (io_bind prepare (\<lambda>_. query f)))"
  by (intro reads_only_map_err reads_only_bind) simp_all

lemma sqlite_list_law:
  "triple (sqlite_stands K s) (sqlite_list_profiles K)
     (\<lambda>ps c. sqlite_stands K s c \<and> lists_profiles s ps) (sqlite_stands K s)"
proof (rule reads_only_law)
  show "reads_only (sqlite_list_profiles K)"
    unfolding sqlite_list_profiles_def by (rule reads_only_prepared)
next
  fix c ps c'
  assume "sqlite_list_profiles K c = (Inr ps, c')" and "sqlite_stands K s c"
  then show "lists_profiles s ps"
    unfolding sqlite_list_profiles_def
    by (auto simp: sqlite_stands_iff wf_tables_def dest!: prepared_query_Inr intro: collect_profiles_lists)
qed

lemma sqlite_snapshot_law:
  "triple (sqlite_stands K s) (sqlite_load_snapshot_state K)
     (\<lambda>r c. sqlite_stands K s c \<and> lists_profiles s (ss_profiles r) \<and>
        lists_assignments s (ss_assignments r)) (sqlite_stands K s)"
proof -
  have ps: "triple (sqlite_stands K s) (list_profiles_locked K)
     (\<lambda>ps c. sqlite_stands K s c \<and> lists_profiles s ps) (sqlite_stands K s)"
    using sqlite_list_law [of K s] by (simp only: sqlite_list_profiles_def list_profiles_locked_def)
  have as: "triple (sqlite_stands K s) (list_assignments_locked K)
     (\<lambda>as c. sqlite_stands K s c \<and> lists_assignments s as) (sqlite_stands K s)"
  proof (rule reads_only_law)
    show "reads_only (list_assignments_locked K)"
      unfolding list_assignments_locked_def by (rule reads_only_prepared)
  next
    fix c as c'
    assume "list_assignments_locked K c = (Inr as, c')" and "sqlite_stands K s c"
    then show "lists_assignments s as"
      unfolding list_assignments_locked_def
      by (auto simp: sqlite_stands_iff wf_tables_def dest!: prepared_query_Inr
          intro: group_lists_assignments)
  qed
  show ?thesis
    unfolding sqlite_load_snapshot_state_def
    by (intro triple_bind [OF ps] triple_pure triple_bind [OF as] triple_return) simp
qed

lemma sqlite_find_law:
  "triple (sqlite_stands K s) (sqlite_find_assignment K pid c)
     (\<lambda>r w. sqlite_stands K s w \<and>
        r = map_option (\<lambda>as. \<lparr>a_profile_id = pid, a_control = c, a_actions = as\<rparr>)
              (st_actions s (pid, c))) (sqlite_stands K s)"
proof (rule reads_only_law)
  show "reads_only (sqlite_find_assignment K pid c)"
    unfolding sqlite_find_assignment_def by (intro reads_only_bind reads_only_prepared) simp
next
  fix w r w'
  assume "sqlite_find_assignment K pid c w = (Inr r, w')" and s: "sqlite_stands K s w"
  then obtain as where as: "collect (decode_row (crates_of K))
      (select_actions (profile_id_to_string (crates_of K) pid) (encode_control c) (db w)) = Inr as"
    and "r = (if as = [] then None else Some \<lparr>a_profile_id = pid, a_control = c, a_actions = as\<rparr>)"
    unfolding sqlite_find_assignment_def io_bind_eq_Inr [where m = "io_map_err _ _"] io_map_err_eq_Inr
    by (auto dest!: prepared_query_Inr simp: decode_row_def [abs_def])
  moreover from s as have "st_actions s (pid, c) = (if as = [] then None else Some as)"
    by (auto simp: sqlite_stands_iff tables_view_def view_actions_eq)
  ultimately show "r = map_option (\<lambda>as. \<lparr>a_profile_id = pid, a_control = c, a_actions = as\<rparr>)
      (st_actions s (pid, c))"
    by simp
qed

text \<open>A draw from the random source.\<close>

lemma profile_new_drawn:
  "with_rng (profile_new name act) c = (r, c') \<Longrightarrow>
   db c' = db c \<and> foreign_keys c' = foreign_keys c \<and>
   (\<forall>p. r = Inr p \<longrightarrow> trim name \<noteq> [] \<and> p_name p = name \<and> p_is_active p = act)"
  by (auto simp: with_rng_def profile_new_def profile_id_new_def new_v4_def validate_profile_name_def
      io_bind_def io_of_res_def io_return_def split: if_splits)

lemma drawn_law:
  "triple (sqlite_stands K s) (io_map_err g (with_rng (profile_new name act)))
     (\<lambda>p c. sqlite_stands K s c \<and> (trim name \<noteq> [] \<and> p_name p = name \<and> p_is_active p = act))
     (sqlite_stands K s)"
  by (rule triple_map_err, rule tripleI) (metis profile_new_drawn sqlite_stands_same)+

text \<open>An error that leaves the tables, and a success that changes them in a known way.\<close>

lemma change_law:
  assumes "\<And>c e c'. m c = (Inl e, c') \<Longrightarrow> db c' = db c \<and> foreign_keys c' = foreign_keys c"
    and "\<And>c a c'. m c = (Inr a, c') \<Longrightarrow> sqlite_stands K s c \<Longrightarrow> Q a c'"
  shows "triple (sqlite_stands K s) m Q (sqlite_stands K s)"
  using assms by (intro tripleI) (blast intro: sqlite_stands_same)+

lemma insert_profile_law:
  assumes act: "act = 0 \<or> act = 1" and name: "trim name \<noteq> []"
  shows "triple (sqlite_stands K s)
     (insert_profile (profile_id_to_string (crates_of K) pid) name act)
     (\<lambda>_ c. sqlite_stands K ((if act = 1 then spec_activate pid else id) (spec_create pid name s)) c \<and>
        st_names s pid = None \<and> (act = 1 \<longrightarrow> st_active s = None))
     (sqlite_stands K s)"
proof (rule change_law)
  fix c n c'
  assume s: "sqlite_stands K s c"
    and i: "insert_profile (profile_id_to_string (crates_of K) pid) name act c = (Inr n, c')"
  from insert_profile_Inr [OF i] obtain row where row:
    "pr_id row = profile_id_to_string (crates_of K) pid" "pr_name row = name" "pr_is_active row = act"
    and c': "db c' = (db c)\<lparr>t_profiles := t_profiles (db c) @ [row]\<rparr>" "foreign_keys c' = foreign_keys c"
    and new: "\<not> select_exists (pr_id row) (db c)"
    and none: "act = 1 \<longrightarrow> (\<forall>r \<in> set (t_profiles (db c)). pr_is_active r \<noteq> 1)"
    by blast
  note u = s [unfolded sqlite_stands_iff]
  have a: "pr_is_active row = 0 \<or>
      pr_is_active row = 1 \<and> (\<forall>r \<in> set (t_profiles (db c)). pr_is_active r \<noteq> 1)"
    using act none row by auto
  note rows = insert_profile_row [where t = "db c" and row = row, OF _ _ row(1) new a]
  have "st_names s pid = None"
    using new row(1) sqlite_stands_exists [OF s] by simp
  moreover have "st_active s = None" if "act = 1"
    using u none that view_active_None [of "crates_of K" "db c"]
    by (auto simp: tables_view_def wf_tables_def)
  ultimately show "sqlite_stands K ((if act = 1 then spec_activate pid else id) (spec_create pid name s)) c' \<and>
      st_names s pid = None \<and> (act = 1 \<longrightarrow> st_active s = None)"
    using rows u c' row name by (auto simp: sqlite_stands_iff)
qed (rule insert_profile_Inl)

lemma sqlite_create_law:
  "triple (sqlite_stands K s) (sqlite_create_profile K name)
     (\<lambda>p c. sqlite_stands K (spec_create (p_id p) name s) c \<and> trim name \<noteq> [] \<and>
        st_names s (p_id p) = None \<and> p_name p = name \<and> \<not> p_is_active p)
     (sqlite_stands K s)"
  unfolding sqlite_create_profile_def
proof (rule triple_bind [OF drawn_law triple_pure], elim conjE)
  fix p
  assume p: "trim name \<noteq> []" "p_name p = name" "p_is_active p = False"
  show "triple (sqlite_stands K s)
     (io_bind (io_map_err (to_app_error K)
       (insert_profile (profile_id_to_string (crates_of K) (p_id p)) (p_name p) 0)) (\<lambda>_. io_return p))
     (\<lambda>p c. sqlite_stands K (spec_create (p_id p) name s) c \<and> trim name \<noteq> [] \<and>
        st_names s (p_id p) = None \<and> p_name p = name \<and> \<not> p_is_active p)
     (sqlite_stands K s)"
    using p by (intro triple_bind [OF triple_map_err [OF insert_profile_law]] triple_return) auto
qed

lemma load_active_law:
  "triple (sqlite_stands K s) (io_map_err (to_app_error K) (load_active_profile K))
     (\<lambda>r c. sqlite_stands K s c \<and>
        (case r of None \<Rightarrow> st_active s = None | Some p \<Rightarrow> is_profile s p \<and> p_is_active p))
     (sqlite_stands K s)"
proof (rule triple_map_err, rule reads_only_law)
  show "reads_only (load_active_profile K)" by (simp add: load_active_profile_def)
next
  fix c r c'
  assume s: "sqlite_stands K s c" and "load_active_profile K c = (Inr r, c')"
  then have r: "(case select_active (db c) of None \<Rightarrow> Inr None
      | Some row \<Rightarrow> res_bind (profile_of_row (crates_of K) row) (\<lambda>p. Inr (Some p))) = Inr r"
    unfolding load_active_profile_def by (blast dest: query_Inr)
  have u: "uuid_text_ok (crates_of K)" and wf: "wf_profile_rows (crates_of K) (t_profiles (db c))"
    and v: "s = tables_view (crates_of K) (db c)"
    using s by (auto simp: sqlite_stands_iff wf_tables_def)
  show "case r of None \<Rightarrow> st_active s = None | Some p \<Rightarrow> is_profile s p \<and> p_is_active p"
  proof (cases "select_active (db c)")
    case None
    with r v show ?thesis by (auto simp: tables_view_def view_active_def)
  next
    case (Some row)
    then have row: "row \<in> set (t_profiles (db c))" "pr_is_active row = 1"
      using select_active_iff [OF wf] by auto
    from Some r obtain p where "r = Some p" and p: "profile_of_row (crates_of K) row = Inr p"
      by auto
    moreover from p row(2) have "p_is_active p"
      by (auto simp: profile_of_row_def)
    ultimately show ?thesis
      using v row(1) by (auto simp: is_profile_iff [OF u wf])
  qed
qed

lemma sqlite_ensure_law:
  "triple (sqlite_stands K s) (sqlite_ensure_default_profile K)
     (\<lambda>p w. sqlite_good K w \<and> is_profile (sqlite_view K w) p \<and> p_is_active p \<and>
        (case st_active s of
           Some _ \<Rightarrow> sqlite_view K w = s
         | None \<Rightarrow> st_names s (p_id p) = None \<and>
             sqlite_view K w = spec_activate (p_id p) (spec_create (p_id p) ''Default'' s)))
     (sqlite_stands K s)" (is "triple _ _ ?Q _")
  unfolding sqlite_ensure_default_profile_def
proof (rule triple_bind [OF load_active_law triple_pure])
  fix r
  assume r: "case r of None \<Rightarrow> st_active s = None | Some p \<Rightarrow> is_profile s p \<and> p_is_active p"
  show "triple (sqlite_stands K s)
     (case r of Some profile \<Rightarrow> io_return profile
      | None \<Rightarrow>
         io_bind (io_map_err AppDomain (with_rng (profile_new ''Default'' True))) (\<lambda>profile.
         io_bind (io_map_err (to_app_error K)
           (insert_profile (profile_id_to_string (crates_of K) (p_id profile)) (p_name profile) 1))
           (\<lambda>_. io_return profile))) ?Q (sqlite_stands K s)"
  proof (cases r)
    case (Some p)
    with r have "st_active s = Some (p_id p)" by (auto simp: is_profile_def)
    with r Some show ?thesis by (auto simp: stands_for_def intro!: triple_return)
  next
    case None
    with r have none: "st_active s = None" by simp
    have "triple (sqlite_stands K s)
       (io_bind (io_map_err (to_app_error K)
         (insert_profile (profile_id_to_string (crates_of K) (p_id p)) (p_name p) 1))
         (\<lambda>_. io_return p)) ?Q (sqlite_stands K s)"
      if p: "trim ''Default'' \<noteq> []" "p_name p = ''Default''" "p_is_active p" for p
    proof (intro triple_bind [OF triple_map_err [OF insert_profile_law [of 1]]] triple_return)
      fix w
      assume "sqlite_stands K ((if (1 :: int) = 1 then spec_activate (p_id p) else id)
          (spec_create (p_id p) (p_name p) s)) w \<and> st_names s (p_id p) = None \<and>
        ((1 :: int) = 1 \<longrightarrow> st_active s = None)"
      with p none show "?Q p w"
        by (auto simp: stands_for_def is_profile_def spec_defs)
    qed (use p in auto)
    with None show ?thesis
      by (auto intro!: triple_bind [OF drawn_law triple_pure])
  qed
qed

lemma rename_update_law:
  assumes "trim (p_name p) \<noteq> []" and n: "st_names s pid \<noteq> None"
  shows "triple (sqlite_stands K s) (rename_update K pid p)
    (\<lambda>q c. sqlite_stands K (spec_create pid (p_name p) s) c \<and> q = p) (sqlite_stands K s)"
proof -
  let ?pid = "profile_id_to_string (crates_of K) pid"
  have one: "length (filter (\<lambda>r. pr_id r = ?pid) (t_profiles (db c))) = 1" if "sqlite_stands K s c" for c
  proof -
    have "distinct (map pr_id (t_profiles (db c)))" and "select_exists ?pid (db c)"
      using that n sqlite_stands_exists [OF that]
      by (auto simp: sqlite_stands_iff wf_tables_def wf_profile_rows_def)
    then obtain r where "r \<in> set (t_profiles (db c))" "pr_id r = ?pid"
      by (auto simp: select_exists_def list_ex_iff)
    with length_filter_key [of pr_id "t_profiles (db c)" r] show ?thesis
      using \<open>distinct (map pr_id (t_profiles (db c)))\<close> by simp
  qed
  have "triple (sqlite_stands K s) (io_map_err (to_app_error K) (update_name (p_name p) ?pid))
     (\<lambda>n c. sqlite_stands K (spec_create pid (p_name p) s) c \<and> n = 1) (sqlite_stands K s)"
  proof (rule triple_map_err, rule change_law)
    fix c k c'
    assume s: "sqlite_stands K s c" and "update_name (p_name p) ?pid c = (Inr k, c')"
    then have k: "k = 1" and c': "foreign_keys c' = foreign_keys c"
      "db c' = (db c)\<lparr>t_profiles := map (rename_row ?pid (p_name p)) (t_profiles (db c))\<rparr>"
      using one [OF s] by (auto simp: update_name_def rename_row_def [abs_def] dest!: execute_Inr)
    note u = s [unfolded sqlite_stands_iff]
    have "select_exists ?pid (db c)"
      using n sqlite_stands_exists [OF s] by simp
    from rename_rows [OF _ _ assms(1) this] u k c'
    show "sqlite_stands K (spec_create pid (p_name p) s) c' \<and> k = 1"
      by (auto simp: sqlite_stands_iff)
  qed (simp only: update_name_def, erule execute_Inl)
  then show ?thesis
    unfolding rename_update_def
    by (rule triple_bind) (intro triple_pure, simp add: triple_return)
qed

text \<open>Where the profile is missing, renaming finds no row.\<close>

lemma rename_update_missing:
  assumes "st_names s pid = None"
  shows "triple (sqlite_stands K s) (rename_update K pid p) (\<lambda>_. sqlite_stands K s) (sqlite_stands K s)"
proof -
  let ?pid = "profile_id_to_string (crates_of K) pid"
  have "triple (sqlite_stands K s) (io_map_err (to_app_error K) (update_name (p_name p) ?pid))
     (\<lambda>n c. sqlite_stands K s c \<and> n = 0) (sqlite_stands K s)"
  proof (rule triple_map_err, rule change_law)
    fix c k c'
    assume s: "sqlite_stands K s c" and u: "update_name (p_name p) ?pid c = (Inr k, c')"
    have none: "\<forall>r \<in> set (t_profiles (db c)). pr_id r \<noteq> ?pid"
      using sqlite_stands_exists [OF s, of pid] assms by (auto simp: select_exists_def list_ex_iff)
    then have "map (\<lambda>r. if pr_id r = ?pid then r\<lparr>pr_name := p_name p\<rparr> else r) (t_profiles (db c)) = t_profiles (db c)"
      and "filter (\<lambda>r. pr_id r = ?pid) (t_profiles (db c)) = []"
      by (auto intro: map_idI simp: filter_empty_conv)
    with u have "foreign_keys c' = foreign_keys c" and "db c' = db c" and "k = 0"
      by (auto simp: update_name_def dest!: execute_Inr)
    with s show "sqlite_stands K s c' \<and> k = 0" by (simp add: sqlite_stands_iff)
  qed (simp only: update_name_def, erule execute_Inl)
  then show ?thesis
    unfolding rename_update_def
    by (rule triple_bind) (intro triple_pure, simp add: triple_fail)
qed

lemma sqlite_rename_law:
  "triple (sqlite_stands K s) (sqlite_rename_profile K pid name)
     (\<lambda>p w. sqlite_stands K (spec_create pid name s) w \<and> trim name \<noteq> [] \<and> st_names s pid \<noteq> None \<and>
        p = \<lparr>p_id = pid, p_name = name, p_is_active = (st_active s = Some pid)\<rparr>)
     (sqlite_stands K s)" (is "triple _ _ ?Q _")
  unfolding sqlite_rename_profile_def
proof (intro triple_bind [OF sqlite_list_law] triple_pure)
  fix ps
  assume ps: "lists_profiles s ps"
  let ?found = "io_of_res (ok_or ProfileNotFound (find (\<lambda>p. p_id p = pid) ps))"
  have found: "triple (sqlite_stands K s) ?found
     (\<lambda>p c. sqlite_stands K s c \<and> (p_id p = pid \<and> is_profile s p)) (sqlite_stands K s)"
    using ps by (intro triple_of_res) (auto simp: lists_profiles_def dest!: find_Some_mem)
  have renamed: "triple (sqlite_stands K s) (io_of_res (map_err AppDomain (profile_rename p name)))
     (\<lambda>q c. sqlite_stands K s c \<and> (trim name \<noteq> [] \<and> q = p\<lparr>p_name := name\<rparr>)) (sqlite_stands K s)"
    for p
    by (intro triple_of_res) (auto simp: profile_rename_def validate_profile_name_def split: if_splits)
  show "triple (sqlite_stands K s)
     (io_bind ?found (\<lambda>profile.
      io_bind (io_of_res (map_err AppDomain (profile_rename profile name))) (\<lambda>profile.
      rename_update K pid profile))) ?Q (sqlite_stands K s)"
  proof (intro triple_bind [OF found] triple_bind [OF renamed] triple_pure, elim conjE)
    fix p q
    assume p: "p_id p = pid" "is_profile s p" and q: "trim name \<noteq> []" "q = p\<lparr>p_name := name\<rparr>"
    then show "triple (sqlite_stands K s) (rename_update K pid q) ?Q (sqlite_stands K s)"
      by (intro triple_weaken [OF rename_update_law]) (auto simp: is_profile_def profile_eq_iff)
  qed
qed

lemma profile_exists_law:
  "triple (sqlite_stands K s) (profile_exists K pid)
     (\<lambda>b c. sqlite_stands K s c \<and> (b \<longleftrightarrow> st_names s pid \<noteq> None)) (sqlite_stands K s)"
  unfolding profile_exists_def
  by (rule triple_map_err, rule reads_only_law) (auto dest: query_Inr sqlite_stands_exists)

lemma delete_assignment_Inr:
  "delete_assignment s k c = (Inr n, c') \<Longrightarrow>
   foreign_keys c' = foreign_keys c \<and>
   db c' = (db c)\<lparr>t_assignments := filter (\<lambda>r. \<not> on_control s k r) (t_assignments (db c))\<rparr>"
  unfolding delete_assignment_def by (drule execute_Inr) auto

lemma delete_assignment_law:
  "triple (sqlite_stands K s)
     (delete_assignment (profile_id_to_string (crates_of K) pid) (encode_control c))
     (\<lambda>_. sqlite_stands K (spec_clear pid c s)) (sqlite_stands K s)"
proof (rule change_law)
  fix w n w'
  assume s: "sqlite_stands K s w"
    and "delete_assignment (profile_id_to_string (crates_of K) pid) (encode_control c) w = (Inr n, w')"
  then show "sqlite_stands K (spec_clear pid c s) w'"
    using clear_rows [of "crates_of K" "db w" pid c]
    by (auto simp: sqlite_stands_iff dest!: delete_assignment_Inr)
qed (simp only: delete_assignment_def, erule execute_Inl)

lemma sqlite_clear_law:
  "triple (sqlite_stands K s) (sqlite_clear_assignment K pid c)
     (\<lambda>_ w. sqlite_stands K (spec_clear pid c s) w \<and> st_names s pid \<noteq> None)
     (sqlite_stands K s)"
  unfolding sqlite_clear_assignment_def
proof (intro triple_bind [OF profile_exists_law] triple_pure)
  fix b
  assume "b = (st_names s pid \<noteq> None)"
  then show "triple (sqlite_stands K s)
     (if \<not> b then io_fail ProfileNotFound else
       io_bind (io_map_err (to_app_error K)
         (delete_assignment (profile_id_to_string (crates_of K) pid) (encode_control c)))
         (\<lambda>_. io_return ()))
     (\<lambda>_ w. sqlite_stands K (spec_clear pid c s) w \<and> st_names s pid \<noteq> None)
     (sqlite_stands K s)"
    by (auto intro!: triple_fail triple_bind [OF triple_map_err [OF delete_assignment_law]] triple_return)
qed

text \<open>A transaction whose body changes the tables in a known way when it succeeds.\<close>

definition keeps_pragma :: "(connection, 'e, 'a) io \<Rightarrow> bool" where
  "keeps_pragma m \<longleftrightarrow> (\<forall>c r c'. m c = (r, c') \<longrightarrow> foreign_keys c' = foreign_keys c)"

lemma keeps_pragma_reads: "reads_only m \<Longrightarrow> keeps_pragma m"
  by (simp add: keeps_pragma_def reads_only_def)

lemma keeps_pragma_bind:
  "keeps_pragma m \<Longrightarrow> (\<And>a. keeps_pragma (f a)) \<Longrightarrow> keeps_pragma (io_bind m f)"
  unfolding keeps_pragma_def io_bind_def
  by (auto split: prod.splits sum.splits)

lemma keeps_pragma_map_err: "keeps_pragma m \<Longrightarrow> keeps_pragma (io_map_err g m)"
  unfolding keeps_pragma_def io_map_err_def by (auto split: prod.splits)

lemma keeps_pragma_if: "keeps_pragma m \<Longrightarrow> keeps_pragma n \<Longrightarrow> keeps_pragma (if b then m else n)"
  by simp

lemma keeps_pragma_statements:
  "keeps_pragma (profile_exists K pid)" "keeps_pragma update_deactivate"
  "keeps_pragma (update_activate s)" "keeps_pragma (delete_assignment s k)"
  "keeps_pragma (insert_assignment row)"
  by (auto simp: keeps_pragma_def profile_exists_def update_deactivate_def update_activate_def
      delete_assignment_def io_map_err_def execute_pragma insert_assignment_pragma
      split: prod.splits dest: reads_onlyD [OF reads_only_query])

lemma keeps_pragma_pure:
  "keeps_pragma (io_return a)" "keeps_pragma (io_fail e)"
  by (simp_all add: keeps_pragma_def)

lemmas keeps_pragma_rules =
  keeps_pragma_bind keeps_pragma_if keeps_pragma_map_err keeps_pragma_statements keeps_pragma_pure

lemma transaction_law:
  assumes "keeps_pragma body"
    and "\<And>c a c'. sqlite_stands K s c \<Longrightarrow> body c = (Inr a, c') \<Longrightarrow> sqlite_stands K s' c' \<and> Q a"
  shows "triple (sqlite_stands K s) (transaction err body)
     (\<lambda>a c. sqlite_stands K s' c \<and> Q a) (sqlite_stands K s)"
proof (rule change_law)
  fix c e c'
  assume "transaction err body c = (Inl e, c')"
  then show "db c' = db c \<and> foreign_keys c' = foreign_keys c"
    using assms(1) by (intro transaction_Inl [of body]) (auto simp: keeps_pragma_def)
next
  fix c a c'
  assume s: "sqlite_stands K s c" and "transaction err body c = (Inr a, c')"
  from transaction_Inr [OF this(2)] obtain c1 c2
    where c1: "db c1 = db c \<and> foreign_keys c1 = foreign_keys c" and b: "body c1 = (Inr a, c2)"
      and c2: "db c' = db c2 \<and> foreign_keys c' = foreign_keys c2" by blast
  from assms(2) [OF sqlite_stands_same [OF s c1] b] sqlite_stands_same [OF _ c2]
  show "sqlite_stands K s' c' \<and> Q a" by blast
qed

lemma update_flags:
  assumes s: "sqlite_stands K s c" and n: "st_names s pid \<noteq> None"
    and d: "update_deactivate c = (Inr k, c1)"
    and a: "update_activate (profile_id_to_string (crates_of K) pid) c1 = (Inr l, c2)"
  shows "sqlite_stands K (spec_activate pid s) c2" and "k \<noteq> 0 \<Longrightarrow> st_active s \<noteq> None"
proof -
  let ?pid = "profile_id_to_string (crates_of K) pid"
  note u = s [unfolded sqlite_stands_iff]
  from d have k: "k = length (filter (\<lambda>r. pr_is_active r = 1) (t_profiles (db c)))"
    and c1: "foreign_keys c1 = foreign_keys c" "db c1 = (db c)\<lparr>t_profiles :=
      map (\<lambda>r. if pr_is_active r = 1 then r\<lparr>pr_is_active := 0\<rparr> else r) (t_profiles (db c))\<rparr>"
    by (auto simp: update_deactivate_def dest!: execute_Inr)
  from a have c2: "foreign_keys c2 = foreign_keys c1" "db c2 = (db c1)\<lparr>t_profiles :=
      map (\<lambda>r. if pr_id r = ?pid then r\<lparr>pr_is_active := 1\<rparr> else r) (t_profiles (db c1))\<rparr>"
    by (auto simp: update_activate_def Let_def dest!: execute_Inr split: if_splits)
  have "db c2 = (db c)\<lparr>t_profiles := map (activate_row ?pid) (t_profiles (db c))\<rparr>"
    by (auto simp: c1 c2 activate_row_def)
  with activate_rows [of "crates_of K" "db c" pid] u c1(1) c2(1) sqlite_stands_exists [OF s] n
  show "sqlite_stands K (spec_activate pid s) c2" by (simp add: sqlite_stands_iff)
  assume "k \<noteq> 0"
  then have "\<exists>r \<in> set (t_profiles (db c)). pr_is_active r = 1"
    unfolding k by (auto simp: filter_empty_conv)
  then show "st_active s \<noteq> None"
    using u view_active_None [of "crates_of K" "db c"] by (auto simp: tables_view_def wf_tables_def)
qed

lemma sqlite_activate_law:
  "triple (sqlite_stands K s) (sqlite_set_active_profile K pid)
     (\<lambda>_ w. sqlite_stands K (spec_activate pid s) w \<and> st_names s pid \<noteq> None \<and> st_active s \<noteq> None)
     (sqlite_stands K s)"
  unfolding sqlite_set_active_profile_def
proof (rule transaction_law)
  show "keeps_pragma
     (io_bind (profile_exists K pid) (\<lambda>exists.
      if \<not> exists then io_fail ProfileNotFound else
      io_bind (io_map_err (to_app_error K) update_deactivate) (\<lambda>updated.
      if updated = 0 then io_fail ActiveProfileMissing else
      io_bind (io_map_err (to_app_error K)
        (update_activate (profile_id_to_string (crates_of K) pid))) (\<lambda>updated.
      if updated \<noteq> 1 then io_fail ProfileNotFound else io_return ()))))"
    by (intro keeps_pragma_rules)
next
  fix c a c'
  assume s: "sqlite_stands K s c"
    and "io_bind (profile_exists K pid) (\<lambda>exists.
      if \<not> exists then io_fail ProfileNotFound else
      io_bind (io_map_err (to_app_error K) update_deactivate) (\<lambda>updated.
      if updated = 0 then io_fail ActiveProfileMissing else
      io_bind (io_map_err (to_app_error K)
        (update_activate (profile_id_to_string (crates_of K) pid))) (\<lambda>updated.
      if updated \<noteq> 1 then io_fail ProfileNotFound else io_return ()))) c = (Inr a, c')"
  then obtain c1 k c2 l where e: "profile_exists K pid c = (Inr True, c1)"
    and d: "update_deactivate c1 = (Inr k, c2)" "k \<noteq> 0"
    and a: "update_activate (profile_id_to_string (crates_of K) pid) c2 = (Inr l, c')"
    by (auto simp: io_bind_eq_Inr split: if_splits)
  from triple_Inr [OF profile_exists_law s e] have s1: "sqlite_stands K s c1" and n: "st_names s pid \<noteq> None"
    by auto
  show "sqlite_stands K (spec_activate pid s) c' \<and> st_names s pid \<noteq> None \<and> st_active s \<noteq> None"
    using update_flags [OF s1 n d(1) a] d(2) n by simp
qed

lemma insert_actions_Inr:
  "insert_actions K pid c n actions w = (Inr (), w') \<Longrightarrow>
   foreign_keys w' = foreign_keys w \<and>
   db w' = (db w)\<lparr>t_assignments := t_assignments (db w) @ rows_of (crates_of K) pid c n actions\<rparr>"
proof (induction actions arbitrary: n w)
  case (Cons act actions)
  from Cons.prems obtain k w1
    where i: "insert_assignment (assignment_row_of (crates_of K) pid c n act) w = (Inr k, w1)"
      and "insert_actions K pid c (Suc n) actions w1 = (Inr (), w')"
    by (auto simp: io_bind_eq_Inr)
  from Cons.IH [OF this(2)] insert_assignment_Inr [OF i] insert_assignment_pragma [OF i]
  show ?case by simp
qed simp

lemma insert_actions_pragma: "keeps_pragma (insert_actions K pid c n actions)"
  by (induction actions arbitrary: n) (auto intro: keeps_pragma_rules)

lemma sqlite_save_law:
  assumes "wf_assignment (crates_of K) a"
  shows "triple (sqlite_stands K s) (sqlite_save_assignment K a)
     (\<lambda>_ w. sqlite_stands K (spec_save a s) w \<and> st_names s (a_profile_id a) \<noteq> None)
     (sqlite_stands K s)"
  unfolding sqlite_save_assignment_def
proof (rule transaction_law)
  let ?C = "crates_of K" and ?p = "a_profile_id a" and ?c = "a_control a"
  let ?body = "io_bind (profile_exists K ?p) (\<lambda>exists.
      if \<not> exists then io_fail ProfileNotFound else
      io_bind (io_map_err (to_app_error K)
        (delete_assignment (profile_id_to_string ?C ?p) (encode_control ?c))) (\<lambda>_.
      insert_actions K ?p ?c 0 (a_actions a)))"
  show "keeps_pragma ?body"
    by (intro keeps_pragma_rules insert_actions_pragma)
  fix w r w'
  assume s: "sqlite_stands K s w" and "?body w = (Inr r, w')"
  then obtain w1 k w2 where e: "profile_exists K ?p w = (Inr True, w1)"
    and d: "delete_assignment (profile_id_to_string ?C ?p) (encode_control ?c) w1 = (Inr k, w2)"
    and i: "insert_actions K ?p ?c 0 (a_actions a) w2 = (Inr (), w')"
    by (auto simp: io_bind_eq_Inr split: if_splits)
  from triple_Inr [OF profile_exists_law s e] have s1: "sqlite_stands K s w1" and n: "st_names s ?p \<noteq> None"
    by auto
  from triple_Inr [OF delete_assignment_law s1 d] have s2: "sqlite_stands K (spec_clear ?p ?c s) w2" .
  have "\<forall>r \<in> set (t_assignments (db w2)). \<not> on_control (profile_id_to_string ?C ?p) (encode_control ?c) r"
    using delete_assignment_Inr [OF d] by simp
  from save_rows [OF _ _ assms _ this] s2 insert_actions_Inr [OF i] sqlite_stands_exists [OF s2, of ?p] n
  have "sqlite_stands K (spec_save a (spec_clear ?p ?c s)) w'"
    by (auto simp: sqlite_stands_iff spec_clear_def)
  moreover have "spec_save a (spec_clear ?p ?c s) = spec_save a s"
    by (simp add: spec_defs)
  ultimately show "sqlite_stands K (spec_save a s) w' \<and> st_names s ?p \<noteq> None"
    using n by simp
qed

lemma wf_tables_view:
  assumes u: "uuid_text_ok C" and wf: "wf_tables C t"
  shows "wf_state (tables_view C t)"
proof -
  have p: "wf_profile_rows C (t_profiles t)" using wf by (simp add: wf_tables_def)
  have "pid \<in> dom (view_names C t)" if "view_active C t = Some pid" for pid
    using that view_names_None [of C t pid]
    by (auto simp: view_active_iff [OF u p] select_exists_def list_ex_iff)
  moreover have "view_actions C t k \<noteq> Some []" for k
    by (cases k) (auto simp: view_actions_eq split: sum.splits)
  ultimately show ?thesis by (auto simp: wf_state_def tables_view_def)
qed

section \<open>The repository\<close>

interpretation sqlite: profile_repository "sqlite_repository K" "sqlite_good K" "sqlite_view K"
    "wf_assignment (crates_of K)" "\<lambda>_. True" for K :: "'u deps"
proof
  show "wf_state (sqlite_view K w)" if "sqlite_good K w" for w
    using that by (auto simp: sqlite_good_def sqlite_view_def intro: wf_tables_view)
qed (simp_all del: not_None_eq not_Some_eq add: sqlite_repository_def sqlite_ensure_law sqlite_create_law sqlite_list_law
    sqlite_rename_law sqlite_activate_law sqlite_save_law sqlite_clear_law sqlite_snapshot_law
    sqlite_find_law)

end
