(* ===== verification/Keyro_Protocol.thy ===== *)
theory Keyro_Protocol
  imports Keyro_Prelude
begin

text \<open>
  \<open>crates/core-protocol/src/lib.rs\<close>: the messages of the Core-Studio protocol, decoding of a client
  line, and the version handshake.  The JSON reader and writer of \<open>serde_json\<close>, with the
  implementations that \<open>serde\<close> derives for these types, are the record \<open>serde_json\<close>.
\<close>

definition PROTOCOL_VERSION :: string where "PROTOCOL_VERSION = ''0.3.0''"

definition PROTOCOL_MAJOR :: u16 where "PROTOCOL_MAJOR = 0"

definition PROTOCOL_MINOR :: u16 where "PROTOCOL_MINOR = 3"

section \<open>Client messages\<close>

datatype client_component = Studio

record protocol_version =
  pv_major :: u16
  pv_minor :: u16

definition protocol_version_current :: protocol_version where
  "protocol_version_current = \<lparr>pv_major = PROTOCOL_MAJOR, pv_minor = PROTOCOL_MINOR\<rparr>"

definition is_exactly :: "protocol_version \<Rightarrow> protocol_version \<Rightarrow> bool" where
  "is_exactly self other \<longleftrightarrow> pv_major self = pv_major other \<and> pv_minor self = pv_minor other"

datatype encoder_operation_dto = LeftDto | RightDto | PressDto

datatype control_dto =
    KeyDto (dto_page: u16) (dto_key: u16)
  | EncoderDto (dto_page: u16) (dto_encoder: u16) (dto_operation: encoder_operation_dto)

datatype action_dto = OpenUrlDto (dto_url: string)

record assignment_dto =
  ad_profile_id :: string
  ad_control :: control_dto
  ad_action :: action_dto

record handshake_message =
  hm_component :: client_component
  hm_component_version :: string
  hm_protocol :: protocol_version

datatype get_snapshot_message = GetSnapshotMessage

datatype list_profiles_message = ListProfilesMessage

record create_profile_message =
  cp_name :: string

record rename_profile_message =
  rp_profile_id :: string
  rp_name :: string

record set_active_profile_message =
  sap_profile_id :: string

record save_assignment_message =
  sa_assignment :: assignment_dto

record clear_assignment_message =
  ca_profile_id :: string
  ca_control :: control_dto

record virtual_control_input_message =
  vci_control :: control_dto

datatype client_message =
    CmHandshake handshake_message
  | CmGetSnapshot get_snapshot_message
  | CmListProfiles list_profiles_message
  | CmCreateProfile create_profile_message
  | CmRenameProfile rename_profile_message
  | CmSetActiveProfile set_active_profile_message
  | CmSaveAssignment save_assignment_message
  | CmClearAssignment clear_assignment_message
  | CmVirtualControlInput virtual_control_input_message

record client_envelope =
  ce_request_id :: string
  ce_message :: client_message

section \<open>Server messages\<close>

record profile_dto =
  pd_id :: string
  pd_name :: string
  pd_is_active :: bool

record device_layout_dto =
  dl_page_count :: u16
  dl_key_rows :: u16
  dl_key_columns :: u16
  dl_encoder_count :: u16

record snapshot_assignment_dto =
  sd_profile_id :: string
  sd_control :: control_dto
  sd_actions :: "action_dto list"

datatype action_failure_code =
    CodeOpenUrlFailed
  | CodeNoActionAssigned
  | CodeValidationFailed
  | CodeInternal

text \<open>The fields of each variant are in the order of the source.\<close>

datatype action_event_dto =
    EvRunning string string control_dto
  | EvSucceeded string
  | EvFailed string action_failure_code string

datatype error_code =
    IncompatibleProtocol
  | UnknownMessage
  | ValidationFailed
  | NotFound
  | Internal

record error_dto =
  ed_code :: error_code
  ed_message :: string

datatype server_message =
    MsgHandshakeAccepted string string protocol_version
  | MsgProfiles string "profile_dto list"
  | MsgProfile string profile_dto
  | MsgSnapshot string device_layout_dto "profile_dto list" "snapshot_assignment_dto list"
  | MsgAcknowledged string
  | MsgActionEvent action_event_dto
  | MsgError "string option" error_dto

text \<open>The request a message answers: none for an event.\<close>

fun reply_to :: "server_message \<Rightarrow> string option" where
  "reply_to (MsgHandshakeAccepted r _ _) = Some r"
| "reply_to (MsgProfiles r _) = Some r"
| "reply_to (MsgProfile r _) = Some r"
| "reply_to (MsgSnapshot r _ _ _) = Some r"
| "reply_to (MsgAcknowledged r) = Some r"
| "reply_to (MsgActionEvent _) = None"
| "reply_to (MsgError r _) = r"

fun is_event :: "server_message \<Rightarrow> bool" where
  "is_event (MsgActionEvent _) = True"
| "is_event _ = False"

section \<open>JSON\<close>

text \<open>\<open>serde_json::Value\<close>; a number is kept as its text.\<close>

datatype json_value =
    JNull
  | JBool bool
  | JNumber string
  | JString string
  | JArray "json_value list"
  | JObject "(string \<times> json_value) list"

text \<open>\<open>Value::get\<close> with a string index and \<open>Value::as_str\<close>.\<close>

fun value_get :: "string \<Rightarrow> json_value \<Rightarrow> json_value option" where
  "value_get k (JObject m) = map_of m k"
| "value_get k _ = None"

fun value_as_str :: "json_value \<Rightarrow> string option" where
  "value_as_str (JString s) = Some s"
| "value_as_str _ = None"

text \<open>Errors of \<open>serde_json\<close> are known by the text they print.\<close>

record serde_json =
  from_str_envelope :: "string \<Rightarrow> string + client_envelope"
  from_str_value :: "string \<Rightarrow> json_value option"
  to_string_message :: "server_message \<Rightarrow> string + string"

datatype protocol_error =
    DecodeError string
  | EncodeError string
  | EmptyRequestId

fun protocol_error_text :: "protocol_error \<Rightarrow> string" where
  "protocol_error_text (DecodeError e) = ''failed to decode client protocol envelope: '' @ e"
| "protocol_error_text (EncodeError e) = ''failed to encode server protocol message: '' @ e"
| "protocol_error_text EmptyRequestId = ''request_id cannot be empty''"

section \<open>Decoding, encoding, handshake\<close>

definition decode_client_envelope :: "serde_json \<Rightarrow> string \<Rightarrow> protocol_error + client_envelope" where
  "decode_client_envelope J line =
     res_bind (map_err DecodeError (from_str_envelope J line)) (\<lambda>envelope.
     if trim (ce_request_id envelope) = [] then Inl EmptyRequestId else Inr envelope)"

definition encode_server_message :: "serde_json \<Rightarrow> server_message \<Rightarrow> protocol_error + string" where
  "encode_server_message J message = map_err EncodeError (to_string_message J message)"

definition handshake_response :: "string \<Rightarrow> protocol_version \<Rightarrow> string \<Rightarrow> server_message" where
  "handshake_response request_id protocol core_version =
     (if is_exactly protocol protocol_version_current
      then MsgHandshakeAccepted request_id core_version protocol
      else MsgError (Some request_id)
             \<lparr>ed_code = IncompatibleProtocol, ed_message = ''unsupported protocol version''\<rparr>)"

section \<open>Facts\<close>

lemma decode_client_envelope_Inr:
  "decode_client_envelope J line = Inr env \<longleftrightarrow>
     from_str_envelope J line = Inr env \<and> trim (ce_request_id env) \<noteq> []"
  by (auto simp: decode_client_envelope_def split: if_splits)

lemma is_exactly_current: "is_exactly v protocol_version_current \<longleftrightarrow> v = protocol_version_current"
  by (cases v) (auto simp: is_exactly_def protocol_version_current_def)

lemma handshake_response_reply [simp]: "reply_to (handshake_response r v c) = Some r"
  by (simp add: handshake_response_def)

lemma handshake_response_accepted:
  "handshake_response r v c = MsgHandshakeAccepted r' c' v' \<longleftrightarrow>
     v = protocol_version_current \<and> r' = r \<and> c' = c \<and> v' = v"
  by (auto simp: handshake_response_def is_exactly_current)

end
