(* ===== verification/Keyro_Ipc.thy ===== *)
theory Keyro_Ipc
  imports Keyro_App Keyro_Protocol
begin

text \<open>
  \<open>crates/core-ipc/src/lib.rs\<close>: the protocol session of a connection (a state machine that takes a
  line and answers at once or asks for a command), the translation between messages and commands,
  and the error messages.  The commands it builds are well-formed, so they meet the hypotheses of
  the service's contract.
\<close>

section \<open>Errors\<close>

datatype ipc_error =
    IpcProtocol protocol_error
  | IpcDomain domain_error
  | HandshakeRequiresSession
  | IndexOutOfRange string u16

fun ipc_error_text :: "ipc_error \<Rightarrow> string" where
  "ipc_error_text (IpcProtocol e) = protocol_error_text e"
| "ipc_error_text (IpcDomain e) = domain_error_text e"
| "ipc_error_text HandshakeRequiresSession =
     ''handshake messages must be handled by the IPC session before command routing''"
| "ipc_error_text (IndexOutOfRange field value) =
     field @ '' index '' @ show_nat (unat value) @
     '' is outside the supported protocol adapter range''"

section \<open>From and to the protocol's data\<close>

definition u8_index :: "string \<Rightarrow> u16 \<Rightarrow> ipc_error + u8" where
  "u8_index field value = ok_or (IndexOutOfRange field value) (u8_of_u16 value)"

fun encoder_operation_from_dto :: "encoder_operation_dto \<Rightarrow> encoder_operation" where
  "encoder_operation_from_dto LeftDto = Left"
| "encoder_operation_from_dto RightDto = Right"
| "encoder_operation_from_dto PressDto = Press"

fun encoder_operation_to_dto :: "encoder_operation \<Rightarrow> encoder_operation_dto" where
  "encoder_operation_to_dto Left = LeftDto"
| "encoder_operation_to_dto Right = RightDto"
| "encoder_operation_to_dto Press = PressDto"

fun control_from_dto :: "control_dto \<Rightarrow> ipc_error + control_id" where
  "control_from_dto (KeyDto page key) =
     res_bind (u8_index ''page'' page) (\<lambda>page.
     res_bind (u8_index ''key'' key) (\<lambda>key.
     map_err IpcDomain (control_key page key)))"
| "control_from_dto (EncoderDto page encoder operation) =
     res_bind (u8_index ''page'' page) (\<lambda>page.
     res_bind (u8_index ''encoder'' encoder) (\<lambda>encoder.
     map_err IpcDomain (control_encoder page encoder (encoder_operation_from_dto operation))))"

fun control_to_dto :: "control_id \<Rightarrow> control_dto" where
  "control_to_dto (Key page key) =
     KeyDto (ucast (page_index_get page)) (ucast (key_index_get key))"
| "control_to_dto (Encoder page encoder operation) =
     EncoderDto (ucast (page_index_get page)) (ucast (encoder_index_get encoder))
       (encoder_operation_to_dto operation)"

fun action_from_dto :: "'u crates \<Rightarrow> action_dto \<Rightarrow> ipc_error + action" where
  "action_from_dto C (OpenUrlDto url) =
     res_bind (map_err IpcDomain (safe_url_parse C url)) (\<lambda>url. Inr (OpenUrl url))"

fun action_to_dto :: "action \<Rightarrow> action_dto" where
  "action_to_dto (OpenUrl url) = OpenUrlDto (safe_url_as_str url)"

definition assignment_from_dto :: "'u crates \<Rightarrow> assignment_dto \<Rightarrow> ipc_error + assignment" where
  "assignment_from_dto C assignment =
     res_bind (map_err IpcDomain (profile_id_parse C (ad_profile_id assignment))) (\<lambda>pid.
     res_bind (control_from_dto (ad_control assignment)) (\<lambda>control.
     res_bind (action_from_dto C (ad_action assignment)) (\<lambda>action.
     map_err IpcDomain (assignment_single pid control action))))"

definition profile_to_dto :: "'u crates \<Rightarrow> profile \<Rightarrow> profile_dto" where
  "profile_to_dto C profile =
     \<lparr>pd_id = profile_id_to_string C (p_id profile), pd_name = p_name profile,
      pd_is_active = p_is_active profile\<rparr>"

definition layout_to_dto :: "device_layout \<Rightarrow> device_layout_dto" where
  "layout_to_dto layout =
     \<lparr>dl_page_count = ucast (page_count layout), dl_key_rows = ucast (key_rows layout),
      dl_key_columns = ucast (key_columns layout), dl_encoder_count = ucast (encoder_count layout)\<rparr>"

definition snapshot_assignment_to_dto ::
  "'u crates \<Rightarrow> snapshot_assignment \<Rightarrow> snapshot_assignment_dto" where
  "snapshot_assignment_to_dto C assignment =
     \<lparr>sd_profile_id = profile_id_to_string C (sn_profile_id assignment),
      sd_control = control_to_dto (sn_control assignment),
      sd_actions = map action_to_dto (sn_actions assignment)\<rparr>"

fun action_failure_to_dto :: "action_failure \<Rightarrow> action_failure_code" where
  "action_failure_to_dto OpenUrlFailed = CodeOpenUrlFailed"

fun command_from_message :: "'u crates \<Rightarrow> client_message \<Rightarrow> ipc_error + core_command" where
  "command_from_message C (CmHandshake _) = Inl HandshakeRequiresSession"
| "command_from_message C (CmGetSnapshot _) = Inr GetSnapshot"
| "command_from_message C (CmListProfiles _) = Inr ListProfiles"
| "command_from_message C (CmCreateProfile message) = Inr (CreateProfile (cp_name message))"
| "command_from_message C (CmRenameProfile message) =
     res_bind (map_err IpcDomain (profile_id_parse C (rp_profile_id message))) (\<lambda>pid.
     Inr (RenameProfile pid (rp_name message)))"
| "command_from_message C (CmSetActiveProfile message) =
     res_bind (map_err IpcDomain (profile_id_parse C (sap_profile_id message))) (\<lambda>pid.
     Inr (SetActiveProfile pid))"
| "command_from_message C (CmSaveAssignment message) =
     res_bind (assignment_from_dto C (sa_assignment message)) (\<lambda>assignment.
     Inr (SaveAssignment assignment))"
| "command_from_message C (CmClearAssignment message) =
     res_bind (map_err IpcDomain (profile_id_parse C (ca_profile_id message))) (\<lambda>pid.
     res_bind (control_from_dto (ca_control message)) (\<lambda>control.
     Inr (ClearAssignment pid control)))"
| "command_from_message C (CmVirtualControlInput message) =
     res_bind (control_from_dto (vci_control message)) (\<lambda>control.
     Inr (VirtualControlInput control))"

section \<open>Messages to the client\<close>

fun response_from_core :: "'u crates \<Rightarrow> string \<Rightarrow> core_response \<Rightarrow> server_message" where
  "response_from_core C request_id (RespSnapshot snapshot) =
     MsgSnapshot request_id (layout_to_dto (cs_layout snapshot))
       (map (profile_to_dto C) (cs_profiles snapshot))
       (map (snapshot_assignment_to_dto C) (cs_assignments snapshot))"
| "response_from_core C request_id (RespProfiles profiles) =
     MsgProfiles request_id (map (profile_to_dto C) profiles)"
| "response_from_core C request_id (RespProfile profile) =
     MsgProfile request_id (profile_to_dto C profile)"
| "response_from_core C request_id RespAcknowledged = MsgAcknowledged request_id"

fun event_from_core :: "'u crates \<Rightarrow> core_event \<Rightarrow> server_message" where
  "event_from_core C (ActionRunning run_id profile_id control) =
     MsgActionEvent (EvRunning (action_run_id_to_string C run_id)
       (profile_id_to_string C profile_id) (control_to_dto control))"
| "event_from_core C (ActionSucceeded run_id) =
     MsgActionEvent (EvSucceeded (action_run_id_to_string C run_id))"
| "event_from_core C (ActionFailed run_id failure message) =
     MsgActionEvent (EvFailed (action_run_id_to_string C run_id)
       (action_failure_to_dto failure) message)"

definition protocol_error_message :: "string option \<Rightarrow> protocol_error \<Rightarrow> server_message" where
  "protocol_error_message request_id error =
     MsgError request_id
       \<lparr>ed_code = (case error of
          DecodeError _ \<Rightarrow> UnknownMessage
        | EncodeError _ \<Rightarrow> Internal
        | EmptyRequestId \<Rightarrow> ValidationFailed),
        ed_message = protocol_error_text error\<rparr>"

definition ipc_error_message :: "string option \<Rightarrow> ipc_error \<Rightarrow> server_message" where
  "ipc_error_message request_id error =
     MsgError request_id
       \<lparr>ed_code = (case error of
          IpcProtocol (DecodeError _) \<Rightarrow> UnknownMessage
        | IpcProtocol (EncodeError _) \<Rightarrow> Internal
        | IpcProtocol EmptyRequestId \<Rightarrow> ValidationFailed
        | IpcDomain _ \<Rightarrow> ValidationFailed
        | IndexOutOfRange _ _ \<Rightarrow> ValidationFailed
        | HandshakeRequiresSession \<Rightarrow> ValidationFailed),
        ed_message = ipc_error_text error\<rparr>"

definition error_message :: "string option \<Rightarrow> app_error \<Rightarrow> server_message" where
  "error_message request_id error =
     (case (case error of
          AppDomain _ \<Rightarrow> (ValidationFailed, ''validation failed'')
        | ActiveProfileMissing \<Rightarrow> (ValidationFailed, ''validation failed'')
        | AssignmentNotFound \<Rightarrow> (ValidationFailed, ''validation failed'')
        | AssignmentHasNoAction \<Rightarrow> (ValidationFailed, ''validation failed'')
        | ProfileNotFound \<Rightarrow> (NotFound, ''profile not found'')
        | AppOpenUrl _ \<Rightarrow> (Internal, ''command failed'')
        | Storage _ \<Rightarrow> (Internal, ''command failed'')
        | EventSink _ \<Rightarrow> (Internal, ''command failed''))
      of (code, message) \<Rightarrow>
        MsgError request_id \<lparr>ed_code = code, ed_message = message\<rparr>)"

definition encode_protocol_message :: "serde_json \<Rightarrow> server_message \<Rightarrow> ipc_error + string" where
  "encode_protocol_message J message = map_err IpcProtocol (encode_server_message J message)"

section \<open>The session\<close>

datatype session_state = AwaitingHandshake | Established

record protocol_session =
  core_version :: string
  session_state :: session_state

definition protocol_session_new :: "string \<Rightarrow> protocol_session" where
  "protocol_session_new version = \<lparr>core_version = version, session_state = AwaitingHandshake\<rparr>"

datatype protocol_dispatch =
    Immediate server_message
  | Command (d_request_id: string) (d_command: core_command)

text \<open>The optional request identifier of a line that is not a valid envelope.\<close>

definition extract_request_id :: "serde_json \<Rightarrow> string \<Rightarrow> string option" where
  "extract_request_id J line =
     (case from_str_value J line of
        None \<Rightarrow> None
      | Some value \<Rightarrow>
          (case Option.bind (value_get ''request_id'' value) value_as_str of
             None \<Rightarrow> None
           | Some request_id \<Rightarrow> if trim request_id = [] then None else Some request_id))"

definition dispatch_envelope ::
  "'u crates \<Rightarrow> protocol_session \<Rightarrow> client_envelope \<Rightarrow> protocol_dispatch \<times> protocol_session" where
  "dispatch_envelope C self envelope =
     (case ce_message envelope of
        CmHandshake message \<Rightarrow>
          if session_state self = Established
          then (Immediate (MsgError (Some (ce_request_id envelope))
                  \<lparr>ed_code = ValidationFailed,
                   ed_message = ''handshake already completed for this connection''\<rparr>), self)
          else
            let response =
              handshake_response (ce_request_id envelope) (hm_protocol message) (core_version self)
            in (Immediate response,
                case response of
                  MsgHandshakeAccepted _ _ _ \<Rightarrow> self\<lparr>session_state := Established\<rparr>
                | _ \<Rightarrow> self)
      | message \<Rightarrow>
          if session_state self = Established
          then
            (case command_from_message C message of
               Inr command \<Rightarrow> (Command (ce_request_id envelope) command, self)
             | Inl error \<Rightarrow>
                 (Immediate (ipc_error_message (Some (ce_request_id envelope)) error), self))
          else (Immediate (MsgError (Some (ce_request_id envelope))
                  \<lparr>ed_code = ValidationFailed,
                   ed_message = ''handshake required before command routing''\<rparr>), self))"

definition receive_line ::
  "serde_json \<Rightarrow> 'u crates \<Rightarrow> protocol_session \<Rightarrow> string \<Rightarrow> protocol_dispatch \<times> protocol_session" where
  "receive_line J C self line =
     (case decode_client_envelope J line of
        Inr envelope \<Rightarrow> dispatch_envelope C self envelope
      | Inl error \<Rightarrow>
          (Immediate (protocol_error_message (extract_request_id J line) error), self))"

text \<open>A session fed with lines one after the other.\<close>

fun receive_lines ::
  "serde_json \<Rightarrow> 'u crates \<Rightarrow> protocol_session \<Rightarrow> string list \<Rightarrow>
   protocol_dispatch list \<times> protocol_session" where
  "receive_lines J C self [] = ([], self)"
| "receive_lines J C self (line # lines) =
     (case receive_line J C self line of (d, self') \<Rightarrow>
        (case receive_lines J C self' lines of (ds, self'') \<Rightarrow> (d # ds, self'')))"

section \<open>Facts\<close>

lemma u8_index_Inr: "u8_index field v = Inr b \<longleftrightarrow> v = ucast b"
  by (simp add: u8_index_def u8_of_u16_Some)

lemma operation_from_to_dto [simp]: "encoder_operation_from_dto (encoder_operation_to_dto op) = op"
  by (cases op) simp_all

lemma operation_to_from_dto [simp]: "encoder_operation_to_dto (encoder_operation_from_dto op) = op"
  by (cases op) simp_all

lemma control_from_dto_Inr:
  "control_from_dto dto = Inr c \<longleftrightarrow> wf_control c \<and> control_to_dto c = dto"
proof (cases dto)
  case (KeyDto p k)
  show ?thesis
  proof (cases c)
    case (Key q l)
    with KeyDto show ?thesis
      by (cases q; cases l) (auto simp: u8_index_Inr control_key_Inr)
  qed (auto simp: KeyDto u8_index_Inr control_key_Inr)
next
  case (EncoderDto p e op)
  show ?thesis
  proof (cases c)
    case (Encoder q f op')
    with EncoderDto show ?thesis
      by (cases q; cases f) (auto simp: u8_index_Inr control_encoder_Inr)
  qed (auto simp: EncoderDto u8_index_Inr control_encoder_Inr)
qed

lemma action_from_dto_Inr:
  "action_from_dto C dto = Inr act \<longleftrightarrow> wf_action C act \<and> action_to_dto act = dto"
  by (cases dto; cases act) (auto simp: wf_safe_url_def safe_url_parse_Inr)

lemma assignment_from_dto_wf: "assignment_from_dto C dto = Inr a \<Longrightarrow> wf_assignment C a"
  by (auto simp: assignment_from_dto_def control_from_dto_Inr action_from_dto_Inr wf_assignment_def)

lemma command_from_message_wf: "command_from_message C m = Inr cmd \<Longrightarrow> wf_command C cmd"
  by (cases m)
    (auto simp: wf_command_def control_from_dto_Inr dest: assignment_from_dto_wf)

lemma response_from_core_reply [simp]: "reply_to (response_from_core C r resp) = Some r"
  by (cases resp) simp_all

lemma error_message_reply [simp]: "reply_to (error_message r e) = r"
  by (cases e) (simp_all add: error_message_def)

lemma ipc_error_message_reply [simp]: "reply_to (ipc_error_message r e) = r"
  by (simp add: ipc_error_message_def)

lemma protocol_error_message_reply [simp]: "reply_to (protocol_error_message r e) = r"
  by (simp add: protocol_error_message_def)

lemma not_is_event [simp]:
  "\<not> is_event (response_from_core C r resp)" "\<not> is_event (error_message i e)"
  "\<not> is_event (handshake_response r v c)"
  by (cases resp; simp) (simp_all add: error_message_def handshake_response_def split: app_error.split)

text \<open>The replies a dispatch can lead to, whatever the service answers.\<close>

fun dispatch_reply_id :: "protocol_dispatch \<Rightarrow> string option" where
  "dispatch_reply_id (Immediate m) = reply_to m"
| "dispatch_reply_id (Command r _) = Some r"

lemma dispatch_envelope_reply:
  "dispatch_envelope C s env = (d, s') \<Longrightarrow> dispatch_reply_id d = Some (ce_request_id env)"
  by (auto simp: dispatch_envelope_def Let_def split: client_message.splits if_splits sum.splits)

lemma dispatch_envelope_command:
  "dispatch_envelope C s env = (Command r cmd, s') \<longleftrightarrow>
     s' = s \<and> session_state s = Established \<and> r = ce_request_id env \<and>
     command_from_message C (ce_message env) = Inr cmd"
  by (auto simp: dispatch_envelope_def Let_def split: client_message.splits if_splits sum.splits)

lemma dispatch_envelope_state:
  "dispatch_envelope C s env = (d, s') \<Longrightarrow>
   core_version s' = core_version s \<and>
   (s' = s \<or> session_state s = AwaitingHandshake \<and> session_state s' = Established \<and>
      d = Immediate (MsgHandshakeAccepted (ce_request_id env) (core_version s)
            protocol_version_current))"
  by (cases "session_state s")
    (auto simp: dispatch_envelope_def Let_def handshake_response_accepted
      split: client_message.splits if_splits sum.splits server_message.splits)

subsection \<open>A line\<close>

lemma receive_line_cases:
  assumes "receive_line J C s line = (d, s')"
  obtains (bad) e where "decode_client_envelope J line = Inl e" "s' = s"
      "d = Immediate (protocol_error_message (extract_request_id J line) e)"
  | (good) env where "decode_client_envelope J line = Inr env" "dispatch_envelope C s env = (d, s')"
  using assms by (auto simp: receive_line_def split: sum.splits)

text \<open>The identifier that the reply to a line carries: that of the envelope, or what can be read of
  one off a line that is no valid envelope.\<close>

definition line_request_id :: "serde_json \<Rightarrow> string \<Rightarrow> string option" where
  "line_request_id J line =
     (case decode_client_envelope J line of
        Inl _ \<Rightarrow> extract_request_id J line
      | Inr env \<Rightarrow> Some (ce_request_id env))"

lemma receive_line_reply:
  "receive_line J C s line = (d, s') \<Longrightarrow> dispatch_reply_id d = line_request_id J line"
  by (erule receive_line_cases) (auto simp: line_request_id_def dispatch_envelope_reply)

lemma line_request_id_not_blank: "line_request_id J line = Some r \<Longrightarrow> trim r \<noteq> []"
  by (auto simp: line_request_id_def extract_request_id_def decode_client_envelope_Inr
      split: sum.splits option.splits if_splits)

lemma receive_line_command:
  "receive_line J C s line = (Command r cmd, s') \<Longrightarrow>
   s' = s \<and> session_state s = Established \<and> wf_command C cmd"
  by (erule receive_line_cases) (auto simp: dispatch_envelope_command command_from_message_wf)

fun accepts :: "protocol_dispatch \<Rightarrow> bool" where
  "accepts (Immediate (MsgHandshakeAccepted _ _ _)) = True"
| "accepts _ = False"

lemma accepts_errors [simp]:
  "\<not> accepts (Immediate (protocol_error_message i e))" "\<not> accepts (Immediate (ipc_error_message i e'))"
  by (simp_all add: protocol_error_message_def ipc_error_message_def)

lemma receive_line_state:
  assumes "receive_line J C s line = (d, s')"
  shows "core_version s' = core_version s"
    and "accepts d \<longleftrightarrow> session_state s = AwaitingHandshake \<and> session_state s' = Established"
    and "\<not> accepts d \<Longrightarrow> s' = s"
    and "accepts d \<Longrightarrow> \<exists>r. d = Immediate (MsgHandshakeAccepted r (core_version s) protocol_version_current)"
proof -
  have "core_version s' = core_version s \<and>
    (accepts d \<longleftrightarrow> session_state s = AwaitingHandshake \<and> session_state s' = Established) \<and>
    (\<not> accepts d \<longrightarrow> s' = s) \<and>
    (accepts d \<longrightarrow> (\<exists>r. d = Immediate (MsgHandshakeAccepted r (core_version s) protocol_version_current)))"
    using assms
  proof (cases rule: receive_line_cases)
    case (bad e)
    then show ?thesis by simp
  next
    case (good env)
    then show ?thesis
      by (cases "session_state s")
        (auto simp: dispatch_envelope_def Let_def handshake_response_def is_exactly_current
          split: client_message.splits if_splits sum.splits)
  qed
  then show "core_version s' = core_version s"
    and "accepts d \<longleftrightarrow> session_state s = AwaitingHandshake \<and> session_state s' = Established"
    and "\<not> accepts d \<Longrightarrow> s' = s"
    and "accepts d \<Longrightarrow> \<exists>r. d = Immediate (MsgHandshakeAccepted r (core_version s) protocol_version_current)"
    by blast+
qed

subsection \<open>A run of lines\<close>

lemma receive_lines_length: "length (fst (receive_lines J C s ls)) = length ls"
  by (induction ls arbitrary: s) (simp_all split: prod.splits, metis fst_conv)

lemma receive_lines_replies:
  "map dispatch_reply_id (fst (receive_lines J C s ls)) = map (line_request_id J) ls"
proof (induction ls arbitrary: s)
  case (Cons line ls)
  obtain d s' where d: "receive_line J C s line = (d, s')" by fastforce
  with Cons [of s'] receive_line_reply [OF d] show ?case
    by (auto split: prod.splits)
qed simp

text \<open>From an established session no handshake is accepted again, and the state stays.\<close>

lemma receive_lines_established:
  "session_state s = Established \<Longrightarrow> receive_lines J C s ls = (ds, s') \<Longrightarrow>
   s' = s \<and> (\<forall>d \<in> set ds. \<not> accepts d)"
proof (induction ls arbitrary: s ds)
  case (Cons line ls)
  obtain d s1 where d: "receive_line J C s line = (d, s1)" by fastforce
  note st = receive_line_state [OF d]
  with Cons.prems have "\<not> accepts d" and "s1 = s" by auto
  with Cons d show ?case by (fastforce split: prod.splits)
qed simp

text \<open>Before the handshake is accepted no command leaves the session.\<close>

lemma receive_lines_commands:
  "receive_lines J C s ls = (ds, s') \<Longrightarrow> i < length ds \<Longrightarrow> ds ! i = Command r cmd \<Longrightarrow>
   wf_command C cmd \<and>
   (session_state s = Established \<or>
    (\<exists>j < i. \<exists>r'. ds ! j = Immediate (MsgHandshakeAccepted r' (core_version s) protocol_version_current)))"
proof (induction ls arbitrary: s ds i)
  case (Cons line ls)
  obtain d s1 where d: "receive_line J C s line = (d, s1)" by fastforce
  obtain ds1 where ds: "receive_lines J C s1 ls = (ds1, s')" "ds = d # ds1"
    using Cons.prems(1) d by (auto split: prod.splits)
  show ?case
  proof (cases i)
    case 0
    with Cons.prems(3) ds d show ?thesis by (auto dest: receive_line_command)
  next
    case (Suc k)
    with Cons.prems ds have k: "k < length ds1" "ds1 ! k = Command r cmd" by auto
    from Cons.IH [OF ds(1) k] consider "wf_command C cmd" "session_state s1 = Established"
      | j r' where "wf_command C cmd" "j < k"
        "ds1 ! j = Immediate (MsgHandshakeAccepted r' (core_version s1) protocol_version_current)"
      by blast
    then show ?thesis
    proof cases
      case 1
      then show ?thesis
        using receive_line_state(2-4) [OF d] ds(2) Suc
        by (cases "session_state s") (auto intro: exI [of _ 0])
    next
      case 2
      then show ?thesis
        using receive_line_state(1) [OF d] ds(2) Suc by (auto intro!: exI [of _ "Suc j"])
    qed
  qed
qed simp

lemma receive_lines_accepts_once:
  "receive_lines J C s ls = (ds, s') \<Longrightarrow> length (filter accepts ds) \<le> 1"
proof (induction ls arbitrary: s ds)
  case (Cons line ls)
  obtain d s1 where d: "receive_line J C s line = (d, s1)" by fastforce
  obtain ds1 where ds: "receive_lines J C s1 ls = (ds1, s')" "ds = d # ds1"
    using Cons.prems d by (auto split: prod.splits)
  show ?case
  proof (cases "accepts d")
    case True
    with receive_line_state(2) [OF d] have "\<forall>d \<in> set ds1. \<not> accepts d"
      using receive_lines_established [OF _ ds(1)] by simp
    then show ?thesis by (simp add: ds(2) filter_empty_conv)
  next
    case False
    with Cons.IH [OF ds(1)] show ?thesis by (simp add: ds(2))
  qed
qed simp

lemma receive_lines_final:
  "receive_lines J C s ls = (ds, s') \<Longrightarrow>
   session_state s' = Established \<longleftrightarrow> session_state s = Established \<or> (\<exists>d \<in> set ds. accepts d)"
proof (induction ls arbitrary: s ds)
  case (Cons line ls)
  obtain d s1 where d: "receive_line J C s line = (d, s1)" by fastforce
  obtain ds1 where ds: "receive_lines J C s1 ls = (ds1, s')" "ds = d # ds1"
    using Cons.prems d by (auto split: prod.splits)
  from Cons.IH [OF ds(1)] receive_line_state(2,3) [OF d] show ?case
    by (cases "session_state s"; cases "accepts d") (auto simp: ds(2))
qed simp

end
