(* ===== verification/Keyro_Platform.thy ===== *)
theory Keyro_Platform
  imports Keyro_App
begin

text \<open>
  \<open>crates/core-platform/src/lib.rs\<close>: \<open>SystemUrlOpener\<close>.  The function the three \<open>#[cfg]\<close> blocks
  define is one definition with the operating system as an argument, and running a program
  (\<open>Command::new(program).args(args).status()\<close>) is an argument too: it fails to launch with the text
  of an I/O error, or returns the exit code, \<open>None\<close> when a signal ended the program.
\<close>

datatype os = MacOs | Windows | OtherOs

type_synonym 'w command_status = "string \<Rightarrow> string list \<Rightarrow> ('w, string, int option) io"

datatype platform_error =
    LaunchFailed string
  | LaunchExited "int option" string
  | UnsupportedOs string

definition show_int :: "int \<Rightarrow> string" where
  "show_int i = (if i < 0 then ''-'' @ show_nat (nat (- i)) else show_nat (nat i))"

text \<open>\<open>{code:?}\<close> of an \<open>Option<i32>\<close>.\<close>

fun debug_code :: "int option \<Rightarrow> string" where
  "debug_code None = ''None''"
| "debug_code (Some i) = ''Some('' @ show_int i @ '')''"

fun platform_error_text :: "platform_error \<Rightarrow> string" where
  "platform_error_text (LaunchFailed e) = ''failed to launch URL opener: '' @ e"
| "platform_error_text (LaunchExited code url) =
     ''URL opener exited with code '' @ debug_code code @ '' for '' @ url"
| "platform_error_text (UnsupportedOs url) =
     ''URL opener is not supported on this OS for '' @ url"

text \<open>Launch the given opener and look at its status, as the macOS and Windows functions do.\<close>

definition launch_opener ::
  "'u crates \<Rightarrow> 'w command_status \<Rightarrow> string \<Rightarrow> string list \<Rightarrow> safe_url \<Rightarrow>
   ('w, platform_error, unit) io" where
  "launch_opener C run program args url =
     io_bind (io_map_err LaunchFailed (run program args)) (\<lambda>code.
     if code = Some 0 then io_return ()
     else io_fail (LaunchExited code (redacted_for_log C url)))"

fun open_url_with_system ::
  "os \<Rightarrow> 'u crates \<Rightarrow> 'w command_status \<Rightarrow> safe_url \<Rightarrow> ('w, platform_error, unit) io" where
  "open_url_with_system MacOs C run url =
     launch_opener C run ''/usr/bin/open'' [safe_url_as_str url] url"
| "open_url_with_system Windows C run url =
     launch_opener C run ''rundll32.exe'' [''url.dll,FileProtocolHandler'', safe_url_as_str url] url"
| "open_url_with_system OtherOs C run url = io_fail (UnsupportedOs (redacted_for_log C url))"

definition system_open_url ::
  "os \<Rightarrow> 'u crates \<Rightarrow> 'w command_status \<Rightarrow> safe_url \<Rightarrow> ('w, open_url_error, unit) io" where
  "system_open_url os C run url =
     io_map_err (\<lambda>error. OpenUrlError (platform_error_text error)) (open_url_with_system os C run url)"

section \<open>Facts\<close>

text \<open>The program and arguments that open a URL, if the system has an opener.\<close>

fun opener_command :: "os \<Rightarrow> safe_url \<Rightarrow> (string \<times> string list) option" where
  "opener_command MacOs url = Some (''/usr/bin/open'', [safe_url_as_str url])"
| "opener_command Windows url =
     Some (''rundll32.exe'', [''url.dll,FileProtocolHandler'', safe_url_as_str url])"
| "opener_command OtherOs url = None"

lemma open_url_with_system_eq:
  "open_url_with_system os C run url =
     (case opener_command os url of
        None \<Rightarrow> io_fail (UnsupportedOs (redacted_for_log C url))
      | Some (program, args) \<Rightarrow> launch_opener C run program args url)"
  by (cases os) simp_all

lemma keeps_launch_opener: "keeps P (run program args) \<Longrightarrow> keeps P (launch_opener C run program args url)"
  unfolding launch_opener_def by (intro keeps_bind keeps_map_err) auto

lemma keeps_system_open_url:
  "(\<And>program args. keeps P (run program args)) \<Longrightarrow> keeps P (system_open_url os C run url)"
  unfolding system_open_url_def open_url_with_system_eq
  by (intro keeps_map_err) (auto intro: keeps_launch_opener split: option.split)

end
