(* ===== verification/Keyro_Server.thy ===== *)
theory Keyro_Server
  imports Keyro_Storage_Correct Keyro_Ipc Keyro_Platform
begin

text \<open>
  \<open>crates/keyro-core/src/main.rs\<close>: one development connection.  The state \<open>world\<close> of a connection
  holds the database connection it shares with the others, what the client's socket and the
  launched programs will answer, and the list of external effects so far.  The event sink, the
  URL opener and the repository are the three parameters of \<open>CoreService\<close> on that state, and the
  interpretation of \<open>service_env\<close> shows that they meet the service's contract.
\<close>

section \<open>The world of a connection\<close>

text \<open>A line written in full, the part of a line that was written before an error, a program run.\<close>

datatype effect =
    LineSent string
  | LineCut string
  | Launched string "string list"

text \<open>How the next program ends, and how the next write ends: \<open>Some\<close> is an error after some bytes.
  When a list is exhausted, programs exit with 0 and writes succeed.\<close>

datatype launch = LaunchError string | ExitCode "int option"

record world =
  w_conn :: connection
  w_launches :: "launch list"
  w_writes :: "(nat \<times> string) option list"
  w_poisoned :: bool
  w_effects :: "effect list"

definition lift_conn :: "(connection, 'e, 'a) io \<Rightarrow> (world, 'e, 'a) io" where
  "lift_conn m = (\<lambda>w. case m (w_conn w) of (r, c) \<Rightarrow> (r, w\<lparr>w_conn := c\<rparr>))"

definition lift_repository :: "connection repository_ops \<Rightarrow> world repository_ops" where
  "lift_repository R =
     \<lparr>ensure_default_profile = lift_conn (ensure_default_profile R),
      create_profile = (\<lambda>name. lift_conn (create_profile R name)),
      list_profiles = lift_conn (list_profiles R),
      rename_profile = (\<lambda>pid name. lift_conn (rename_profile R pid name)),
      set_active_profile = (\<lambda>pid. lift_conn (set_active_profile R pid)),
      save_assignment = (\<lambda>a. lift_conn (save_assignment R a)),
      clear_assignment = (\<lambda>pid c. lift_conn (clear_assignment R pid c)),
      load_snapshot_state = lift_conn (load_snapshot_state R),
      find_assignment = (\<lambda>pid c. lift_conn (find_assignment R pid c))\<rparr>"

definition command_status :: "world command_status" where
  "command_status program args = (\<lambda>w.
     let (l, ls) = (case w_launches w of [] \<Rightarrow> (ExitCode (Some 0), []) | l # ls \<Rightarrow> (l, ls));
         w' = w\<lparr>w_launches := ls, w_effects := w_effects w @ [Launched program args]\<rparr>
     in case l of LaunchError e \<Rightarrow> (Inl e, w') | ExitCode code \<Rightarrow> (Inr code, w'))"

section \<open>Writing to the client\<close>

definition lock_writer :: "(world, string, unit) io" where
  "lock_writer = (\<lambda>w. if w_poisoned w then (Inl ''IPC writer lock poisoned'', w) else (Inr (), w))"

text \<open>\<open>writeln!(writer, "{encoded}")\<close>\<close>

definition write_line :: "string \<Rightarrow> (world, string, unit) io" where
  "write_line encoded = (\<lambda>w.
     case w_writes w of
       [] \<Rightarrow> (Inr (), w\<lparr>w_effects := w_effects w @ [LineSent encoded]\<rparr>)
     | None # ws \<Rightarrow> (Inr (), w\<lparr>w_writes := ws, w_effects := w_effects w @ [LineSent encoded]\<rparr>)
     | Some (n, e) # ws \<Rightarrow>
         (Inl e, w\<lparr>w_writes := ws, w_effects := w_effects w @ [LineCut (take n (encoded @ [char_of (10 :: nat)]))]\<rparr>))"

definition write_protocol_message :: "serde_json \<Rightarrow> server_message \<Rightarrow> (world, string, unit) io" where
  "write_protocol_message J message =
     io_bind (io_of_res (map_err ipc_error_text (encode_protocol_message J message))) (\<lambda>encoded.
     io_bind lock_writer (\<lambda>_.
     write_line encoded))"

definition ipc_event_sink ::
  "serde_json \<Rightarrow> 'u crates \<Rightarrow> core_event \<Rightarrow> (world, app_error, unit) io" where
  "ipc_event_sink J C event =
     io_map_err (\<lambda>error. EventSink (''failed to write action event to IPC client: '' @ error))
       (write_protocol_message J (event_from_core C event))"

section \<open>A connection\<close>

definition CARGO_PKG_VERSION :: string where "CARGO_PKG_VERSION = ''0.1.0''"

text \<open>\<open>CoreService::new(repository, url_opener, event_sink)\<close>\<close>

definition connection_service ::
  "'u deps \<Rightarrow> serde_json \<Rightarrow> (safe_url \<Rightarrow> (world, open_url_error, unit) io) \<Rightarrow> world core_service" where
  "connection_service K J opener =
     \<lparr>repository = lift_repository (sqlite_repository K), url_opener = opener,
      event_sink = ipc_event_sink J (crates_of K), random_v4 = lift_conn (with_rng new_v4)\<rparr>"

text \<open>The reply to a dispatched line: the service runs, and its failure becomes an error message.\<close>

fun dispatch_reply ::
  "'u deps \<Rightarrow> world core_service \<Rightarrow> protocol_dispatch \<Rightarrow> (world, string, server_message) io" where
  "dispatch_reply K service (Immediate message) = io_return message"
| "dispatch_reply K service (Command request_id command) =
     io_try (handle_command service command)
       (\<lambda>response. io_return (response_from_core (crates_of K) request_id response))
       (\<lambda>error. io_return (error_message (Some request_id) error))"

text \<open>The loop over \<open>reader.lines()\<close>; an item is a line, or the text of a read error.\<close>

fun connection_loop ::
  "'u deps \<Rightarrow> serde_json \<Rightarrow> world core_service \<Rightarrow> protocol_session \<Rightarrow> (string + string) list \<Rightarrow>
   (world, string, unit) io" where
  "connection_loop K J service session [] = io_return ()"
| "connection_loop K J service session (item # items) =
     io_bind (io_of_res item) (\<lambda>line.
     case receive_line J (crates_of K) session line of
       (dispatch, session') \<Rightarrow>
         io_bind (dispatch_reply K service dispatch) (\<lambda>reply.
         io_bind (write_protocol_message J reply) (\<lambda>_.
         connection_loop K J service session' items)))"

text \<open>\<open>cloned\<close> is the outcome of \<open>stream.try_clone()\<close>.\<close>

definition handle_dev_connection_inner ::
  "'u deps \<Rightarrow> serde_json \<Rightarrow> (safe_url \<Rightarrow> (world, open_url_error, unit) io) \<Rightarrow> string + unit \<Rightarrow>
   (string + string) list \<Rightarrow> (world, string, unit) io" where
  "handle_dev_connection_inner K J opener cloned items =
     io_bind (io_of_res cloned) (\<lambda>_.
     connection_loop K J (connection_service K J opener) (protocol_session_new CARGO_PKG_VERSION)
       items)"

text \<open>\<open>handle_dev_connection\<close> logs an error and drops it.\<close>

definition handle_dev_connection ::
  "os \<Rightarrow> 'u deps \<Rightarrow> serde_json \<Rightarrow> string + unit \<Rightarrow> (string + string) list \<Rightarrow> world \<Rightarrow> world" where
  "handle_dev_connection os K J cloned items w =
     snd (handle_dev_connection_inner K J (system_open_url os (crates_of K) command_status) cloned
       items w)"

section \<open>The service on the world\<close>

definition world_good :: "'u deps \<Rightarrow> world \<Rightarrow> bool" where
  "world_good K w \<longleftrightarrow> sqlite_good K (w_conn w)"

definition world_view :: "'u deps \<Rightarrow> world \<Rightarrow> core_state" where
  "world_view K w = sqlite_view K (w_conn w)"

fun whole :: "effect \<Rightarrow> bool" where
  "whole (LineCut _) = False"
| "whole _ = True"

text \<open>The effects of the connection, without lines cut by a write error.\<close>

definition world_trace :: "world \<Rightarrow> effect list" where
  "world_trace w = filter whole (w_effects w)"

abbreviation world_stands :: "'u deps \<Rightarrow> core_state \<Rightarrow> world \<Rightarrow> bool" where
  "world_stands K \<equiv> stands_for (world_good K) (world_view K)"

lemma world_stands_eq: "world_stands K s = (\<lambda>w. sqlite_stands K s (w_conn w))"
  by (simp add: fun_eq_iff stands_for_def world_good_def world_view_def)

lemma world_trace_simps [simp]:
  "world_trace (w\<lparr>w_conn := c\<rparr>) = world_trace w"
  "world_trace (w\<lparr>w_writes := ws\<rparr>) = world_trace w"
  "world_trace (w\<lparr>w_launches := ls\<rparr>) = world_trace w"
  "world_trace (w\<lparr>w_effects := es\<rparr>) = filter whole es"
  by (simp_all add: world_trace_def)

lemma lift_conn_triple:
  "triple P m Q E \<Longrightarrow>
   triple (\<lambda>w. P (w_conn w)) (lift_conn m) (\<lambda>a w. Q a (w_conn w)) (\<lambda>w. E (w_conn w))"
  by (auto simp: triple_def lift_conn_def split: prod.splits sum.splits)

lemma lift_conn_trace [simp]: "keeps (\<lambda>w. world_trace w = t) (lift_conn m)"
  by (auto simp: keeps_def lift_conn_def split: prod.splits)

lemma lift_repository_simps [simp]:
  "ensure_default_profile (lift_repository R) = lift_conn (ensure_default_profile R)"
  "create_profile (lift_repository R) name = lift_conn (create_profile R name)"
  "list_profiles (lift_repository R) = lift_conn (list_profiles R)"
  "rename_profile (lift_repository R) pid name = lift_conn (rename_profile R pid name)"
  "set_active_profile (lift_repository R) pid = lift_conn (set_active_profile R pid)"
  "save_assignment (lift_repository R) a = lift_conn (save_assignment R a)"
  "clear_assignment (lift_repository R) pid c = lift_conn (clear_assignment R pid c)"
  "load_snapshot_state (lift_repository R) = lift_conn (load_snapshot_state R)"
  "find_assignment (lift_repository R) pid c = lift_conn (find_assignment R pid c)"
  by (simp_all add: lift_repository_def)

lemmas lifted_laws =
  sqlite.ensure_default_law sqlite.create_law sqlite.list_law sqlite.rename_law
  sqlite.activate_law sqlite.save_law sqlite.clear_law sqlite.snapshot_law sqlite.find_law

interpretation lifted: profile_repository "lift_repository (sqlite_repository K)" "world_good K"
    "world_view K" "wf_assignment (crates_of K)" "\<lambda>_. True" for K :: "'u deps"
proof
  show "wf_state (world_view K w)" if "world_good K w" for w
    using that sqlite.wf_view by (simp add: world_good_def world_view_def)
qed (unfold world_stands_eq lift_repository_simps world_good_def world_view_def,
    (rule lifted_laws [THEN lift_conn_triple]; assumption?)+)

section \<open>The opener and the sink\<close>

text \<open>What opening a URL and sending an event add to the trace.\<close>

definition opened_by :: "os \<Rightarrow> safe_url \<Rightarrow> effect list" where
  "opened_by os url =
     (case opener_command os url of None \<Rightarrow> [] | Some (program, args) \<Rightarrow> [Launched program args])"

definition sent_line :: "serde_json \<Rightarrow> server_message \<Rightarrow> effect" where
  "sent_line J message =
     LineSent (case encode_protocol_message J message of Inl _ \<Rightarrow> [] | Inr encoded \<Rightarrow> encoded)"

lemma command_status_law:
  assumes "command_status program args w = (r, w')"
  shows "w_conn w' = w_conn w" and "world_trace w' = world_trace w @ [Launched program args]"
  using assms
  by (auto simp: command_status_def Let_def world_trace_def split: list.splits launch.splits)

lemma command_status_stands: "keeps (world_stands K s) (command_status program args)"
  by (rule keepsI) (simp add: world_stands_eq command_status_law)

lemma system_open_url_trace:
  assumes "system_open_url os C command_status url w = (r, w')"
  shows "world_trace w' = world_trace w @ opened_by os url"
proof (cases "opener_command os url")
  case None
  with assms show ?thesis
    by (auto simp: system_open_url_def open_url_with_system_eq io_map_err_def opened_by_def)
next
  case (Some pa)
  obtain program args where "pa = (program, args)" by (cases pa)
  moreover obtain r1 w1 where run: "command_status program args w = (r1, w1)" by fastforce
  ultimately have "w' = w1"
    using assms Some by (auto simp: system_open_url_def open_url_with_system_eq launch_opener_def
        io_map_err_def io_bind_def split: prod.splits sum.splits if_splits)
  with command_status_law(2) [OF run] Some \<open>pa = (program, args)\<close> show ?thesis
    by (simp add: opened_by_def)
qed

lemma write_line_law:
  assumes "write_line encoded w = (r, w')"
  shows "w_conn w' = w_conn w"
    and "world_trace w' = world_trace w @ (case r of Inl _ \<Rightarrow> [] | Inr _ \<Rightarrow> [LineSent encoded])"
  using assms by (auto simp: write_line_def world_trace_def split: list.splits option.splits)

lemma write_protocol_message_law:
  assumes "write_protocol_message J m w = (r, w')"
  shows "w_conn w' = w_conn w"
    and "world_trace w' = world_trace w @ (case r of Inl _ \<Rightarrow> [] | Inr _ \<Rightarrow> [sent_line J m])"
proof -
  consider e where "encode_protocol_message J m = Inl e" | t where "encode_protocol_message J m = Inr t"
    by (cases "encode_protocol_message J m")
  then have "w_conn w' = w_conn w \<and>
      world_trace w' = world_trace w @ (case r of Inl _ \<Rightarrow> [] | Inr _ \<Rightarrow> [sent_line J m])"
  proof cases
    case 1
    with assms show ?thesis
      by (auto simp: write_protocol_message_def io_bind_def)
  next
    case 2
    with assms have "r = Inl ''IPC writer lock poisoned'' \<and> w' = w \<or> write_line t w = (r, w')"
      by (auto simp: write_protocol_message_def io_bind_def lock_writer_def split: if_splits)
    with 2 show ?thesis
      by (cases r) (auto simp: sent_line_def dest: write_line_law)
  qed
  then show "w_conn w' = w_conn w"
    and "world_trace w' = world_trace w @ (case r of Inl _ \<Rightarrow> [] | Inr _ \<Rightarrow> [sent_line J m])"
    by blast+
qed

lemma ipc_event_sink_law:
  assumes "ipc_event_sink J C e w = (r, w')"
  shows "w_conn w' = w_conn w"
    and "world_trace w' = world_trace w @
      (case r of Inl _ \<Rightarrow> [] | Inr _ \<Rightarrow> [sent_line J (event_from_core C e)])"
proof -
  obtain r1 where r: "write_protocol_message J (event_from_core C e) w = (r1, w')"
    and "r = map_err (\<lambda>error. EventSink (''failed to write action event to IPC client: '' @ error)) r1"
    using assms by (auto simp: ipc_event_sink_def io_map_err_def split: prod.splits)
  with write_protocol_message_law [OF r] show "w_conn w' = w_conn w"
    and "world_trace w' = world_trace w @
      (case r of Inl _ \<Rightarrow> [] | Inr _ \<Rightarrow> [sent_line J (event_from_core C e)])"
    by (cases r1; simp)+
qed

lemma random_stands: "keeps (world_stands K s) (lift_conn (with_rng new_v4))"
  by (rule keepsI)
    (auto simp: world_stands_eq lift_conn_def with_rng_def sqlite_stands_iff)

abbreviation system_service :: "os \<Rightarrow> 'u deps \<Rightarrow> serde_json \<Rightarrow> world core_service" where
  "system_service os K J \<equiv> connection_service K J (system_open_url os (crates_of K) command_status)"

lemma connection_service_simps [simp]:
  "repository (connection_service K J opener) = lift_repository (sqlite_repository K)"
  "url_opener (connection_service K J opener) = opener"
  "event_sink (connection_service K J opener) = ipc_event_sink J (crates_of K)"
  "random_v4 (connection_service K J opener) = lift_conn (with_rng new_v4)"
  by (simp_all add: connection_service_def)

interpretation service: service_env "system_service os K J" "world_good K" "world_view K"
    "wf_assignment (crates_of K)" "\<lambda>_. True" world_trace "opened_by os"
    "\<lambda>e. sent_line J (event_from_core (crates_of K) e)" for os and K :: "'u deps" and J
proof (rule service_env.intro)
  show "profile_repository (repository (system_service os K J)) (world_good K) (world_view K)
      (wf_assignment (crates_of K)) (\<lambda>_. True)"
    unfolding connection_service_simps by (rule lifted.profile_repository_axioms)
  show "service_env_axioms (system_service os K J) (world_good K) (world_view K) world_trace
      (opened_by os) (\<lambda>e. sent_line J (event_from_core (crates_of K) e))"
    by (rule service_env_axioms.intro)
      (simp_all add: random_stands [unfolded world_stands_eq] keeps_system_open_url
        command_status_stands [unfolded world_stands_eq]
        system_open_url_trace ipc_event_sink_law keepsI world_stands_eq)
qed

section \<open>Start-up of the core state\<close>

text \<open>The sink of the start-up service writes to the log only.\<close>

definition logging_event_sink :: "core_event \<Rightarrow> (connection, app_error, unit) io" where
  "logging_event_sink event = io_return ()"

text \<open>\<open>CoreService::new(repository.clone(), SystemUrlOpener, LoggingEventSink)\<close>\<close>

definition main_service :: "os \<Rightarrow> 'u deps \<Rightarrow> connection command_status \<Rightarrow> connection core_service" where
  "main_service os K run =
     \<lparr>repository = sqlite_repository K, url_opener = system_open_url os (crates_of K) run,
      event_sink = logging_event_sink, random_v4 = with_rng new_v4\<rparr>"

lemma main_service_repository [simp]: "repository (main_service os K run) = sqlite_repository K"
  by (simp add: main_service_def)

lemmas main_initialize_law = sqlite.initialize_law [OF main_service_repository]

end
