(* ===== verification/Keyro_Connection.thy ===== *)
theory Keyro_Connection
  imports Keyro_Server
begin

text \<open>
  What a whole development connection does: the specification of the lines it serves over the
  abstract state, and the loop's refinement of it.
\<close>

section \<open>Specification\<close>

abbreviation emitted_line :: "'u deps \<Rightarrow> serde_json \<Rightarrow> core_event \<Rightarrow> effect" where
  "emitted_line K J e \<equiv> sent_line J (event_from_core (crates_of K) e)"

text \<open>\<open>served \<dots> d s s' es m\<close>: the dispatch \<open>d\<close> takes the abstract state from \<open>s\<close> to \<open>s'\<close>, has the
  effects \<open>es\<close> and is answered with \<open>m\<close>.\<close>

fun served ::
  "os \<Rightarrow> 'u deps \<Rightarrow> serde_json \<Rightarrow> protocol_dispatch \<Rightarrow> core_state \<Rightarrow> core_state \<Rightarrow>
   effect list \<Rightarrow> server_message \<Rightarrow> bool" where
  "served os K J (Immediate m) s s' es reply \<longleftrightarrow> s' = s \<and> es = [] \<and> reply = m"
| "served os K J (Command r cmd) s s' es reply \<longleftrightarrow>
     (\<exists>resp. command_spec cmd s resp s' \<and> reply = response_from_core (crates_of K) r resp \<and>
        command_effects s cmd (emitted_line K J) (opened_by os) (Inr resp) es) \<or>
     (\<exists>e. s' = s \<and> reply = error_message (Some r) e \<and>
        command_effects s cmd (emitted_line K J) (opened_by os) (Inl e) es)"

text \<open>A list of dispatches, one after the other: each is followed by its reply.\<close>

inductive serves ::
  "os \<Rightarrow> 'u deps \<Rightarrow> serde_json \<Rightarrow> protocol_dispatch list \<Rightarrow> core_state \<Rightarrow> core_state \<Rightarrow>
   effect list \<Rightarrow> bool" for os K J where
  serves_Nil: "serves os K J [] s s []"
| serves_Cons:
    "served os K J d s s1 es reply \<Longrightarrow> serves os K J ds s1 s2 xs \<Longrightarrow>
     serves os K J (d # ds) s s2 (es @ sent_line J reply # xs)"

inductive_cases serves_NilE: "serves os K J [] s s' xs"
inductive_cases serves_ConsE: "serves os K J (d # ds) s s' xs"

section \<open>One line\<close>

lemma dispatch_reply_law:
  assumes w: "world_stands K s w"
    and d: "receive_line J (crates_of K) session line = (d, session')"
    and r: "dispatch_reply K (system_service os K J) d w = (r, w')"
  shows "\<exists>s' es reply. r = Inr reply \<and> world_stands K s' w' \<and>
    world_trace w' = world_trace w @ es \<and> served os K J d s s' es reply"
proof (cases d)
  case (Immediate m)
  with r w show ?thesis by auto
next
  case (Command i cmd)
  then have ok: "command_ok (wf_assignment (crates_of K)) (\<lambda>_. True) cmd"
    using receive_line_command [of J "crates_of K" session line i cmd session'] d
    by (cases cmd) (auto simp: wf_command_def)
  obtain q w1 where q: "handle_command (system_service os K J) cmd w = (q, w1)" by fastforce
  obtain es where es: "world_trace w1 = world_trace w @ es"
    "command_effects s cmd (emitted_line K J) (opened_by os) q es"
    using service.handle_command_trace [OF ok w q] by blast
  show ?thesis
  proof (cases q)
    case (Inl e)
    with q r Command have "r = Inr (error_message (Some i) e)" "w' = w1"
      by (auto simp: io_try_def)
    moreover have "world_stands K s w1"
      using triple_Inl [OF service.handle_command_law [OF ok] w] q Inl by blast
    ultimately show ?thesis using es Inl Command by auto
  next
    case (Inr resp)
    with q r Command have "r = Inr (response_from_core (crates_of K) i resp)" "w' = w1"
      by (auto simp: io_try_def)
    moreover obtain s' where "world_stands K s' w1" "command_spec cmd s resp s'"
      using triple_Inr [OF service.handle_command_law [OF ok] w] q Inr by blast
    ultimately show ?thesis using es Inr Command by auto
  qed
qed

lemma write_stands:
  "write_protocol_message J m w = (r, w') \<Longrightarrow> world_stands K s w \<Longrightarrow> world_stands K s w'"
  using write_protocol_message_law(1) by (fastforce simp: world_stands_eq)

section \<open>The loop\<close>

text \<open>A connection that ends without an error has served all its lines in order.\<close>

lemma connection_loop_serves:
  assumes "world_stands K s w"
    and "connection_loop K J (system_service os K J) session items w = (Inr (), w')"
  shows "\<exists>ls s' xs. items = map Inr ls \<and> world_stands K s' w' \<and>
    world_trace w' = world_trace w @ xs \<and>
    serves os K J (fst (receive_lines J (crates_of K) session ls)) s s' xs"
  using assms
proof (induction items arbitrary: session s w)
  case Nil
  then show ?case by (auto intro!: exI [of _ "[]"] serves_Nil)
next
  case (Cons item items)
  then obtain line where item: "item = Inr line" by (cases item) (auto simp: io_bind_def)
  obtain d session' where d: "receive_line J (crates_of K) session line = (d, session')" by fastforce
  obtain q w1 where q: "dispatch_reply K (system_service os K J) d w = (q, w1)" by fastforce
  from dispatch_reply_law [OF Cons.prems(1) d q] obtain s1 es reply
    where reply: "q = Inr reply" and s1: "world_stands K s1 w1"
      and es: "world_trace w1 = world_trace w @ es" and sv: "served os K J d s s1 es reply"
    by blast
  from Cons.prems(2) item d q reply obtain w2
    where wr: "write_protocol_message J reply w1 = (Inr (), w2)"
      and rest: "connection_loop K J (system_service os K J) session' items w2 = (Inr (), w')"
    by (auto simp: io_bind_eq_Inr)
  from Cons.IH [OF write_stands [OF wr s1] rest] obtain ls s' xs
    where ls: "items = map Inr ls" and s': "world_stands K s' w'"
      and xs: "world_trace w' = world_trace w2 @ xs"
      and sr: "serves os K J (fst (receive_lines J (crates_of K) session' ls)) s1 s' xs"
    by blast
  have "fst (receive_lines J (crates_of K) session (line # ls)) =
      d # fst (receive_lines J (crates_of K) session' ls)"
    using d by (simp split: prod.splits)
  then have "serves os K J (fst (receive_lines J (crates_of K) session (line # ls))) s s'
      (es @ sent_line J reply # xs)"
    using serves_Cons [OF sv sr] by simp
  moreover have "world_trace w' = world_trace w @ es @ sent_line J reply # xs"
    using xs es write_protocol_message_law(2) [OF wr] by simp
  ultimately show ?case
    using item ls s' by (intro exI [of _ "line # ls"]) auto
qed

text \<open>A transition of the stored state that a connection may cause.\<close>

definition commanded :: "core_state \<Rightarrow> core_state \<Rightarrow> bool" where
  "commanded s s' \<longleftrightarrow> (\<exists>cmd r. command_spec cmd s r s')"

lemma commandedI: "command_spec cmd s r s' \<Longrightarrow> commanded s s'"
  by (auto simp: commanded_def)

lemma served_commanded: "served os K J d s s' es m \<Longrightarrow> commanded\<^sup>*\<^sup>* s s'"
  by (cases d) (auto intro: r_into_rtranclp commandedI)

text \<open>However a connection ends, the stored state has changed only by the commands it served.\<close>

lemma connection_loop_commanded:
  assumes "world_stands K s w"
    and "connection_loop K J (system_service os K J) session items w = (r, w')"
  shows "\<exists>s'. world_stands K s' w' \<and> commanded\<^sup>*\<^sup>* s s'"
  using assms
proof (induction items arbitrary: session s w)
  case Nil
  then show ?case by auto
next
  case (Cons item items)
  show ?case
  proof (cases item)
    case (Inl e)
    with Cons.prems show ?thesis by (auto simp: io_bind_def)
  next
    case (Inr line)
    obtain d session' where d: "receive_line J (crates_of K) session line = (d, session')" by fastforce
    obtain q w1 where q: "dispatch_reply K (system_service os K J) d w = (q, w1)" by fastforce
    from dispatch_reply_law [OF Cons.prems(1) d q] obtain s1 es reply
      where reply: "q = Inr reply" and s1: "world_stands K s1 w1" and sv: "served os K J d s s1 es reply"
      by blast
    obtain p w2 where wr: "write_protocol_message J reply w1 = (p, w2)" by fastforce
    note s2 = write_stands [OF wr s1]
    show ?thesis
    proof (cases p)
      case (Inl e)
      with Cons.prems(2) \<open>item = Inr line\<close> d q reply wr have "w' = w2"
        by (simp add: io_bind_def)
      with s2 served_commanded [OF sv] show ?thesis by blast
    next
      case Ok: (Inr u)
      with Cons.prems(2) Inr d q reply wr
      have "connection_loop K J (system_service os K J) session' items w2 = (r, w')"
        by (simp add: io_bind_def)
      from Cons.IH [OF s2 this] served_commanded [OF sv] show ?thesis
        by (meson rtranclp_trans)
    qed
  qed
qed

lemma commanded_keeps:
  assumes "commanded\<^sup>*\<^sup>* s s'" and "wf_state s"
  shows "wf_state s'" and "st_active s \<noteq> None \<Longrightarrow> st_active s' \<noteq> None"
    and "dom (st_names s) \<subseteq> dom (st_names s')"
proof -
  have "wf_state s' \<and> (st_active s \<noteq> None \<longrightarrow> st_active s' \<noteq> None) \<and> dom (st_names s) \<subseteq> dom (st_names s')"
    using assms
  proof (induction rule: rtranclp_induct)
    case (step s1 s2)
    then obtain cmd r where c: "command_spec cmd s1 r s2" by (auto simp: commanded_def)
    have "dom (st_names s1) \<subseteq> dom (st_names s2)"
      using c by (cases cmd) (auto simp: spec_defs)
    with step c command_spec_wf [OF c] command_spec_active [OF c] show ?case by blast
  qed simp
  then show "wf_state s'" and "st_active s \<noteq> None \<Longrightarrow> st_active s' \<noteq> None"
    and "dom (st_names s) \<subseteq> dom (st_names s')"
    by blast+
qed

text \<open>The messages of a serving: events, then the reply, line by line.\<close>

lemma served_reply:
  "served os K J d s s' es reply \<Longrightarrow> reply_to reply = dispatch_reply_id d"
  by (cases d) auto

end
