(* ===== verification/Keyro_Storage_Total.thy ===== *)
theory Keyro_Storage_Total
  imports Keyro_Storage_Correct
begin

text \<open>
  What the repository's operations answer when the database engine does not fail: well-formed
  tables always decode, and every operation succeeds or fails for the reason its arguments give.
  And what no failure of the engine can do: leave an operation half done.
\<close>

section \<open>Statements without engine failures\<close>

lemma stmt_free [simp]: "faults c = [] \<Longrightarrow> stmt f c = f c"
  by (simp add: stmt_def)

lemma prepare_free [simp]: "faults c = [] \<Longrightarrow> prepare c = (Inr (), c)"
  by (simp add: prepare_def)

lemma query_free [simp]: "faults c = [] \<Longrightarrow> query f c = (f (db c), c)"
  by (simp add: query_def)

lemma execute_free:
  "faults c = [] \<Longrightarrow> f (db c) = Inr (n, t) \<Longrightarrow> execute f c = (Inr n, c\<lparr>db := t\<rparr>)"
  by (simp add: execute_def)

lemma transaction_free:
  assumes "faults c = []" and "body c = (r, c')" and "faults c' = []"
  shows "transaction err body c =
    (case r of Inl e \<Rightarrow> (Inl e, c'\<lparr>db := db c\<rparr>) | Inr a \<Rightarrow> (Inr a, c'))"
  using assms by (auto simp: transaction_def io_bind_def io_try_def io_map_err_def split: sum.splits)

section \<open>Reading\<close>

lemma profiles_decode:
  assumes "uuid_text_ok C" and "wf_profile_rows C (t_profiles t)"
  shows "\<exists>ps. collect (profile_of_row C) (select_profiles t) = Inr ps"
  using assms by (intro collect_total) (auto simp: select_profiles_def wf_profile_rows_def
      intro!: profile_of_row_ok)

lemma list_profiles_free:
  assumes "sqlite_good K c" and "faults c = []"
  shows "\<exists>ps. sqlite_list_profiles K c = (Inr ps, c)"
proof -
  obtain ps where "collect (profile_of_row (crates_of K)) (select_profiles (db c)) = Inr ps"
    using assms profiles_decode by (auto simp: sqlite_good_def wf_tables_def)
  with assms(2) show ?thesis
    by (simp add: sqlite_list_profiles_def io_map_err_def io_bind_def)
qed

lemma find_assignment_free:
  assumes "sqlite_good K c" and "faults c = []"
  shows "\<exists>r. sqlite_find_assignment K pid ctl c = (Inr r, c)"
proof -
  let ?C = "crates_of K"
  have "\<exists>act. decode_row ?C r = Inr act" if "r \<in> set (t_assignments (db c))" for r
    using that assms(1) unfolding sqlite_good_def wf_tables_def wf_assignment_rows_def
    by (metis decode_row_of)
  then obtain as where "collect (decode_row ?C)
      (select_actions (profile_id_to_string ?C pid) (encode_control ctl) (db c)) = Inr as"
    using collect_total [of "select_actions (profile_id_to_string ?C pid) (encode_control ctl) (db c)" "decode_row ?C"]
    by (auto simp: select_actions_def)
  with assms(2) show ?thesis
    by (simp add: sqlite_find_assignment_def io_map_err_def io_bind_def decode_row_def [abs_def])
qed

lemma load_snapshot_free:
  assumes "sqlite_good K c" and "faults c = []"
  shows "\<exists>st. sqlite_load_snapshot_state K c = (Inr st, c)"
proof -
  obtain ps where ps: "sqlite_list_profiles K c = (Inr ps, c)"
    using list_profiles_free [OF assms] by blast
  have "\<exists>x. assignment_of_row (crates_of K) r = Inr x" if "r \<in> set (t_assignments (db c))" for r
    using that assms(1) unfolding sqlite_good_def wf_tables_def wf_assignment_rows_def
    by (metis assignment_of_row_of)
  then obtain xs where "collect (assignment_of_row (crates_of K)) (select_assignments (db c)) = Inr xs"
    using collect_total [of "select_assignments (db c)" "assignment_of_row (crates_of K)"]
    by (auto simp: select_assignments_def)
  with assms(2) ps show ?thesis
    by (simp add: sqlite_load_snapshot_state_def list_profiles_locked_def sqlite_list_profiles_def
        list_assignments_locked_def io_map_err_def io_bind_def)
qed

section \<open>Writing\<close>

lemma profile_exists_free:
  assumes "sqlite_stands K s c" and "faults c = []"
  shows "profile_exists K pid c = (Inr (st_names s pid \<noteq> None), c)"
  using assms sqlite_stands_exists [OF assms(1), of pid]
  by (simp add: profile_exists_def io_map_err_def)

lemma clear_free:
  assumes "sqlite_stands K s c" and "faults c = []"
  shows "fst (sqlite_clear_assignment K pid ctl c) =
    (if st_names s pid = None then Inl ProfileNotFound else Inr ())"
  using assms(2) profile_exists_free [OF assms, of pid]
  by (simp add: sqlite_clear_assignment_def io_bind_def io_map_err_def delete_assignment_def execute_def)

lemma insert_actions_free:
  assumes "faults c = []" and "select_exists (profile_id_to_string (crates_of K) pid) (db c)"
    and "distinct (map row_key (t_assignments (db c) @ rows_of (crates_of K) pid ctl n actions))"
  shows "\<exists>c'. insert_actions K pid ctl n actions c = (Inr (), c') \<and> faults c' = []"
  using assms
proof (induction actions arbitrary: n c)
  case (Cons act actions)
  let ?row = "assignment_row_of (crates_of K) pid ctl n act"
  let ?c = "c\<lparr>db := (db c)\<lparr>t_assignments := t_assignments (db c) @ [?row]\<rparr>\<rparr>"
  have "\<not> list_ex (\<lambda>r. row_key r = row_key ?row) (t_assignments (db c))"
    using Cons.prems(3) by (auto simp: list_ex_iff image_iff dest: sym)
  then have "insert_assignment ?row c = (Inr 1, ?c)"
    using Cons.prems(1,2) by (simp add: insert_assignment_def)
  moreover have "\<exists>c'. insert_actions K pid ctl (Suc n) actions ?c = (Inr (), c') \<and> faults c' = []"
    using Cons.prems by (intro Cons.IH) auto
  ultimately show ?case
    by (auto simp: io_bind_def io_map_err_def)
qed simp

lemma save_free:
  assumes s: "sqlite_stands K s c" and f: "faults c = []" and wf: "wf_assignment (crates_of K) a"
  shows "fst (sqlite_save_assignment K a c) =
    (if st_names s (a_profile_id a) = None then Inl ProfileNotFound else Inr ())"
proof (cases "st_names s (a_profile_id a) = None")
  case True
  then show ?thesis
    using profile_exists_free [OF s f, of "a_profile_id a"] f
    by (simp add: sqlite_save_assignment_def transaction_def io_bind_def io_try_def io_map_err_def)
next
  case False
  let ?C = "crates_of K" and ?p = "a_profile_id a" and ?k = "encode_control (a_control a)"
  let ?c = "c\<lparr>db := (db c)\<lparr>t_assignments :=
    filter (\<lambda>r. \<not> on_control (profile_id_to_string ?C ?p) ?k r) (t_assignments (db c))\<rparr>\<rparr>"
  have e: "select_exists (profile_id_to_string ?C ?p) (db ?c)"
    using sqlite_stands_exists [OF s, of ?p] False by simp
  have wft: "wf_tables ?C (db ?c)" and u: "uuid_text_ok ?C"
    using s clear_rows(1) [of ?C "db c" ?p "a_control a"] by (auto simp: sqlite_stands_iff)
  have "\<forall>r \<in> set (t_assignments (db ?c)). \<not> on_control (profile_id_to_string ?C ?p) ?k r" by simp
  from save_rows(1) [OF u wft wf e this] have d: "distinct (map row_key
      (t_assignments (db ?c) @ rows_of ?C ?p (a_control a) 0 (a_actions a)))"
    by (simp add: wf_tables_def wf_assignment_rows_def)
  have "faults ?c = []" using f by simp
  from insert_actions_free [OF this e d] obtain c'
    where c': "insert_actions K ?p (a_control a) 0 (a_actions a) ?c = (Inr (), c')" "faults c' = []"
    by blast
  with False f profile_exists_free [OF s f, of ?p] show ?thesis
    by (auto simp: sqlite_save_assignment_def transaction_def io_bind_def io_try_def io_map_err_def
        delete_assignment_def execute_def)
qed

lemma rename_free:
  assumes s: "sqlite_stands K s c" and f: "faults c = []"
  shows "fst (sqlite_rename_profile K pid name c) =
    (if st_names s pid = None then Inl ProfileNotFound
     else if trim name = [] then Inl (AppDomain EmptyProfileName)
     else Inr \<lparr>p_id = pid, p_name = name, p_is_active = (st_active s = Some pid)\<rparr>)"
proof -
  have good: "sqlite_good K c" using s by (simp add: stands_for_def)
  obtain ps where ps: "sqlite_list_profiles K c = (Inr ps, c)"
    using list_profiles_free [OF good f] by blast
  with triple_Inr [OF sqlite_list_law s] have l: "lists_profiles s ps" by blast
  show ?thesis
  proof (cases "find (\<lambda>p. p_id p = pid) ps")
    case None
    have "st_names s pid = None"
    proof (rule ccontr)
      assume "st_names s pid \<noteq> None"
      then obtain n where "st_names s pid = Some n" by blast
      then have "is_profile s \<lparr>p_id = pid, p_name = n, p_is_active = (st_active s = Some pid)\<rparr>"
        by (simp add: is_profile_def)
      with l None show False by (fastforce simp: lists_profiles_def find_None_mem)
    qed
    with None ps show ?thesis by (simp add: sqlite_rename_profile_def io_bind_def)
  next
    case (Some p)
    then have p: "p_id p = pid" "is_profile s p"
      using l by (auto simp: lists_profiles_def dest: find_Some_mem)
    then have n: "st_names s pid = Some (p_name p)" by (auto simp: is_profile_def)
    show ?thesis
    proof (cases "trim name = []")
      case True
      with Some ps n show ?thesis
        by (simp add: sqlite_rename_profile_def io_bind_def profile_rename_def validate_profile_name_def)
    next
      case False
      let ?q = "p\<lparr>p_name := name\<rparr>"
      let ?s = "profile_id_to_string (crates_of K) pid"
      obtain r where "r \<in> set (t_profiles (db c))" and r: "pr_id r = ?s"
        using sqlite_stands_exists [OF s, of pid] n by (auto simp: select_exists_def list_ex_iff)
      moreover have "distinct (map pr_id (t_profiles (db c)))"
        using good by (auto simp: sqlite_good_def wf_tables_def wf_profile_rows_def)
      ultimately have "length (filter (\<lambda>r. pr_id r = ?s) (t_profiles (db c))) = 1"
        using length_filter_key [of pr_id "t_profiles (db c)" r] by simp
      then have "rename_update K pid ?q c = (Inr ?q, snd (rename_update K pid ?q c))"
        using f by (simp add: rename_update_def io_bind_def io_map_err_def update_name_def execute_def)
      then have "fst (sqlite_rename_profile K pid name c) = Inr ?q"
        using Some ps False
        by (simp add: sqlite_rename_profile_def io_bind_def profile_rename_def validate_profile_name_def)
          (metis fst_conv)
      with n False p show ?thesis by (auto simp: is_profile_def profile_eq_iff)
    qed
  qed
qed

lemma length_filter_id_le_1:
  "distinct (map pr_id rows) \<Longrightarrow> length (filter (\<lambda>r. pr_id r = pid) rows) \<le> 1"
  by (induction rows) (auto simp: filter_empty_conv image_iff)

lemma activate_free:
  assumes s: "sqlite_stands K s c" and f: "faults c = []"
  shows "fst (sqlite_set_active_profile K pid c) =
    (if st_names s pid = None then Inl ProfileNotFound
     else if st_active s = None then Inl ActiveProfileMissing
     else Inr ())"
proof -
  let ?C = "crates_of K" and ?s = "profile_id_to_string (crates_of K) pid" and ?rows = "t_profiles (db c)"
  have u: "uuid_text_ok ?C" and p: "wf_profile_rows ?C ?rows" and v: "s = tables_view ?C (db c)"
    using s by (auto simp: sqlite_stands_iff wf_tables_def)
  let ?off = "map (\<lambda>r. if pr_is_active r = 1 then r\<lparr>pr_is_active := 0\<rparr> else r) ?rows"
  let ?on = "map (\<lambda>r. if pr_id r = ?s then r\<lparr>pr_is_active := 1\<rparr> else r) ?off"
  let ?c1 = "c\<lparr>db := (db c)\<lparr>t_profiles := ?off\<rparr>\<rparr>"
  have off: "update_deactivate c = (Inr (length (filter (\<lambda>r. pr_is_active r = 1) ?rows)), ?c1)"
    using f by (simp add: update_deactivate_def execute_def)
  have act: "st_active s = None \<longleftrightarrow> length (filter (\<lambda>r. pr_is_active r = 1) ?rows) = 0"
    using view_active_None [OF u p] v by (auto simp: tables_view_def filter_empty_conv)
  have d: "length (filter (\<lambda>r. pr_id r = ?s) ?rows) \<le> 1"
    using p length_filter_id_le_1 by (auto simp: wf_profile_rows_def)
  have "filter (\<lambda>r. pr_is_active r = 1) ?on = filter (\<lambda>r. pr_id r = ?s) ?on"
    by (rule filter_cong) auto
  also have "length \<dots> = length (filter (\<lambda>r. pr_id r = ?s) ?rows)"
    by (simp add: filter_map o_def if_distrib [of pr_id] cong: if_cong)
  finally have one: "length (filter (\<lambda>r. pr_is_active r = 1) ?on) \<le> 1"
    using d by simp
  have ids: "length (filter (\<lambda>r. pr_id r = ?s) ?off) = length (filter (\<lambda>r. pr_id r = ?s) ?rows)"
    by (simp add: filter_map o_def if_distrib [of pr_id] cong: if_cong)
  have on: "update_activate ?s ?c1 =
      (Inr (length (filter (\<lambda>r. pr_id r = ?s) ?rows)), ?c1\<lparr>db := (db c)\<lparr>t_profiles := ?on\<rparr>\<rparr>)"
    using f one ids by (simp add: update_activate_def execute_def Let_def del: map_map filter_map)
  have "length (filter (\<lambda>r. pr_id r = ?s) ?rows) = 1" if n: "st_names s pid \<noteq> None"
  proof -
    obtain r where r: "r \<in> set ?rows" "pr_id r = ?s"
      using n sqlite_stands_exists [OF s, of pid] by (auto simp: select_exists_def list_ex_iff)
    with p length_filter_key [of pr_id ?rows r] show ?thesis by (simp add: wf_profile_rows_def)
  qed
  with f off on act profile_exists_free [OF s f, of pid] show ?thesis
    by (auto simp: sqlite_set_active_profile_def transaction_def io_bind_def io_try_def io_map_err_def)
qed

lemma create_free:
  assumes s: "sqlite_stands K s c" and f: "faults c = []"
    and new: "st_names s (ProfileId (shd (rng c))) = None"
  shows "fst (sqlite_create_profile K name c) =
    (if trim name = [] then Inl (AppDomain EmptyProfileName)
     else Inr \<lparr>p_id = ProfileId (shd (rng c)), p_name = name, p_is_active = False\<rparr>)"
proof -
  have "\<not> select_exists (profile_id_to_string (crates_of K) (ProfileId (shd (rng c)))) (db c)"
    using sqlite_stands_exists [OF s, of "ProfileId (shd (rng c))"] new by simp
  with f show ?thesis
    by (simp add: sqlite_create_profile_def io_bind_def io_map_err_def with_rng_def profile_new_apply
        insert_profile_def select_exists_def)
qed

lemma ensure_free:
  assumes s: "sqlite_stands K s c" and f: "faults c = []"
    and new: "st_active s = None \<Longrightarrow> st_names s (ProfileId (shd (rng c))) = None"
  shows "\<exists>p. fst (sqlite_ensure_default_profile K c) = Inr p \<and> faults (snd (sqlite_ensure_default_profile K c)) = []"
proof -
  let ?C = "crates_of K"
  have u: "uuid_text_ok ?C" and p: "wf_profile_rows ?C (t_profiles (db c))" and v: "s = tables_view ?C (db c)"
    using s by (auto simp: sqlite_stands_iff wf_tables_def)
  show ?thesis
  proof (cases "select_active (db c)")
    case (Some row)
    then have "row \<in> set (t_profiles (db c))" using select_active_iff [OF p] by blast
    then obtain q where "profile_of_row ?C row = Inr q"
      using p profile_of_row_ok [OF u, of row] by (auto simp: wf_profile_rows_def)
    with Some f show ?thesis
      by (simp add: sqlite_ensure_default_profile_def load_active_profile_def io_bind_def io_map_err_def)
  next
    case None
    then have "st_active s = None" by (simp add: v tables_view_def view_active_def)
    with new have "\<not> select_exists (profile_id_to_string ?C (ProfileId (shd (rng c)))) (db c)"
      using sqlite_stands_exists [OF s, of "ProfileId (shd (rng c))"] by simp
    moreover have "\<not> list_ex (\<lambda>r. pr_is_active r = 1) (t_profiles (db c))"
      using None by (simp add: select_active_def find_None_mem list_ex_iff)
    moreover have "trim ''Default'' \<noteq> []"
      by (rule printable_not_blank [of "CHR ''D''"]) simp_all
    ultimately show ?thesis
      using f None by (simp add: sqlite_ensure_default_profile_def load_active_profile_def io_bind_def
          io_map_err_def with_rng_def profile_new_apply insert_profile_def select_exists_def)
  qed
qed

section \<open>Failed operations\<close>

text \<open>A failed call that leaves the tables and the pragma alone.\<close>

definition clean :: "(connection, 'e, 'a) io \<Rightarrow> bool" where
  "clean m \<longleftrightarrow> (\<forall>c e c'. m c = (Inl e, c') \<longrightarrow> db c' = db c)"

lemma clean_bind_reads: "reads_only m \<Longrightarrow> (\<And>a. clean (f a)) \<Longrightarrow> clean (io_bind m f)"
  by (auto simp: clean_def io_bind_eq_Inl dest: reads_onlyD)

lemma clean_bind_return: "clean m \<Longrightarrow> clean (io_bind m (\<lambda>_. io_return a))"
  by (auto simp: clean_def io_bind_eq_Inl)

lemma clean_map_err: "clean m \<Longrightarrow> clean (io_map_err g m)"
  by (auto simp: clean_def io_map_err_eq_Inl)

lemma clean_reads: "reads_only m \<Longrightarrow> clean m"
  by (auto simp: clean_def dest: reads_onlyD)

lemma clean_transaction: "keeps_pragma body \<Longrightarrow> clean (transaction err body)"
  unfolding clean_def keeps_pragma_def by (metis transaction_Inl)

lemma clean_operations:
  "clean (sqlite_create_profile K name)" "clean (sqlite_ensure_default_profile K)"
  "clean (sqlite_set_active_profile K pid)" "clean (sqlite_save_assignment K a)"
  "clean (sqlite_clear_assignment K pid ctl)"
proof -
  have insert: "clean (insert_profile s n i)" for s n i
    by (auto simp: clean_def dest: insert_profile_Inl)
  have delete: "clean (delete_assignment s k)" for s k
    by (auto simp: clean_def delete_assignment_def dest: execute_Inl)
  have exists: "reads_only (profile_exists K p)" for p
    unfolding profile_exists_def by (intro reads_only_map_err) simp
  have active: "reads_only (load_active_profile K)" by (simp add: load_active_profile_def)
  show "clean (sqlite_create_profile K name)"
    unfolding sqlite_create_profile_def
    by (intro clean_bind_reads clean_bind_return clean_map_err insert reads_only_map_err) simp
  show "clean (sqlite_clear_assignment K pid ctl)"
    unfolding sqlite_clear_assignment_def
    by (intro clean_bind_reads exists)
      (auto intro: clean_bind_return clean_map_err delete clean_reads)
  have rest: "clean (case r of Some profile \<Rightarrow> io_return profile
     | None \<Rightarrow>
         io_bind (io_map_err AppDomain (with_rng (profile_new ''Default'' True))) (\<lambda>profile.
         io_bind (io_map_err (to_app_error K)
           (insert_profile (profile_id_to_string (crates_of K) (p_id profile)) (p_name profile) 1))
           (\<lambda>_. io_return profile)))" for r
    by (cases r) (auto intro!: clean_bind_reads clean_bind_return clean_map_err insert reads_only_map_err
        intro: clean_reads)
  show "clean (sqlite_ensure_default_profile K)"
    unfolding sqlite_ensure_default_profile_def
    by (intro clean_bind_reads rest reads_only_map_err active)
  show "clean (sqlite_set_active_profile K pid)"
    unfolding sqlite_set_active_profile_def by (intro clean_transaction keeps_pragma_rules)
  show "clean (sqlite_save_assignment K a)"
    unfolding sqlite_save_assignment_def
    by (intro clean_transaction keeps_pragma_rules insert_actions_pragma)
qed

lemma rename_update_clean:
  assumes s: "sqlite_stands K s c" and n: "st_names s pid \<noteq> None"
    and r: "rename_update K pid p c = (Inl e, c')"
  shows "db c' = db c"
proof -
  let ?s = "profile_id_to_string (crates_of K) pid"
  have "distinct (map pr_id (t_profiles (db c)))"
    using s by (auto simp: sqlite_stands_iff wf_tables_def wf_profile_rows_def)
  moreover obtain row where "row \<in> set (t_profiles (db c))" "pr_id row = ?s"
    using sqlite_stands_exists [OF s, of pid] n by (auto simp: select_exists_def list_ex_iff)
  ultimately have one: "length (filter (\<lambda>r. pr_id r = ?s) (t_profiles (db c))) = 1"
    using length_filter_key [of pr_id "t_profiles (db c)" row] by simp
  obtain q c1 where u: "update_name (p_name p) ?s c = (q, c1)" by fastforce
  show ?thesis
  proof (cases q)
    case (Inl x)
    with r u show ?thesis
      by (auto simp: rename_update_def io_bind_def io_map_err_def update_name_def dest: execute_Inl)
  next
    case (Inr k)
    with u one have "k = 1" by (auto simp: update_name_def dest!: execute_Inr)
    with r u Inr show ?thesis by (simp add: rename_update_def io_bind_def io_map_err_def)
  qed
qed

lemma rename_clean:
  assumes s: "sqlite_stands K s c" and r: "sqlite_rename_profile K pid name c = (Inl e, c')"
  shows "db c' = db c"
proof -
  obtain ps c1 where ps: "sqlite_list_profiles K c = (ps, c1)" by fastforce
  have "reads_only (sqlite_list_profiles K)"
    unfolding sqlite_list_profiles_def by (rule reads_only_prepared)
  from reads_onlyD [OF this ps] have c1: "db c1 = db c \<and> foreign_keys c1 = foreign_keys c" .
  note s1 = sqlite_stands_same [OF s c1]
  show ?thesis
  proof (cases "\<exists>q. ps = Inr q \<and> (\<exists>p. find (\<lambda>p. p_id p = pid) q = Some p \<and> trim name \<noteq> [])")
    case False
    with r ps c1 show ?thesis
      by (auto simp: sqlite_rename_profile_def io_bind_def profile_rename_def validate_profile_name_def
          split: sum.splits option.splits)
  next
    case True
    then obtain q p where q: "ps = Inr q" "find (\<lambda>p. p_id p = pid) q = Some p" "trim name \<noteq> []"
      by blast
    with triple_Inr [OF sqlite_list_law s] ps have "lists_profiles s q" by blast
    then have "is_profile s p" "p_id p = pid"
      using find_Some_mem [OF q(2)] by (auto simp: lists_profiles_def)
    then have n: "st_names s pid \<noteq> None" by (auto simp: is_profile_def)
    let ?p = "p\<lparr>p_name := name\<rparr>"
    have "rename_update K pid ?p c1 = (Inl e, c')"
      using r ps q by (simp add: sqlite_rename_profile_def io_bind_def profile_rename_def
          validate_profile_name_def)
    with n s1 have "db c' = db c1" using rename_update_clean [of K s c1 pid] by blast
    with c1 show ?thesis by simp
  qed
qed

section \<open>Start-up\<close>

lemma initialize_free:
  assumes good: "sqlite_good K c" and f: "faults c = []" and R: "repository S = sqlite_repository K"
    and new: "st_active (sqlite_view K c) = None \<Longrightarrow>
      st_names (sqlite_view K c) (ProfileId (shd (rng c))) = None"
  shows "\<exists>p. fst (core_service_initialize S c) = Inr p"
proof -
  have s: "sqlite_stands K (sqlite_view K c) c" using good by (simp add: stands_for_def)
  obtain p c1 where p: "sqlite_ensure_default_profile K c = (Inr p, c1)" and f1: "faults c1 = []"
    using ensure_free [OF s f new] by (metis prod.collapse)
  from triple_Inr [OF sqlite_ensure_law s p] have good1: "sqlite_good K c1"
    and act: "st_active (sqlite_view K c1) = Some (p_id p)" by (auto simp: is_profile_def)
  obtain ps where ps: "sqlite_list_profiles K c1 = (Inr ps, c1)"
    using list_profiles_free [OF good1 f1] by blast
  have s1: "sqlite_stands K (sqlite_view K c1) c1" using good1 by (simp add: stands_for_def)
  from triple_Inr [OF sqlite_list_law s1 ps] have "lists_profiles (sqlite_view K c1) ps" by blast
  then have "ensure_exactly_one_active ps = Inr ()"
    using act ensure_listed_Inr [OF _ sqlite.wf_view [OF good1]] by auto
  with p ps show ?thesis
    by (simp add: core_service_initialize_def R sqlite_repository_def io_bind_def)
qed

end
