(* ===== verification/Keyro_Migrate.thy ===== *)
theory Keyro_Migrate
  imports Keyro_Storage_Total
begin

text \<open>
  Opening the database in \<open>crates/core-storage-sqlite/src/lib.rs\<close>: \<open>open\<close> and \<open>migrate\<close> on a database
  file that may be new, complete, or left half migrated by an earlier attempt.  Every statement of
  the batch commits on its own.  A table that exists is taken to have the columns that \<open>migrate\<close>
  declares.
\<close>

section \<open>The database file\<close>

text \<open>\<open>None\<close> is a table that does not exist; of \<open>schema_migrations\<close> the versions are kept.\<close>

record schema =
  s_migrations :: "int list option"
  s_profiles :: "profile_row list option"
  s_index :: bool
  s_assignments :: "assignment_row list option"

definition empty_schema :: schema where
  "empty_schema = \<lparr>s_migrations = None, s_profiles = None, s_index = False, s_assignments = None\<rparr>"

text \<open>The file, the pragma of the connection being opened, and what the connection will use.\<close>

record disk =
  d_schema :: schema
  d_pragma :: bool
  d_clock :: "string stream"
  d_rng :: "uuid stream"
  d_faults :: "string option list"

type_synonym 'a disk_io = "(disk, sql_error, 'a) io"

definition disk_stmt :: "(schema \<Rightarrow> sql_error + schema) \<Rightarrow> unit disk_io" where
  "disk_stmt f = (\<lambda>d.
     case d_faults d of
       Some msg # fs \<Rightarrow> (Inl (SqliteFailure msg), d\<lparr>d_faults := fs\<rparr>)
     | fs \<Rightarrow>
         let d' = d\<lparr>d_faults := tl fs\<rparr>
         in case f (d_schema d) of Inl e \<Rightarrow> (Inl e, d') | Inr s \<Rightarrow> (Inr (), d'\<lparr>d_schema := s\<rparr>))"

section \<open>Migration\<close>

text \<open>\<open>CREATE TABLE IF NOT EXISTS\<close>, \<open>CREATE UNIQUE INDEX IF NOT EXISTS\<close>, \<open>INSERT OR IGNORE\<close>.\<close>

definition table_or_new :: "'a list option \<Rightarrow> 'a list option" where
  "table_or_new t = Some (case t of None \<Rightarrow> [] | Some rows \<Rightarrow> rows)"

definition create_schema_migrations :: "unit disk_io" where
  "create_schema_migrations = disk_stmt (\<lambda>s. Inr (s\<lparr>s_migrations := table_or_new (s_migrations s)\<rparr>))"

definition create_profiles :: "unit disk_io" where
  "create_profiles = disk_stmt (\<lambda>s. Inr (s\<lparr>s_profiles := table_or_new (s_profiles s)\<rparr>))"

definition create_only_one_active_profile :: "unit disk_io" where
  "create_only_one_active_profile = disk_stmt (\<lambda>s.
     if s_index s then Inr s
     else case s_profiles s of
       None \<Rightarrow> Inl (SqliteFailure ''no such table: main.profiles'')
     | Some rows \<Rightarrow>
         if 1 < length (filter (\<lambda>r. pr_is_active r = 1) rows)
         then Inl (ConstraintViolation ''only_one_active_profile'')
         else Inr (s\<lparr>s_index := True\<rparr>))"

definition create_assignments :: "unit disk_io" where
  "create_assignments = disk_stmt (\<lambda>s. Inr (s\<lparr>s_assignments := table_or_new (s_assignments s)\<rparr>))"

definition insert_version :: "int \<Rightarrow> unit disk_io" where
  "insert_version v = disk_stmt (\<lambda>s.
     case s_migrations s of
       None \<Rightarrow> Inl (SqliteFailure ''no such table: schema_migrations'')
     | Some vs \<Rightarrow> Inr (s\<lparr>s_migrations := Some (if v \<in> set vs then vs else vs @ [v])\<rparr>))"

text \<open>\<open>connection.pragma_update(None, "foreign_keys", "ON")\<close>\<close>

definition pragma_foreign_keys_on :: "unit disk_io" where
  "pragma_foreign_keys_on = io_bind (disk_stmt Inr) (\<lambda>_ d. (Inr (), d\<lparr>d_pragma := True\<rparr>))"

definition migrate :: "unit disk_io" where
  "migrate =
     io_bind pragma_foreign_keys_on (\<lambda>_.
     io_bind create_schema_migrations (\<lambda>_.
     io_bind create_profiles (\<lambda>_.
     io_bind create_only_one_active_profile (\<lambda>_.
     io_bind create_assignments (\<lambda>_.
     insert_version 1)))))"

definition schema_rows :: "schema \<Rightarrow> tables" where
  "schema_rows s =
     \<lparr>t_profiles = (case s_profiles s of None \<Rightarrow> [] | Some rows \<Rightarrow> rows),
      t_assignments = (case s_assignments s of None \<Rightarrow> [] | Some rows \<Rightarrow> rows)\<rparr>"

definition connection_of :: "disk \<Rightarrow> connection" where
  "connection_of d =
     \<lparr>db = schema_rows (d_schema d), foreign_keys = d_pragma d, clock = d_clock d, rng = d_rng d,
      faults = d_faults d\<rparr>"

text \<open>\<open>SqliteProfileRepository::open\<close> and \<open>in_memory\<close>; the pragma of a new connection is taken as off.\<close>

definition sqlite_open :: "connection disk_io" where
  "sqlite_open =
     io_bind (disk_stmt Inr) (\<lambda>_.
     io_bind (\<lambda>d. migrate (d\<lparr>d_pragma := False\<rparr>)) (\<lambda>_ d.
     (Inr (connection_of d), d)))"

definition sqlite_in_memory :: "connection disk_io" where
  "sqlite_in_memory = (\<lambda>d.
     case sqlite_open (d\<lparr>d_schema := empty_schema\<rparr>) of
       (r, d') \<Rightarrow> (r, d'\<lparr>d_schema := d_schema d\<rparr>))"

section \<open>What migration does\<close>

text \<open>All tables and the index are there.\<close>

definition complete :: "schema \<Rightarrow> bool" where
  "complete s \<longleftrightarrow>
     (\<exists>vs. s_migrations s = Some vs \<and> 1 \<in> set vs) \<and> s_profiles s \<noteq> None \<and> s_index s \<and>
     s_assignments s \<noteq> None"

lemma disk_stmt_cases:
  assumes "disk_stmt f d = (r, d')"
  obtains e where "r = Inl e" and "d_schema d' = d_schema d" and "d_pragma d' = d_pragma d"
  | s where "r = Inr ()" and "f (d_schema d) = Inr s" and "d_schema d' = s" and "d_pragma d' = d_pragma d"
  using assms
  by (auto simp: disk_stmt_def Let_def split: list.splits option.splits sum.splits)

lemma table_or_new_rows [simp]:
  "(case table_or_new t of None \<Rightarrow> [] | Some rows \<Rightarrow> rows) = (case t of None \<Rightarrow> [] | Some rows \<Rightarrow> rows)"
  "table_or_new t \<noteq> None" "table_or_new (Some rows) = Some rows"
  by (simp_all add: table_or_new_def)

text \<open>A statement that keeps the rows of the two tables.\<close>

lemma disk_stmt_rows:
  "(\<And>s s'. f s = Inr s' \<Longrightarrow> schema_rows s' = schema_rows s) \<Longrightarrow>
   keeps (\<lambda>d. schema_rows (d_schema d) = t) (disk_stmt f)"
  by (rule keepsI) (auto elim: disk_stmt_cases)

lemmas migration_steps =
  create_schema_migrations_def create_profiles_def create_only_one_active_profile_def
  create_assignments_def insert_version_def

lemma pragma_rows: "keeps (\<lambda>d. schema_rows (d_schema d) = t) pragma_foreign_keys_on"
  unfolding pragma_foreign_keys_on_def
  by (intro keeps_bind disk_stmt_rows) (auto simp: keeps_def)

lemma migrate_rows: "keeps (\<lambda>d. schema_rows (d_schema d) = t) migrate"
  unfolding migrate_def migration_steps
  by (intro keeps_bind pragma_rows disk_stmt_rows)
    (auto simp: schema_rows_def split: option.splits if_splits)

text \<open>When it succeeds, the schema is complete and the pragma is on.\<close>

lemma migrate_complete:
  assumes "migrate d = (Inr (), d')"
  shows "complete (d_schema d') \<and> d_pragma d' \<and> (complete (d_schema d) \<longrightarrow> d_schema d' = d_schema d)"
proof -
  obtain d0 d1 d2 d3 d4 where
    0: "pragma_foreign_keys_on d = (Inr (), d0)" and 1: "create_schema_migrations d0 = (Inr (), d1)"
    and 2: "create_profiles d1 = (Inr (), d2)" and 3: "create_only_one_active_profile d2 = (Inr (), d3)"
    and 4: "create_assignments d3 = (Inr (), d4)" and 5: "insert_version 1 d4 = (Inr (), d')"
    using assms by (auto simp: migrate_def io_bind_eq_Inr)
  have s0: "d_schema d0 = d_schema d" "d_pragma d0"
    using 0 by (auto simp: pragma_foreign_keys_on_def io_bind_eq_Inr elim: disk_stmt_cases)
  have s1: "d_schema d1 = (d_schema d0)\<lparr>s_migrations := table_or_new (s_migrations (d_schema d0))\<rparr>"
    "d_pragma d1 = d_pragma d0"
    using 1 unfolding create_schema_migrations_def by (auto elim: disk_stmt_cases)
  have s2: "d_schema d2 = (d_schema d1)\<lparr>s_profiles := table_or_new (s_profiles (d_schema d1))\<rparr>"
    "d_pragma d2 = d_pragma d1"
    using 2 unfolding create_profiles_def by (auto elim: disk_stmt_cases)
  have s3: "d_schema d3 = (d_schema d2)\<lparr>s_index := True\<rparr>" "d_pragma d3 = d_pragma d2"
    using 3 unfolding create_only_one_active_profile_def
    by (auto elim!: disk_stmt_cases split: if_splits option.splits)
  have s4: "d_schema d4 = (d_schema d3)\<lparr>s_assignments := table_or_new (s_assignments (d_schema d3))\<rparr>"
    "d_pragma d4 = d_pragma d3"
    using 4 unfolding create_assignments_def by (auto elim: disk_stmt_cases)
  obtain vs where vs: "s_migrations (d_schema d4) = Some vs"
    and s5: "d_schema d' = (d_schema d4)\<lparr>s_migrations := Some (if 1 \<in> set vs then vs else vs @ [1])\<rparr>"
      "d_pragma d' = d_pragma d4"
    using 5 unfolding insert_version_def by (auto elim!: disk_stmt_cases split: option.splits)
  show ?thesis
    using s0 s1 s2 s3 s4 s5 vs by (auto simp: complete_def table_or_new_def)
qed

text \<open>It succeeds when the engine does not fail and at most one profile is active.\<close>

lemma disk_stmt_free:
  assumes "d_faults d = []"
  shows "disk_stmt f d =
    (case f (d_schema d) of Inl e \<Rightarrow> (Inl e, d) | Inr s \<Rightarrow> (Inr (), d\<lparr>d_schema := s\<rparr>))"
  using assms by (cases d) (auto simp: disk_stmt_def Let_def split: sum.split)

lemma migrate_free:
  assumes f: "d_faults d = []"
    and one: "length (filter (\<lambda>r. pr_is_active r = 1) (t_profiles (schema_rows (d_schema d)))) \<le> 1"
  shows "\<exists>d'. migrate d = (Inr (), d') \<and> d_faults d' = [] \<and> d_clock d' = d_clock d \<and> d_rng d' = d_rng d"
proof -
  define rows where "rows = t_profiles (schema_rows (d_schema d))"
  have rows: "table_or_new (s_profiles (d_schema d)) = Some rows"
    by (simp add: rows_def schema_rows_def table_or_new_def)
  define d3 where "d3 = d\<lparr>d_pragma := True, d_schema := (d_schema d)\<lparr>
      s_migrations := table_or_new (s_migrations (d_schema d)), s_profiles := Some rows, s_index := True\<rparr>\<rparr>"
  have "create_only_one_active_profile (d\<lparr>d_pragma := True, d_schema := (d_schema d)\<lparr>
      s_migrations := table_or_new (s_migrations (d_schema d)), s_profiles := Some rows\<rparr>\<rparr>) = (Inr (), d3)"
    using f one by (auto simp: create_only_one_active_profile_def disk_stmt_free d3_def simp flip: rows_def)
  then have "migrate d = io_bind create_assignments (\<lambda>_. insert_version 1) d3"
    using f by (simp add: migrate_def io_bind_def pragma_foreign_keys_on_def create_schema_migrations_def
        create_profiles_def disk_stmt_free rows)
  then show ?thesis
    using f by (simp add: io_bind_def create_assignments_def insert_version_def disk_stmt_free d3_def
        table_or_new_def)
qed

section \<open>Opening\<close>

lemma sqlite_open_rows: "keeps (\<lambda>d. schema_rows (d_schema d) = t) sqlite_open"
proof -
  have "keeps (\<lambda>d. schema_rows (d_schema d) = t) (\<lambda>d. migrate (d\<lparr>d_pragma := False\<rparr>))"
    using migrate_rows by (simp add: keeps_def)
  then show ?thesis
    unfolding sqlite_open_def
    by (intro keeps_bind disk_stmt_rows) (auto simp: keeps_def)
qed

lemma sqlite_open_Inr:
  assumes "sqlite_open d = (Inr c, d')"
  shows "complete (d_schema d') \<and> (complete (d_schema d) \<longrightarrow> d_schema d' = d_schema d) \<and>
    c = connection_of d' \<and> foreign_keys c \<and> db c = schema_rows (d_schema d)"
proof -
  obtain d1 where 1: "disk_stmt Inr d = (Inr (), d1)"
    and 2: "migrate (d1\<lparr>d_pragma := False\<rparr>) = (Inr (), d')" and c: "c = connection_of d'"
    using assms by (auto simp: sqlite_open_def io_bind_eq_Inr)
  have "d_schema d1 = d_schema d" using 1 by (auto elim: disk_stmt_cases)
  with migrate_complete [OF 2] c show ?thesis
    using keepsD [OF sqlite_open_rows refl assms] by (simp add: connection_of_def)
qed

lemma sqlite_open_good:
  assumes "sqlite_open d = (Inr c, d')" and "uuid_text_ok (crates_of K)"
    and "wf_tables (crates_of K) (schema_rows (d_schema d))"
  shows "sqlite_good K c"
  using sqlite_open_Inr [OF assms(1)] assms(2,3) unfolding sqlite_good_def by metis

lemma wf_tables_empty: "wf_tables C (schema_rows empty_schema)"
  by (simp add: wf_tables_def wf_profile_rows_def wf_assignment_rows_def schema_rows_def empty_schema_def)

lemma wf_tables_one_active:
  "wf_tables C t \<Longrightarrow> length (filter (\<lambda>r. pr_is_active r = 1) (t_profiles t)) \<le> 1"
  by (auto simp: wf_tables_def wf_profile_rows_def)

lemma sqlite_open_total:
  assumes "d_faults d = []"
    and "length (filter (\<lambda>r. pr_is_active r = 1) (t_profiles (schema_rows (d_schema d)))) \<le> 1"
  shows "\<exists>c d'. sqlite_open d = (Inr c, d') \<and> faults c = [] \<and> rng c = d_rng d"
proof -
  have 1: "disk_stmt Inr d = (Inr (), d)" using assms(1) by (simp add: disk_stmt_free)
  obtain d' where "migrate (d\<lparr>d_pragma := False\<rparr>) = (Inr (), d')" and "d_faults d' = []" and "d_rng d' = d_rng d"
    using migrate_free [of "d\<lparr>d_pragma := False\<rparr>"] assms by auto
  with 1 show ?thesis by (simp add: sqlite_open_def io_bind_def connection_of_def)
qed

lemmas sqlite_open_free = sqlite_open_total [OF _ wf_tables_one_active]


section \<open>What opening guarantees\<close>

text \<open>C36: opening the database, on a file in whatever state an earlier attempt left it and whichever
  statements fail, never changes a stored row; when it succeeds the schema is complete, foreign keys
  are enforced and the connection holds the stored rows, and a file that was complete is left
  exactly as it was.\<close>

theorem open_preserves_rows:
  assumes "sqlite_open d = (r, d')"
  shows "schema_rows (d_schema d') = schema_rows (d_schema d) \<and>
    (\<forall>c. r = Inr c \<longrightarrow> complete (d_schema d') \<and> foreign_keys c \<and> db c = schema_rows (d_schema d)) \<and>
    (\<forall>c. r = Inr c \<longrightarrow> complete (d_schema d) \<longrightarrow> d_schema d' = d_schema d)"
  using keepsD [OF sqlite_open_rows refl assms] sqlite_open_Inr assms by metis

definition half_migrated :: disk where
  "half_migrated =
     \<lparr>d_schema = empty_schema\<lparr>s_migrations := Some [],
        s_profiles := Some [\<lparr>pr_id = ''7'', pr_name = ''Work'', pr_is_active = 1, pr_created_at = ''t''\<rparr>]\<rparr>,
      d_pragma = False, d_clock = sconst ''t'', d_rng = sconst 0,
      d_faults = [None, None, None, None, None, Some ''disk full'']\<rparr>"

theorem open_preserves_rows_witness:
  "t_profiles (schema_rows (d_schema (snd (sqlite_open half_migrated)))) =
     [\<lparr>pr_id = ''7'', pr_name = ''Work'', pr_is_active = 1, pr_created_at = ''t''\<rparr>]"
  using open_preserves_rows [OF surjective_pairing, of half_migrated]
  by (simp add: half_migrated_def schema_rows_def empty_schema_def)

text \<open>C37: an opening that failed half-way can be repeated: from any file whose profiles keep to at most
  one active one, also a new one or a half migrated one, opening succeeds when the engine does not
  fail, and any later opening finds the schema complete and leaves it alone.\<close>

theorem open_can_be_repeated:
  assumes "d_faults d = []"
    and "length (filter (\<lambda>r. pr_is_active r = 1) (t_profiles (schema_rows (d_schema d)))) \<le> 1"
  shows "\<exists>c d'. sqlite_open d = (Inr c, d') \<and>
    (\<forall>c' d''. sqlite_open d' = (Inr c', d'') \<longrightarrow> d_schema d'' = d_schema d')"
  using sqlite_open_total [OF assms] sqlite_open_Inr by metis

theorem open_can_be_repeated_witness:
  "\<exists>c d'. sqlite_open (half_migrated\<lparr>d_faults := []\<rparr>) = (Inr c, d')"
  using open_can_be_repeated [of "half_migrated\<lparr>d_faults := []\<rparr>"]
  by (auto simp: half_migrated_def schema_rows_def empty_schema_def)

end
