(* ===== verification/Keyro_Instance.thy ===== *)
theory Keyro_Instance
  imports Keyro_Prelude
begin

text \<open>
  \<open>crates/keyro-core/src/single_instance.rs\<close>: the lock file that keeps a second instance out.  The
  operating system keeps, for the file, the open handle that holds the exclusive lock; closing a
  handle releases its lock.  Whether a call fails is read off the list \<open>lk_faults\<close>; when it is
  exhausted calls succeed.  Several processes share the state: one step is a call to \<open>acquire\<close> or
  the end of a guard's life.
\<close>

section \<open>The lock file\<close>

record lock_world =
  lk_content :: "string option"
  lk_owner :: "nat option"
  lk_next :: nat
  lk_faults :: "string option list"

type_synonym 'a lock_io = "(lock_world, string, 'a) io"

definition lock_call :: "(lock_world \<Rightarrow> (string + 'a) \<times> lock_world) \<Rightarrow> 'a lock_io" where
  "lock_call f = (\<lambda>w.
     case lk_faults w of
       [] \<Rightarrow> f w
     | None # es \<Rightarrow> f (w\<lparr>lk_faults := es\<rparr>)
     | Some e # es \<Rightarrow> (Inl e, w\<lparr>lk_faults := es\<rparr>))"

text \<open>\<open>OpenOptions::open\<close> with \<open>create\<close> and without \<open>truncate\<close>: a new handle.\<close>

definition open_lock_file :: "nat lock_io" where
  "open_lock_file = lock_call (\<lambda>w.
     (Inr (lk_next w),
      w\<lparr>lk_next := Suc (lk_next w),
        lk_content := Some (case lk_content w of None \<Rightarrow> [] | Some s \<Rightarrow> s)\<rparr>))"

text \<open>\<open>try_lock_exclusive\<close>: \<open>Inr False\<close> is the error \<open>WouldBlock\<close>, \<open>Inl\<close> any other.\<close>

definition try_lock_exclusive :: "nat \<Rightarrow> bool lock_io" where
  "try_lock_exclusive file = lock_call (\<lambda>w.
     case lk_owner w of
       None \<Rightarrow> (Inr True, w\<lparr>lk_owner := Some file\<rparr>)
     | Some f \<Rightarrow> (Inr (f = file), w))"

definition set_len_0 :: "unit lock_io" where
  "set_len_0 = lock_call (\<lambda>w. (Inr (), w\<lparr>lk_content := Some []\<rparr>))"

text \<open>\<open>write_all\<close> at the start of the file.\<close>

definition write_content :: "string \<Rightarrow> unit lock_io" where
  "write_content s = lock_call (\<lambda>w.
     (Inr (), w\<lparr>lk_content :=
        Some (s @ drop (length s) (case lk_content w of None \<Rightarrow> [] | Some t \<Rightarrow> t))\<rparr>))"

text \<open>Closing a handle releases the lock if it holds it.\<close>

definition close_lock_file :: "nat \<Rightarrow> lock_world \<Rightarrow> lock_world" where
  "close_lock_file file w = (if lk_owner w = Some file then w\<lparr>lk_owner := None\<rparr> else w)"

section \<open>The guard\<close>

record single_instance_guard =
  g_file :: nat

text \<open>\<open>acquire\<close> in the process \<open>pid\<close>; \<open>path\<close> is the displayed path of the lock file and \<open>dir\<close> that of its
  directory.  On an error after the file is open, the handle is dropped, which closes it.\<close>

definition acquire :: "string \<Rightarrow> string \<Rightarrow> nat \<Rightarrow> single_instance_guard lock_io" where
  "acquire dir path pid =
     io_bind (io_map_err (\<lambda>_. ''failed to create data directory before acquiring lock at '' @ dir)
       (lock_call (\<lambda>w. (Inr (), w)))) (\<lambda>_.
     io_bind (io_map_err (\<lambda>_. ''failed to open lock file at '' @ path) open_lock_file) (\<lambda>file.
     io_try
       (io_bind (io_map_err (\<lambda>_. ''failed to acquire exclusive Keyro Core lock at '' @ path)
          (try_lock_exclusive file)) (\<lambda>locked.
        if \<not> locked
        then io_fail (''another Keyro Core instance is already running; lock file is '' @ path)
        else
          io_bind (io_map_err (\<lambda>_. ''failed to truncate Keyro Core lock file'') set_len_0) (\<lambda>_.
          io_bind (io_map_err (\<lambda>_. ''failed to write Keyro Core lock owner pid'')
            (write_content (show_nat pid))) (\<lambda>_.
          io_return \<lparr>g_file = file\<rparr>))))
       io_return
       (\<lambda>error w. (Inl error, close_lock_file file w))))"

text \<open>Dropping the guard: \<open>FileExt::unlock\<close>, whose error is ignored, and then the file is closed; a
  process that dies closes it too.\<close>

definition unlock :: "nat \<Rightarrow> unit lock_io" where
  "unlock file = lock_call (\<lambda>w. (Inr (), close_lock_file file w))"

definition drop_guard :: "single_instance_guard \<Rightarrow> lock_world \<Rightarrow> lock_world" where
  "drop_guard guard w = close_lock_file (g_file guard) (snd (unlock (g_file guard) w))"

section \<open>Processes\<close>

text \<open>The guards that are alive, by process, and the shared file.\<close>

record instances =
  i_lock :: lock_world
  i_guards :: "(nat \<times> single_instance_guard) list"

inductive instance_step :: "instances \<Rightarrow> instances \<Rightarrow> bool" where
  acquired: "acquire dir path pid (i_lock s) = (Inr guard, l) \<Longrightarrow>
     instance_step s (s\<lparr>i_lock := l, i_guards := (pid, guard) # i_guards s\<rparr>)"
| refused: "acquire dir path pid (i_lock s) = (Inl error, l) \<Longrightarrow>
     instance_step s (s\<lparr>i_lock := l\<rparr>)"
| dropped: "i_guards s = gs @ (pid, guard) # gs' \<Longrightarrow>
     instance_step s (s\<lparr>i_lock := drop_guard guard (i_lock s), i_guards := gs @ gs'\<rparr>)"

inductive_cases instance_stepE: "instance_step s s'"

text \<open>No guard is alive and the lock is free, or one is, its handle owns the lock, and the file
  holds the process identifier.\<close>

definition instances_ok :: "instances \<Rightarrow> bool" where
  "instances_ok s \<longleftrightarrow>
     length (i_guards s) \<le> 1 \<and>
     lk_owner (i_lock s) = (case i_guards s of [] \<Rightarrow> None | (_, guard) # _ \<Rightarrow> Some (g_file guard)) \<and>
     (\<forall>(pid, guard) \<in> set (i_guards s). g_file guard < lk_next (i_lock s) \<and>
        lk_content (i_lock s) = Some (show_nat pid))"

section \<open>The calls\<close>

lemma lock_call_cases:
  assumes "lock_call f w = (r, w')"
  obtains e es where "lk_faults w = Some e # es" and "r = Inl e" and "w' = w\<lparr>lk_faults := es\<rparr>"
  | es where "f (w\<lparr>lk_faults := es\<rparr>) = (r, w')"
proof (cases "lk_faults w")
  case Nil
  then have "w\<lparr>lk_faults := []\<rparr> = w" by simp
  with Nil assms that(2) [of "[]"] show thesis by (simp add: lock_call_def)
next
  case (Cons x es)
  with assms that show thesis by (cases x) (auto simp: lock_call_def)
qed

lemma lock_call_free: "lk_faults w = [] \<Longrightarrow> lock_call f w = f w"
  by (simp add: lock_call_def)

text \<open>What a call leaves of owner, contents and handles.\<close>

lemma open_lock_file_law:
  assumes "open_lock_file w = (r, w')"
  shows "lk_owner w' = lk_owner w \<and> lk_next w \<le> lk_next w' \<and>
    (lk_content w \<noteq> None \<longrightarrow> lk_content w' = lk_content w) \<and>
    (\<forall>file. r = Inr file \<longrightarrow> file = lk_next w \<and> lk_next w' = Suc (lk_next w))"
  using assms unfolding open_lock_file_def by (cases rule: lock_call_cases) auto

lemma try_lock_law:
  assumes "try_lock_exclusive file w = (r, w')"
  shows "lk_next w' = lk_next w \<and> lk_content w' = lk_content w \<and>
    (if r = Inr True then lk_owner w \<in> {None, Some file} \<and> lk_owner w' = Some file
     else lk_owner w' = lk_owner w)"
  using assms unfolding try_lock_exclusive_def
  by (cases rule: lock_call_cases) (auto split: option.splits)

lemma set_len_law:
  assumes "set_len_0 w = (r, w')"
  shows "lk_next w' = lk_next w \<and> lk_owner w' = lk_owner w \<and> (r = Inr () \<longrightarrow> lk_content w' = Some [])"
  using assms unfolding set_len_0_def by (cases rule: lock_call_cases) auto

lemma write_content_law:
  assumes "write_content s w = (r, w')"
  shows "lk_next w' = lk_next w \<and> lk_owner w' = lk_owner w \<and>
    (r = Inr () \<longrightarrow> lk_content w = Some [] \<longrightarrow> lk_content w' = Some s)"
  using assms unfolding write_content_def by (cases rule: lock_call_cases) auto

lemma close_lock_file_simps [simp]:
  "lk_content (close_lock_file f w) = lk_content w" "lk_next (close_lock_file f w) = lk_next w"
  "lk_owner (close_lock_file f w) = (if lk_owner w = Some f then None else lk_owner w)"
  by (simp_all add: close_lock_file_def)

text \<open>\<open>acquire\<close>: on success the lock was free and is now held; on failure the owner is as before, and
  so are the contents unless the lock was free.\<close>

lemma acquire_law:
  assumes a: "acquire dir path pid w = (r, w')" and owner: "\<forall>f. lk_owner w = Some f \<longrightarrow> f < lk_next w"
  shows "lk_next w \<le> lk_next w' \<and>
    (case r of
       Inr guard \<Rightarrow> lk_owner w = None \<and> lk_owner w' = Some (g_file guard) \<and>
         g_file guard < lk_next w' \<and> lk_content w' = Some (show_nat pid)
     | Inl e \<Rightarrow> lk_owner w' = lk_owner w \<and>
         (lk_owner w \<noteq> None \<longrightarrow> lk_content w \<noteq> None \<longrightarrow> lk_content w' = lk_content w))"
proof -
  obtain r0 w0 where 0: "lock_call (\<lambda>w. (Inr (), w)) w = (r0 :: string + unit, w0)" by fastforce
  from 0 have w0: "lk_owner w0 = lk_owner w" "lk_next w0 = lk_next w" "lk_content w0 = lk_content w"
    by (cases rule: lock_call_cases; auto)+
  obtain r1 w1 where 1: "open_lock_file w0 = (r1, w1)" by fastforce
  note w1 = open_lock_file_law [OF 1]
  show ?thesis
  proof (cases "(\<exists>e. r0 = Inl e) \<or> (\<exists>e. r1 = Inl e)")
    case True
    with a 0 1 w0 w1 show ?thesis
      by (cases r0) (auto simp: acquire_def io_bind_def io_map_err_def)
  next
    case False
    then obtain h where r1: "r0 = Inr ()" "r1 = Inr h" by (cases r0; cases r1) auto
    with w1 w0 have hd: "h = lk_next w" "lk_next w1 = Suc h" "lk_owner w1 = lk_owner w"
      and same: "lk_content w \<noteq> None \<Longrightarrow> lk_content w1 = lk_content w" by auto
    with owner have fresh: "lk_owner w \<noteq> Some h" by auto
    obtain r2 w2 where 2: "try_lock_exclusive h w1 = (r2, w2)" by fastforce
    note w2 = try_lock_law [OF 2]
    show ?thesis
    proof (cases "r2 = Inr True")
      case False
      then have "w' = close_lock_file h w2 \<and> (\<exists>e. r = Inl e)"
        using a 0 1 2 r1 by (cases r2) (auto simp: acquire_def io_bind_def io_map_err_def io_try_def)
      with False w2 hd fresh same show ?thesis by auto
    next
      case True
      obtain r3 w3 where 3: "set_len_0 w2 = (r3, w3)" by fastforce
      obtain r4 w4 where 4: "write_content (show_nat pid) w3 = (r4, w4)" by fastforce
      note laws = set_len_law [OF 3] write_content_law [OF 4]
      have free: "lk_owner w = None" using w2 True hd fresh by auto
      have "r3 = Inr () \<and> r4 = Inr () \<and> w' = w4 \<and> r = Inr \<lparr>g_file = h\<rparr> \<or>
          w' \<in> {close_lock_file h w3, close_lock_file h w4} \<and> (\<exists>e. r = Inl e)"
        using a 0 1 2 3 4 r1 True
        by (cases r3; cases r4) (auto simp: acquire_def io_bind_def io_map_err_def io_try_def)
      with True laws w2 hd free show ?thesis by auto
    qed
  qed
qed

lemma drop_guard_law:
  "lk_owner (drop_guard guard w) = (if lk_owner w = Some (g_file guard) then None else lk_owner w)"
proof -
  obtain r l where u: "unlock (g_file guard) w = (r, l)" by fastforce
  have "lk_owner l = lk_owner w \<or> lk_owner l = lk_owner (close_lock_file (g_file guard) w)"
    using u unfolding unlock_def by (cases rule: lock_call_cases) auto
  with u show ?thesis by (auto simp: drop_guard_def)
qed

text \<open>A free lock is acquired when no call fails.\<close>

lemma acquire_free:
  assumes "lk_faults w = []" and "lk_owner w = None"
  shows "fst (acquire dir path pid w) = Inr \<lparr>g_file = lk_next w\<rparr>"
  using assms
  by (simp add: acquire_def io_bind_def io_map_err_def io_try_def lock_call_def open_lock_file_def
      try_lock_exclusive_def set_len_0_def write_content_def)

text \<open>A held lock is refused with the message that names the file.\<close>

lemma acquire_held:
  assumes "lk_faults w = []" and "lk_owner w = Some f" and "f < lk_next w"
  shows "fst (acquire dir path pid w) =
    Inl (''another Keyro Core instance is already running; lock file is '' @ path)"
  using assms
  by (simp add: acquire_def io_bind_def io_map_err_def io_try_def lock_call_def open_lock_file_def
      try_lock_exclusive_def)

section \<open>Mutual exclusion\<close>

lemma instances_ok_owner:
  "instances_ok s \<Longrightarrow> \<forall>f. lk_owner (i_lock s) = Some f \<longrightarrow> f < lk_next (i_lock s)"
  by (auto simp: instances_ok_def split: list.splits)

lemma instance_step_ok:
  assumes "instance_step s s'" and ok: "instances_ok s"
  shows "instances_ok s'"
  using assms(1)
proof cases
  case (acquired dir path pid guard l)
  from acquire_law [OF acquired(2) instances_ok_owner [OF ok]]
  have "lk_owner (i_lock s) = None"
    and new: "lk_owner l = Some (g_file guard)" "g_file guard < lk_next l" "lk_content l = Some (show_nat pid)"
    by auto
  with ok have "i_guards s = []" by (auto simp: instances_ok_def split: list.splits)
  with new acquired(1) show ?thesis by (simp add: instances_ok_def)
next
  case (refused dir path pid error l)
  from acquire_law [OF refused(2) instances_ok_owner [OF ok]] ok refused(1) show ?thesis
    by (cases "i_guards s") (auto simp: instances_ok_def)
next
  case (dropped gs pid guard gs')
  with ok have "gs = [] \<and> gs' = []" by (simp add: instances_ok_def)
  with dropped ok show ?thesis by (simp add: instances_ok_def drop_guard_law)
qed

lemma instances_reachable_ok: "instance_step\<^sup>*\<^sup>* s s' \<Longrightarrow> instances_ok s \<Longrightarrow> instances_ok s'"
  by (induction rule: rtranclp_induct) (auto intro: instance_step_ok)


text \<open>C33: from a state with at most one guard, whatever processes try to start, end or die in any
  order and whatever calls fail, at most one guard is alive at any time, and while one is, the lock
  file holds the identifier of its process.\<close>

theorem single_instance_exclusion:
  assumes "instance_step\<^sup>*\<^sup>* s s'" and "instances_ok s"
  shows "length (i_guards s') \<le> 1 \<and>
    (\<forall>(pid, guard) \<in> set (i_guards s'). lk_content (i_lock s') = Some (show_nat pid))"
  using instances_reachable_ok [OF assms] by (auto simp: instances_ok_def)

definition sample_instances :: instances where
  "sample_instances =
     \<lparr>i_lock = \<lparr>lk_content = None, lk_owner = None, lk_next = 3, lk_faults = []\<rparr>, i_guards = []\<rparr>"

theorem single_instance_exclusion_witness:
  "\<exists>s. instance_step\<^sup>*\<^sup>* sample_instances s \<and> length (i_guards s) = 1 \<and>
     lk_content (i_lock s) = Some (show_nat 41)"
proof -
  obtain guard l where a: "acquire ''d'' ''p'' 41 (i_lock sample_instances) = (Inr guard, l)"
    using acquire_free [of "i_lock sample_instances" "''d''" "''p''" 41]
    by (auto simp: sample_instances_def prod_eq_iff)
  let ?s = "sample_instances\<lparr>i_lock := l, i_guards := (41, guard) # i_guards sample_instances\<rparr>"
  have r: "instance_step\<^sup>*\<^sup>* sample_instances ?s" using acquired [OF a] by (rule r_into_rtranclp)
  have "instances_ok sample_instances" by (simp add: instances_ok_def sample_instances_def)
  from single_instance_exclusion [OF r this] have "lk_content (i_lock ?s) = Some (show_nat 41)" by simp
  with r show ?thesis by (intro exI [of _ ?s]) (simp add: sample_instances_def)
qed

text \<open>A start is refused exactly when it should be: on a file system that works, the lock is
  acquired when nobody holds it, and otherwise the error names the lock file; once the guard is
  dropped, or its process is gone, it can be acquired again.\<close>

theorem acquire_decides:
  assumes "lk_faults w = []" and "\<forall>f. lk_owner w = Some f \<longrightarrow> f < lk_next w"
    and "acquire dir path pid w = (r, w')"
  shows "(lk_owner w = None \<longleftrightarrow> (\<exists>guard. r = Inr guard)) \<and>
    (lk_owner w \<noteq> None \<longrightarrow>
       r = Inl (''another Keyro Core instance is already running; lock file is '' @ path)) \<and>
    (\<forall>guard. r = Inr guard \<longrightarrow> lk_owner (drop_guard guard w') = None)"
proof (cases "lk_owner w")
  case None
  then show ?thesis
    using acquire_free [OF assms(1), of dir path pid] acquire_law [OF assms(3,2)] assms(3)
    by (auto simp: drop_guard_law)
next
  case (Some f)
  then show ?thesis
    using acquire_held [OF assms(1), of f dir path pid] assms(2,3) by auto
qed

theorem acquire_decides_witness:
  "fst (acquire ''d'' ''d/keyro-core.lock'' 5
     (i_lock sample_instances\<lparr>lk_owner := Some 1\<rparr>)) =
   Inl ''another Keyro Core instance is already running; lock file is d/keyro-core.lock''"
proof -
  let ?w = "i_lock sample_instances\<lparr>lk_owner := Some 1\<rparr>"
  have "lk_faults ?w = []" and "\<forall>f. lk_owner ?w = Some f \<longrightarrow> f < lk_next ?w"
    by (simp_all add: sample_instances_def)
  from acquire_decides [OF this surjective_pairing] show ?thesis by simp
qed

end
