(* ===== verification/Keyro_Logging.thy ===== *)
theory Keyro_Logging
  imports Keyro_Prelude
begin

text \<open>
  \<open>crates/keyro-core/src/logging.rs\<close>: the rotating log writer and its retention policy, on a model of
  the log directory.  A directory entry names an inode and an open file is an inode, so a log that
  is renamed or removed while it is open keeps its contents.  Time is counted from the earliest
  instant that \<open>SystemTime\<close> can represent; every look at the clock takes its next reading.  Whether
  a system call fails is read off the list \<open>lw_faults\<close>, and how many bytes a write accepts off the
  list \<open>lw_shorts\<close>; when a list is exhausted calls succeed and writes are complete.
\<close>

section \<open>The log directory\<close>

record log_file =
  f_data :: string
  f_modified :: nat

record log_world =
  lw_dir :: "(string \<times> nat) list"
  lw_files :: "nat \<Rightarrow> log_file"
  lw_next :: nat
  lw_file :: nat
  lw_clock :: "nat stream"
  lw_faults :: "string option list"
  lw_shorts :: "nat list"
  lw_poisoned :: bool

type_synonym 'a log_io = "(log_world, string, 'a) io"

definition sys :: "(log_world \<Rightarrow> (string + 'a) \<times> log_world) \<Rightarrow> 'a log_io" where
  "sys f = (\<lambda>w.
     case lw_faults w of
       [] \<Rightarrow> f w
     | None # es \<Rightarrow> f (w\<lparr>lw_faults := es\<rparr>)
     | Some e # es \<Rightarrow> (Inl e, w\<lparr>lw_faults := es\<rparr>))"

text \<open>\<open>SystemTime::now()\<close>.\<close>

definition now :: "nat log_io" where
  "now = (\<lambda>w. (Inr (shd (lw_clock w)), w\<lparr>lw_clock := stl (lw_clock w)\<rparr>))"

definition file_exists :: "string \<Rightarrow> log_world \<Rightarrow> bool" where
  "file_exists name w \<longleftrightarrow> map_of (lw_dir w) name \<noteq> None"

definition remove_entry :: "string \<Rightarrow> (string \<times> nat) list \<Rightarrow> (string \<times> nat) list" where
  "remove_entry name d = filter (\<lambda>e. fst e \<noteq> name) d"

definition remove_file :: "string \<Rightarrow> unit log_io" where
  "remove_file name = sys (\<lambda>w.
     if file_exists name w then (Inr (), w\<lparr>lw_dir := remove_entry name (lw_dir w)\<rparr>)
     else (Inl ''No such file or directory'', w))"

text \<open>\<open>fs::rename\<close> replaces the target.\<close>

definition rename_file :: "string \<Rightarrow> string \<Rightarrow> unit log_io" where
  "rename_file source target = sys (\<lambda>w.
     case map_of (lw_dir w) source of
       None \<Rightarrow> (Inl ''No such file or directory'', w)
     | Some i \<Rightarrow>
         (Inr (), w\<lparr>lw_dir :=
            remove_entry source (remove_entry target (lw_dir w)) @ [(target, i)]\<rparr>))"

text \<open>\<open>File::metadata\<close> and \<open>DirEntry::metadata\<close>: size and modification time.\<close>

definition metadata :: "nat \<Rightarrow> (nat \<times> nat) log_io" where
  "metadata i = sys (\<lambda>w. (Inr (length (f_data (lw_files w i)), f_modified (lw_files w i)), w))"

text \<open>\<open>File::write\<close> on a file opened for appending.\<close>

definition write_file :: "string \<Rightarrow> nat log_io" where
  "write_file buf = sys (\<lambda>w.
     let n = (case lw_shorts w of [] \<Rightarrow> length buf | k # _ \<Rightarrow> min k (length buf));
         f = lw_files w (lw_file w);
         f' = \<lparr>f_data = f_data f @ take n buf, f_modified = shd (lw_clock w)\<rparr>
     in (Inr n, w\<lparr>lw_shorts := tl (lw_shorts w), lw_clock := stl (lw_clock w),
                  lw_files := (lw_files w)(lw_file w := f')\<rparr>))"

definition flush_file :: "unit log_io" where
  "flush_file = sys (\<lambda>w. (Inr (), w))"

definition LOG_FILE_NAME :: string where "LOG_FILE_NAME = ''keyro-core.log''"

text \<open>Opening for appending creates the file when it is not there.\<close>

definition open_current_log :: "unit log_io" where
  "open_current_log = sys (\<lambda>w.
     case map_of (lw_dir w) LOG_FILE_NAME of
       Some i \<Rightarrow> (Inr (), w\<lparr>lw_file := i\<rparr>)
     | None \<Rightarrow>
         (Inr (), w\<lparr>lw_dir := lw_dir w @ [(LOG_FILE_NAME, lw_next w)],
            lw_files := (lw_files w)(lw_next w := \<lparr>f_data = [], f_modified = shd (lw_clock w)\<rparr>),
            lw_clock := stl (lw_clock w), lw_file := lw_next w, lw_next := Suc (lw_next w)\<rparr>))"

section \<open>Retention\<close>

record log_retention =
  max_file_bytes :: nat
  max_total_bytes :: nat
  max_files :: nat
  max_age :: nat

definition log_retention_default :: log_retention where
  "log_retention_default =
     \<lparr>max_file_bytes = 5 * 1024 * 1024, max_total_bytes = 50 * 1024 * 1024, max_files = 10,
      max_age = 14 * 24 * 60 * 60\<rparr>"

definition validate_retention :: "log_retention \<Rightarrow> string + unit" where
  "validate_retention retention =
     (if max_file_bytes retention = 0 then Inl ''log max_file_bytes must be greater than zero''
      else if max_total_bytes retention = 0 then Inl ''log max_total_bytes must be greater than zero''
      else if max_files retention = 0 then Inl ''log max_files must be greater than zero''
      else if max_total_bytes retention < max_file_bytes retention
      then Inl ''log max_total_bytes must be at least max_file_bytes''
      else Inr ())"

definition retention_cutoff :: "log_retention \<Rightarrow> nat log_io" where
  "retention_cutoff retention =
     io_bind now (\<lambda>t.
     if max_age retention \<le> t then io_return (t - max_age retention)
     else io_fail ''invalid log retention age'')"

definition is_keyro_log :: "string \<Rightarrow> bool" where
  "is_keyro_log name \<longleftrightarrow>
     name = LOG_FILE_NAME \<or> prefix ''keyro-core.'' name \<and> suffix ''.log'' name"

record kept_log =
  kl_is_current :: bool
  kl_path :: string
  kl_modified :: nat
  kl_size :: nat

text \<open>The loop over \<open>read_dir\<close>: expired and oversized logs are removed, the others are collected; an
  entry whose metadata cannot be read is skipped.\<close>

fun scan_logs :: "log_retention \<Rightarrow> nat \<Rightarrow> (string \<times> nat) list \<Rightarrow> kept_log list log_io" where
  "scan_logs retention cutoff [] = io_return []"
| "scan_logs retention cutoff ((name, i) # entries) =
     (if \<not> is_keyro_log name then scan_logs retention cutoff entries
      else io_try (metadata i)
        (\<lambda>(size, modified).
           if modified < cutoff \<or> max_file_bytes retention < size
           then io_bind (remove_file name) (\<lambda>_. scan_logs retention cutoff entries)
           else io_bind (scan_logs retention cutoff entries) (\<lambda>rest.
                io_return (\<lparr>kl_is_current = (name = LOG_FILE_NAME), kl_path = name,
                            kl_modified = modified, kl_size = size\<rparr> # rest)))
        (\<lambda>_. scan_logs retention cutoff entries))"

text \<open>The loop over the retained logs, newest first: the current log always stays; another one is
  removed when it would exceed the number of files or the total size.\<close>

fun prune_logs ::
  "log_retention \<Rightarrow> nat option \<Rightarrow> nat \<Rightarrow> nat \<Rightarrow> nat \<Rightarrow> kept_log list \<Rightarrow> unit log_io" where
  "prune_logs retention current_index index kept_files total_bytes [] = io_return ()"
| "prune_logs retention current_index index kept_files total_bytes (log_file # rest) =
     (if current_index = Some index
      then prune_logs retention current_index (Suc index) kept_files total_bytes rest
      else if max_files retention \<le> kept_files \<or>
        max_total_bytes retention < sat_add64 total_bytes (kl_size log_file)
      then io_bind (remove_file (kl_path log_file)) (\<lambda>_.
           prune_logs retention current_index (Suc index) kept_files total_bytes rest)
      else prune_logs retention current_index (Suc index) (Suc kept_files)
             (sat_add64 total_bytes (kl_size log_file)) rest)"

text \<open>\<open>Iterator::position\<close>.\<close>

fun position :: "('a \<Rightarrow> bool) \<Rightarrow> 'a list \<Rightarrow> nat option" where
  "position P [] = None"
| "position P (x # xs) = (if P x then Some 0 else map_option Suc (position P xs))"

text \<open>\<open>std::cmp::Reverse\<close>: the order turned round.\<close>

datatype 'a reverse = Reverse (reversed: 'a)

instantiation reverse :: (linorder) linorder
begin

definition less_eq_reverse :: "'a reverse \<Rightarrow> 'a reverse \<Rightarrow> bool" where
  "a \<le> b \<longleftrightarrow> reversed b \<le> reversed a"

definition less_reverse :: "'a reverse \<Rightarrow> 'a reverse \<Rightarrow> bool" where
  "a < b \<longleftrightarrow> reversed b < reversed a"

instance
  by standard (auto simp: less_eq_reverse_def less_reverse_def reverse.expand)

end

definition newest_first :: "kept_log list \<Rightarrow> kept_log list" where
  "newest_first = sort_key (\<lambda>log_file. Reverse (kl_modified log_file))"

definition cleanup_logs :: "log_retention \<Rightarrow> unit log_io" where
  "cleanup_logs retention =
     io_bind (retention_cutoff retention) (\<lambda>cutoff.
     io_bind (sys (\<lambda>w. (Inr (lw_dir w), w))) (\<lambda>entries.
     io_bind (scan_logs retention cutoff entries) (\<lambda>retained.
     let retained = newest_first retained;
         current_index = position kl_is_current retained;
         total_bytes = (case current_index of None \<Rightarrow> 0 | Some i \<Rightarrow> kl_size (retained ! i));
         kept_files = (if current_index \<noteq> None then 1 else 0)
     in prune_logs retention current_index 0 kept_files total_bytes retained)))"

section \<open>Rotation\<close>

definition rotated_log_path :: "nat \<Rightarrow> string" where
  "rotated_log_path index = ''keyro-core.'' @ show_nat index @ ''.log''"

definition remove_if_exists :: "string \<Rightarrow> unit log_io" where
  "remove_if_exists name = (\<lambda>w. if file_exists name w then remove_file name w else (Inr (), w))"

definition rename_if_exists :: "string \<Rightarrow> string \<Rightarrow> unit log_io" where
  "rename_if_exists source target =
     (\<lambda>w. if file_exists source w then rename_file source target w else (Inr (), w))"

text \<open>\<open>for index in (1..n).rev()\<close>.\<close>

fun shift_logs :: "nat \<Rightarrow> unit log_io" where
  "shift_logs 0 = io_return ()"
| "shift_logs (Suc i) =
     io_bind (rename_if_exists (rotated_log_path i) (rotated_log_path (Suc i))) (\<lambda>_. shift_logs i)"

definition rotate_logs :: "log_retention \<Rightarrow> unit log_io" where
  "rotate_logs retention =
     (let max_rotated_files = max_files retention - 1
      in if max_rotated_files = 0 then remove_if_exists LOG_FILE_NAME
         else
           io_bind (remove_if_exists (rotated_log_path (max_rotated_files - 1))) (\<lambda>_.
           io_bind (shift_logs (max_rotated_files - 1)) (\<lambda>_.
           io_bind (rename_if_exists LOG_FILE_NAME (rotated_log_path 0)) (\<lambda>_.
           cleanup_logs retention))))"

section \<open>The writer\<close>

definition current_log_needs_rotation :: "log_retention \<Rightarrow> bool log_io" where
  "current_log_needs_rotation retention =
     io_bind (\<lambda>w. metadata (lw_file w) w) (\<lambda>(size, modified).
     if max_file_bytes retention \<le> size then io_return True
     else io_bind (retention_cutoff retention) (\<lambda>cutoff. io_return (modified < cutoff)))"

definition rotate :: "log_retention \<Rightarrow> unit log_io" where
  "rotate retention =
     io_bind flush_file (\<lambda>_.
     io_bind (rotate_logs retention) (\<lambda>_.
     open_current_log))"

definition cleanup_retention :: "log_retention \<Rightarrow> unit log_io" where
  "cleanup_retention retention =
     io_bind (current_log_needs_rotation retention) (\<lambda>needed.
     io_bind (if needed then rotate retention else io_return ()) (\<lambda>_.
     cleanup_logs retention))"

definition log_write :: "log_retention \<Rightarrow> string \<Rightarrow> nat log_io" where
  "log_write retention buf =
     (if buf = [] then io_return 0
      else
        io_bind (\<lambda>w. metadata (lw_file w) w) (\<lambda>(current_size, _).
        io_bind
          (if max_file_bytes retention \<le> current_size \<or>
              0 < current_size \<and>
                max_file_bytes retention < sat_add64 current_size (length buf)
           then rotate retention else io_return ()) (\<lambda>_.
        io_bind (\<lambda>w. metadata (lw_file w) w) (\<lambda>(current_size, _).
        let available_bytes = max_file_bytes retention - current_size;
            write_len = min available_bytes (length buf)
        in io_bind (write_file (take write_len buf)) (\<lambda>written.
           io_bind (cleanup_retention retention) (\<lambda>_.
           io_return written))))))"

text \<open>\<open>RotatingLogWriter::new\<close>; creating the directory is one more call that can fail.\<close>

definition rotating_log_writer_new :: "log_retention \<Rightarrow> unit log_io" where
  "rotating_log_writer_new retention =
     io_bind (io_of_res (validate_retention retention)) (\<lambda>_.
     io_bind (sys (\<lambda>w. (Inr (), w))) (\<lambda>_.
     io_bind (cleanup_logs retention) (\<lambda>_.
     open_current_log)))"

section \<open>The mutex around the writer\<close>

definition lock_log :: "unit log_io" where
  "lock_log = (\<lambda>w. if lw_poisoned w then (Inl ''log lock poisoned'', w) else (Inr (), w))"

definition log_handle_write :: "log_retention \<Rightarrow> string \<Rightarrow> nat log_io" where
  "log_handle_write retention buf = io_bind lock_log (\<lambda>_. log_write retention buf)"

definition log_handle_flush :: "unit log_io" where
  "log_handle_flush = io_bind lock_log (\<lambda>_. flush_file)"

text \<open>One round of the maintenance thread, which ends when the lock is poisoned and drops the result of
  the cleanup.\<close>

definition maintain :: "log_retention \<Rightarrow> log_world \<Rightarrow> log_world" where
  "maintain retention w =
     (case lock_log w of (Inl _, w') \<Rightarrow> w' | (Inr _, w') \<Rightarrow> snd (cleanup_retention retention w'))"

end
