(* ===== verification/Keyro_Logging_Frame.thy ===== *)
theory Keyro_Logging_Frame
  imports Keyro_Logging
begin

text \<open>
  Invariants of the log writer that hold whatever system calls fail.  The locale \<open>log_invariant\<close>
  asks that a predicate be kept by each of the primitive changes of the log directory that the
  writer makes, on names of logs only; then every operation of the writer keeps it.  It is
  interpreted on the well-formedness of the directory, on the contents of all existing files being
  append-only, and on files that are no logs being left alone.
\<close>

text \<open>The states after a new current log has been created and after some bytes have been written.\<close>

definition created :: "log_world \<Rightarrow> log_world" where
  "created w =
     w\<lparr>lw_dir := lw_dir w @ [(LOG_FILE_NAME, lw_next w)],
       lw_files := (lw_files w)(lw_next w := \<lparr>f_data = [], f_modified = shd (lw_clock w)\<rparr>),
       lw_clock := stl (lw_clock w), lw_file := lw_next w, lw_next := Suc (lw_next w)\<rparr>"

definition appended :: "string \<Rightarrow> log_world \<Rightarrow> log_world" where
  "appended buf w =
     w\<lparr>lw_shorts := tl (lw_shorts w), lw_clock := stl (lw_clock w),
       lw_files := (lw_files w)(lw_file w :=
         \<lparr>f_data = f_data (lw_files w (lw_file w)) @ buf, f_modified = shd (lw_clock w)\<rparr>)\<rparr>"

definition renamed :: "string \<Rightarrow> string \<Rightarrow> nat \<Rightarrow> log_world \<Rightarrow> log_world" where
  "renamed source target i w =
     w\<lparr>lw_dir := remove_entry source (remove_entry target (lw_dir w)) @ [(target, i)]\<rparr>"

lemmas world_changes = created_def appended_def renamed_def

section \<open>Well-formed directories\<close>

text \<open>Names and inodes are unique, and inodes are drawn below the next fresh one.\<close>

definition wf_log :: "log_world \<Rightarrow> bool" where
  "wf_log w \<longleftrightarrow>
     distinct (map fst (lw_dir w)) \<and> distinct (map snd (lw_dir w)) \<and>
     (\<forall>e \<in> set (lw_dir w). snd e < lw_next w) \<and> lw_file w < lw_next w"

lemma file_exists_iff: "file_exists name w \<longleftrightarrow> name \<in> fst ` set (lw_dir w)"
  by (auto simp: file_exists_def map_of_eq_None_iff)

lemma remove_entry_names [simp]: "fst ` set (remove_entry name d) = fst ` set d - {name}"
  by (force simp: remove_entry_def)

lemma remove_entry_subset: "set (remove_entry name d) \<subseteq> set d"
  by (auto simp: remove_entry_def)

lemma remove_entry_distinct: "distinct (map f d) \<Longrightarrow> distinct (map f (remove_entry name d))"
  by (simp add: remove_entry_def distinct_map_filter)

lemma wf_log_remove: "wf_log w \<Longrightarrow> wf_log (w\<lparr>lw_dir := remove_entry name (lw_dir w)\<rparr>)"
  using remove_entry_subset [of name "lw_dir w"]
  by (auto simp: wf_log_def intro: remove_entry_distinct)

lemma wf_log_rename:
  assumes wf: "wf_log w" and i: "map_of (lw_dir w) source = Some i"
  shows "wf_log (renamed source target i w)"
proof -
  let ?d = "remove_entry source (remove_entry target (lw_dir w))"
  have mem: "(source, i) \<in> set (lw_dir w)" using i by (rule map_of_SomeD)
  have "e \<noteq> (source, i)" and "fst e \<noteq> target" and "e \<in> set (lw_dir w)" if "e \<in> set ?d" for e
    using that by (auto simp: remove_entry_def)
  moreover have "e = (source, i)" if "e \<in> set (lw_dir w)" and "snd e = i" for e
    using wf mem that unfolding wf_log_def distinct_map inj_on_def by (metis snd_conv)
  ultimately have "i \<notin> snd ` set ?d" and "target \<notin> fst ` set ?d"
    by blast+
  with wf mem show ?thesis
    by (auto simp: wf_log_def renamed_def remove_entry_distinct dest: remove_entry_subset [THEN subsetD])
qed

section \<open>Invariants of the operations\<close>

locale directory_invariant =
  fixes P :: "log_world \<Rightarrow> bool"
  assumes faults: "P w \<Longrightarrow> P (w\<lparr>lw_faults := es\<rparr>)"
    and tick: "P w \<Longrightarrow> P (w\<lparr>lw_clock := c\<rparr>)"
    and removal: "P w \<Longrightarrow> is_keyro_log name \<Longrightarrow> P (w\<lparr>lw_dir := remove_entry name (lw_dir w)\<rparr>)"
    and renaming: "P w \<Longrightarrow> is_keyro_log source \<Longrightarrow> is_keyro_log target \<Longrightarrow>
      map_of (lw_dir w) source = Some i \<Longrightarrow> P (renamed source target i w)"
    and reopening: "P w \<Longrightarrow> map_of (lw_dir w) LOG_FILE_NAME = Some i \<Longrightarrow> P (w\<lparr>lw_file := i\<rparr>)"
    and creation: "P w \<Longrightarrow> map_of (lw_dir w) LOG_FILE_NAME = None \<Longrightarrow> P (created w)"

locale log_invariant = directory_invariant +
  assumes writing: "P w \<Longrightarrow> P (appended buf w)"

lemma keyro_names [simp]: "is_keyro_log LOG_FILE_NAME" "is_keyro_log (rotated_log_path n)"
  by (auto simp: is_keyro_log_def rotated_log_path_def suffix_def intro: exI [of _ "''keyro-core.'' @ show_nat n"])

lemma scan_logs_paths:
  "scan_logs r cutoff es w = (Inr ls, w') \<Longrightarrow> l \<in> set ls \<Longrightarrow> is_keyro_log (kl_path l)"
proof (induction r cutoff es arbitrary: w ls w' rule: scan_logs.induct)
  case (2 r cutoff name i entries)
  show ?case
  proof (cases "is_keyro_log name")
    case False
    with 2 show ?thesis by auto
  next
    case True
    with 2 show ?thesis
      by (auto simp: io_try_eq io_bind_eq_Inr split: if_splits)
  qed
qed simp

context directory_invariant
begin

lemma keeps_sys: "(\<And>w r w'. P w \<Longrightarrow> f w = (r, w') \<Longrightarrow> P w') \<Longrightarrow> keeps P (sys f)"
  by (rule keepsI) (auto simp: sys_def intro: faults split: list.splits option.splits)

lemma keeps_now: "keeps P now"
  by (auto simp: keeps_def now_def intro: tick)

lemma keeps_retention_cutoff: "keeps P (retention_cutoff r)"
  unfolding retention_cutoff_def by (intro keeps_bind keeps_now) auto

lemma keeps_remove_file: "is_keyro_log name \<Longrightarrow> keeps P (remove_file name)"
  unfolding remove_file_def by (rule keeps_sys) (auto intro: removal split: if_splits)

lemma keeps_rename_file: "is_keyro_log s \<Longrightarrow> is_keyro_log t \<Longrightarrow> keeps P (rename_file s t)"
  unfolding rename_file_def
  by (rule keeps_sys) (auto intro: renaming [unfolded renamed_def] split: option.splits)

lemma keeps_metadata: "keeps P (metadata i)"
  unfolding metadata_def by (rule keeps_sys) auto

lemma keeps_current_metadata: "keeps P (\<lambda>w. metadata (lw_file w) w)"
  using keeps_metadata by (auto simp: keeps_def)

lemma keeps_flush: "keeps P flush_file"
  unfolding flush_file_def by (rule keeps_sys) auto

lemma keeps_open: "keeps P open_current_log"
  unfolding open_current_log_def
  by (rule keeps_sys) (auto intro: reopening creation [unfolded created_def] split: option.splits)

lemma keeps_scan_logs: "keeps P (scan_logs r cutoff es)"
proof (induction r cutoff es rule: scan_logs.induct)
  case (2 r cutoff name i entries)
  then show ?case
    by (auto intro!: keeps_try keeps_metadata keeps_bind keeps_remove_file split: prod.split)
qed simp

lemma keeps_prune_logs:
  "\<forall>l \<in> set ls. is_keyro_log (kl_path l) \<Longrightarrow> keeps P (prune_logs r cur i k t ls)"
  by (induction ls arbitrary: i k t) (auto intro!: keeps_bind keeps_remove_file)

lemma keeps_read_dir: "keeps P (sys (\<lambda>w. (Inr (lw_dir w), w)))"
  by (rule keeps_sys) auto

lemma keeps_cleanup_logs: "keeps P (cleanup_logs r)"
  unfolding cleanup_logs_def Let_def
proof (intro keeps_bind_value keeps_retention_cutoff keeps_read_dir keeps_scan_logs keeps_prune_logs)
  fix w cutoff es ls w'
  assume "scan_logs r cutoff es w = (Inr ls, w')"
  then show "\<forall>l \<in> set (newest_first ls). is_keyro_log (kl_path l)"
    using scan_logs_paths by (auto simp: newest_first_def)
qed

lemma keeps_if_exists:
  "is_keyro_log s \<Longrightarrow> keeps P (remove_if_exists s)"
  "is_keyro_log s \<Longrightarrow> is_keyro_log t \<Longrightarrow> keeps P (rename_if_exists s t)"
  using keeps_remove_file [of s] keeps_rename_file [of s t]
  by (auto simp: keeps_def remove_if_exists_def rename_if_exists_def)

lemma keeps_shift_logs: "keeps P (shift_logs n)"
  by (induction n) (simp_all only: shift_logs.simps keeps_return keeps_bind keeps_if_exists keyro_names)

lemma keeps_rotate_logs: "keeps P (rotate_logs r)"
  unfolding rotate_logs_def Let_def
  by (auto intro!: keeps_bind keeps_if_exists keeps_shift_logs keeps_cleanup_logs)

lemma keeps_rotate: "keeps P (rotate r)"
  unfolding rotate_def by (intro keeps_bind keeps_flush keeps_rotate_logs keeps_open)

lemma keeps_cleanup_retention: "keeps P (cleanup_retention r)"
  unfolding cleanup_retention_def current_log_needs_rotation_def
  by (intro keeps_bind keeps_cleanup_logs)
    (auto intro!: keeps_bind keeps_current_metadata keeps_retention_cutoff keeps_rotate split: prod.split)

lemma keeps_writer_new: "keeps P (rotating_log_writer_new r)"
  unfolding rotating_log_writer_new_def
  by (intro keeps_bind keeps_of_res keeps_cleanup_logs keeps_open) (rule keeps_sys, auto)

lemma keeps_lock_log: "keeps P lock_log"
  by (simp add: keeps_def lock_log_def)

lemma keeps_handle_flush: "keeps P log_handle_flush"
  unfolding log_handle_flush_def by (intro keeps_bind keeps_lock_log keeps_flush)

lemma maintain_keeps: "P w \<Longrightarrow> P (maintain r w)"
  using keeps_cleanup_retention by (simp add: keeps_def maintain_def lock_log_def)

end

context log_invariant
begin

lemma keeps_write_file: "keeps P (write_file buf)"
  unfolding write_file_def
  by (rule keeps_sys) (auto simp: Let_def intro: writing [unfolded appended_def])

lemma keeps_log_write: "keeps P (log_write r buf)"
  unfolding log_write_def Let_def
  by (auto intro!: keeps_bind keeps_current_metadata keeps_rotate keeps_write_file
      keeps_cleanup_retention split: prod.split)

lemma keeps_handle_write: "keeps P (log_handle_write r buf)"
  unfolding log_handle_write_def by (intro keeps_bind keeps_lock_log keeps_log_write)

end


section \<open>What is kept\<close>

lemma wf_log_created: "wf_log w \<Longrightarrow> map_of (lw_dir w) LOG_FILE_NAME = None \<Longrightarrow> wf_log (created w)"
  by (force simp: wf_log_def created_def map_of_eq_None_iff)

interpretation wf_world: log_invariant wf_log
proof
  fix w i
  assume "wf_log w" and "map_of (lw_dir w) LOG_FILE_NAME = Some i"
  then show "wf_log (w\<lparr>lw_file := i\<rparr>)" by (auto simp: wf_log_def dest: map_of_SomeD)
qed (simp_all add: wf_log_remove wf_log_rename wf_log_created, simp_all add: wf_log_def appended_def)

interpretation full_writes: log_invariant "\<lambda>w. lw_shorts w = []"
  by unfold_locales (simp_all add: world_changes)

text \<open>The contents of the files below the inode \<open>N\<close> extend \<open>D\<close>.\<close>

definition contents_extend :: "nat \<Rightarrow> (nat \<Rightarrow> string) \<Rightarrow> log_world \<Rightarrow> bool" where
  "contents_extend N D w \<longleftrightarrow> N \<le> lw_next w \<and> (\<forall>i < N. prefix (D i) (f_data (lw_files w i)))"

interpretation append_only: log_invariant "contents_extend N D" for N D
  by unfold_locales (auto simp: contents_extend_def world_changes)

text \<open>The files below the inode \<open>N\<close> are as in \<open>F\<close>: only a write changes them.\<close>

definition files_kept :: "nat \<Rightarrow> (nat \<Rightarrow> log_file) \<Rightarrow> log_world \<Rightarrow> bool" where
  "files_kept N F w \<longleftrightarrow> N \<le> lw_next w \<and> (\<forall>i < N. lw_files w i = F i)"

interpretation untouched: directory_invariant "files_kept N F" for N F
  by unfold_locales (auto simp: files_kept_def world_changes)

text \<open>The entries that are no logs, in their order, and their contents.\<close>

definition other_entries :: "log_world \<Rightarrow> (string \<times> nat) list" where
  "other_entries w = filter (\<lambda>e. \<not> is_keyro_log (fst e)) (lw_dir w)"

definition others_kept :: "(string \<times> nat) list \<Rightarrow> (nat \<Rightarrow> log_file) \<Rightarrow> log_world \<Rightarrow> bool" where
  "others_kept d F w \<longleftrightarrow>
     wf_log w \<and> other_entries w = d \<and> (\<forall>e \<in> set d. lw_files w (snd e) = F (snd e)) \<and>
     lw_file w \<notin> snd ` set d"

lemma other_entries_changes [simp]:
  "is_keyro_log n \<Longrightarrow> filter (\<lambda>e. \<not> is_keyro_log (fst e)) (remove_entry n d) =
     filter (\<lambda>e. \<not> is_keyro_log (fst e)) d"
  by (auto simp: remove_entry_def intro: filter_cong)

lemma others_kept_open:
  assumes o: "others_kept d F w" and i: "map_of (lw_dir w) LOG_FILE_NAME = Some i"
  shows "others_kept d F (w\<lparr>lw_file := i\<rparr>)"
proof -
  have mem: "(LOG_FILE_NAME, i) \<in> set (lw_dir w)" using i by (rule map_of_SomeD)
  have wf: "wf_log w" and d: "d = other_entries w" using o by (auto simp: others_kept_def)
  have "e = (LOG_FILE_NAME, i)" if "e \<in> set (lw_dir w)" and "snd e = i" for e
    using wf mem that unfolding wf_log_def distinct_map inj_on_def by (metis snd_conv)
  then have "i \<notin> snd ` set d" by (force simp: d other_entries_def)
  moreover have "wf_log (w\<lparr>lw_file := i\<rparr>)" using wf_world.reopening [OF wf i] .
  ultimately show ?thesis using o by (auto simp: others_kept_def other_entries_def)
qed

lemma others_below: "others_kept d F w \<Longrightarrow> e \<in> set d \<Longrightarrow> snd e < lw_next w"
  by (auto simp: others_kept_def wf_log_def other_entries_def)

interpretation others: log_invariant "others_kept d F" for d F
proof
  fix w
  assume o: "others_kept d F w" and n: "map_of (lw_dir w) LOG_FILE_NAME = None"
  then have "wf_log (created w)" by (simp add: others_kept_def wf_log_created)
  with o others_below [OF o] show "others_kept d F (created w)"
    by (force simp: others_kept_def created_def other_entries_def)
next
  fix w :: log_world and buf :: string
  assume o: "others_kept d F w"
  then have "wf_log (appended buf w)" by (simp add: others_kept_def wf_world.writing)
  with o show "others_kept d F (appended buf w)"
    by (force simp: others_kept_def appended_def other_entries_def)
qed (auto simp: others_kept_open,
  auto simp: others_kept_def other_entries_def renamed_def wf_log_remove wf_log_rename [unfolded renamed_def],
  auto simp: wf_log_def)


interpretation same_shorts: directory_invariant "\<lambda>w. lw_shorts w = ks" for ks
  by unfold_locales (simp_all add: world_changes)

end
