(* ===== verification/Keyro_Logging_Correct.thy ===== *)
theory Keyro_Logging_Correct
  imports Keyro_Logging_Frame
begin

text \<open>
  The retention policy on a file system whose calls succeed: what a scan and a pruning remove, that
  the number, the sizes and the total size of the logs are within bounds after a cleanup, and that
  a cleanup removes no log that the bounds would have allowed to stay.
\<close>

section \<open>Calls that succeed\<close>

lemma sys_free [simp]: "lw_faults w = [] \<Longrightarrow> sys f w = f w"
  by (simp add: sys_def)

lemma metadata_free [simp]:
  "lw_faults w = [] \<Longrightarrow>
   metadata i w = (Inr (length (f_data (lw_files w i)), f_modified (lw_files w i)), w)"
  by (simp add: metadata_def)

lemma remove_file_free:
  "lw_faults w = [] \<Longrightarrow> file_exists name w \<Longrightarrow>
   remove_file name w = (Inr (), w\<lparr>lw_dir := remove_entry name (lw_dir w)\<rparr>)"
  by (simp add: remove_file_def)

lemma remove_entry_filter: "remove_entry name (filter P d) = filter (\<lambda>e. P e \<and> fst e \<noteq> name) d"
  by (simp add: remove_entry_def filter_filter conj_commute)

section \<open>The scan\<close>

definition log_size :: "log_world \<Rightarrow> string \<times> nat \<Rightarrow> nat" where
  "log_size w e = length (f_data (lw_files w (snd e)))"

definition log_time :: "log_world \<Rightarrow> string \<times> nat \<Rightarrow> nat" where
  "log_time w e = f_modified (lw_files w (snd e))"

text \<open>An expired or oversized log, and the description of the others.\<close>

definition discard :: "log_retention \<Rightarrow> nat \<Rightarrow> log_world \<Rightarrow> string \<times> nat \<Rightarrow> bool" where
  "discard r cutoff w e \<longleftrightarrow>
     is_keyro_log (fst e) \<and> (log_time w e < cutoff \<or> max_file_bytes r < log_size w e)"

definition describe :: "log_world \<Rightarrow> string \<times> nat \<Rightarrow> kept_log" where
  "describe w e = \<lparr>kl_is_current = (fst e = LOG_FILE_NAME), kl_path = fst e,
     kl_modified = log_time w e, kl_size = log_size w e\<rparr>"

definition retained :: "log_retention \<Rightarrow> nat \<Rightarrow> log_world \<Rightarrow> (string \<times> nat) list \<Rightarrow> (string \<times> nat) list" where
  "retained r cutoff w es = filter (\<lambda>e. is_keyro_log (fst e) \<and> \<not> discard r cutoff w e) es"

lemma describe_simps [simp]:
  "kl_is_current (describe w e) = (fst e = LOG_FILE_NAME)" "kl_path (describe w e) = fst e"
  "kl_modified (describe w e) = log_time w e" "kl_size (describe w e) = log_size w e"
  by (simp_all add: describe_def)

lemma log_file_dir [simp]:
  "log_size (w\<lparr>lw_dir := d\<rparr>) e = log_size w e" "log_time (w\<lparr>lw_dir := d\<rparr>) e = log_time w e"
  "discard r t (w\<lparr>lw_dir := d\<rparr>) e = discard r t w e" "describe (w\<lparr>lw_dir := d\<rparr>) e = describe w e"
  "retained r t (w\<lparr>lw_dir := d\<rparr>) es = retained r t w es"
  by (simp_all add: log_size_def log_time_def discard_def describe_def retained_def)

lemma scan_logs_free:
  assumes "lw_faults w = []" and "distinct (map fst es)" and "fst ` set es \<subseteq> fst ` set (lw_dir w)"
  shows "scan_logs r cutoff es w =
    (Inr (map (describe w) (retained r cutoff w es)),
     w\<lparr>lw_dir := filter (\<lambda>e. fst e \<notin> fst ` {e \<in> set es. discard r cutoff w e}) (lw_dir w)\<rparr>)"
  using assms
proof (induction es arbitrary: w)
  case Nil
  then show ?case by (simp add: retained_def)
next
  case (Cons e es)
  obtain name i where e: "e = (name, i)" by (cases e)
  have sz: "log_size w e = length (f_data (lw_files w i))" "log_time w e = f_modified (lw_files w i)"
    by (simp_all add: log_size_def log_time_def e)
  show ?case
  proof (cases "discard r cutoff w e")
    case True
    let ?w = "w\<lparr>lw_dir := remove_entry name (lw_dir w)\<rparr>"
    have "remove_file name w = (Inr (), ?w)"
      using Cons.prems e by (intro remove_file_free) (auto simp: file_exists_iff)
    then have "scan_logs r cutoff (e # es) w = scan_logs r cutoff es ?w"
      using True Cons.prems(1) e sz
      by (simp add: discard_def io_try_def io_bind_def)
    moreover have "scan_logs r cutoff es ?w =
        (Inr (map (describe ?w) (retained r cutoff ?w es)),
         ?w\<lparr>lw_dir := filter (\<lambda>e. fst e \<notin> fst ` {e \<in> set es. discard r cutoff ?w e}) (lw_dir ?w)\<rparr>)"
      using Cons.prems e by (intro Cons.IH) (auto simp: image_iff)
    moreover have "{x \<in> set (e # es). discard r cutoff w x} = insert e {x \<in> set es. discard r cutoff w x}"
      using True by auto
    ultimately show ?thesis
      using True e by (simp add: retained_def remove_entry_def filter_filter conj_commute)
  next
    case False
    then have "{x \<in> set (e # es). discard r cutoff w x} = {x \<in> set es. discard r cutoff w x}"
      by auto
    moreover have "scan_logs r cutoff es w =
        (Inr (map (describe w) (retained r cutoff w es)),
         w\<lparr>lw_dir := filter (\<lambda>e. fst e \<notin> fst ` {e \<in> set es. discard r cutoff w e}) (lw_dir w)\<rparr>)"
      using Cons.prems by (intro Cons.IH) auto
    ultimately show ?thesis
      using False Cons.prems(1) e sz
      by (cases "is_keyro_log name")
        (auto simp: retained_def discard_def io_try_def io_bind_def describe_def)
  qed
qed

section \<open>The pruning\<close>

text \<open>The names that \<open>prune_logs\<close> removes and the logs that it keeps.\<close>

fun pruned :: "log_retention \<Rightarrow> nat \<Rightarrow> nat \<Rightarrow> kept_log list \<Rightarrow> string list" where
  "pruned r k t [] = []"
| "pruned r k t (l # ls) =
     (if kl_is_current l then pruned r k t ls
      else if max_files r \<le> k \<or> max_total_bytes r < sat_add64 t (kl_size l)
      then kl_path l # pruned r k t ls
      else pruned r (Suc k) (sat_add64 t (kl_size l)) ls)"

fun survivors :: "log_retention \<Rightarrow> nat \<Rightarrow> nat \<Rightarrow> kept_log list \<Rightarrow> kept_log list" where
  "survivors r k t [] = []"
| "survivors r k t (l # ls) =
     (if kl_is_current l then l # survivors r k t ls
      else if max_files r \<le> k \<or> max_total_bytes r < sat_add64 t (kl_size l)
      then survivors r k t ls
      else l # survivors r (Suc k) (sat_add64 t (kl_size l)) ls)"

lemma pruned_subset: "set (pruned r k t ls) \<subseteq> kl_path ` set ls"
  by (induction ls arbitrary: k t) auto

lemma pruned_not_current:
  "\<forall>l \<in> set ls. kl_is_current l \<longleftrightarrow> kl_path l = LOG_FILE_NAME \<Longrightarrow>
   LOG_FILE_NAME \<notin> set (pruned r k t ls)"
  by (induction ls arbitrary: k t) (auto split: if_splits)

lemma survivors_filter:
  "distinct (map kl_path ls) \<Longrightarrow> filter (\<lambda>l. kl_path l \<notin> set (pruned r k t ls)) ls = survivors r k t ls"
proof (induction ls arbitrary: k t)
  case (Cons l ls)
  have "filter (\<lambda>x. kl_path x \<noteq> kl_path l \<and> kl_path x \<notin> N) ls = filter (\<lambda>x. kl_path x \<notin> N) ls" for N
    using Cons.prems by (intro filter_cong) (auto simp: image_iff)
  moreover have "kl_path l \<notin> set (pruned r k' t' ls)" for k' t'
    using Cons.prems pruned_subset by fastforce
  ultimately show ?case using Cons by simp
qed simp

lemma survivors_count:
  "k \<le> max_files r \<Longrightarrow> k + length (filter (\<lambda>l. \<not> kl_is_current l) (survivors r k t ls)) \<le> max_files r"
proof (induction ls arbitrary: k t)
  case (Cons l ls)
  show ?case
    using Cons.prems Cons.IH [of k t] Cons.IH [of "Suc k" "sat_add64 t (kl_size l)"] by auto
qed simp

lemma survivors_total:
  "t \<le> max_total_bytes r \<Longrightarrow> max_total_bytes r < u64_max \<Longrightarrow>
   t + sum_list (map kl_size (filter (\<lambda>l. \<not> kl_is_current l) (survivors r k t ls))) \<le> max_total_bytes r"
proof (induction ls arbitrary: k t)
  case (Cons l ls)
  show ?case
  proof (cases "max_total_bytes r < sat_add64 t (kl_size l)")
    case True
    with Cons show ?thesis by simp
  next
    case False
    then have "sat_add64 t (kl_size l) = t + kl_size l"
      using Cons.prems(2) by (auto simp: sat_add64_def)
    with False Cons.IH [of "t + kl_size l" "Suc k"] Cons.IH [of t k] Cons.prems show ?thesis by auto
  qed
qed simp

lemma survivors_current: "filter kl_is_current (survivors r k t ls) = filter kl_is_current ls"
  by (induction ls arbitrary: k t) auto

lemma prune_logs_free:
  assumes "lw_faults w = []" and "distinct (map kl_path ls)" and "kl_path ` set ls \<subseteq> fst ` set (lw_dir w)"
    and "\<And>j. j < length ls \<Longrightarrow> (cur = Some (i + j) \<longleftrightarrow> kl_is_current (ls ! j))"
  shows "prune_logs r cur i k t ls w =
    (Inr (), w\<lparr>lw_dir := filter (\<lambda>e. fst e \<notin> set (pruned r k t ls)) (lw_dir w)\<rparr>)"
  using assms
proof (induction ls arbitrary: w i k t)
  case (Cons l ls)
  have cur: "cur = Some i \<longleftrightarrow> kl_is_current l"
    and later: "\<And>j. j < length ls \<Longrightarrow> (cur = Some (Suc i + j) \<longleftrightarrow> kl_is_current (ls ! j))"
    using Cons.prems(4) [of 0] Cons.prems(4) [of "Suc j" for j] by auto
  have IH: "prune_logs r cur (Suc i) k' t' ls w' =
      (Inr (), w'\<lparr>lw_dir := filter (\<lambda>e. fst e \<notin> set (pruned r k' t' ls)) (lw_dir w')\<rparr>)"
    if "lw_faults w' = []" and "kl_path ` set ls \<subseteq> fst ` set (lw_dir w')" for k' t' w'
    using that Cons.prems(2) later by (intro Cons.IH) auto
  let ?w = "w\<lparr>lw_dir := remove_entry (kl_path l) (lw_dir w)\<rparr>"
  have "remove_file (kl_path l) w = (Inr (), ?w)"
    using Cons.prems by (intro remove_file_free) (auto simp: file_exists_iff)
  moreover have "kl_path ` set ls \<subseteq> fst ` set (lw_dir ?w)"
    using Cons.prems(2,3) by (auto simp: image_iff)
  ultimately show ?case
    using Cons.prems(1,3) cur IH [of w] IH [of ?w]
    by (simp add: io_bind_def remove_entry_def filter_filter conj_commute)
qed simp

section \<open>The cleanup\<close>

definition logs :: "log_world \<Rightarrow> (string \<times> nat) list" where
  "logs w = filter (\<lambda>e. is_keyro_log (fst e)) (lw_dir w)"

text \<open>The policy: number, total size and size of the logs.\<close>

definition within_policy :: "log_retention \<Rightarrow> log_world \<Rightarrow> bool" where
  "within_policy r w \<longleftrightarrow>
     length (logs w) \<le> max_files r \<and>
     sum_list (map (log_size w) (logs w)) \<le> max_total_bytes r \<and>
     (\<forall>e \<in> set (logs w). log_size w e \<le> max_file_bytes r)"

lemma position_iff:
  "length (filter P xs) \<le> 1 \<Longrightarrow> j < length xs \<Longrightarrow> position P xs = Some j \<longleftrightarrow> P (xs ! j)"
proof (induction xs arbitrary: j)
  case (Cons x xs)
  then show ?case
    by (cases j; cases "P x") (auto simp: filter_empty_conv)
qed simp

lemma position_None: "position P xs = None \<longleftrightarrow> filter P xs = []"
  by (induction xs) auto

lemma distinct_filter_le_1: "distinct (map f xs) \<Longrightarrow> length (filter (\<lambda>x. f x = a) xs) \<le> 1"
  by (induction xs) (auto simp: filter_empty_conv image_iff)

lemma filter_single:
  assumes "length (filter P xs) \<le> 1" and "j < length xs" and "P (xs ! j)"
  shows "filter P xs = [xs ! j]"
proof -
  have "xs ! j \<in> set (filter P xs)" using assms by simp
  with assms(1) show ?thesis
    by (cases "filter P xs") (auto simp: le_Suc_eq)
qed

text \<open>The retained logs of a directory, and what the policy keeps of them.\<close>

lemma newest_first_simps [simp]:
  "set (newest_first ls) = set ls" "mset (newest_first ls) = mset ls" "length (newest_first ls) = length ls"
  by (simp_all add: newest_first_def)

lemma newest_first_map [simp]: "distinct (map f (newest_first ls)) \<longleftrightarrow> distinct (map f ls)"
  by (metis mset_eq_imp_distinct_iff mset_map newest_first_simps(2))

lemma cleanup_logs_free:
  assumes f: "lw_faults w = []" and d: "distinct (map fst (lw_dir w))"
    and t: "max_age r \<le> shd (lw_clock w)"
  defines "cutoff \<equiv> shd (lw_clock w) - max_age r"
  defines "R \<equiv> newest_first (map (describe w) (retained r cutoff w (lw_dir w)))"
  defines "cur \<equiv> filter kl_is_current R"
  defines "N \<equiv> pruned r (length cur) (sum_list (map kl_size cur)) R"
  shows "cleanup_logs r w =
    (Inr (), w\<lparr>lw_clock := stl (lw_clock w),
       lw_dir := filter (\<lambda>e. \<not> discard r cutoff w e \<and> fst e \<notin> set N) (lw_dir w)\<rparr>)"
proof -
  let ?w0 = "w\<lparr>lw_clock := stl (lw_clock w)\<rparr>"
  let ?d = "filter (\<lambda>e. fst e \<notin> fst ` {e \<in> set (lw_dir w). discard r cutoff w e}) (lw_dir w)"
  have same: "describe ?w0 = describe w" "retained r cutoff ?w0 = retained r cutoff w"
    "discard r cutoff ?w0 = discard r cutoff w"
    by (simp_all add: fun_eq_iff describe_def retained_def discard_def log_size_def log_time_def)
  have dir: "?d = filter (\<lambda>e. \<not> discard r cutoff w e) (lw_dir w)"
    using d by (intro filter_cong) (auto simp: distinct_map inj_on_def)
  have "scan_logs r cutoff (lw_dir w) ?w0 =
      (Inr (map (describe w) (retained r cutoff w (lw_dir w))), ?w0\<lparr>lw_dir := ?d\<rparr>)"
    using scan_logs_free [of ?w0 "lw_dir w" r cutoff] f d by (simp add: same)
  then have run: "cleanup_logs r w =
      prune_logs r (position kl_is_current R) 0
        (if position kl_is_current R \<noteq> None then 1 else 0)
        (case position kl_is_current R of None \<Rightarrow> 0 | Some i \<Rightarrow> kl_size (R ! i)) R (?w0\<lparr>lw_dir := ?d\<rparr>)"
    using f t unfolding R_def cutoff_def
    by (simp add: cleanup_logs_def retention_cutoff_def now_def io_bind_def Let_def)
  have paths: "distinct (map kl_path R)"
    using d by (simp add: R_def retained_def o_def distinct_map_filter)
  have "length cur \<le> 1"
  proof -
    have "kl_is_current l \<longleftrightarrow> kl_path l = LOG_FILE_NAME" if "l \<in> set R" for l
      using that by (auto simp: R_def)
    then have "cur = filter (\<lambda>l. kl_path l = LOG_FILE_NAME) R"
      unfolding cur_def by (intro filter_cong) auto
    with distinct_filter_le_1 [OF paths] show ?thesis by simp
  qed
  then have one: "length (filter kl_is_current R) \<le> 1" by (simp add: cur_def)
  have at: "(if position kl_is_current R \<noteq> None then 1 else 0) = length cur \<and>
      (case position kl_is_current R of None \<Rightarrow> 0 | Some i \<Rightarrow> kl_size (R ! i)) = sum_list (map kl_size cur)"
  proof (cases "position kl_is_current R")
    case None
    then have "filter kl_is_current R = []" by (simp only: position_None)
    with None show ?thesis by (simp add: cur_def)
  next
    case (Some j)
    then have "j < length R" and "kl_is_current (R ! j)"
      by (induction R arbitrary: j) (auto split: if_splits)
    from filter_single [OF one this] Some show ?thesis by (simp add: cur_def)
  qed
  have in_dir: "kl_path ` set R \<subseteq> fst ` set ?d"
    by (force simp: R_def retained_def dir)
  have "prune_logs r (position kl_is_current R) 0 (length cur) (sum_list (map kl_size cur)) R
      (?w0\<lparr>lw_dir := ?d\<rparr>) =
    (Inr (), ?w0\<lparr>lw_dir := filter (\<lambda>e. fst e \<notin> set N) ?d\<rparr>)"
    using prune_logs_free [of "?w0\<lparr>lw_dir := ?d\<rparr>" R "position kl_is_current R" 0] f paths in_dir one
    by (simp add: N_def position_iff)
  with run at show ?thesis
    by (simp add: dir filter_filter)
qed

text \<open>The kept logs are the survivors of the pruning.\<close>

lemma mset_logs_kept:
  assumes d: "distinct (map fst (lw_dir w))"
    and R: "R = newest_first (map (describe w) (retained r cutoff w (lw_dir w)))"
  shows "mset (map (describe w) (filter (\<lambda>e. is_keyro_log (fst e))
      (filter (\<lambda>e. \<not> discard r cutoff w e \<and> fst e \<notin> set (pruned r k t R)) (lw_dir w)))) =
    mset (survivors r k t R)"
proof -
  let ?N = "set (pruned r k t R)" and ?G = "retained r cutoff w (lw_dir w)"
  have "distinct (map kl_path R)"
    using d by (simp add: R retained_def o_def distinct_map_filter)
  then have "mset (survivors r k t R) = filter_mset (\<lambda>l. kl_path l \<notin> ?N) (mset R)"
    by (simp add: survivors_filter [symmetric])
  also have "\<dots> = mset (filter (\<lambda>l. kl_path l \<notin> ?N) (map (describe w) ?G))"
    by (simp add: R)
  also have "filter (\<lambda>l. kl_path l \<notin> ?N) (map (describe w) ?G) =
      map (describe w) (filter (\<lambda>e. fst e \<notin> ?N) ?G)"
    by (simp add: filter_map o_def)
  also have "filter (\<lambda>e. fst e \<notin> ?N) ?G = filter (\<lambda>e. is_keyro_log (fst e))
      (filter (\<lambda>e. \<not> discard r cutoff w e \<and> fst e \<notin> ?N) (lw_dir w))"
    by (simp add: retained_def filter_filter conj_ac)
  finally show ?thesis by simp
qed

text \<open>Lengths and sums by the descriptions, and split at the current log.\<close>

lemma described_totals:
  assumes ms: "mset (map (describe w) es) = mset S"
  shows "length es = length S" and "sum_list (map (log_size w) es) = sum_list (map kl_size S)"
proof -
  show "length es = length S"
    using arg_cong [OF ms, of size] by (simp only: size_mset length_map)
  have "sum_mset (image_mset kl_size (mset (map (describe w) es))) = sum_mset (image_mset kl_size (mset S))"
    by (simp only: ms)
  then show "sum_list (map (log_size w) es) = sum_list (map kl_size S)"
    by (simp only: mset_map [symmetric] sum_mset_sum_list map_map o_def describe_simps)
qed

lemma filter_totals:
  fixes f :: "'a \<Rightarrow> nat"
  shows "length (filter P xs) + length (filter (\<lambda>x. \<not> P x) xs) = length xs"
    and "sum_list (map f (filter P xs)) + sum_list (map f (filter (\<lambda>x. \<not> P x) xs)) = sum_list (map f xs)"
  by (induction xs) auto

lemma survivors_policy:
  assumes v: "validate_retention r = Inr ()" and m: "max_total_bytes r < u64_max"
    and one: "length (filter kl_is_current R) \<le> 1"
    and sz: "\<forall>l \<in> set R. kl_size l \<le> max_file_bytes r"
  defines "cur \<equiv> filter kl_is_current R"
  defines "S \<equiv> survivors r (length cur) (sum_list (map kl_size cur)) R"
  shows "length S \<le> max_files r" and "sum_list (map kl_size S) \<le> max_total_bytes r"
proof -
  have v': "1 \<le> max_files r" "max_file_bytes r \<le> max_total_bytes r"
    using v by (auto simp: validate_retention_def split: if_splits)
  have t: "sum_list (map kl_size cur) \<le> max_total_bytes r"
  proof (cases cur)
    case (Cons l ls)
    then have "ls = []" and "l \<in> set R"
      using one by (auto simp: cur_def filter_eq_Cons_iff)
    with Cons sz v'(2) show ?thesis by force
  qed simp
  have cur: "filter kl_is_current S = cur"
    by (simp add: S_def survivors_current cur_def)
  have "length cur \<le> max_files r"
    using one v'(1) by (simp add: cur_def)
  with survivors_count [of "length cur" r "sum_list (map kl_size cur)" R]
  show "length S \<le> max_files r"
    using filter_totals(1) [of kl_is_current S] by (simp add: cur flip: S_def)
  show "sum_list (map kl_size S) \<le> max_total_bytes r"
    using survivors_total [OF t m, of "length cur" R] filter_totals(2) [of kl_size kl_is_current S]
    by (simp add: cur flip: S_def)
qed

lemma cleanup_logs_policy:
  assumes f: "lw_faults w = []" and wf: "wf_log w" and t: "max_age r \<le> shd (lw_clock w)"
    and v: "validate_retention r = Inr ()" and m: "max_total_bytes r < u64_max"
  obtains w' where "cleanup_logs r w = (Inr (), w')" and "within_policy r w'" and "lw_faults w' = []"
    and "wf_log w'" and "lw_files w' = lw_files w" and "lw_file w' = lw_file w"
    and "lw_clock w' = stl (lw_clock w)" and "lw_shorts w' = lw_shorts w" and "lw_next w' = lw_next w"
    and "lw_poisoned w' = lw_poisoned w"
    and "set (lw_dir w') \<subseteq> set (lw_dir w)"
    and "\<And>i. (LOG_FILE_NAME, i) \<in> set (lw_dir w) \<Longrightarrow>
      length (f_data (lw_files w i)) \<le> max_file_bytes r \<Longrightarrow>
      shd (lw_clock w) - max_age r \<le> f_modified (lw_files w i) \<Longrightarrow>
      (LOG_FILE_NAME, i) \<in> set (lw_dir w')"
proof -
  let ?cutoff = "shd (lw_clock w) - max_age r"
  let ?R = "newest_first (map (describe w) (retained r ?cutoff w (lw_dir w)))"
  let ?cur = "filter kl_is_current ?R"
  let ?N = "pruned r (length ?cur) (sum_list (map kl_size ?cur)) ?R"
  let ?S = "survivors r (length ?cur) (sum_list (map kl_size ?cur)) ?R"
  let ?w = "w\<lparr>lw_clock := stl (lw_clock w),
    lw_dir := filter (\<lambda>e. \<not> discard r ?cutoff w e \<and> fst e \<notin> set ?N) (lw_dir w)\<rparr>"
  have d: "distinct (map fst (lw_dir w))" using wf by (simp add: wf_log_def)
  note run = cleanup_logs_free [OF f d t]
  have sizes: "log_size ?w = log_size w" by (simp add: log_size_def fun_eq_iff)
  have paths: "distinct (map kl_path ?R)"
    using d by (simp add: retained_def o_def distinct_map_filter)
  have "?cur = filter (\<lambda>l. kl_path l = LOG_FILE_NAME) ?R"
    by (intro filter_cong) auto
  then have one: "length ?cur \<le> 1" using distinct_filter_le_1 [OF paths] by simp
  have sz: "\<forall>l \<in> set ?R. kl_size l \<le> max_file_bytes r"
    by (auto simp: retained_def discard_def)
  note S = survivors_policy [OF v m one sz]
  have ms: "mset (map (describe w) (logs ?w)) = mset ?S"
    using mset_logs_kept [OF d refl] by (simp add: logs_def)
  note totals = described_totals [OF ms]
  have "\<forall>e \<in> set (logs ?w). log_size w e \<le> max_file_bytes r"
    by (auto simp: logs_def discard_def)
  with S have pol: "within_policy r ?w"
    unfolding within_policy_def sizes totals by (intro conjI)
  have wf': "wf_log ?w"
    using wf by (auto simp: wf_log_def distinct_map_filter)
  have cur: "(LOG_FILE_NAME, i) \<in> set (lw_dir ?w)"
    if i: "(LOG_FILE_NAME, i) \<in> set (lw_dir w)" "length (f_data (lw_files w i)) \<le> max_file_bytes r"
      "?cutoff \<le> f_modified (lw_files w i)" for i
  proof -
    have nd: "\<not> discard r ?cutoff w (LOG_FILE_NAME, i)"
      using i by (simp add: discard_def log_size_def log_time_def)
    have "LOG_FILE_NAME \<notin> set ?N"
      by (rule pruned_not_current) auto
    with i(1) nd show ?thesis by simp
  qed
  show thesis
    by (rule that [OF run pol _ wf' _ _ _ _ _ _ _ cur]) (use f in auto)
qed

section \<open>The writer, when calls succeed\<close>

text \<open>A log directory whose calls succeed and whose clock is past the maximal age.\<close>

definition log_ready :: "log_retention \<Rightarrow> log_world \<Rightarrow> bool" where
  "log_ready r w \<longleftrightarrow> wf_log w \<and> lw_faults w = [] \<and> \<not> lw_poisoned w \<and> (\<forall>t \<in> sset (lw_clock w). max_age r \<le> t)"

abbreviation never :: "log_world \<Rightarrow> bool" where
  "never \<equiv> \<lambda>_. False"

lemma log_ready_lock: "log_ready r w \<Longrightarrow> \<not> lw_poisoned w"
  by (simp add: log_ready_def)

lemma log_ready_now: "log_ready r w \<Longrightarrow> max_age r \<le> shd (lw_clock w)"
  by (simp add: log_ready_def shd_sset)

text \<open>Operations that always succeed and keep a predicate.\<close>

lemma always_I:
  "(\<And>w. P w \<Longrightarrow> \<exists>a w'. m w = (Inr a, w') \<and> Q a w') \<Longrightarrow> triple P m Q never"
  by (rule tripleI) (metis Pair_inject sum.inject(2) sum.distinct(1))+

lemma always_D:
  assumes "triple P m Q never" and "P w"
  obtains a w' where "m w = (Inr a, w')" and "Q a w'"
proof -
  obtain x w' where m: "m w = (x, w')" by fastforce
  with triple_Inl [OF assms] triple_Inr [OF assms] show thesis
    by (cases x) (auto intro: that)
qed

lemma remove_if_exists_ready: "triple (log_ready r) (remove_if_exists name) (\<lambda>_. log_ready r) never"
  by (rule always_I)
    (auto simp: remove_if_exists_def remove_file_free log_ready_def intro: wf_log_remove)

lemma rename_if_exists_ready:
  "triple (log_ready r) (rename_if_exists source target) (\<lambda>_. log_ready r) never"
  by (rule always_I)
    (auto simp: rename_if_exists_def rename_file_def log_ready_def file_exists_def
      intro: wf_log_rename [unfolded renamed_def])

lemma shift_logs_ready: "triple (log_ready r) (shift_logs n) (\<lambda>_. log_ready r) never"
  by (induction n)
    (simp_all only: shift_logs.simps triple_return triple_bind [OF rename_if_exists_ready])

lemma open_current_log_ready:
  "triple (log_ready r) open_current_log
     (\<lambda>_ w. log_ready r w \<and> (LOG_FILE_NAME, lw_file w) \<in> set (lw_dir w)) never"
proof (rule always_I)
  fix w
  assume w: "log_ready r w"
  show "\<exists>a w'. open_current_log w = (Inr a, w') \<and> log_ready r w' \<and>
      (LOG_FILE_NAME, lw_file w') \<in> set (lw_dir w')"
  proof (cases "map_of (lw_dir w) LOG_FILE_NAME")
    case (Some i)
    with w show ?thesis
      by (auto simp: open_current_log_def log_ready_def wf_log_def dest: map_of_SomeD)
  next
    case None
    then have "LOG_FILE_NAME \<notin> fst ` set (lw_dir w)" by (simp add: map_of_eq_None_iff)
    with w None show ?thesis
      by (auto simp: open_current_log_def log_ready_def wf_log_def intro: less_SucI dest: stl_sset)
  qed
qed

lemma cleanup_logs_ready:
  assumes v: "validate_retention r = Inr ()" and m: "max_total_bytes r < u64_max"
  shows "triple (log_ready r) (cleanup_logs r) (\<lambda>_ w. log_ready r w \<and> within_policy r w) never"
proof (rule always_I)
  fix w
  assume w: "log_ready r w"
  then have "lw_faults w = []" and "wf_log w" by (auto simp: log_ready_def)
  from cleanup_logs_policy [OF this log_ready_now [OF w] v m]
  obtain w' where c: "cleanup_logs r w = (Inr (), w')" "within_policy r w'" "lw_faults w' = []" "wf_log w'"
    "lw_clock w' = stl (lw_clock w)" "lw_poisoned w' = lw_poisoned w" by metis
  with w have "log_ready r w'" by (auto simp: log_ready_def dest: stl_sset)
  with c show "\<exists>a w'. cleanup_logs r w = (Inr a, w') \<and> log_ready r w' \<and> within_policy r w'" by auto
qed


section \<open>No log is removed without need\<close>

lemma pruned_maximal:
  assumes "l \<in> set ls" and "kl_path l \<in> set (pruned r k t ls)" and "distinct (map kl_path ls)"
  shows "max_files r \<le> k + length (filter (\<lambda>l. \<not> kl_is_current l) (survivors r k t ls)) \<or>
    max_total_bytes r <
      t + sum_list (map kl_size (filter (\<lambda>l. \<not> kl_is_current l) (survivors r k t ls))) + kl_size l"
  using assms
proof (induction ls arbitrary: k t)
  case (Cons x xs)
  have sat: "sat_add64 a b \<le> a + b" for a b by (simp add: sat_add64_def)
  have notin: "kl_path x \<notin> set (pruned r k' t' xs)" for k' t'
    using Cons.prems(3) pruned_subset by fastforce
  show ?case
  proof (cases "x = l")
    case True
    with Cons.prems(2) notin have "\<not> kl_is_current x"
      and "max_files r \<le> k \<or> max_total_bytes r < sat_add64 t (kl_size l)"
      by (auto split: if_splits)
    with sat [of t "kl_size l"] True show ?thesis by auto
  next
    case False
    then have l: "l \<in> set xs" and ne: "kl_path l \<noteq> kl_path x"
      using Cons.prems(1,3) by (auto simp: image_iff)
    note IH = Cons.IH [OF l]
    show ?thesis
    proof (cases "kl_is_current x \<or> max_files r \<le> k \<or> max_total_bytes r < sat_add64 t (kl_size x)")
      case True
      with IH [of k t] Cons.prems ne show ?thesis by (auto split: if_splits)
    next
      case False
      with IH [of "Suc k" "sat_add64 t (kl_size x)"] Cons.prems ne sat [of t "kl_size x"]
      show ?thesis by (auto split: if_splits)
    qed
  qed
qed simp

text \<open>A log that is neither expired nor too large is removed only when the number of files is used up
  or its size does not fit in beside those that stay.\<close>

lemma cleanup_logs_maximal:
  assumes f: "lw_faults w = []" and d: "distinct (map fst (lw_dir w))"
    and t: "max_age r \<le> shd (lw_clock w)" and run: "cleanup_logs r w = (q, w')"
    and e: "e \<in> set (lw_dir w)" "e \<notin> set (lw_dir w')"
  shows "is_keyro_log (fst e) \<and>
    (log_time w e < shd (lw_clock w) - max_age r \<or> max_file_bytes r < log_size w e \<or>
     max_files r \<le> length (logs w') \<or>
     max_total_bytes r < sum_list (map (log_size w) (logs w')) + log_size w e)"
proof -
  let ?cutoff = "shd (lw_clock w) - max_age r"
  let ?G = "retained r ?cutoff w (lw_dir w)"
  let ?R = "newest_first (map (describe w) ?G)"
  let ?cur = "filter kl_is_current ?R"
  let ?k = "length ?cur" and ?t = "sum_list (map kl_size ?cur)"
  let ?N = "pruned r ?k ?t ?R" and ?S = "survivors r ?k ?t ?R"
  have dir: "lw_dir w' = filter (\<lambda>e. \<not> discard r ?cutoff w e \<and> fst e \<notin> set ?N) (lw_dir w)"
    using run cleanup_logs_free [OF f d t] by auto
  have ms: "mset (map (describe w) (logs w')) = mset ?S"
    using mset_logs_kept [OF d refl] by (simp add: logs_def dir)
  note totals = described_totals [OF ms]
  have "filter kl_is_current ?S = ?cur" by (simp add: survivors_current)
  then have split: "length ?S = ?k + length (filter (\<lambda>l. \<not> kl_is_current l) ?S)"
    "sum_list (map kl_size ?S) = ?t + sum_list (map kl_size (filter (\<lambda>l. \<not> kl_is_current l) ?S))"
    using filter_totals(1) [of kl_is_current ?S] filter_totals(2) [of kl_size kl_is_current ?S]
    by (simp_all only:)
  show ?thesis
  proof (cases "discard r ?cutoff w e")
    case True
    then show ?thesis by (auto simp: discard_def)
  next
    case False
    with e have N: "fst e \<in> set ?N" by (simp add: dir)
    have paths: "distinct (map kl_path ?R)"
      using d by (simp add: retained_def o_def distinct_map_filter)
    from N pruned_subset have "fst e \<in> kl_path ` set ?R" by blast
    then obtain e' where e': "e' \<in> set ?G" "fst e' = fst e" by auto
    then have "e' = e" using e(1) d by (auto simp: retained_def distinct_map inj_on_def)
    with e' have "describe w e \<in> set ?R" and k: "is_keyro_log (fst e)" by (auto simp: retained_def)
    from pruned_maximal [OF this(1) _ paths] N split have
      "max_files r \<le> length ?S \<or> max_total_bytes r < sum_list (map kl_size ?S) + log_size w e"
      by simp
    with k show ?thesis by (simp only: totals) blast
  qed
qed

end
