(* ===== verification/Keyro_Logging_Writer.thy ===== *)
theory Keyro_Logging_Writer
  imports Keyro_Logging_Correct
begin

text \<open>
  Rotation and the log writer on a file system whose calls succeed: how a rotation renames the logs,
  what a write puts where, and that the policy holds after every operation; and, whatever calls
  fail, what any history of the writer leaves alone.
\<close>

section \<open>Rotation\<close>

lemma rotated_log_path_inject [simp]: "rotated_log_path i = rotated_log_path j \<longleftrightarrow> i = j"
  by (simp add: rotated_log_path_def show_nat_inject)

lemma rotated_log_path_not_current [simp]:
  "rotated_log_path i \<noteq> LOG_FILE_NAME" "LOG_FILE_NAME \<noteq> rotated_log_path i"
proof -
  have "length LOG_FILE_NAME < length (rotated_log_path i)"
    by (simp add: LOG_FILE_NAME_def rotated_log_path_def)
  then show "rotated_log_path i \<noteq> LOG_FILE_NAME" "LOG_FILE_NAME \<noteq> rotated_log_path i" by auto
qed

lemma map_of_remove_entry: "map_of (remove_entry n d) x = (if x = n then None else map_of d x)"
  by (induction d) (auto simp: remove_entry_def)

text \<open>Calls that succeed change the directory only.\<close>

lemma remove_if_exists_free:
  "lw_faults w = [] \<Longrightarrow> remove_if_exists n w = (Inr (), w\<lparr>lw_dir := remove_entry n (lw_dir w)\<rparr>)"
proof (cases "file_exists n w")
  case False
  then have "remove_entry n (lw_dir w) = lw_dir w"
    by (auto simp: remove_entry_def filter_id_conv file_exists_iff)
  with False show ?thesis by (simp add: remove_if_exists_def)
qed (simp add: remove_if_exists_def remove_file_free)

lemma rename_if_exists_free:
  assumes "lw_faults w = []" and "map_of (lw_dir w) target = None" and "source \<noteq> target"
  shows "\<exists>d. rename_if_exists source target w = (Inr (), w\<lparr>lw_dir := d\<rparr>) \<and>
    map_of d = (map_of (lw_dir w))(source := None, target := map_of (lw_dir w) source)"
proof (cases "map_of (lw_dir w) source")
  case None
  with assms have "rename_if_exists source target w = (Inr (), w\<lparr>lw_dir := lw_dir w\<rparr>)"
    by (simp add: rename_if_exists_def file_exists_def)
  moreover have "map_of (lw_dir w) = (map_of (lw_dir w))(source := None, target := None)"
    using None assms(2) by (simp add: fun_upd_idem)
  ultimately show ?thesis using None by metis
next
  case (Some i)
  let ?d = "remove_entry source (remove_entry target (lw_dir w)) @ [(target, i)]"
  have "rename_if_exists source target w = (Inr (), w\<lparr>lw_dir := ?d\<rparr>)"
    using assms Some by (simp add: rename_if_exists_def rename_file_def file_exists_def)
  moreover have "map_of ?d = (map_of (lw_dir w))(source := None, target := Some i)"
    using assms(2,3) by (auto simp: fun_eq_iff map_of_remove_entry map_add_def split: option.splits)
  ultimately show ?thesis using Some by metis
qed

text \<open>What shifting does to the names: the number of every rotated log below \<open>n\<close> goes up by one.\<close>

definition shifts :: "nat \<Rightarrow> (string \<rightharpoonup> nat) \<Rightarrow> (string \<rightharpoonup> nat) \<Rightarrow> bool" where
  "shifts n m m' \<longleftrightarrow>
     m' (rotated_log_path 0) = None \<and>
     (\<forall>j < n. m' (rotated_log_path (Suc j)) = m (rotated_log_path j)) \<and>
     (\<forall>x. (\<forall>j \<le> n. x \<noteq> rotated_log_path j) \<longrightarrow> m' x = m x)"

lemma shifts_0: "m (rotated_log_path 0) = None \<Longrightarrow> shifts 0 m m"
  by (simp add: shifts_def)

lemma shifts_Suc:
  assumes s: "shifts n (m(rotated_log_path n := None, rotated_log_path (Suc n) := m (rotated_log_path n))) m'"
  shows "shifts (Suc n) m m'"
proof -
  have "m' (rotated_log_path (Suc j)) = m (rotated_log_path j)" if "j < Suc n" for j
  proof (cases "j = n")
    case True
    have "\<forall>i \<le> n. rotated_log_path (Suc n) \<noteq> rotated_log_path i" by simp
    with s True show ?thesis by (simp add: shifts_def)
  next
    case False
    with s that show ?thesis by (simp add: shifts_def)
  qed
  moreover have "m' x = m x" if "\<forall>j \<le> Suc n. x \<noteq> rotated_log_path j" for x
    using s that by (simp add: shifts_def)
  ultimately show ?thesis using s by (simp add: shifts_def)
qed

lemma shift_logs_free:
  assumes "lw_faults w = []" and "map_of (lw_dir w) (rotated_log_path n) = None"
  shows "\<exists>d. shift_logs n w = (Inr (), w\<lparr>lw_dir := d\<rparr>) \<and> shifts n (map_of (lw_dir w)) (map_of d)"
  using assms
proof (induction n arbitrary: w)
  case 0
  then have "shift_logs 0 w = (Inr (), w\<lparr>lw_dir := lw_dir w\<rparr>)" by simp
  with 0 show ?case using shifts_0 by blast
next
  case (Suc n)
  let ?m = "map_of (lw_dir w)"
  obtain d where d: "rename_if_exists (rotated_log_path n) (rotated_log_path (Suc n)) w =
      (Inr (), w\<lparr>lw_dir := d\<rparr>)"
    "map_of d = ?m(rotated_log_path n := None, rotated_log_path (Suc n) := ?m (rotated_log_path n))"
    using rename_if_exists_free [OF Suc.prems, of "rotated_log_path n"] by auto
  from d(2) have "map_of d (rotated_log_path n) = None" by simp
  then obtain d' where d': "shift_logs n (w\<lparr>lw_dir := d\<rparr>) = (Inr (), w\<lparr>lw_dir := d'\<rparr>)"
    "shifts n (map_of d) (map_of d')"
    using Suc.IH [of "w\<lparr>lw_dir := d\<rparr>"] Suc.prems(1)
    by auto
  with d have "shifts (Suc n) ?m (map_of d')" by (simp only: d(2) shifts_Suc)
  with d(1) d'(1) show ?case by (auto simp: io_bind_def)
qed

text \<open>Rotation before the cleanup: the current log becomes number 0, the others are shifted, and
  the oldest is gone.\<close>

lemma rotate_names_free:
  assumes f: "lw_faults w = []"
  shows "\<exists>d m. io_bind (remove_if_exists (rotated_log_path n)) (\<lambda>_.
      io_bind (shift_logs n) (\<lambda>_. rename_if_exists LOG_FILE_NAME (rotated_log_path 0))) w =
      (Inr (), w\<lparr>lw_dir := d\<rparr>) \<and>
    shifts n ((map_of (lw_dir w))(rotated_log_path n := None)) m \<and>
    map_of d = m(LOG_FILE_NAME := None, rotated_log_path 0 := map_of (lw_dir w) LOG_FILE_NAME)"
proof -
  let ?w = "w\<lparr>lw_dir := remove_entry (rotated_log_path n) (lw_dir w)\<rparr>"
  have m: "map_of (lw_dir ?w) = (map_of (lw_dir w))(rotated_log_path n := None)"
    by (simp add: fun_eq_iff map_of_remove_entry)
  then obtain d where d: "shift_logs n ?w = (Inr (), w\<lparr>lw_dir := d\<rparr>)"
    "shifts n ((map_of (lw_dir w))(rotated_log_path n := None)) (map_of d)"
    using shift_logs_free [of ?w n] f by auto
  then have "map_of d (rotated_log_path 0) = None" and cur: "map_of d LOG_FILE_NAME = map_of (lw_dir w) LOG_FILE_NAME"
    by (auto simp: shifts_def)
  then obtain d' where "rename_if_exists LOG_FILE_NAME (rotated_log_path 0) (w\<lparr>lw_dir := d\<rparr>) =
      (Inr (), w\<lparr>lw_dir := d'\<rparr>)"
    "map_of d' = (map_of d)(LOG_FILE_NAME := None, rotated_log_path 0 := map_of d LOG_FILE_NAME)"
    using rename_if_exists_free [of "w\<lparr>lw_dir := d\<rparr>" "rotated_log_path 0" LOG_FILE_NAME] f by auto
  with d cur show ?thesis
    by (auto simp: io_bind_def remove_if_exists_free [OF f])
qed

text \<open>The settings that the writer accepts, with sizes that fit a 64-bit integer.\<close>

definition policy_ok :: "log_retention \<Rightarrow> bool" where
  "policy_ok r \<longleftrightarrow> validate_retention r = Inr () \<and> max_total_bytes r < u64_max"

lemma policy_ok_bounds:
  "policy_ok r \<Longrightarrow> 0 < max_file_bytes r \<and> 0 < max_files r \<and> max_file_bytes r \<le> max_total_bytes r"
  by (auto simp: policy_ok_def validate_retention_def split: if_splits)

lemma cleanup_ready: "policy_ok r \<Longrightarrow> triple (log_ready r) (cleanup_logs r) (\<lambda>_ w. log_ready r w \<and> within_policy r w) never"
  by (simp add: policy_ok_def cleanup_logs_ready)

definition no_current :: "log_world \<Rightarrow> bool" where
  "no_current w \<longleftrightarrow> map_of (lw_dir w) LOG_FILE_NAME = None"

lemma cleanup_subset:
  assumes p: "policy_ok r" and w: "log_ready r w" and c: "cleanup_logs r w = (q, w')"
  shows "set (lw_dir w') \<subseteq> set (lw_dir w)"
proof -
  have "lw_faults w = []" and "wf_log w" using w by (auto simp: log_ready_def)
  from cleanup_logs_policy [OF this log_ready_now [OF w]] p c show ?thesis
    unfolding policy_ok_def by (metis Pair_inject)
qed

lemma map_of_subset:
  "distinct (map fst d) \<Longrightarrow> set d' \<subseteq> set d \<Longrightarrow> map_of d' x = Some i \<Longrightarrow> map_of d x = Some i"
  by (auto dest!: map_of_SomeD)

text \<open>A rotation leaves no current log, and the rotated logs that are left come from the one before.\<close>

definition rotated_from :: "nat \<Rightarrow> (string \<rightharpoonup> nat) \<Rightarrow> (string \<rightharpoonup> nat) \<Rightarrow> bool" where
  "rotated_from n m m' \<longleftrightarrow>
     (\<forall>i. m' (rotated_log_path 0) = Some i \<longrightarrow> m LOG_FILE_NAME = Some i) \<and>
     (\<forall>j < n. \<forall>i. m' (rotated_log_path (Suc j)) = Some i \<longrightarrow> m (rotated_log_path j) = Some i)"

lemma rotate_logs_run:
  assumes p: "policy_ok r" and w: "log_ready r w"
  obtains w' where "rotate_logs r w = (Inr (), w')" and "log_ready r w'" and "no_current w'"
    and "2 \<le> max_files r \<Longrightarrow>
      rotated_from (max_files r - 2) (map_of (lw_dir w)) (map_of (lw_dir w'))"
proof (cases "max_files r - 1 = 0")
  case True
  have f: "lw_faults w = []" using w by (simp add: log_ready_def)
  let ?w = "w\<lparr>lw_dir := remove_entry LOG_FILE_NAME (lw_dir w)\<rparr>"
  have "rotate_logs r w = (Inr (), ?w)"
    using True by (simp add: rotate_logs_def remove_if_exists_free [OF f])
  moreover have "log_ready r ?w" using w by (auto simp: log_ready_def wf_log_remove)
  moreover have "no_current ?w" by (simp add: no_current_def map_of_remove_entry)
  ultimately show thesis using that True by auto
next
  case False
  define n where "n = max_files r - 2"
  have n: "max_files r - Suc (Suc 0) = n" by (simp add: n_def)
  let ?names = "io_bind (remove_if_exists (rotated_log_path n)) (\<lambda>_.
      io_bind (shift_logs n) (\<lambda>_. rename_if_exists LOG_FILE_NAME (rotated_log_path 0)))"
  have f: "lw_faults w = []" using w by (simp add: log_ready_def)
  obtain d m where d: "?names w = (Inr (), w\<lparr>lw_dir := d\<rparr>)"
    "shifts n ((map_of (lw_dir w))(rotated_log_path n := None)) m"
    "map_of d = m(LOG_FILE_NAME := None, rotated_log_path 0 := map_of (lw_dir w) LOG_FILE_NAME)"
    using rotate_names_free [OF f] by metis
  let ?w1 = "w\<lparr>lw_dir := d\<rparr>"
  have "triple (log_ready r) ?names (\<lambda>_. log_ready r) never"
    by (rule triple_bind [OF remove_if_exists_ready
          triple_bind [OF shift_logs_ready rename_if_exists_ready]])
  from triple_Inr [OF this w d(1)] have w1: "log_ready r ?w1" .
  obtain w' where c: "cleanup_logs r ?w1 = (Inr (), w')" and w': "log_ready r w'"
    by (rule always_D [OF cleanup_ready [OF p] w1]) simp
  have sub: "map_of (lw_dir w') x = Some i \<Longrightarrow> map_of d x = Some i" for x i
    using map_of_subset [OF _ cleanup_subset [OF p w1 c]] w1
    by (auto simp: log_ready_def wf_log_def)
  have "rotate_logs r w = (Inr (), w')"
    using False d(1) c by (auto simp: rotate_logs_def n io_bind_def split: prod.splits sum.splits)
  moreover have "no_current w'"
  proof (rule ccontr)
    assume "\<not> no_current w'"
    then obtain i where "map_of (lw_dir w') LOG_FILE_NAME = Some i" by (auto simp: no_current_def)
    from sub [OF this] show False by (simp add: d(3))
  qed
  moreover have "rotated_from n (map_of (lw_dir w)) (map_of (lw_dir w'))"
    unfolding rotated_from_def
  proof (intro conjI allI impI)
    fix i
    assume "map_of (lw_dir w') (rotated_log_path 0) = Some i"
    from sub [OF this] show "map_of (lw_dir w) LOG_FILE_NAME = Some i" by (simp add: d(3))
  next
    fix j i
    assume j: "j < n" and "map_of (lw_dir w') (rotated_log_path (Suc j)) = Some i"
    from sub [OF this(2)] d(2) j show "map_of (lw_dir w) (rotated_log_path j) = Some i"
      by (simp add: d(3) shifts_def)
  qed
  ultimately show thesis using that w' n_def by blast
qed

section \<open>The writer\<close>

text \<open>The open file is the current log of the directory.\<close>

definition current_open :: "log_world \<Rightarrow> bool" where
  "current_open w \<longleftrightarrow> map_of (lw_dir w) LOG_FILE_NAME = Some (lw_file w)"

lemma rotate_run:
  assumes p: "policy_ok r" and w: "log_ready r w"
  obtains w' where "rotate r w = (Inr (), w')" and "log_ready r w'" and "current_open w'"
    and "f_data (lw_files w' (lw_file w')) = []" and "lw_next w \<le> lw_file w'"
    and "files_kept (lw_next w) (lw_files w) w'" and "lw_shorts w' = lw_shorts w"
    and "2 \<le> max_files r \<Longrightarrow>
      rotated_from (max_files r - 2) (map_of (lw_dir w)) (map_of (lw_dir w'))"
proof -
  obtain w1 where w1: "rotate_logs r w = (Inr (), w1)" "log_ready r w1" "no_current w1"
    and names: "2 \<le> max_files r \<Longrightarrow>
      rotated_from (max_files r - 2) (map_of (lw_dir w)) (map_of (lw_dir w1))"
    by (rule rotate_logs_run [OF p w]) simp
  have f: "lw_faults w = []" "lw_faults w1 = []" using w w1(2) by (simp_all add: log_ready_def)
  have run: "rotate r w = (Inr (), created w1)"
    using w1 f by (simp add: rotate_def flush_file_def io_bind_def open_current_log_def no_current_def created_def)
  have kept: "files_kept (lw_next w) (lw_files w) w1"
    by (rule keepsD [OF untouched.keeps_rotate_logs _ w1(1)]) (simp add: files_kept_def)
  have sh: "lw_shorts w1 = lw_shorts w"
    by (rule keepsD [OF same_shorts.keeps_rotate_logs _ w1(1)]) simp
  have "log_ready r (created w1)"
    using w1(2,3) by (auto simp: log_ready_def wf_log_created no_current_def created_def dest: stl_sset)
      (simp add: wf_log_created [unfolded created_def])
  moreover have "current_open (created w1)"
    using w1(3) by (simp add: current_open_def created_def no_current_def map_add_def)
  moreover have "files_kept (lw_next w) (lw_files w) (created w1)"
    using untouched.creation [OF kept] w1(3) by (simp add: no_current_def)
  moreover have "lw_next w \<le> lw_file (created w1)" using kept by (simp add: files_kept_def created_def)
  moreover have "rotated_from n m (map_of (lw_dir (created w1)))" if "rotated_from n m (map_of (lw_dir w1))" for n m
    using that by (auto simp: rotated_from_def created_def map_add_def split: option.splits if_splits)
  ultimately show thesis using that [OF run] names sh by (simp add: created_def)
qed

lemma current_metadata_free:
  "log_ready r w \<Longrightarrow> metadata (lw_file w) w =
     (Inr (length (f_data (lw_files w (lw_file w))), f_modified (lw_files w (lw_file w))), w)"
  by (simp add: log_ready_def)

lemma needs_rotation_run:
  assumes w: "log_ready r w"
  obtains b w' where "current_log_needs_rotation r w = (Inr b, w')" and "log_ready r w'"
    and "lw_dir w' = lw_dir w"
proof -
  let ?w = "w\<lparr>lw_clock := stl (lw_clock w)\<rparr>"
  have "log_ready r ?w" using w by (auto simp: log_ready_def wf_log_def dest: stl_sset)
  then show thesis
    using that w log_ready_now [OF w]
    by (cases "max_file_bytes r \<le> length (f_data (lw_files w (lw_file w)))")
      (auto simp: current_log_needs_rotation_def current_metadata_free retention_cutoff_def now_def
        io_bind_def)
qed

lemma cleanup_retention_run:
  assumes p: "policy_ok r" and w: "log_ready r w"
  obtains w' where "cleanup_retention r w = (Inr (), w')" and "log_ready r w'" and "within_policy r w'"
proof -
  obtain b w1 where n: "current_log_needs_rotation r w = (Inr b, w1)" and w1: "log_ready r w1"
    by (rule needs_rotation_run [OF w]) simp
  obtain w2 where r: "(if b then rotate r else io_return ()) w1 = (Inr (), w2)" and w2: "log_ready r w2"
    by (rule rotate_run [OF p w1]) (use w1 in \<open>cases b; simp\<close>)
  obtain w3 where "cleanup_logs r w2 = (Inr (), w3)" and w3: "log_ready r w3 \<and> within_policy r w3"
    by (rule always_D [OF cleanup_ready [OF p] w2]) simp
  with n r have "cleanup_retention r w = (Inr (), w3)"
    by (simp add: cleanup_retention_def io_bind_def)
  with w3 that show thesis by blast
qed

lemma log_ready_appended: "log_ready r w \<Longrightarrow> log_ready r (appended buf w)"
  using wf_world.writing [of w buf] by (auto simp: log_ready_def appended_def dest: stl_sset)

text \<open>The room that a write finds in the current log, rotated before if need be.\<close>

lemma make_room_run:
  assumes p: "policy_ok r" and w: "log_ready r w" and b: "buf \<noteq> []"
  defines "sz \<equiv> length (f_data (lw_files w (lw_file w)))"
  obtains w' where
    "(if max_file_bytes r \<le> sz \<or> 0 < sz \<and> max_file_bytes r < sat_add64 sz (length buf)
      then rotate r else io_return ()) w = (Inr (), w')"
    and "log_ready r w'" and "files_kept (lw_next w) (lw_files w) w'" and "lw_shorts w' = lw_shorts w"
    and "f_data (lw_files w' (lw_file w')) = [] \<and> lw_next w \<le> lw_file w' \<or>
      w' = w \<and> sz < max_file_bytes r \<and> (sz = 0 \<or> sz + length buf \<le> max_file_bytes r)"
proof (cases "max_file_bytes r \<le> sz \<or> 0 < sz \<and> max_file_bytes r < sat_add64 sz (length buf)")
  case True
  obtain w' where "rotate r w = (Inr (), w')" "log_ready r w'" "files_kept (lw_next w) (lw_files w) w'"
    "lw_shorts w' = lw_shorts w" "f_data (lw_files w' (lw_file w')) = [] \<and> lw_next w \<le> lw_file w'"
    by (rule rotate_run [OF p w]) simp
  with True that [of w'] show thesis by simp
next
  case False
  moreover have "max_file_bytes r < u64_max"
    using p policy_ok_bounds [OF p] by (simp add: policy_ok_def)
  ultimately have "sz < max_file_bytes r \<and> (sz = 0 \<or> sz + length buf \<le> max_file_bytes r)"
    by (auto simp: sat_add64_def split: if_splits)
  with w that [of w] show thesis
    unfolding if_not_P [OF False] by (simp add: files_kept_def)
qed

text \<open>A write on a file system that works: at least one byte is taken, all of them unless the log is
  filled up by them, and they go to the end of the current log or of a fresh one.\<close>

lemma log_write_run:
  assumes p: "policy_ok r" and w: "log_ready r w" and s: "lw_shorts w = []" and b: "buf \<noteq> []"
  obtains n w' where "log_write r buf w = (Inr n, w')" and "log_ready r w'" and "within_policy r w'"
    and "lw_shorts w' = []" and "0 < n" and "n \<le> length buf" and "n = length buf \<or> n = max_file_bytes r"
    and "(\<forall>i < lw_next w. i \<noteq> lw_file w \<longrightarrow> lw_files w' i = lw_files w i)"
    and "f_data (lw_files w' (lw_file w)) = f_data (lw_files w (lw_file w)) @ take n buf \<or>
      lw_files w' (lw_file w) = lw_files w (lw_file w) \<and>
      (\<exists>i. lw_next w \<le> i \<and> i < lw_next w' \<and> f_data (lw_files w' i) = take n buf)"
proof -
  let ?size = "length (f_data (lw_files w (lw_file w)))"
  obtain w1 where room: "(if max_file_bytes r \<le> ?size \<or>
        0 < ?size \<and> max_file_bytes r < sat_add64 ?size (length buf)
      then rotate r else io_return ()) w = (Inr (), w1)"
    and w1: "log_ready r w1" "files_kept (lw_next w) (lw_files w) w1" "lw_shorts w1 = []"
    and cur: "f_data (lw_files w1 (lw_file w1)) = [] \<and> lw_next w \<le> lw_file w1 \<or>
      w1 = w \<and> ?size < max_file_bytes r \<and> (?size = 0 \<or> ?size + length buf \<le> max_file_bytes r)"
    by (rule make_room_run [OF p w b]) (simp add: s)
  let ?data = "f_data (lw_files w1 (lw_file w1))"
  define n where "n = min (max_file_bytes r - length ?data) (length buf)"
  let ?w2 = "appended (take n buf) w1"
  have f: "lw_faults w = []" "lw_faults w1 = []" using w w1(1) by (simp_all add: log_ready_def)
  have "length (take n buf) = n" by (simp add: n_def)
  then have wr: "write_file (take n buf) w1 = (Inr n, ?w2)"
    using f(2) w1(3) by (simp add: write_file_def Let_def appended_def)
  have w2: "log_ready r ?w2" using log_ready_appended [OF w1(1)] .
  obtain w3 where c: "cleanup_retention r ?w2 = (Inr (), w3)" and w3: "log_ready r w3" "within_policy r w3"
    by (rule cleanup_retention_run [OF p w2]) simp
  have run: "log_write r buf w = (Inr n, w3)"
    using b room wr c current_metadata_free [OF w] current_metadata_free [OF w1(1)]
    by (simp add: log_write_def io_bind_def Let_def n_def)
  have kept: "files_kept (lw_next w1) (lw_files ?w2) w3"
    by (rule keepsD [OF untouched.keeps_cleanup_retention _ c]) (simp add: files_kept_def appended_def)
  have sh: "lw_shorts w3 = []"
    by (rule keepsD [OF full_writes.keeps_log_write s run])
  have lt: "lw_file w < lw_next w" "lw_file w1 < lw_next w1"
    using w w1(1) by (auto simp: log_ready_def wf_log_def)
  have at: "lw_files w3 i = lw_files ?w2 i" if "i < lw_next w1" for i
    using kept that by (simp add: files_kept_def)
  have mono: "lw_next w \<le> lw_next w1" "lw_next w1 \<le> lw_next w3"
    using w1(2) kept by (simp_all add: files_kept_def)
  have before: "lw_files w1 i = lw_files w i" if "i < lw_next w" for i
    using w1(2) that by (simp add: files_kept_def)
  have n: "0 < n" "n \<le> length buf" "n = length buf \<or> n = max_file_bytes r"
    using cur b policy_ok_bounds [OF p] by (auto simp: n_def)
  have other: "lw_files w3 i = lw_files w i" if "i < lw_next w" and "i \<noteq> lw_file w1" for i
    using at [of i] before [of i] mono that by (simp add: appended_def)
  have new: "f_data (lw_files w3 (lw_file w1)) = ?data @ take n buf"
    using at [OF lt(2)] by (simp add: appended_def)
  show thesis
  proof (cases "w1 = w")
    case True
    then show thesis
      using that [OF run w3 sh n] other new by blast
  next
    case False
    with cur have "?data = []" and ge: "lw_next w \<le> lw_file w1" by auto
    with new lt mono have "f_data (lw_files w3 (lw_file w1)) = take n buf" and "lw_file w1 < lw_next w3" by auto
    moreover have "\<forall>i < lw_next w. lw_files w3 i = lw_files w i" using other ge by auto
    ultimately show thesis using that [OF run w3 sh n] lt(1) ge by blast
  qed
qed

end
