(* ===== verification/Keyro_Logging_History.thy ===== *)
theory Keyro_Logging_History
  imports Keyro_Logging_Writer
begin

text \<open>
  The log writer over its life: any sequence of writes, maintenance rounds and restarts, first with
  any system call failing, then on a file system that works.  A small directory with a fixed clock
  serves as the concrete instance.
\<close>

section \<open>Histories\<close>

datatype log_op = LogWrite string | LogFlush | Maintain | Restart

text \<open>The results are dropped: the subscriber drops those of a write or flush, the thread those of its round.\<close>

fun log_step :: "log_retention \<Rightarrow> log_op \<Rightarrow> log_world \<Rightarrow> log_world" where
  "log_step r (LogWrite buf) w = snd (log_handle_write r buf w)"
| "log_step r LogFlush w = snd (log_handle_flush w)"
| "log_step r Maintain w = maintain r w"
| "log_step r Restart w = snd (rotating_log_writer_new r w)"

fun run_log :: "log_retention \<Rightarrow> log_op list \<Rightarrow> log_world \<Rightarrow> log_world" where
  "run_log r [] w = w"
| "run_log r (op # ops) w = run_log r ops (log_step r op w)"

context log_invariant
begin

lemma log_step_keeps: "P w \<Longrightarrow> P (log_step r op w)"
  using keeps_handle_write keeps_handle_flush keeps_writer_new maintain_keeps by (cases op) (auto simp: keeps_def)

lemma run_log_keeps: "P w \<Longrightarrow> P (run_log r ops w)"
  by (induction r ops w rule: run_log.induct) (simp_all add: log_step_keeps)

end

section \<open>A concrete directory\<close>

definition sample_retention :: log_retention where
  "sample_retention = \<lparr>max_file_bytes = 4, max_total_bytes = 8, max_files = 2, max_age = 10\<rparr>"

definition sample_log_world :: log_world where
  "sample_log_world =
     \<lparr>lw_dir = [(LOG_FILE_NAME, 0), (''studio.log'', 1)],
      lw_files = (\<lambda>_. \<lparr>f_data = ''abc'', f_modified = 100\<rparr>), lw_next = 2, lw_file = 0,
      lw_clock = sconst 100, lw_faults = [], lw_shorts = [], lw_poisoned = False\<rparr>"

lemma sample_retention_ok: "policy_ok sample_retention"
  by (simp add: policy_ok_def sample_retention_def validate_retention_def u64_max_def)

lemma sample_log_ready: "log_ready sample_retention sample_log_world"
  by (simp add: log_ready_def wf_log_def sample_log_world_def sample_retention_def LOG_FILE_NAME_def)

section \<open>Whatever fails\<close>

text \<open>C24: over any sequence of writes, flushes, maintenance rounds and restarts of the log writer, and
  whatever system calls fail or write short on the way, the directory entries that are no Keyro
  logs stay as they are, and so do the contents of their files; and no byte that any log file holds
  is ever changed: its contents after the run start with its contents before.\<close>

theorem log_history_preserves:
  assumes "wf_log w" and "lw_file w \<notin> snd ` set (other_entries w)"
  shows "other_entries (run_log r ops w) = other_entries w \<and>
    (\<forall>e \<in> set (other_entries w). lw_files (run_log r ops w) (snd e) = lw_files w (snd e)) \<and>
    (\<forall>i < lw_next w. prefix (f_data (lw_files w i)) (f_data (lw_files (run_log r ops w) i)))"
proof -
  have "others_kept (other_entries w) (lw_files w) w" using assms by (simp add: others_kept_def)
  then have "others_kept (other_entries w) (lw_files w) (run_log r ops w)"
    by (rule others.run_log_keeps)
  moreover have "contents_extend (lw_next w) (\<lambda>i. f_data (lw_files w i)) w" by (simp add: contents_extend_def)
  then have "contents_extend (lw_next w) (\<lambda>i. f_data (lw_files w i)) (run_log r ops w)"
    by (rule append_only.run_log_keeps)
  ultimately show ?thesis by (simp add: others_kept_def contents_extend_def)
qed

theorem log_history_preserves_witness:
  "other_entries (run_log sample_retention [LogWrite ''de'', Maintain, Restart] sample_log_world) =
     [(''studio.log'', 1)] \<and>
   prefix ''abc''
     (f_data (lw_files (run_log sample_retention [LogWrite ''de'', Maintain, Restart] sample_log_world) 0))"
proof -
  let ?run = "run_log sample_retention [LogWrite ''de'', Maintain, Restart] sample_log_world"
  have o: "other_entries sample_log_world = [(''studio.log'', 1)]"
    by (simp add: other_entries_def sample_log_world_def is_keyro_log_def LOG_FILE_NAME_def)
  have w: "wf_log sample_log_world" using sample_log_ready by (simp add: log_ready_def)
  have "lw_file sample_log_world \<notin> snd ` set (other_entries sample_log_world)"
    unfolding o by (simp add: sample_log_world_def)
  note keep = log_history_preserves [OF w this, of sample_retention "[LogWrite ''de'', Maintain, Restart]"]
  have "prefix (f_data (lw_files sample_log_world 0)) (f_data (lw_files ?run 0))"
    using keep by (metis sample_log_world_def log_world.select_convs(3) zero_less_numeral)
  moreover have "f_data (lw_files sample_log_world 0) = ''abc''" by (simp add: sample_log_world_def)
  ultimately show ?thesis using keep o by (simp only: simp_thms)
qed

section \<open>On a file system that works\<close>

lemma log_step_idle:
  "log_ready r w \<Longrightarrow> op \<in> {LogFlush, LogWrite []} \<Longrightarrow> log_step r op w = w"
  by (auto simp: log_ready_def log_handle_write_def log_handle_flush_def lock_log_def log_write_def flush_file_def
      io_bind_def)

lemma log_step_ready:
  assumes p: "policy_ok r" and w: "log_ready r w" and s: "lw_shorts w = []"
    and op: "op \<notin> {Restart, LogFlush, LogWrite []}"
  shows "log_ready r (log_step r op w) \<and> within_policy r (log_step r op w) \<and> lw_shorts (log_step r op w) = []"
proof (cases op)
  case (LogWrite buf)
  with op have "buf \<noteq> []" by auto
  show ?thesis
    by (rule log_write_run [OF p w s \<open>buf \<noteq> []\<close>])
      (simp add: LogWrite log_handle_write_def lock_log_def io_bind_def log_ready_lock [OF w])
next
  case Maintain
  show ?thesis
    by (rule cleanup_retention_run [OF p w])
      (use full_writes.maintain_keeps [OF s, of r] in
        \<open>simp add: Maintain maintain_def lock_log_def log_ready_lock [OF w]\<close>)
qed (use op in simp_all)

text \<open>C25: with settings that the writer accepts, on a working file system the logs are within the policy
  after the first write or maintenance round and from then on, whatever is written or flushed: no
  more files than allowed, none too large, and all of them together within the total.\<close>

theorem log_policy_holds:
  assumes "policy_ok r" and "log_ready r w" and "lw_shorts w = []" and "Restart \<notin> set ops"
    and "within_policy r w \<or> \<not> set ops \<subseteq> {LogFlush, LogWrite []}"
  shows "within_policy r (run_log r ops w)"
  using assms
proof (induction r ops w rule: run_log.induct)
  case (2 r op ops w)
  show ?case
  proof (cases "op \<in> {LogFlush, LogWrite []}")
    case True
    from log_step_idle [OF 2(3) True] have "log_step r op w = w" .
    with 2 True show ?thesis by auto
  next
    case False
    with 2 have "log_ready r (log_step r op w) \<and> within_policy r (log_step r op w) \<and> lw_shorts (log_step r op w) = []"
      by (intro log_step_ready) auto
    with 2 show ?thesis by simp
  qed
qed simp

theorem log_policy_holds_witness:
  "within_policy sample_retention
     (run_log sample_retention [LogWrite ''defgh'', LogFlush, Maintain, LogWrite ''i''] sample_log_world)"
  by (rule log_policy_holds [OF sample_retention_ok sample_log_ready]) (simp_all add: sample_log_world_def)

text \<open>C26: a write of a non-empty text on a working file system takes at least one byte and all of
  them unless the log is full then; the bytes it reports as written are at the end of the file that
  was open, or alone in a file newly created by a rotation, and no other file has changed.\<close>

theorem log_write_appends:
  assumes "policy_ok r" and "log_ready r w" and "lw_shorts w = []" and "buf \<noteq> []"
  shows "\<exists>n w'. log_write r buf w = (Inr n, w') \<and> 0 < n \<and> n \<le> length buf \<and>
    (n = length buf \<or> n = max_file_bytes r) \<and>
    (\<forall>i < lw_next w. i \<noteq> lw_file w \<longrightarrow> lw_files w' i = lw_files w i) \<and>
    (f_data (lw_files w' (lw_file w)) = f_data (lw_files w (lw_file w)) @ take n buf \<or>
     lw_files w' (lw_file w) = lw_files w (lw_file w) \<and>
     (\<exists>i. lw_next w \<le> i \<and> i < lw_next w' \<and> f_data (lw_files w' i) = take n buf))"
  by (rule log_write_run [OF assms]) blast

theorem log_write_appends_witness:
  "\<exists>n w'. log_write sample_retention ''defgh'' sample_log_world = (Inr n, w') \<and> (n = 5 \<or> n = 4)"
proof -
  have "lw_shorts sample_log_world = []" by (simp add: sample_log_world_def)
  from log_write_appends [OF sample_retention_ok sample_log_ready this, of "''defgh''"]
  show ?thesis by (auto simp: sample_retention_def)
qed



text \<open>C28: a cleanup on a working file system never removes a log without need: one that is removed was
  expired, or too large, or the number of files is used up by the logs that stay, or it would have
  exceeded the total size together with them.\<close>

theorem cleanup_removes_only_excess:
  assumes "lw_faults w = []" and "distinct (map fst (lw_dir w))" and "max_age r \<le> shd (lw_clock w)"
    and "cleanup_logs r w = (q, w')" and "e \<in> set (lw_dir w)" and "e \<notin> set (lw_dir w')"
  shows "is_keyro_log (fst e) \<and>
    (log_time w e < shd (lw_clock w) - max_age r \<or> max_file_bytes r < log_size w e \<or>
     max_files r \<le> length (logs w') \<or>
     max_total_bytes r < sum_list (map (log_size w) (logs w')) + log_size w e)"
  by (rule cleanup_logs_maximal [OF assms])

theorem cleanup_removes_only_excess_witness:
  "let w = sample_log_world\<lparr>lw_dir := [(''keyro-core.0.log'', 1)], lw_clock := sconst 200\<rparr>;
       w' = snd (cleanup_logs sample_retention w)
   in lw_dir w' = [] \<and> (log_time w (''keyro-core.0.log'', 1) < 190 \<or> max_file_bytes sample_retention < (3 :: nat) \<or>
      max_files sample_retention \<le> length (logs w') \<or>
      max_total_bytes sample_retention < sum_list (map (log_size w) (logs w')) + 3)"
proof -
  let ?w = "sample_log_world\<lparr>lw_dir := [(''keyro-core.0.log'', 1)], lw_clock := sconst 200\<rparr>"
  have pre: "lw_faults ?w = []" "distinct (map fst (lw_dir ?w))" "max_age sample_retention \<le> shd (lw_clock ?w)"
    by (simp_all add: sample_log_world_def sample_retention_def)
  have run: "lw_dir (snd (cleanup_logs sample_retention ?w)) = []"
    by (simp add: io_bind_def cleanup_logs_def retention_cutoff_def now_def newest_first_def io_try_def
        is_keyro_log_def suffix_to_prefix remove_file_def file_exists_def remove_entry_def
        sample_log_world_def sample_retention_def)
  from cleanup_removes_only_excess [OF pre surjective_pairing, of "(''keyro-core.0.log'', 1)"] run
  show ?thesis
    by (simp add: Let_def log_size_def log_time_def) (simp add: sample_log_world_def sample_retention_def)
qed

section \<open>Start-up\<close>

lemma writer_new_run:
  assumes p: "policy_ok r" and w: "log_ready r w"
  obtains w' where "rotating_log_writer_new r w = (Inr (), w')" and "log_ready r w'" and "current_open w'"
    and "length (logs w') \<le> Suc (max_files r)"
    and "sum_list (map (log_size w') (logs w')) \<le> max_total_bytes r"
    and "\<forall>e \<in> set (logs w'). log_size w' e \<le> max_file_bytes r"
proof -
  obtain w1 where c: "cleanup_logs r w = (Inr (), w1)" and w1: "log_ready r w1" "within_policy r w1"
    by (rule always_D [OF cleanup_ready [OF p] w]) simp
  have f: "lw_faults w = []" "lw_faults w1 = []" using w w1 by (simp_all add: log_ready_def)
  have v: "validate_retention r = Inr ()" using p by (simp add: policy_ok_def)
  show thesis
  proof (cases "map_of (lw_dir w1) LOG_FILE_NAME")
    case (Some i)
    let ?w = "w1\<lparr>lw_file := i\<rparr>"
    have "rotating_log_writer_new r w = (Inr (), ?w)"
      using c f v Some by (simp add: rotating_log_writer_new_def io_bind_def open_current_log_def)
    moreover have "log_ready r ?w"
      using w1(1) wf_world.reopening [OF _ Some] by (simp add: log_ready_def)
    moreover have "logs ?w = logs w1" "log_size ?w = log_size w1"
      by (simp_all add: logs_def log_size_def fun_eq_iff)
    ultimately show thesis
      using that w1(2) Some by (simp add: current_open_def within_policy_def)
  next
    case None
    let ?w = "created w1"
    have "rotating_log_writer_new r w = (Inr (), ?w)"
      using c f v None by (simp add: rotating_log_writer_new_def io_bind_def open_current_log_def created_def)
    moreover have "log_ready r ?w"
      using w1(1) wf_log_created [OF _ None] by (auto simp: log_ready_def created_def dest: stl_sset)
    moreover have "current_open ?w"
      using None by (simp add: current_open_def created_def map_add_def)
    moreover have logs: "logs ?w = logs w1 @ [(LOG_FILE_NAME, lw_next w1)]"
      by (simp add: logs_def created_def)
    have new: "log_size ?w (LOG_FILE_NAME, lw_next w1) = 0" by (simp add: log_size_def created_def)
    have old: "log_size ?w e = log_size w1 e" if "e \<in> set (logs w1)" for e
      using w1(1) that by (force simp: log_size_def created_def logs_def log_ready_def wf_log_def)
    then have "map (log_size ?w) (logs w1) = map (log_size w1) (logs w1)" by simp
    with logs new have sum: "sum_list (map (log_size ?w) (logs ?w)) = sum_list (map (log_size w1) (logs w1))"
      by (simp only: map_append sum_list.append list.map sum_list.Cons sum_list.Nil add_0_right)
    have "\<forall>e \<in> set (logs ?w). log_size ?w e \<le> max_file_bytes r"
      using w1(2) old new by (auto simp: logs within_policy_def)
    moreover have "length (logs ?w) \<le> Suc (max_files r)"
      using w1(2) by (simp add: logs within_policy_def)
    moreover have "sum_list (map (log_size ?w) (logs ?w)) \<le> max_total_bytes r"
      using w1(2) by (simp add: sum within_policy_def)
    ultimately show thesis using that by blast
  qed
qed

text \<open>C29: opening the log writer at start-up on a working file system succeeds, opens the current log
  and leaves the sizes within the policy, but it cleans up before it creates a missing current log,
  so that the number of files can be one above the limit.\<close>

theorem log_startup_bounds:
  assumes "policy_ok r" and "log_ready r w"
  shows "\<exists>w'. rotating_log_writer_new r w = (Inr (), w') \<and> current_open w' \<and>
    length (logs w') \<le> Suc (max_files r) \<and> sum_list (map (log_size w') (logs w')) \<le> max_total_bytes r \<and>
    (\<forall>e \<in> set (logs w'). log_size w' e \<le> max_file_bytes r)"
  by (rule writer_new_run [OF assms]) blast

theorem log_startup_bounds_witness:
  "\<exists>w'. rotating_log_writer_new sample_retention sample_log_world = (Inr (), w') \<and> current_open w' \<and>
    length (logs w') \<le> 3"
  using log_startup_bounds [OF sample_retention_ok sample_log_ready] by (auto simp: sample_retention_def)




end
