(* ===== verification/Keyro_Listener.thy ===== *)
theory Keyro_Listener
  imports Keyro_Prelude
begin

text \<open>
  \<open>crates/keyro-core/src/main.rs\<close>, \<open>DevConnections\<close> and \<open>run_dev_ipc\<close>, and
  \<open>crates/keyro-core/src/windows_ipc.rs\<close>: accepting connections and handing each to a worker thread,
  at most \<open>MAX_DEV_CONNECTIONS\<close> at a time.  A thread that is running keeps its stream open.  Threads
  end on their own: before every look at them, those that \<open>th_ends\<close> lists next have ended.  Whether
  a call to the system fails is read off a list, as in the other components.
\<close>

section \<open>Threads\<close>

text \<open>The running threads, with the identifier of the connection that each serves.\<close>

record threads =
  th_running :: "(nat \<times> 64 word) list"
  th_ends :: "nat list stream"
  th_next :: nat
  th_faults :: "string option list"

definition time_passes :: "threads \<Rightarrow> threads" where
  "time_passes t =
     t\<lparr>th_running := filter (\<lambda>(i, _). i \<notin> set (shd (th_ends t))) (th_running t),
       th_ends := stl (th_ends t)\<rparr>"

definition running :: "threads \<Rightarrow> nat set" where
  "running t = fst ` set (th_running t)"

text \<open>\<open>JoinHandle::is_finished\<close>.\<close>

definition is_finished :: "nat \<Rightarrow> threads \<Rightarrow> bool \<times> threads" where
  "is_finished worker t =
     (let t' = time_passes t in (worker \<notin> running t', t'))"

text \<open>\<open>thread::Builder::spawn\<close>.\<close>

definition spawn :: "64 word \<Rightarrow> (threads, string, nat) io" where
  "spawn connection_id = (\<lambda>t.
     case th_faults t of
       Some e # es \<Rightarrow> (Inl e, t\<lparr>th_faults := es\<rparr>)
     | es \<Rightarrow>
         (Inr (th_next t),
          t\<lparr>th_faults := tl es, th_next := Suc (th_next t),
            th_running := th_running t @ [(th_next t, connection_id)]\<rparr>))"

section \<open>Accepting a connection\<close>

definition MAX_DEV_CONNECTIONS :: nat where "MAX_DEV_CONNECTIONS = 8"

record dev_connections =
  workers :: "nat list"
  next_id :: "64 word"

definition dev_connections_default :: dev_connections where
  "dev_connections_default = \<lparr>workers = [], next_id = 0\<rparr>"

text \<open>\<open>Vec::swap_remove\<close> at a valid index: the last element takes the place.\<close>

definition swap_remove :: "nat \<Rightarrow> 'a list \<Rightarrow> 'a list" where
  "swap_remove index xs = butlast (xs[index := last xs])"

lemma length_swap_remove [simp]: "length (swap_remove i xs) = length xs - 1"
  by (simp add: swap_remove_def)

text \<open>The loop that joins finished workers.\<close>

function reap :: "nat \<Rightarrow> nat list \<Rightarrow> threads \<Rightarrow> nat list \<times> threads" where
  "reap index ws t =
     (if index < length ws
      then
        (case is_finished (ws ! index) t of
           (True, t') \<Rightarrow> reap index (swap_remove index ws) t'
         | (False, t') \<Rightarrow> reap (index + 1) ws t')
      else (ws, t))"
  by pat_completeness auto
termination
  by (relation "measure (\<lambda>(index, ws, t). length ws - index)") auto

declare reap.simps [simp del]

text \<open>\<open>DevConnections::accept\<close>.  The stream goes to the worker, or is closed when this returns.\<close>

definition accept_connection :: "dev_connections \<Rightarrow> threads \<Rightarrow> (string + unit) \<times> dev_connections \<times> threads" where
  "accept_connection self t =
     (case reap 0 (workers self) t of
        (ws, t') \<Rightarrow>
          let self = self\<lparr>workers := ws\<rparr>
          in if MAX_DEV_CONNECTIONS \<le> length ws then (Inr (), self, t')
             else
               let connection_id = next_id self;
                   self = self\<lparr>next_id := next_id self + 1\<rparr>
               in case spawn connection_id t' of
                    (Inl e, t'') \<Rightarrow> (Inl e, self, t'')
                  | (Inr worker, t'') \<Rightarrow> (Inr (), self\<lparr>workers := ws @ [worker]\<rparr>, t''))"

section \<open>The listener on Unix\<close>

text \<open>Whether the socket file exists, and the failures of the calls before the loop.\<close>

record socket_file =
  sk_exists :: bool
  sk_faults :: "string option list"

definition socket_call :: "(socket_file \<Rightarrow> (string + unit) \<times> socket_file) \<Rightarrow> (socket_file, string, unit) io" where
  "socket_call f = (\<lambda>s.
     case sk_faults s of
       Some e # es \<Rightarrow> (Inl e, s\<lparr>sk_faults := es\<rparr>)
     | es \<Rightarrow> f (s\<lparr>sk_faults := tl es\<rparr>))"

definition remove_socket :: "(socket_file, string, unit) io" where
  "remove_socket = socket_call (\<lambda>s. (Inr (), s\<lparr>sk_exists := False\<rparr>))"

text \<open>\<open>UnixListener::bind\<close> refuses a path that exists.\<close>

definition bind_socket :: "(socket_file, string, unit) io" where
  "bind_socket = socket_call (\<lambda>s.
     if sk_exists s then (Inl ''Address already in use'', s) else (Inr (), s\<lparr>sk_exists := True\<rparr>))"

definition prepare_socket :: "string \<Rightarrow> (socket_file, string, unit) io" where
  "prepare_socket path =
     io_bind (\<lambda>s. if sk_exists s
        then io_map_err (\<lambda>_. ''failed to remove stale development IPC socket at '' @ path) remove_socket s
        else (Inr (), s)) (\<lambda>_.
     io_map_err (\<lambda>_. ''failed to bind development IPC socket at '' @ path) bind_socket)"

text \<open>The loop over \<open>listener.incoming()\<close>, on the outcomes of the next calls to \<open>accept\<close>; failures are
  logged and the loop goes on.\<close>

fun accept_loop :: "(string + unit) list \<Rightarrow> dev_connections \<Rightarrow> threads \<Rightarrow> dev_connections \<times> threads" where
  "accept_loop [] connections t = (connections, t)"
| "accept_loop (Inl error # incoming) connections t = accept_loop incoming connections t"
| "accept_loop (Inr stream # incoming) connections t =
     (case accept_connection connections t of
        (_, connections', t') \<Rightarrow> accept_loop incoming connections' t')"

section \<open>The listener on Windows\<close>

text \<open>What \<open>CreateNamedPipeW\<close> is asked for.\<close>

record pipe_request =
  pq_name :: string
  pq_open_mode :: "32 word"
  pq_pipe_mode :: "32 word"
  pq_max_instances :: nat
  pq_out_buffer :: nat
  pq_in_buffer :: nat
  pq_default_timeout :: nat
  pq_descriptor :: string
  pq_inherit_handle :: bool

definition PIPE_ACCESS_DUPLEX :: "32 word" where "PIPE_ACCESS_DUPLEX = 3"
definition FILE_FLAG_FIRST_PIPE_INSTANCE :: "32 word" where "FILE_FLAG_FIRST_PIPE_INSTANCE = 0x80000"
definition PIPE_TYPE_BYTE :: "32 word" where "PIPE_TYPE_BYTE = 0"
definition PIPE_READMODE_BYTE :: "32 word" where "PIPE_READMODE_BYTE = 0"
definition PIPE_WAIT :: "32 word" where "PIPE_WAIT = 0"
definition PIPE_REJECT_REMOTE_CLIENTS :: "32 word" where "PIPE_REJECT_REMOTE_CLIENTS = 8"

definition PIPE_PATH :: string where
  "PIPE_PATH = [CHR 0x5C, CHR 0x5C, CHR ''.'', CHR 0x5C] @ ''pipe'' @ [CHR 0x5C] @ ''keyro-core-dev''"

text \<open>The pipe instances that the listener holds (a running worker holds one more), all requests that
  were granted, and the outcomes of the system calls.\<close>

record pipes =
  pi_held :: nat
  pi_granted :: "pipe_request list"
  pi_faults :: "string option list"

definition pipe_call :: "(pipes \<Rightarrow> (string + unit) \<times> pipes) \<Rightarrow> pipes \<Rightarrow> (string + unit) \<times> pipes" where
  "pipe_call f p =
     (case pi_faults p of
        Some e # es \<Rightarrow> (Inl e, p\<lparr>pi_faults := es\<rparr>)
      | es \<Rightarrow> f (p\<lparr>pi_faults := tl es\<rparr>))"

text \<open>\<open>CreateNamedPipeW\<close> fails when the flag for the first instance is given and there is one, or when
  as many instances as requested are there.\<close>

definition create_named_pipe :: "pipe_request \<Rightarrow> threads \<Rightarrow> pipes \<Rightarrow> (string + unit) \<times> pipes" where
  "create_named_pipe q t = pipe_call (\<lambda>p.
     let instances = pi_held p + length (th_running t)
     in if and (pq_open_mode q) FILE_FLAG_FIRST_PIPE_INSTANCE \<noteq> 0 \<and> 0 < instances
        then (Inl ''Access is denied.'', p)
        else if pq_max_instances q \<le> instances then (Inl ''All pipe instances are busy.'', p)
        else (Inr (), p\<lparr>pi_held := Suc (pi_held p), pi_granted := pi_granted p @ [q]\<rparr>))"

text \<open>\<open>create_pipe\<close>: converting the security descriptor can fail, then creating the pipe can.\<close>

definition create_pipe :: "string \<Rightarrow> bool \<Rightarrow> threads \<Rightarrow> pipes \<Rightarrow> (string + unit) \<times> pipes" where
  "create_pipe path first t p =
     (let sddl = ''D:P(A;;GA;;;OW)''
      in case pipe_call (\<lambda>p. (Inr (), p)) p of
           (Inl e, p) \<Rightarrow> (Inl e, p)
         | (Inr _, p) \<Rightarrow>
             let flags = or PIPE_ACCESS_DUPLEX (if first then FILE_FLAG_FIRST_PIPE_INSTANCE else 0)
             in create_named_pipe
                  \<lparr>pq_name = path, pq_open_mode = flags,
                   pq_pipe_mode =
                     or (or (or PIPE_TYPE_BYTE PIPE_READMODE_BYTE) PIPE_WAIT) PIPE_REJECT_REMOTE_CLIENTS,
                   pq_max_instances = MAX_DEV_CONNECTIONS + 2, pq_out_buffer = 64 * 1024,
                   pq_in_buffer = 64 * 1024, pq_default_timeout = 0, pq_descriptor = sddl,
                   pq_inherit_handle = False\<rparr> t p)"

text \<open>\<open>connect_pipe\<close> on the outcome of \<open>ConnectNamedPipe\<close>, an error being its raw number: a client that
  connected before the call counts as connected.\<close>

definition ERROR_PIPE_CONNECTED :: int where "ERROR_PIPE_CONNECTED = 535"

definition connect_pipe :: "int + unit \<Rightarrow> int + unit" where
  "connect_pipe connect_named_pipe =
     (case connect_named_pipe of
        Inr _ \<Rightarrow> Inr ()
      | Inl raw_os_error \<Rightarrow> if raw_os_error = ERROR_PIPE_CONNECTED then Inr () else Inl raw_os_error)"

text \<open>One round of the loop of \<open>run\<close>; a connection attempt ends while time passes.  \<open>Inl\<close> ends the
  listener.\<close>

definition serve_pipe ::
  "int + unit \<Rightarrow> dev_connections \<Rightarrow> threads \<Rightarrow> pipes \<Rightarrow>
   (string + unit) \<times> dev_connections \<times> threads \<times> pipes" where
  "serve_pipe outcome connections t p =
     (let t = time_passes t
      in case create_pipe PIPE_PATH False t p of
           (Inl e, p') \<Rightarrow> (Inl ''failed to renew development IPC pipe'', connections, t, p')
         | (Inr _, p') \<Rightarrow>
             (case connect_pipe outcome of
                Inl error \<Rightarrow> (Inr (), connections, t, p'\<lparr>pi_held := pi_held p' - 1\<rparr>)
              | Inr _ \<Rightarrow>
                  (case accept_connection connections t of
                     (_, connections', t') \<Rightarrow>
                       (Inr (), connections', t', p'\<lparr>pi_held := pi_held p' - 1\<rparr>))))"

fun pipe_loop ::
  "(int + unit) list \<Rightarrow> dev_connections \<Rightarrow> threads \<Rightarrow> pipes \<Rightarrow>
   (string + unit) \<times> dev_connections \<times> threads \<times> pipes" where
  "pipe_loop [] connections t p = (Inr (), connections, t, p)"
| "pipe_loop (outcome # incoming) connections t p =
     (case serve_pipe outcome connections t p of
        (Inl e, rest) \<Rightarrow> (Inl e, rest)
      | (Inr _, connections', t', p') \<Rightarrow> pipe_loop incoming connections' t' p')"

definition run_pipe ::
  "(int + unit) list \<Rightarrow> threads \<Rightarrow> pipes \<Rightarrow> (string + unit) \<times> dev_connections \<times> threads \<times> pipes" where
  "run_pipe incoming t p =
     (case create_pipe PIPE_PATH True t p of
        (Inl e, p') \<Rightarrow> (Inl ''failed to create development IPC pipe'', dev_connections_default, t, p')
      | (Inr _, p') \<Rightarrow> pipe_loop incoming dev_connections_default t p')"


section \<open>Reaping\<close>

lemma time_passes_simps [simp]:
  "th_next (time_passes t) = th_next t" "th_faults (time_passes t) = th_faults t"
  "distinct (map fst (th_running t)) \<Longrightarrow> distinct (map fst (th_running (time_passes t)))"
  by (auto simp: time_passes_def distinct_map_filter)

lemma time_passes_running: "running (time_passes t) \<subseteq> running t"
  by (auto simp: time_passes_def running_def)

lemma running_faults [simp]: "running (t\<lparr>th_faults := es\<rparr>) = running t"
  by (simp add: running_def)

lemma is_finished_eq:
  "is_finished i t = (b, t') \<longleftrightarrow> t' = time_passes t \<and> b = (i \<notin> running t')"
  by (auto simp: is_finished_def Let_def)

lemma swap_remove_mset: "i < length xs \<Longrightarrow> add_mset (xs ! i) (mset (swap_remove i xs)) = mset xs"
proof -
  assume i: "i < length xs"
  then have "xs \<noteq> []" by auto
  then have "mset (xs[i := last xs]) = add_mset (last xs) (mset (swap_remove i xs))"
    using i by (metis append_butlast_last_id last_list_update length_list_update list_update_nonempty
        mset.simps mset_append swap_remove_def union_mset_add_mset_right add.right_neutral
        nth_list_update_eq nth_list_update_neq last_conv_nth)
  with mset_update [OF i, of "last xs"] have "add_mset (last xs) (mset (swap_remove i xs)) =
      add_mset (last xs) (mset xs - {#xs ! i#})" by simp
  then have "mset (swap_remove i xs) = mset xs - {#xs ! i#}" by simp
  with i show ?thesis by (simp add: nth_mem_mset)
qed

lemma distinct_submset:
  assumes "mset xs \<subseteq># mset ys" and "distinct ys"
  shows "distinct xs"
  unfolding distinct_count_atmost_1
proof
  fix a
  have "count (mset xs) a \<le> count (mset ys) a" using assms(1) by (rule mset_subset_eq_count)
  also have "\<dots> \<le> 1" using assms(2) by (simp add: distinct_count_atmost_1)
  finally show "count (mset xs) a = (if a \<in> set xs then 1 else 0)"
    by (simp add: le_Suc_eq)
qed

text \<open>The workers that stay were running at the start or had been looked at before, and every worker
  that is still running stays.\<close>

lemma reap_law:
  assumes "reap index ws t = (ws', t')" and "index \<le> length ws"
  shows "mset ws' \<subseteq># mset ws \<and> (\<forall>i \<in># mset ws - mset ws'. i \<notin> running t') \<and>
    (\<forall>i \<in> set ws'. i \<in> running t \<or> i \<in> set (take index ws)) \<and>
    running t' \<subseteq> running t \<and> th_next t' = th_next t \<and> th_faults t' = th_faults t \<and>
    (distinct (map fst (th_running t)) \<longrightarrow> distinct (map fst (th_running t')))"
  using assms
proof (induction index ws t rule: reap.induct)
  case (1 index ws t)
  show ?case
  proof (cases "index < length ws")
    case False
    with 1(3,4) show ?thesis by (auto simp: reap.simps [of index ws t])
  next
    case True
    let ?t = "time_passes t" and ?w = "ws ! index"
    show ?thesis
    proof (cases "?w \<in> running ?t")
      case False
      let ?ws = "swap_remove index ws"
      have fin: "is_finished ?w t = (True, ?t)" using False by (simp add: is_finished_eq)
      with True 1(3) have r: "reap index ?ws ?t = (ws', t')" by (simp add: reap.simps [of index ws t])
      have "take index ?ws = take index ws"
        using True by (auto simp: swap_remove_def butlast_conv_take min_def)
      with 1(1) [OF True fin [symmetric] refl r] True
      have IH: "mset ws' \<subseteq># mset ?ws" "\<forall>i \<in># mset ?ws - mset ws'. i \<notin> running t'"
        "\<forall>i \<in> set ws'. i \<in> running ?t \<or> i \<in> set (take index ws)"
        "running t' \<subseteq> running ?t" "th_next t' = th_next t" "th_faults t' = th_faults t"
        "distinct (map fst (th_running ?t)) \<longrightarrow> distinct (map fst (th_running t'))"
        by auto
      have ms: "mset ws = add_mset ?w (mset ?ws)" using swap_remove_mset [OF True] by simp
      then have "mset ws - mset ws' = add_mset ?w (mset ?ws - mset ws')"
        using multiset_diff_union_assoc [OF IH(1), of "{#?w#}"] by simp
      with IH False ms show ?thesis
        using time_passes_running [of t]
        by (auto intro: subset_mset.order_trans)
    next
      case stays: True
      have fin: "is_finished ?w t = (False, ?t)" using stays by (simp add: is_finished_eq)
      with True 1(3) have r: "reap (index + 1) ws ?t = (ws', t')" by (simp add: reap.simps [of index ws t])
      from 1(2) [OF True fin [symmetric] refl r] True
      have IH: "mset ws' \<subseteq># mset ws" "\<forall>i \<in># mset ws - mset ws'. i \<notin> running t'"
        "\<forall>i \<in> set ws'. i \<in> running ?t \<or> i \<in> set (take (Suc index) ws)"
        "running t' \<subseteq> running ?t" "th_next t' = th_next t" "th_faults t' = th_faults t"
        "distinct (map fst (th_running ?t)) \<longrightarrow> distinct (map fst (th_running t'))"
        by auto
      with stays True show ?thesis
        using time_passes_running [of t]
        by (auto simp: take_Suc_conv_app_nth)
    qed
  qed
qed

section \<open>The limit\<close>

text \<open>Every running thread is tracked, and there is room for them all.\<close>

definition dev_ok :: "dev_connections \<Rightarrow> threads \<Rightarrow> bool" where
  "dev_ok self t \<longleftrightarrow>
     distinct (workers self) \<and> length (workers self) \<le> MAX_DEV_CONNECTIONS \<and>
     running t \<subseteq> set (workers self) \<and> distinct (map fst (th_running t)) \<and>
     (\<forall>i \<in> set (workers self). i < th_next t)"

lemma dev_ok_default: "th_running t = [] \<Longrightarrow> dev_ok dev_connections_default t"
  by (simp add: dev_ok_def dev_connections_default_def running_def)

lemma dev_ok_time: "dev_ok self t \<Longrightarrow> dev_ok self (time_passes t)"
  using subset_trans [OF time_passes_running [of t]] by (simp add: dev_ok_def)

lemma dev_ok_running: "dev_ok self t \<Longrightarrow> length (th_running t) \<le> length (workers self)"
proof -
  assume ok: "dev_ok self t"
  then have "card (running t) = length (th_running t)"
    by (metis dev_ok_def distinct_card length_map list.set_map running_def)
  moreover have "card (running t) \<le> card (set (workers self))"
    using ok by (intro card_mono) (auto simp: dev_ok_def)
  ultimately show ?thesis using ok by (simp add: dev_ok_def distinct_card)
qed

lemma reap_ok:
  assumes ok: "dev_ok self t" and r: "reap 0 (workers self) t = (ws, t')"
  shows "dev_ok (self\<lparr>workers := ws\<rparr>) t' \<and> set ws \<subseteq> running t \<and> th_next t' = th_next t \<and>
    th_faults t' = th_faults t"
proof -
  note law = reap_law [OF r]
  have sub: "mset ws \<subseteq># mset (workers self)" using law by blast
  then have len: "length ws \<le> length (workers self)" by (metis size_mset size_mset_mono)
  have set: "set ws \<subseteq> set (workers self)" using sub set_mset_mono by fastforce
  have "distinct ws"
    using distinct_submset [OF sub] ok by (simp add: dev_ok_def)
  moreover have "running t' \<subseteq> set ws"
  proof
    fix i
    assume i: "i \<in> running t'"
    then have "i \<in> running t" using law by blast
    then have "i \<in># mset (workers self)" using ok unfolding dev_ok_def by auto
    moreover have "i \<notin># mset (workers self) - mset ws" using law i by blast
    ultimately show "i \<in> set ws" by (metis in_diff_count in_multiset_in_set not_in_iff zero_less_iff_neq_zero not_less0 gr0I)
  qed
  ultimately show ?thesis
    using law ok len set by (auto simp: dev_ok_def)
qed

text \<open>What accepting a connection decides.\<close>

lemma accept_connection_law:
  assumes ok: "dev_ok self t" and a: "accept_connection self t = (r, self', t')"
  shows "dev_ok self' t' \<and>
    (th_next t' = th_next t \<and> set (workers self') \<subseteq> running t \<or>
     th_next t' = Suc (th_next t) \<and> r = Inr () \<and> next_id self' = next_id self + 1 \<and>
     (th_next t, next_id self) \<in> set (th_running t')) \<and>
    (th_faults t = [] \<longrightarrow> th_faults t' = [] \<and> r = Inr () \<and>
      (length (th_running t) < MAX_DEV_CONNECTIONS \<longrightarrow> th_next t' = Suc (th_next t)) \<and>
      (th_next t' = th_next t \<longrightarrow> length (workers self') = MAX_DEV_CONNECTIONS))"
proof -
  obtain ws t1 where r: "reap 0 (workers self) t = (ws, t1)" by fastforce
  note law = reap_ok [OF ok r]
  let ?self = "self\<lparr>workers := ws\<rparr>"
  show ?thesis
  proof (cases "MAX_DEV_CONNECTIONS \<le> length ws")
    case True
    have "distinct ws" using law by (simp add: dev_ok_def)
    then have "length ws \<le> card (running t)"
      using law by (metis card_mono distinct_card finite_imageI finite_set running_def)
    also have "\<dots> \<le> length (th_running t)" by (metis card_length length_map list.set_map running_def)
    finally have "\<not> length (th_running t) < MAX_DEV_CONNECTIONS" using True by simp
    moreover have "length ws = MAX_DEV_CONNECTIONS" using True law by (simp add: dev_ok_def)
    ultimately show ?thesis using True a r law by (auto simp: accept_connection_def)
  next
    case False
    obtain q t2 where s: "spawn (next_id self) t1 = (q, t2)" by fastforce
    show ?thesis
    proof (cases q)
      case (Inl e)
      with s have "th_faults t1 \<noteq> [] \<and> t2 = t1\<lparr>th_faults := tl (th_faults t1)\<rparr>"
        by (auto simp: spawn_def split: list.splits option.splits)
      then have e: "t' = t1\<lparr>th_faults := tl (th_faults t1)\<rparr>" "r = Inl e" "th_faults t1 \<noteq> []"
        "self' = self\<lparr>workers := ws, next_id := next_id self + 1\<rparr>"
        using Inl s a r False by (auto simp: accept_connection_def Let_def)
      show ?thesis unfolding e(1,2,4) using law e(3) by (auto simp: dev_ok_def)
    next
      case (Inr w)
      with s have w: "w = th_next t1" "th_next t2 = Suc (th_next t1)"
        "th_running t2 = th_running t1 @ [(th_next t1, next_id self)]" "th_faults t2 = tl (th_faults t1)"
        by (auto simp: spawn_def split: list.splits option.splits)
      have self': "self' = self\<lparr>workers := ws @ [w], next_id := next_id self + 1\<rparr>" "t' = t2" "r = Inr ()"
        using Inr s a r False by (auto simp: accept_connection_def Let_def)
      have "th_next t1 \<notin> set ws" using law by (auto simp: dev_ok_def)
      with law w False have "dev_ok self' t2"
        by (auto simp: dev_ok_def self' running_def less_SucI)
      with self' w law show ?thesis by auto
    qed
  qed
qed

lemma accept_loop_ok:
  "dev_ok self t \<Longrightarrow> accept_loop incoming self t = (self', t') \<Longrightarrow> dev_ok self' t'"
proof (induction incoming self t rule: accept_loop.induct)
  case (3 stream incoming connections t)
  then show ?case
    using accept_connection_law [OF 3(2)] by (auto split: prod.splits)
qed auto

section \<open>The pipe instances\<close>

text \<open>A request that only processes of the same user on the same machine can use.\<close>

definition local_owner_only :: "pipe_request \<Rightarrow> bool" where
  "local_owner_only q \<longleftrightarrow>
     and (pq_pipe_mode q) PIPE_REJECT_REMOTE_CLIENTS \<noteq> 0 \<and> pq_descriptor q = ''D:P(A;;GA;;;OW)'' \<and>
     \<not> pq_inherit_handle q"

lemmas pipe_flags =
  PIPE_ACCESS_DUPLEX_def FILE_FLAG_FIRST_PIPE_INSTANCE_def PIPE_TYPE_BYTE_def PIPE_READMODE_BYTE_def
  PIPE_WAIT_def PIPE_REJECT_REMOTE_CLIENTS_def

lemma create_pipe_law:
  assumes "create_pipe path first t p = (r, p')"
  shows "(\<forall>q \<in> set (pi_granted p). local_owner_only q) \<longrightarrow> (\<forall>q \<in> set (pi_granted p'). local_owner_only q)"
    and "pi_held p' = (if r = Inr () then Suc (pi_held p) else pi_held p)"
    and "pi_faults p = [] \<Longrightarrow> pi_faults p' = []"
    and "pi_faults p = [] \<Longrightarrow> pi_held p + length (th_running t) < MAX_DEV_CONNECTIONS + 2 \<Longrightarrow>
      first \<longrightarrow> pi_held p + length (th_running t) = 0 \<Longrightarrow> r = Inr ()"
    and "r = Inr () \<Longrightarrow> pi_held p + length (th_running t) < MAX_DEV_CONNECTIONS + 2"
  using assms
  by (auto simp: create_pipe_def create_named_pipe_def pipe_call_def Let_def local_owner_only_def pipe_flags
      split: list.splits option.splits if_splits)

lemma serve_pipe_law:
  assumes ok: "dev_ok self t" and h: "pi_held p = 1" and s: "serve_pipe outcome self t p = (r, self', t', p')"
  shows "dev_ok self' t' \<and> (\<forall>u. r = Inr u \<longrightarrow> pi_held p' = 1) \<and>
    (pi_faults p = [] \<longrightarrow> pi_faults p' = [] \<and> r = Inr ()) \<and>
    ((\<forall>q \<in> set (pi_granted p). local_owner_only q) \<longrightarrow> (\<forall>q \<in> set (pi_granted p'). local_owner_only q))"
proof -
  let ?t = "time_passes t"
  have ok': "dev_ok self ?t" using dev_ok_time [OF ok] .
  obtain q p1 where c: "create_pipe PIPE_PATH False ?t p = (q, p1)" by fastforce
  note law = create_pipe_law [OF c]
  have "length (th_running ?t) \<le> MAX_DEV_CONNECTIONS"
    using dev_ok_running [OF ok'] ok' by (simp add: dev_ok_def)
  then have free: "pi_faults p = [] \<Longrightarrow> q = Inr ()" using law(4) h by simp
  show ?thesis
  proof (cases q)
    case (Inl e)
    with free c s ok' law(1) show ?thesis by (auto simp: serve_pipe_def Let_def)
  next
    case (Inr u)
    show ?thesis
    proof (cases "connect_pipe outcome")
      case (Inl e)
      with Inr c s ok' law(1-3) h show ?thesis by (auto simp: serve_pipe_def Let_def)
    next
      case (Inr v)
      obtain a self1 t1 where acc: "accept_connection self ?t = (a, self1, t1)" by (metis prod_cases3)
      with Inr \<open>q = Inr u\<close> c s ok' law(1-3) h accept_connection_law [OF ok' acc] show ?thesis
        by (auto simp: serve_pipe_def Let_def)
    qed
  qed
qed

lemma pipe_loop_law:
  assumes "dev_ok self t" and "pi_held p = 1" and "pipe_loop incoming self t p = (r, self', t', p')"
  shows "dev_ok self' t' \<and> (pi_faults p = [] \<longrightarrow> r = Inr ()) \<and>
    ((\<forall>q \<in> set (pi_granted p). local_owner_only q) \<longrightarrow> (\<forall>q \<in> set (pi_granted p'). local_owner_only q))"
  using assms
proof (induction incoming self t p rule: pipe_loop.induct)
  case (2 outcome incoming self t p)
  obtain q self1 t1 p1 where s: "serve_pipe outcome self t p = (q, self1, t1, p1)" by (metis prod_cases4)
  note law = serve_pipe_law [OF 2(2,3) s]
  show ?case
  proof (cases q)
    case (Inl e)
    with s 2(4) have "r = Inl e" and "self' = self1" and "t' = t1" and "p' = p1" by simp_all
    with law Inl show ?thesis by blast
  next
    case (Inr u)
    then have "dev_ok self1 t1" and "pi_held p1 = 1" and rest: "pipe_loop incoming self1 t1 p1 = (r, self', t', p')"
      using s law 2(4) by simp_all
    from 2(1) [OF s [symmetric] _ refl refl this(1,2) rest] Inr law show ?thesis by blast
  qed
qed simp


section \<open>What the listener guarantees\<close>

text \<open>C34: whatever connections come in, whichever of them fail to be accepted and whenever their
  workers end, at most MAX_DEV_CONNECTIONS workers run at a time, each of them is tracked, and the
  tracked handles are all different.\<close>

theorem connections_bounded:
  assumes "dev_ok self t" and "accept_loop incoming self t = (self', t')"
  shows "length (th_running t') \<le> MAX_DEV_CONNECTIONS \<and> running t' \<subseteq> set (workers self') \<and>
    distinct (workers self') \<and> length (workers self') \<le> MAX_DEV_CONNECTIONS"
  using accept_loop_ok [OF assms] dev_ok_running by (fastforce simp: dev_ok_def)

definition sample_threads :: threads where
  "sample_threads = \<lparr>th_running = [], th_ends = sconst [], th_next = 0, th_faults = []\<rparr>"

theorem connections_bounded_witness:
  "length (th_running (snd (accept_loop (replicate 9 (Inr ())) dev_connections_default sample_threads))) \<le> 8"
  using connections_bounded [OF dev_ok_default surjective_pairing, of sample_threads "replicate 9 (Inr ())"]
  by (simp add: sample_threads_def MAX_DEV_CONNECTIONS_def)

text \<open>A free place is always used and none is invented: when no call fails, a connection gets a
  worker with the next identifier if fewer than MAX_DEV_CONNECTIONS workers are running, and it is
  turned away only when that many are tracked that were all running when the connection came.\<close>

theorem accept_uses_free_places:
  assumes "dev_ok self t" and "th_faults t = []" and "accept_connection self t = (r, self', t')"
  shows "r = Inr () \<and>
    (length (th_running t) < MAX_DEV_CONNECTIONS \<longrightarrow>
       (th_next t, next_id self) \<in> set (th_running t') \<and> next_id self' = next_id self + 1) \<and>
    (th_next t' = th_next t \<longrightarrow>
       length (workers self') = MAX_DEV_CONNECTIONS \<and> set (workers self') \<subseteq> running t)"
  using accept_connection_law [OF assms(1,3)] assms(2) by auto

theorem accept_uses_free_places_witness:
  "(0, 0) \<in> set (th_running (snd (snd (accept_connection dev_connections_default sample_threads))))"
proof -
  have "th_faults sample_threads = []" and ok: "dev_ok dev_connections_default sample_threads"
    by (simp_all add: sample_threads_def dev_ok_default)
  from accept_uses_free_places [OF ok this(1), of "fst (accept_connection dev_connections_default sample_threads)"
      "fst (snd (accept_connection dev_connections_default sample_threads))"
      "snd (snd (accept_connection dev_connections_default sample_threads))"]
  show ?thesis
    by (simp add: sample_threads_def MAX_DEV_CONNECTIONS_def dev_connections_default_def)
qed

text \<open>C35: on Windows the listener never runs out of pipe instances: as long as the system calls do
  not fail otherwise, it serves every client that connects, however long workers keep their pipes,
  and all instances together stay below what the pipe may have; and every instance it ever creates
  refuses remote clients and grants access to its owner only.\<close>

theorem pipe_instances_suffice:
  assumes "th_running t = []" and "pi_held p = 0" and "pi_faults p = []" and "pi_granted p = []"
    and "run_pipe incoming t p = (r, self', t', p')"
  shows "r = Inr () \<and> 1 + length (th_running t') < MAX_DEV_CONNECTIONS + 2 \<and>
    (\<forall>q \<in> set (pi_granted p'). local_owner_only q)"
proof -
  obtain q p1 where c: "create_pipe PIPE_PATH True t p = (q, p1)" by fastforce
  note law = create_pipe_law [OF c]
  have "q = Inr ()" using law(4) assms(1-3) by simp
  with law(2,3) assms c have "pi_held p1 = 1" and "pi_faults p1 = []"
    and l: "pipe_loop incoming dev_connections_default t p1 = (r, self', t', p')"
    by (simp_all add: run_pipe_def)
  with pipe_loop_law [OF dev_ok_default [OF assms(1)] this(1) l] law(1) assms(4)
  show ?thesis
    using dev_ok_running [of self' t'] by (auto simp: dev_ok_def)
qed

theorem pipe_instances_suffice_witness:
  "fst (run_pipe (replicate 20 (Inr ())) sample_threads \<lparr>pi_held = 0, pi_granted = [], pi_faults = []\<rparr>) = Inr ()"
proof -
  let ?run = "run_pipe (replicate 20 (Inr ())) sample_threads \<lparr>pi_held = 0, pi_granted = [], pi_faults = []\<rparr>"
  have "th_running sample_threads = []" by (simp add: sample_threads_def)
  moreover have "?run = (fst ?run, fst (snd ?run), fst (snd (snd ?run)), snd (snd (snd ?run)))" by simp
  ultimately show ?thesis using pipe_instances_suffice by (metis pipes.select_convs)
qed

end
