(* ===== verification/Keyro_Main.thy ===== *)
theory Keyro_Main
  imports Keyro_Server Keyro_Migrate Keyro_Instance Keyro_Logging_History Keyro_Listener
begin

text \<open>
  \<open>crates/keyro-core/src/main.rs\<close>: the order in which the process takes the lock, opens its log and
  its database, initializes the core state and listens, each with the error it reports.  The state
  \<open>host\<close> puts the states of those components together.  What \<open>tracing\<close> writes to the log is not
  modelled; the connections that are accepted are, in the theories on connections.
\<close>

section \<open>Directories\<close>

text \<open>\<open>PathBuf::join\<close> with a relative path; on Windows a bare drive gets no separator.\<close>

definition path_join :: "os \<Rightarrow> string \<Rightarrow> string \<Rightarrow> string" where
  "path_join os base rel =
     (case os of
        Windows \<Rightarrow>
          if base = [] \<or> last base \<in> {CHR 0x5C, CHR ''/''} \<or> length base = 2 \<and> last base = CHR '':''
          then base @ rel else base @ [CHR 0x5C] @ rel
      | _ \<Rightarrow> if base = [] \<or> last base = CHR ''/'' then base @ rel else base @ ''/'' @ rel)"

definition default_data_dir :: "os \<Rightarrow> (string \<Rightarrow> string option) \<Rightarrow> string option" where
  "default_data_dir os env =
     (case os of
        MacOs \<Rightarrow>
          map_option (\<lambda>home. path_join os home ''Library/Application Support/Keyro/Core'') (env ''HOME'')
      | Windows \<Rightarrow>
          map_option (\<lambda>base. path_join os (path_join os base ''Keyro'') ''Core'') (env ''LOCALAPPDATA'')
      | OtherOs \<Rightarrow> map_option (\<lambda>home. path_join os home ''.local/share/keyro/core'') (env ''HOME''))"

definition default_log_dir :: "os \<Rightarrow> (string \<Rightarrow> string option) \<Rightarrow> string option" where
  "default_log_dir os env =
     (case os of
        MacOs \<Rightarrow> map_option (\<lambda>home. path_join os home ''Library/Logs/Keyro/Core'') (env ''HOME'')
      | Windows \<Rightarrow>
          map_option (\<lambda>base. path_join os (path_join os (path_join os base ''Keyro'') ''Core'') ''logs'')
            (env ''LOCALAPPDATA'')
      | OtherOs \<Rightarrow> map_option (\<lambda>home. path_join os home ''.local/state/keyro/core/logs'') (env ''HOME''))"

section \<open>The host\<close>

record host =
  h_env :: "string \<Rightarrow> string option"
  h_pid :: nat
  h_dir_faults :: "string option list"
  h_lock :: lock_world
  h_log :: log_world
  h_disk :: disk
  h_conn :: "connection option"
  h_socket :: socket_file
  h_pipes :: pipes
  h_threads :: threads
  h_connections :: dev_connections
  h_incoming :: "(string + unit) list"
  h_pipe_incoming :: "(int + unit) list"

type_synonym 'a host_io = "(host, string, 'a) io"

definition on_lock :: "(lock_world, string, 'a) io \<Rightarrow> 'a host_io" where
  "on_lock m = (\<lambda>h. case m (h_lock h) of (r, l) \<Rightarrow> (r, h\<lparr>h_lock := l\<rparr>))"

definition on_log :: "'a log_io \<Rightarrow> 'a host_io" where
  "on_log m = (\<lambda>h. case m (h_log h) of (r, l) \<Rightarrow> (r, h\<lparr>h_log := l\<rparr>))"

text \<open>\<open>std::fs::create_dir_all(&data_dir)\<close>\<close>

definition create_data_dir :: "unit host_io" where
  "create_data_dir = (\<lambda>h.
     let h' = h\<lparr>h_dir_faults := tl (h_dir_faults h)\<rparr>
     in case h_dir_faults h of
          Some _ # _ \<Rightarrow> (Inl ''failed to create Keyro data directory'', h')
        | _ \<Rightarrow> (Inr (), h'))"

section \<open>Start-up\<close>

definition init_logging :: "os \<Rightarrow> unit host_io" where
  "init_logging os =
     io_bind (\<lambda>h. io_of_res (ok_or ''failed to resolve Keyro log directory'' (default_log_dir os (h_env h))) h)
       (\<lambda>_. io_map_err (\<lambda>_. ''failed to create rotating log writer'')
          (on_log (rotating_log_writer_new log_retention_default)))"

definition open_database :: "string \<Rightarrow> connection host_io" where
  "open_database db_path = (\<lambda>h.
     case sqlite_open (h_disk h) of
       (Inl _, d) \<Rightarrow> (Inl (''failed to open SQLite database at '' @ db_path), h\<lparr>h_disk := d\<rparr>)
     | (Inr c, d) \<Rightarrow> (Inr c, h\<lparr>h_disk := d, h_conn := Some c\<rparr>))"

definition initialize_core ::
  "os \<Rightarrow> 'u deps \<Rightarrow> connection command_status \<Rightarrow> connection \<Rightarrow> profile host_io" where
  "initialize_core os K run c = (\<lambda>h.
     case core_service_initialize (main_service os K run) c of
       (r, c') \<Rightarrow> (map_err (\<lambda>_. ''failed to initialize Core state'') r, h\<lparr>h_conn := Some c'\<rparr>))"

definition run_dev_ipc :: "os \<Rightarrow> string \<Rightarrow> unit host_io" where
  "run_dev_ipc os socket_path = (\<lambda>h.
     case os of
       Windows \<Rightarrow>
         (case run_pipe (h_pipe_incoming h) (h_threads h) (h_pipes h) of
            (r, cs, t, p) \<Rightarrow> (r, h\<lparr>h_connections := cs, h_threads := t, h_pipes := p\<rparr>))
     | _ \<Rightarrow>
         (case prepare_socket socket_path (h_socket h) of
            (Inl e, s) \<Rightarrow> (Inl e, h\<lparr>h_socket := s\<rparr>)
          | (Inr _, s) \<Rightarrow>
              (case accept_loop (h_incoming h) dev_connections_default (h_threads h) of
                 (cs, t) \<Rightarrow> (Inr (), h\<lparr>h_socket := s, h_connections := cs, h_threads := t\<rparr>))))"

text \<open>What \<open>main\<close> does while it holds the guard.\<close>

definition main_guarded :: "os \<Rightarrow> 'u deps \<Rightarrow> connection command_status \<Rightarrow> string \<Rightarrow> unit host_io" where
  "main_guarded os K run data_dir =
     io_bind (init_logging os) (\<lambda>_.
     io_bind (open_database (path_join os data_dir ''keyro-core.sqlite3'')) (\<lambda>c.
     io_bind (initialize_core os K run c) (\<lambda>profile.
     run_dev_ipc os (path_join os data_dir ''keyro-core-dev.sock''))))"

definition keyro_main :: "os \<Rightarrow> 'u deps \<Rightarrow> connection command_status \<Rightarrow> unit host_io" where
  "keyro_main os K run =
     io_bind (\<lambda>h. io_of_res (ok_or ''failed to resolve Keyro data directory'' (default_data_dir os (h_env h))) h)
       (\<lambda>data_dir.
     io_bind create_data_dir (\<lambda>_.
     io_bind (\<lambda>h. on_lock (acquire data_dir (path_join os data_dir ''keyro-core.lock'') (h_pid h)) h)
       (\<lambda>guard h.
       case main_guarded os K run data_dir h of
         (r, h') \<Rightarrow> (r, h'\<lparr>h_lock := drop_guard guard (h_lock h')\<rparr>))))"


section \<open>What start-up leaves alone\<close>

text \<open>A frame: \<open>f\<close> of the host is kept by a call whatever its outcome.\<close>

lemma keeps_resolve: "keeps P (\<lambda>h. io_of_res (g h) h)"
  by (simp add: keeps_def)

lemma create_data_dir_keeps:
  "keeps (\<lambda>h. P (h_lock h) (h_log h) (h_disk h) (h_conn h) (h_socket h) (h_pipes h) (h_threads h)) create_data_dir"
  by (auto simp: keeps_def create_data_dir_def Let_def split: list.splits option.splits)

lemma main_guarded_lock: "keeps (\<lambda>h. h_lock h = l) (main_guarded os K run data_dir)"
proof -
  have log: "keeps (\<lambda>h. h_lock h = l) (on_log m)" for m :: "unit log_io"
    by (auto simp: keeps_def on_log_def split: prod.splits)
  have db: "keeps (\<lambda>h. h_lock h = l) (open_database p)" for p
    by (auto simp: keeps_def open_database_def split: prod.splits sum.splits)
  have core: "keeps (\<lambda>h. h_lock h = l) (initialize_core os K run c)" for c
    by (auto simp: keeps_def initialize_core_def split: prod.splits)
  have ipc: "keeps (\<lambda>h. h_lock h = l) (run_dev_ipc os p)" for p
    by (auto simp: keeps_def run_dev_ipc_def split: os.splits prod.splits sum.splits)
  show ?thesis
    unfolding main_guarded_def init_logging_def
    by (intro keeps_bind keeps_map_err keeps_resolve log db core ipc)
qed

text \<open>The parts of the host that only the holder of the guard touches.\<close>

definition owned_parts :: "host \<Rightarrow> log_world \<times> disk \<times> connection option \<times> socket_file \<times> pipes \<times> threads" where
  "owned_parts h = (h_log h, h_disk h, h_conn h, h_socket h, h_pipes h, h_threads h)"

text \<open>How \<open>main\<close> runs: it fails before it has the guard and has changed none of those parts, or it runs
  with the guard and drops it.\<close>

lemma keyro_main_cases:
  assumes "keyro_main os K run h = (r, h')"
    and owner: "\<forall>f. lk_owner (h_lock h) = Some f \<longrightarrow> f < lk_next (h_lock h)"
  obtains e where "r = Inl e" and "owned_parts h' = owned_parts h"
    and "lk_owner (h_lock h') = lk_owner (h_lock h)"
  | data_dir guard h1 h2 where "default_data_dir os (h_env h) = Some data_dir"
    and "lk_owner (h_lock h) = None" and "owned_parts h1 = owned_parts h" and "h_env h1 = h_env h"
    and "h_incoming h1 = h_incoming h"
    and "lk_owner (h_lock h1) = Some (g_file guard)"
    and "main_guarded os K run data_dir h1 = (r, h2)" and "h' = h2\<lparr>h_lock := drop_guard guard (h_lock h2)\<rparr>"
proof (cases "default_data_dir os (h_env h)")
  case None
  with assms(1) that(1) show thesis by (auto simp: keyro_main_def io_bind_def)
next
  case (Some data_dir)
  obtain q h0 where c: "create_data_dir h = (q, h0)" by fastforce
  then have h0: "owned_parts h0 = owned_parts h" "h_lock h0 = h_lock h" "h_env h0 = h_env h"
    "h_incoming h0 = h_incoming h"
    by (auto simp: create_data_dir_def Let_def owned_parts_def split: list.splits option.splits)
  show thesis
  proof (cases q)
    case (Inl e)
    with c Some h0 assms(1) that(1) show thesis by (auto simp: keyro_main_def io_bind_def)
  next
    case (Inr u)
    obtain a l where a: "acquire data_dir (path_join os data_dir ''keyro-core.lock'') (h_pid h0) (h_lock h0) = (a, l)"
      by fastforce
    note law = acquire_law [OF a]
    let ?h1 = "h0\<lparr>h_lock := l\<rparr>"
    have h1: "owned_parts ?h1 = owned_parts h" using h0 by (simp add: owned_parts_def)
    show thesis
    proof (cases a)
      case (Inl e)
      with c Some h0 h1 a Inr assms law that(1) [of e] show thesis
        by (auto simp: keyro_main_def io_bind_def on_lock_def)
    next
      case ok: (Inr guard)
      obtain r2 h2 where g: "main_guarded os K run data_dir ?h1 = (r2, h2)" by fastforce
      with c Some h0 a Inr ok assms(1) have "r = r2" "h' = h2\<lparr>h_lock := drop_guard guard (h_lock h2)\<rparr>"
        by (auto simp: keyro_main_def io_bind_def on_lock_def)
      with Some h0 h1 g law ok owner show thesis by (intro that(2) [of data_dir ?h1 guard h2]) auto
    qed
  qed
qed

text \<open>The guard is always given back.\<close>

lemma keyro_main_owner:
  assumes "keyro_main os K run h = (r, h')"
    and "\<forall>f. lk_owner (h_lock h) = Some f \<longrightarrow> f < lk_next (h_lock h)"
  shows "lk_owner (h_lock h') = lk_owner (h_lock h)"
  using assms
proof (cases rule: keyro_main_cases)
  case (2 data_dir guard h1 h2)
  have "h_lock h2 = h_lock h1" by (rule keepsD [OF main_guarded_lock _ 2(7)]) simp
  with 2 show ?thesis by (simp add: drop_guard_law)
qed

section \<open>The stored data\<close>

text \<open>What the host's store holds: the tables of the file until it is open, then the connection's.\<close>

definition host_tables :: "host \<Rightarrow> tables" where
  "host_tables h = (case h_conn h of None \<Rightarrow> schema_rows (d_schema (h_disk h)) | Some c \<Rightarrow> db c)"

definition host_view :: "'u deps \<Rightarrow> host \<Rightarrow> core_state" where
  "host_view K h = tables_view (crates_of K) (host_tables h)"

lemma initialize_may:
  assumes g: "sqlite_good K c" and i: "core_service_initialize (main_service os K run) c = (r, c')"
  shows "sqlite_good K c' \<and> may_initialize (sqlite_view K c) (sqlite_view K c') \<and>
    (\<forall>p. r = Inr p \<longrightarrow> st_active (sqlite_view K c') = Some (p_id p))"
proof -
  have s: "sqlite_stands K (sqlite_view K c) c" using g by (simp add: stands_for_def)
  show ?thesis
  proof (cases r)
    case (Inl e)
    with triple_Inl [OF main_initialize_law s] i show ?thesis by simp
  next
    case (Inr p)
    from triple_Inr [OF main_initialize_law s i [unfolded Inr]] Inr show ?thesis
      by (cases "st_active (sqlite_view K c)") (auto simp: is_profile_def may_initialize_def)
  qed
qed

lemma main_guarded_data:
  assumes run: "main_guarded os K run data_dir h = (r, h')" and none: "h_conn h = None"
    and u: "uuid_text_ok (crates_of K)" and wf: "wf_tables (crates_of K) (host_tables h)"
  shows "wf_tables (crates_of K) (host_tables h') \<and> may_initialize (host_view K h) (host_view K h') \<and>
    (r = Inr () \<longrightarrow> st_active (host_view K h') \<noteq> None \<and> h_conn h' \<noteq> None) \<and> (\<forall>c. h_conn h' = Some c \<longrightarrow> sqlite_good K c)"
proof -
  obtain q h1 where l: "init_logging os h = (q, h1)" by fastforce
  have same: "h_conn h1 = None" "h_disk h1 = h_disk h"
    using l none by (auto simp: init_logging_def on_log_def io_bind_def io_map_err_def split: prod.splits sum.splits)
  then have t1: "host_tables h1 = host_tables h" using none by (simp add: host_tables_def)
  show ?thesis
  proof (cases q)
    case (Inl e)
    with run l have "r = Inl e" "h' = h1" by (auto simp: main_guarded_def io_bind_def)
    with t1 wf same show ?thesis by (simp add: host_view_def may_initialize_def)
  next
    case (Inr u')
    obtain q2 d where o: "sqlite_open (h_disk h1) = (q2, d)" by fastforce
    have rows: "schema_rows (d_schema d) = host_tables h"
      using keepsD [OF sqlite_open_rows refl o] same none by (simp add: host_tables_def)
    show ?thesis
    proof (cases q2)
      case (Inl e)
      with run l Inr o have "h' = h1\<lparr>h_disk := d\<rparr>" "\<exists>e. r = Inl e"
        by (auto simp: main_guarded_def open_database_def io_bind_def)
      with rows same wf show ?thesis by (auto simp: host_view_def host_tables_def may_initialize_def)
    next
      case conn: (Inr c)
      obtain q3 c' where i: "core_service_initialize (main_service os K run) c = (q3, c')" by fastforce
      have good: "sqlite_good K c"
        using sqlite_open_good [OF o [unfolded conn] u] wf same none by (simp add: host_tables_def)
      have "db c = host_tables h"
        using sqlite_open_Inr [OF o [unfolded conn]] same none by (auto simp: host_tables_def)
      then have view: "sqlite_view K c = host_view K h" by (simp add: sqlite_view_def host_view_def)
      note may = initialize_may [OF good i, unfolded view]
      define h2 where "h2 = h1\<lparr>h_disk := d, h_conn := Some c'\<rparr>"
      have fin: "h' = h2 \<or> run_dev_ipc os (path_join os data_dir ''keyro-core-dev.sock'') h2 = (r, h')"
        and err: "r = Inr () \<longrightarrow> (\<exists>p. q3 = Inr p)"
        using run l Inr o conn i unfolding h2_def
        by (cases q3; auto simp: main_guarded_def open_database_def initialize_core_def io_bind_def)+
      have h2: "h_conn h2 = Some c'" by (simp add: h2_def)
      have "h_conn h' = Some c'"
        using fin h2 by (auto simp: run_dev_ipc_def split: os.splits prod.splits sum.splits)
      then have "host_view K h' = sqlite_view K c'" "host_tables h' = db c'"
        by (simp_all add: host_view_def host_tables_def sqlite_view_def)
      with may err \<open>h_conn h' = Some c'\<close> show ?thesis by (auto simp: sqlite_good_def)
    qed
  qed
qed

text \<open>Whatever fails, \<open>main\<close> at most adds a default profile to a store without an active one.\<close>

lemma keyro_main_data:
  assumes run: "keyro_main os K run h = (r, h')" and none: "h_conn h = None"
    and owner: "\<forall>f. lk_owner (h_lock h) = Some f \<longrightarrow> f < lk_next (h_lock h)"
    and u: "uuid_text_ok (crates_of K)" and wf: "wf_tables (crates_of K) (host_tables h)"
  shows "wf_tables (crates_of K) (host_tables h') \<and> may_initialize (host_view K h) (host_view K h') \<and>
    (r = Inr () \<longrightarrow> st_active (host_view K h') \<noteq> None \<and> h_conn h' \<noteq> None) \<and> (\<forall>c. h_conn h' = Some c \<longrightarrow> sqlite_good K c)"
  using run owner
proof (cases rule: keyro_main_cases)
  case (1 e)
  then have "host_tables h' = host_tables h" "h_conn h' = None"
    using none by (auto simp: host_tables_def owned_parts_def split: option.split)
  with 1 wf show ?thesis by (simp add: host_view_def may_initialize_def)
next
  case (2 data_dir guard h1 h2)
  then have h1: "host_tables h1 = host_tables h" "h_conn h1 = None"
    using none by (auto simp: host_tables_def owned_parts_def split: option.split)
  have h': "host_tables h' = host_tables h2" "h_conn h' = h_conn h2" using 2(8) by (simp_all add: host_tables_def split: option.split)
  from main_guarded_data [OF 2(7) h1(2) u] wf h1 h' show ?thesis by (simp add: host_view_def)
qed

section \<open>A start that succeeds\<close>

text \<open>No call fails, the environment names a directory, and the log, the store and the socket are in the
  state an earlier run leaves them in, or there was none.\<close>

definition host_ready :: "os \<Rightarrow> 'u deps \<Rightarrow> host \<Rightarrow> bool" where
  "host_ready os K h \<longleftrightarrow>
     default_data_dir os (h_env h) \<noteq> None \<and> h_dir_faults h = [] \<and>
     lk_faults (h_lock h) = [] \<and> lk_owner (h_lock h) = None \<and>
     log_ready log_retention_default (h_log h) \<and>
     d_faults (h_disk h) = [] \<and> h_conn h = None \<and> wf_tables (crates_of K) (host_tables h) \<and>
     st_names (host_view K h) (ProfileId (shd (d_rng (h_disk h)))) = None \<and>
     sk_faults (h_socket h) = [] \<and> th_running (h_threads h) = [] \<and>
     pi_faults (h_pipes h) = [] \<and> pi_held (h_pipes h) = 0"

lemma default_dirs: "default_log_dir os env = None \<longleftrightarrow> default_data_dir os env = None"
  by (cases os) (simp_all add: default_log_dir_def default_data_dir_def)

lemma prepare_socket_free:
  assumes "sk_faults s = []"
  shows "\<exists>s'. prepare_socket path s = (Inr (), s')"
  using assms
  by (cases "sk_exists s")
    (auto simp: prepare_socket_def io_bind_def io_map_err_def remove_socket_def bind_socket_def socket_call_def)

lemma run_pipe_free:
  assumes "pi_faults p = []" and "pi_held p = 0" and "th_running t = []"
  shows "\<exists>rest. run_pipe incoming t p = (Inr (), rest)"
proof -
  obtain q p1 where c: "create_pipe PIPE_PATH True t p = (q, p1)" by fastforce
  note law = create_pipe_law [OF c]
  have q: "q = Inr ()" using law(4) assms by simp
  with law(2,3) assms have p1: "pi_held p1 = 1" "pi_faults p1 = []" by simp_all
  obtain r cs t' p' where l: "pipe_loop incoming dev_connections_default t p1 = (r, cs, t', p')"
    by (metis prod_cases4)
  have "r = Inr ()" using pipe_loop_law [OF dev_ok_default [OF assms(3)] p1(1) l] p1(2) by blast
  with c q l show ?thesis by (simp add: run_pipe_def)
qed

lemma log_default_ok: "policy_ok log_retention_default"
  by (simp add: policy_ok_def log_retention_default_def validate_retention_def u64_max_def)



lemma main_guarded_free:
  assumes logs: "default_log_dir os (h_env h) \<noteq> None" "log_ready log_retention_default (h_log h)"
    and d: "d_faults (h_disk h) = []" "h_conn h = None" and u: "uuid_text_ok (crates_of K)"
    and wf: "wf_tables (crates_of K) (host_tables h)"
    and new: "st_names (host_view K h) (ProfileId (shd (d_rng (h_disk h)))) = None"
    and rest: "sk_faults (h_socket h) = []" "th_running (h_threads h) = []"
      "pi_faults (h_pipes h) = []" "pi_held (h_pipes h) = 0"
  shows "\<exists>h'. main_guarded os K run data_dir h = (Inr (), h')"
proof -
  obtain l where "rotating_log_writer_new log_retention_default (h_log h) = (Inr (), l)"
    by (rule writer_new_run [OF log_default_ok logs(2)])
  then have 1: "init_logging os h = (Inr (), h\<lparr>h_log := l\<rparr>)"
    using logs(1) by (auto simp: init_logging_def io_bind_def io_map_err_def on_log_def)
  have rows: "host_tables h = schema_rows (d_schema (h_disk h))" using d(2) by (simp add: host_tables_def)
  obtain c dk where o: "sqlite_open (h_disk h) = (Inr c, dk)" and c: "faults c = []" "rng c = d_rng (h_disk h)"
    using sqlite_open_free [OF d(1) wf [unfolded rows]] by blast
  have good: "sqlite_good K c" using sqlite_open_good [OF o u] wf rows by simp
  have "db c = host_tables h" using sqlite_open_Inr [OF o] rows by auto
  then have "sqlite_view K c = host_view K h" by (simp add: sqlite_view_def host_view_def)
  with new c(2) have "st_names (sqlite_view K c) (ProfileId (shd (rng c))) = None" by simp
  then obtain p where "fst (core_service_initialize (main_service os K run) c) = Inr p"
    using initialize_free [OF good c(1) main_service_repository] by blast
  then obtain c' where i: "core_service_initialize (main_service os K run) c = (Inr p, c')"
    by (metis prod.collapse)
  define h2 where "h2 = h\<lparr>h_log := l, h_disk := dk, h_conn := Some c'\<rparr>"
  have run: "main_guarded os K run data_dir h = run_dev_ipc os (path_join os data_dir ''keyro-core-dev.sock'') h2"
    using 1 o i by (simp add: main_guarded_def io_bind_def open_database_def initialize_core_def h2_def)
  have same: "h_socket h2 = h_socket h" "h_threads h2 = h_threads h" "h_pipes h2 = h_pipes h"
    by (simp_all add: h2_def)
  have "\<exists>h'. run_dev_ipc os path h2 = (Inr (), h')" for path
    using prepare_socket_free [OF rest(1), of path] run_pipe_free [OF rest(3,4,2), of "h_pipe_incoming h2"] same
    by (cases os) (auto simp: run_dev_ipc_def split: prod.splits)
  with run show ?thesis by simp
qed

lemma keyro_main_free:
  assumes h: "host_ready os K h" and u: "uuid_text_ok (crates_of K)"
  shows "\<exists>h'. keyro_main os K run h = (Inr (), h')"
proof -
  obtain data_dir where dir: "default_data_dir os (h_env h) = Some data_dir"
    using h by (auto simp: host_ready_def)
  let ?h0 = "h\<lparr>h_dir_faults := []\<rparr>"
  have c: "create_data_dir h = (Inr (), ?h0)"
    using h by (simp add: create_data_dir_def Let_def host_ready_def)
  obtain guard l where a: "acquire data_dir (path_join os data_dir ''keyro-core.lock'') (h_pid h) (h_lock h) = (Inr guard, l)"
    using acquire_free [of "h_lock h"] h by (metis host_ready_def prod.collapse)
  let ?h1 = "?h0\<lparr>h_lock := l\<rparr>"
  have "\<exists>h'. main_guarded os K run data_dir ?h1 = (Inr (), h')"
    using h default_dirs [of os "h_env h"]
    by (intro main_guarded_free u) (auto simp: host_ready_def host_tables_def host_view_def)
  then obtain h2 where "main_guarded os K run data_dir ?h1 = (Inr (), h2)" by blast
  with dir c a show ?thesis by (simp add: keyro_main_def io_bind_def on_lock_def)
qed

end
