(* ===== verification/Keyro_Sample.thy ===== *)
theory Keyro_Sample
  imports Keyro_Connection Keyro_Main
begin

text \<open>
  Concrete instances of the parameters: crates whose UUIDs print in decimal, a small URL parser, a
  JSON reader that knows a few lines, and connections without failures.  The witnesses evaluate
  the program on them.
\<close>

section \<open>Crates\<close>

definition sample_crates :: "string crates" where
  "sample_crates =
     \<lparr>url_parse = (\<lambda>s. if take 7 s = ''http://'' \<or> take 8 s = ''https://'' \<or> take 4 s = ''ftp:''
        then Some s else None),
      url_username = (\<lambda>u. if CHR ''@'' \<in> set u then ''user'' else []),
      url_password = (\<lambda>u. None),
      url_scheme = takeWhile (\<lambda>c. c \<noteq> CHR '':''),
      url_set_query = (\<lambda>q u. takeWhile (\<lambda>c. c \<noteq> CHR ''?'') u),
      url_set_fragment = (\<lambda>f u. takeWhile (\<lambda>c. c \<noteq> CHR ''#'') u),
      url_to_string = id,
      uuid_parse_str = (\<lambda>s. if s \<noteq> [] \<and> list_all is_digit s then Some (of_nat (read_nat s)) else None),
      uuid_to_string = (\<lambda>u. show_nat (unat u))\<rparr>"

lemma sample_uuid_text_ok [simp]: "uuid_text_ok sample_crates"
  by (simp add: uuid_text_ok_def sample_crates_def read_show_nat)

definition sample_deps :: "string deps" where
  "sample_deps = \<lparr>crates_of = sample_crates, sql_error_text = (\<lambda>_. ''sql error'')\<rparr>"

lemma sample_deps_simps [simp]:
  "crates_of sample_deps = sample_crates"
  "sql_error_text sample_deps e = ''sql error''"
  by (simp_all add: sample_deps_def)

section \<open>JSON\<close>

definition sample_handshake :: client_message where
  "sample_handshake = CmHandshake
     \<lparr>hm_component = Studio, hm_component_version = ''1'', hm_protocol = protocol_version_current\<rparr>"

definition sample_url_dto :: action_dto where
  "sample_url_dto = OpenUrlDto ''https://k.io''"

definition sample_lines :: "(string \<times> client_message) list" where
  "sample_lines =
     [(''hello'', sample_handshake),
      (''list'', CmListProfiles ListProfilesMessage),
      (''create'', CmCreateProfile \<lparr>cp_name = ''Work''\<rparr>),
      (''press'', CmVirtualControlInput \<lparr>vci_control = KeyDto 0 0\<rparr>),
      (''save'', CmSaveAssignment \<lparr>sa_assignment =
         \<lparr>ad_profile_id = ''7'', ad_control = KeyDto 0 0, ad_action = sample_url_dto\<rparr>\<rparr>)]"

text \<open>The request identifier of a known line is the line; a message prints as the kind it has.\<close>

fun message_kind :: "server_message \<Rightarrow> string" where
  "message_kind (MsgHandshakeAccepted _ _ _) = ''accepted''"
| "message_kind (MsgProfiles _ _) = ''profiles''"
| "message_kind (MsgProfile _ _) = ''profile''"
| "message_kind (MsgSnapshot _ _ _ _) = ''snapshot''"
| "message_kind (MsgAcknowledged _) = ''acknowledged''"
| "message_kind (MsgActionEvent _) = ''event''"
| "message_kind (MsgError _ e) = ed_message e"

definition sample_json :: serde_json where
  "sample_json =
     \<lparr>from_str_envelope = (\<lambda>line. case map_of sample_lines line of
        None \<Rightarrow> Inl ''unknown''
      | Some m \<Rightarrow> Inr \<lparr>ce_request_id = line, ce_message = m\<rparr>),
      from_str_value = (\<lambda>line. None),
      to_string_message = (\<lambda>m. Inr (message_kind m))\<rparr>"

section \<open>Connections\<close>

definition sample_profile_row :: profile_row where
  "sample_profile_row =
     \<lparr>pr_id = ''7'', pr_name = ''Default'', pr_is_active = 1, pr_created_at = ''t0''\<rparr>"

definition empty_conn :: connection where
  "empty_conn =
     \<lparr>db = \<lparr>t_profiles = [], t_assignments = []\<rparr>, foreign_keys = True, clock = sconst ''t1'',
      rng = siterate (\<lambda>u. u + 1) 20, faults = []\<rparr>"

definition sample_row :: assignment_row where
  "sample_row = assignment_row_of sample_crates (ProfileId 7) (Key (PageIndex 0) (KeyIndex 0)) 0
     (OpenUrl (SafeUrl ''https://k.io''))"

definition sample_conn :: connection where
  "sample_conn = empty_conn\<lparr>db := \<lparr>t_profiles = [sample_profile_row], t_assignments = [sample_row]\<rparr>\<rparr>"

lemma sample_id: "profile_id_to_string sample_crates (ProfileId 7) = ''7''"
  by (simp add: sample_crates_def show_nat.simps) code_simp

lemma sample_url: "wf_action sample_crates (OpenUrl (SafeUrl ''https://k.io''))"
  by (simp add: wf_safe_url_def safe_url_parse_def sample_crates_def)

lemma not_blank_sample: "trim ''Default'' \<noteq> []" "trim ''Work'' \<noteq> []"
  by (rule printable_not_blank [of "CHR ''D''"] printable_not_blank [of "CHR ''W''"]; simp)+

lemma sample_good: "sqlite_good sample_deps sample_conn"
proof -
  have "wf_profile_rows sample_crates [sample_profile_row]"
    using sample_id not_blank_sample
    by (auto simp: wf_profile_rows_def sample_profile_row_def intro!: exI [of _ "ProfileId 7"])
  moreover have "wf_assignment_rows sample_crates
      \<lparr>t_profiles = [sample_profile_row], t_assignments = [sample_row]\<rparr>"
  proof -
    have "\<exists>pid c n act.
        select_exists (profile_id_to_string sample_crates pid)
          \<lparr>t_profiles = [sample_profile_row], t_assignments = [sample_row]\<rparr> \<and>
        wf_control c \<and> wf_action sample_crates act \<and> sample_row = assignment_row_of sample_crates pid c n act"
      using sample_id sample_url
      by (intro exI [of _ "ProfileId 7"] exI [of _ "Key (PageIndex 0) (KeyIndex 0)"] exI [of _ 0]
          exI [of _ "OpenUrl (SafeUrl ''https://k.io'')"])
        (simp add: sample_row_def select_exists_def sample_profile_row_def layout_defs)
    then show ?thesis by (simp add: wf_assignment_rows_def)
  qed
  ultimately show ?thesis
    by (simp add: sqlite_good_def wf_tables_def sample_conn_def empty_conn_def)
qed

lemma empty_good: "sqlite_good sample_deps empty_conn"
  by (simp add: sqlite_good_def wf_tables_def wf_profile_rows_def wf_assignment_rows_def empty_conn_def)

definition world_of :: "connection \<Rightarrow> world" where
  "world_of c = \<lparr>w_conn = c, w_launches = [], w_writes = [], w_poisoned = False, w_effects = []\<rparr>"

lemma world_of_good: "sqlite_good K c \<Longrightarrow> world_good K (world_of c)"
  by (simp add: world_good_def world_of_def)

section \<open>A run of the program\<close>

lemma sample_lines_not_blank: "trim ''hello'' \<noteq> []" "trim ''list'' \<noteq> []" "trim ''create'' \<noteq> []"
   "trim ''press'' \<noteq> []" "trim ''save'' \<noteq> []"
  by (rule printable_not_blank [of "CHR ''h''"] printable_not_blank [of "CHR ''l''"]
      printable_not_blank [of "CHR ''c''"] printable_not_blank [of "CHR ''p''"]
      printable_not_blank [of "CHR ''s''"]; simp; fail)+

lemma digit_chars [simp]:
  "char_of (48 :: nat) = CHR ''0''" "char_of (49 :: nat) = CHR ''1''" "char_of (50 :: nat) = CHR ''2''"
  "char_of (51 :: nat) = CHR ''3''" "char_of (52 :: nat) = CHR ''4''" "char_of (53 :: nat) = CHR ''5''"
  "char_of (54 :: nat) = CHR ''6''" "char_of (55 :: nat) = CHR ''7''" "char_of (56 :: nat) = CHR ''8''"
  "char_of (57 :: nat) = CHR ''9''"
  by code_simp+

lemma sample_receive:
  "receive_line sample_json sample_crates s ''hello'' =
    (if session_state s = Established then
       (Immediate (MsgError (Some ''hello'')
          \<lparr>ed_code = ValidationFailed, ed_message = ''handshake already completed for this connection''\<rparr>), s)
     else (Immediate (MsgHandshakeAccepted ''hello'' (core_version s) protocol_version_current),
       s\<lparr>session_state := Established\<rparr>))"
  by (simp add: receive_line_def decode_client_envelope_def sample_json_def sample_lines_def
     sample_lines_not_blank dispatch_envelope_def sample_handshake_def handshake_response_def is_exactly_current Let_def)

definition sample_run :: "(string + unit) \<times> world" where
 "sample_run = handle_dev_connection_inner sample_deps sample_json
   (system_open_url MacOs sample_crates command_status) (Inr ()) [Inr ''hello'', Inr ''press''] (world_of sample_conn)"

lemma sample_press:
  "receive_line sample_json sample_crates s ''press'' =
    (if session_state s = Established then
       (Command ''press'' (VirtualControlInput (Key (PageIndex 0) (KeyIndex 0))), s)
     else (Immediate (MsgError (Some ''press'')
          \<lparr>ed_code = ValidationFailed, ed_message = ''handshake required before command routing''\<rparr>), s))"
  by (simp add: receive_line_def decode_client_envelope_def sample_json_def sample_lines_def
     sample_lines_not_blank dispatch_envelope_def control_key_def page_index_new_def key_index_new_def layout_defs u8_index_def u8_of_u16_def)


lemma sample_write:
  "w_writes w = [] \<Longrightarrow> \<not> w_poisoned w \<Longrightarrow> write_protocol_message sample_json m w =
     (Inr (), w\<lparr>w_effects := w_effects w @ [LineSent (message_kind m)]\<rparr>)"
  by (simp add: write_protocol_message_def encode_protocol_message_def encode_server_message_def
      sample_json_def lock_writer_def write_line_def io_bind_def)

abbreviation sample_profile :: profile where
  "sample_profile \<equiv> \<lparr>p_id = ProfileId 7, p_name = ''Default'', p_is_active = True\<rparr>"

lemma sample_parse: "profile_id_parse sample_crates ''7'' = Inr (ProfileId 7)"
  by (metis sample_id sample_uuid_text_ok profile_id_parse_to_string)

lemma sample_list:
  "sqlite_list_profiles sample_deps sample_conn = (Inr [sample_profile], sample_conn)"
  by (simp add: sqlite_list_profiles_def prepare_def
     io_map_err_def io_bind_def stmt_def sample_conn_def empty_conn_def query_def select_profiles_def profile_of_row_def sample_profile_row_def
     sample_parse)

lemma sample_find:
  "sqlite_find_assignment sample_deps (ProfileId 7) (Key (PageIndex 0) (KeyIndex 0)) sample_conn =
    (Inr (Some \<lparr>a_profile_id = ProfileId 7, a_control = Key (PageIndex 0) (KeyIndex 0), a_actions = [OpenUrl (SafeUrl ''https://k.io'')]\<rparr>), sample_conn)"
  using sample_url sample_id 
  by (simp add: sqlite_find_assignment_def prepare_def sample_row_def decode_action_def wf_safe_url_def
     io_map_err_def io_bind_def stmt_def sample_conn_def empty_conn_def query_def select_actions_def assignment_row_of_def)

lemma sample_run_result:
  "fst sample_run = Inr () \<and> w_effects (snd sample_run) = [LineSent ''accepted'', LineSent ''event'',
    Launched ''/usr/bin/open'' [''https://k.io''], LineSent ''event'', LineSent ''acknowledged'']"
  by (simp add: sample_run_def handle_dev_connection_inner_def sample_receive sample_press protocol_session_new_def
    io_bind_def sample_write world_of_def io_try_def route_virtual_control_def active_profile_def lift_conn_def
    sqlite_repository_def sample_list sample_find ensure_exactly_one_active_def first_action_def run_action_def action_run_id_new_def
    with_rng_def ipc_event_sink_def io_map_err_def system_open_url_def launch_opener_def command_status_def)

lemma sample_input_wf: "wf_command sample_crates (VirtualControlInput (Key (PageIndex 0) (KeyIndex 0)))"
  by (simp add: wf_command_def layout_defs)

definition sample_pressed :: "(app_error + core_response) \<times> world" where
  "sample_pressed =
     handle_command (system_service MacOs sample_deps sample_json)
       (VirtualControlInput (Key (PageIndex 0) (KeyIndex 0))) (world_of sample_conn)"

definition sample_control :: control_id where
  "sample_control = Key (PageIndex 0) (KeyIndex 0)"

definition sample_assignment :: assignment where
  "sample_assignment =
     \<lparr>a_profile_id = ProfileId 7, a_control = sample_control,
      a_actions = [OpenUrl (SafeUrl ''https://k.io'')]\<rparr>"

lemma sample_assignment_wf': "wf_assignment sample_crates sample_assignment"
  using sample_url by (simp add: wf_assignment_def sample_assignment_def sample_control_def layout_defs)

lemma sample_assignment_wf [simp]: "wf_assignment (crates_of sample_deps) sample_assignment"
  by (simp add: sample_assignment_wf')

definition empty_profile_conn :: connection where
  "empty_profile_conn = empty_conn\<lparr>db := \<lparr>t_profiles = [sample_profile_row], t_assignments = []\<rparr>\<rparr>"

lemma sample_conn_simps [simp]:
  "faults sample_conn = []" "faults empty_profile_conn = []" "faults empty_conn = []"
  "t_assignments (db sample_conn) = [sample_row]" "t_assignments (db empty_profile_conn) = []"
  by (simp_all add: sample_conn_def empty_profile_conn_def empty_conn_def)

lemma empty_profile_good: "sqlite_good sample_deps empty_profile_conn"
  using sample_good by (simp add: sqlite_good_def wf_tables_def sample_conn_def empty_profile_conn_def
      empty_conn_def wf_assignment_rows_def)

lemma sample_save_run:
  "sqlite_save_assignment sample_deps sample_assignment empty_profile_conn = (Inr (), sample_conn)"
  using sample_id
  by (simp add: sqlite_save_assignment_def transaction_def io_bind_def io_map_err_def io_try_def
      sample_assignment_def profile_exists_def empty_profile_conn_def empty_conn_def
      select_exists_def sample_profile_row_def delete_assignment_def execute_def insert_assignment_def
      sample_conn_def sample_row_def sample_control_def prepare_def stmt_def query_def)

lemma sample_clear_run:
  "sqlite_clear_assignment sample_deps (ProfileId 7) sample_control sample_conn = (Inr (), empty_profile_conn)"
  using sample_id
  by (simp add: sqlite_clear_assignment_def io_bind_def io_map_err_def
      profile_exists_def empty_profile_conn_def empty_conn_def
      select_exists_def sample_profile_row_def delete_assignment_def execute_def
      sample_conn_def sample_row_def assignment_row_of_def sample_control_def stmt_def query_def)

section \<open>A host\<close>

definition sample_host :: host where
  "sample_host =
     \<lparr>h_env = (\<lambda>v. if v = ''HOME'' then Some ''/home/k'' else None), h_pid = 41, h_dir_faults = [],
      h_lock = i_lock sample_instances, h_log = sample_log_world\<lparr>lw_clock := sconst 2000000\<rparr>,
      h_disk = half_migrated\<lparr>d_faults := [], d_schema := empty_schema\<rparr>, h_conn = None,
      h_socket = \<lparr>sk_exists = True, sk_faults = []\<rparr>, h_pipes = \<lparr>pi_held = 0, pi_granted = [], pi_faults = []\<rparr>,
      h_threads = sample_threads, h_connections = dev_connections_default,
      h_incoming = [Inr (), Inl ''reset''], h_pipe_incoming = []\<rparr>"

lemma sample_host_ready: "host_ready OtherOs sample_deps sample_host"
  by (simp add: host_ready_def sample_host_def default_data_dir_def sample_instances_def sample_log_world_def
      log_ready_def wf_log_def log_retention_default_def LOG_FILE_NAME_def half_migrated_def host_tables_def
      host_view_def wf_tables_empty sample_threads_def)
    (simp add: tables_view_def view_names_def schema_rows_def empty_schema_def)


section \<open>Two profiles\<close>

definition second_profile_row :: profile_row where
  "second_profile_row =
     \<lparr>pr_id = ''8'', pr_name = ''Work'', pr_is_active = 0, pr_created_at = ''t0''\<rparr>"

definition two_profiles_conn :: connection where
  "two_profiles_conn =
     empty_conn\<lparr>db := \<lparr>t_profiles = [sample_profile_row, second_profile_row], t_assignments = []\<rparr>\<rparr>"

lemma second_id: "profile_id_to_string sample_crates (ProfileId 8) = ''8''"
  by (simp add: sample_crates_def show_nat.simps)

lemma two_profiles_good: "sqlite_good sample_deps two_profiles_conn"
proof -
  have "wf_profile_rows sample_crates [sample_profile_row, second_profile_row]"
    using sample_id second_id not_blank_sample
    by (auto simp: wf_profile_rows_def sample_profile_row_def second_profile_row_def
        intro: exI [of _ "ProfileId 7"] exI [of _ "ProfileId 8"])
  then show ?thesis
    by (simp add: sqlite_good_def wf_tables_def wf_assignment_rows_def two_profiles_conn_def empty_conn_def)
qed

lemma two_profiles_view:
  "st_active (sqlite_view sample_deps two_profiles_conn) = Some (ProfileId 7)"
  "st_names (sqlite_view sample_deps two_profiles_conn) (ProfileId 7) \<noteq> None"
proof -
  have s: "sqlite_stands sample_deps (sqlite_view sample_deps two_profiles_conn) two_profiles_conn"
    using two_profiles_good by (simp add: stands_for_def)
  have wf: "wf_profile_rows sample_crates (t_profiles (db two_profiles_conn))"
    using two_profiles_good by (simp add: sqlite_good_def wf_tables_def)
  show "st_active (sqlite_view sample_deps two_profiles_conn) = Some (ProfileId 7)"
    using view_active_iff [OF sample_uuid_text_ok wf, of "ProfileId 7"] sample_id
    by (simp add: sqlite_view_def tables_view_def two_profiles_conn_def sample_profile_row_def)
  show "st_names (sqlite_view sample_deps two_profiles_conn) (ProfileId 7) \<noteq> None"
    using sqlite_stands_exists [OF s, of "ProfileId 7"] sample_id
    by (simp add: select_exists_def two_profiles_conn_def sample_profile_row_def)
qed

lemma activate_second:
  "sqlite_set_active_profile sample_deps (ProfileId 8) two_profiles_conn =
   (Inr (), two_profiles_conn\<lparr>db := \<lparr>t_profiles =
      [sample_profile_row\<lparr>pr_is_active := 0\<rparr>, second_profile_row\<lparr>pr_is_active := 1\<rparr>], t_assignments = []\<rparr>\<rparr>)"
  using second_id
  by (simp add: sqlite_set_active_profile_def transaction_def io_bind_def io_try_def io_map_err_def
      profile_exists_def select_exists_def update_deactivate_def update_activate_def execute_def Let_def
      two_profiles_conn_def empty_conn_def sample_profile_row_def second_profile_row_def)

text \<open>Renaming the first profile afterwards, with what was read before.\<close>

lemma rename_first_later:
  "rename_update sample_deps (ProfileId 7) \<lparr>p_id = ProfileId 7, p_name = ''Home'', p_is_active = True\<rparr>
     (snd (sqlite_set_active_profile sample_deps (ProfileId 8) two_profiles_conn)) =
   (Inr \<lparr>p_id = ProfileId 7, p_name = ''Home'', p_is_active = True\<rparr>,
    two_profiles_conn\<lparr>db := \<lparr>t_profiles =
      [sample_profile_row\<lparr>pr_is_active := 0, pr_name := ''Home''\<rparr>, second_profile_row\<lparr>pr_is_active := 1\<rparr>],
      t_assignments = []\<rparr>\<rparr>)"
  unfolding activate_second snd_conv
  using sample_id
  by (simp add: rename_update_def update_name_def execute_def io_bind_def io_map_err_def
      two_profiles_conn_def empty_conn_def sample_profile_row_def second_profile_row_def)

end
