(* ===== verification/Keyro_Concurrent.thy ===== *)
theory Keyro_Concurrent
  imports Keyro_Connection Keyro_Storage_Total
begin

text \<open>
  Connections that run at the same time.  The threads of the process share the database connection
  behind a mutex, which an operation of the repository holds while it uses the database;
  \<open>rename_profile\<close> takes it twice, and an input looks up the active profile and its assignment under
  two locks.  A thread is therefore a program of critical sections; between any two of its sections
  other threads may run.  Run alone, the programs compute what the sequential definitions do.
\<close>

section \<open>Programs of critical sections\<close>

datatype (dead 'w, 'a) prog =
    Ret 'a
  | Sec "'w \<Rightarrow> ('w, 'a) prog \<times> 'w"

primrec bind_prog :: "('w, 'a) prog \<Rightarrow> ('a \<Rightarrow> ('w, 'b) prog) \<Rightarrow> ('w, 'b) prog" where
  "bind_prog (Ret a) f = f a"
| "bind_prog (Sec s) f = Sec (\<lambda>w. map_prod (\<lambda>p. bind_prog p f) id (s w))"

text \<open>A program run without interruption.\<close>

primrec solo :: "('w, 'a) prog \<Rightarrow> 'w \<Rightarrow> 'a \<times> 'w" where
  "solo (Ret a) = (\<lambda>w. (a, w))"
| "solo (Sec s) = (\<lambda>w. case map_prod solo id (s w) of (g, w') \<Rightarrow> g w')"

text \<open>One call as a section, and the continuation after a success.\<close>

definition critical :: "('w, 'e, 'a) io \<Rightarrow> ('w, 'e + 'a) prog" where
  "critical m = Sec (\<lambda>w. map_prod Ret id (m w))"

definition bind_ok ::
  "('w, 'e + 'a) prog \<Rightarrow> ('a \<Rightarrow> ('w, 'e + 'b) prog) \<Rightarrow> ('w, 'e + 'b) prog" where
  "bind_ok p f = bind_prog p (\<lambda>r. case r of Inl e \<Rightarrow> Ret (Inl e) | Inr a \<Rightarrow> f a)"

declare solo.simps [simp del]

lemma solo_Ret_apply [simp]: "solo (Ret a) w = (a, w)"
  by (simp add: solo.simps)

lemma solo_Sec_apply: "s w = (p, w') \<Longrightarrow> solo (Sec s) w = solo p w'"
  by (simp add: solo.simps)

lemma solo_bind [simp]: "solo (bind_prog p f) w = (case solo p w of (a, w') \<Rightarrow> solo (f a) w')"
proof (induction p arbitrary: w)
  case (Sec s)
  obtain q w' where q: "s w = (q, w')" by fastforce
  then have "q \<in> Basic_BNFs.fsts (s w)" by simp
  from Sec.IH [OF rangeI this] q show ?case by (simp add: solo_Sec_apply)
qed simp

lemma solo_critical [simp]: "solo (critical m) = m"
proof
  fix w
  obtain r w' where "m w = (r, w')" by fastforce
  then show "solo (critical m) w = m w" by (simp add: critical_def solo_Sec_apply)
qed

lemma solo_bind_ok [simp]: "solo (bind_ok p f) = io_bind (solo p) (\<lambda>a. solo (f a))"
  by (auto simp: fun_eq_iff bind_ok_def io_bind_def split: prod.splits sum.splits)

lemma solo_Ret [simp]: "solo (Ret r) = io_of_res r"
  by (simp add: fun_eq_iff)

lemma io_of_res_Inr [simp]: "io_of_res (Inr a) = io_return a" "io_of_res (Inl e) = io_fail e"
  by (simp_all add: fun_eq_iff)

section \<open>The sections of the program\<close>

definition rename_sections ::
  "'u deps \<Rightarrow> profile_id \<Rightarrow> string \<Rightarrow> (world, app_error + profile) prog" where
  "rename_sections K profile_id name =
     bind_ok (critical (lift_conn (sqlite_list_profiles K))) (\<lambda>profiles.
     bind_ok (Ret (ok_or ProfileNotFound (find (\<lambda>p. p_id p = profile_id) profiles))) (\<lambda>profile.
     bind_ok (Ret (map_err AppDomain (profile_rename profile name))) (\<lambda>profile.
     critical (lift_conn (rename_update K profile_id profile)))))"

definition route_sections :: "world core_service \<Rightarrow> control_id \<Rightarrow> (world, app_error + unit) prog" where
  "route_sections self control =
     bind_ok (critical (active_profile self)) (\<lambda>profile.
     bind_ok (critical (find_assignment (repository self) (p_id profile) control)) (\<lambda>found.
     case found of
       None \<Rightarrow> Ret (Inl AssignmentNotFound)
     | Some assignment \<Rightarrow>
         (case first_action assignment of
            None \<Rightarrow> Ret (Inl AssignmentHasNoAction)
          | Some action \<Rightarrow> critical (run_action self (p_id profile) control action))))"

text \<open>The other commands are one section each.\<close>

fun command_sections ::
  "os \<Rightarrow> 'u deps \<Rightarrow> serde_json \<Rightarrow> core_command \<Rightarrow> (world, app_error + core_response) prog" where
  "command_sections os K J (RenameProfile profile_id name) =
     bind_ok (rename_sections K profile_id name) (\<lambda>profile. Ret (Inr (RespProfile profile)))"
| "command_sections os K J (VirtualControlInput control) =
     bind_ok (route_sections (system_service os K J) control) (\<lambda>_. Ret (Inr RespAcknowledged))"
| "command_sections os K J command = critical (handle_command (system_service os K J) command)"

fun reply_sections ::
  "os \<Rightarrow> 'u deps \<Rightarrow> serde_json \<Rightarrow> protocol_dispatch \<Rightarrow> (world, server_message) prog" where
  "reply_sections os K J (Immediate message) = Ret message"
| "reply_sections os K J (Command request_id command) =
     bind_prog (command_sections os K J command) (\<lambda>r.
       Ret (case r of
          Inr response \<Rightarrow> response_from_core (crates_of K) request_id response
        | Inl error \<Rightarrow> error_message (Some request_id) error))"

fun connection_sections ::
  "os \<Rightarrow> 'u deps \<Rightarrow> serde_json \<Rightarrow> protocol_session \<Rightarrow> (string + string) list \<Rightarrow>
   (world, string + unit) prog" where
  "connection_sections os K J session [] = Ret (Inr ())"
| "connection_sections os K J session (item # items) =
     bind_ok (Ret item) (\<lambda>line.
     case receive_line J (crates_of K) session line of
       (dispatch, session') \<Rightarrow>
         bind_prog (reply_sections os K J dispatch) (\<lambda>reply.
         bind_ok (critical (write_protocol_message J reply)) (\<lambda>_.
         connection_sections os K J session' items)))"

text \<open>Alone, they compute the sequential definitions.\<close>

lemma lift_conn_bind [simp]:
  "lift_conn (io_bind m f) = io_bind (lift_conn m) (\<lambda>a. lift_conn (f a))"
  by (auto simp: fun_eq_iff lift_conn_def io_bind_def split: prod.splits sum.splits)

lemma lift_conn_res [simp]: "lift_conn (io_of_res r) = io_of_res r"
  by (simp add: fun_eq_iff lift_conn_def)

lemma solo_rename: "solo (rename_sections K pid name) = lift_conn (sqlite_rename_profile K pid name)"
  by (simp add: rename_sections_def sqlite_rename_profile_def)

lemma solo_route: "solo (route_sections self control) = route_virtual_control self control"
proof -
  have "solo (case found of
         None \<Rightarrow> Ret (Inl AssignmentNotFound)
       | Some assignment \<Rightarrow>
           (case first_action assignment of
              None \<Rightarrow> Ret (Inl AssignmentHasNoAction)
            | Some action \<Rightarrow> critical (run_action self (p_id profile) control action))) =
      (case found of
         None \<Rightarrow> io_fail AssignmentNotFound
       | Some assignment \<Rightarrow>
           (case first_action assignment of
              None \<Rightarrow> io_fail AssignmentHasNoAction
            | Some action \<Rightarrow> run_action self (p_id profile) control action))" for found and profile :: profile
    by (auto simp: fun_eq_iff split: option.split)
  then show ?thesis by (simp add: route_sections_def route_virtual_control_def)
qed

lemma solo_command:
  "solo (command_sections os K J cmd) = handle_command (system_service os K J) cmd"
  by (cases cmd) (simp_all add: solo_rename solo_route sqlite_repository_def)

lemma solo_reply:
  "solo (reply_sections os K J d) w = (m, w') \<Longrightarrow>
   dispatch_reply K (system_service os K J) d w = (Inr m, w')"
  by (cases d) (auto simp: solo_command io_try_def split: prod.splits sum.splits)

lemma solo_connection:
  "solo (connection_sections os K J session items) =
   connection_loop K J (system_service os K J) session items"
proof (induction items arbitrary: session)
  case (Cons item items)
  show ?case
  proof (cases item)
    case (Inl e)
    then show ?thesis by (simp add: fun_eq_iff io_bind_def)
  next
    case (Inr line)
    obtain d s' where d: "receive_line J (crates_of K) session line = (d, s')" by fastforce
    have "solo (connection_sections os K J session (item # items)) w =
        connection_loop K J (system_service os K J) session (item # items) w" for w
    proof -
      obtain m w1 where m: "solo (reply_sections os K J d) w = (m, w1)" by fastforce
      from solo_reply [OF this] m Inr d Cons show ?thesis by (simp add: io_bind_def)
    qed
    then show ?thesis by (simp add: fun_eq_iff)
  qed
qed simp

section \<open>Sections that are safe\<close>

text \<open>Every section of the program, from any well-formed store, leaves a well-formed store, and changes
  the stored state by one complete command at most.\<close>

inductive safe_prog :: "'u deps \<Rightarrow> (world, 'a) prog \<Rightarrow> bool" for K where
  safe_Ret: "safe_prog K (Ret a)"
| safe_Sec:
    "(\<And>w p w'. world_good K w \<Longrightarrow> s w = (p, w') \<Longrightarrow>
        world_good K w' \<and> commanded\<^sup>=\<^sup>= (world_view K w) (world_view K w') \<and> safe_prog K p) \<Longrightarrow>
     safe_prog K (Sec s)"

inductive_simps safe_prog_simps: "safe_prog K (Ret a)" "safe_prog K (Sec s)"

lemma safe_bind:
  assumes "safe_prog K p" and "\<And>a. safe_prog K (f a)"
  shows "safe_prog K (bind_prog p f)"
  using assms(1)
proof induction
  case (safe_Ret a)
  then show ?case using assms(2) by simp
next
  case (safe_Sec s)
  show ?case
    unfolding bind_prog.simps
  proof (rule safe_prog.safe_Sec)
    fix w p w'
    assume w: "world_good K w" and r: "map_prod (\<lambda>p. bind_prog p f) id (s w) = (p, w')"
    then obtain q where "s w = (q, w')" and "p = bind_prog q f" by (auto simp: map_prod_def split: prod.splits)
    with safe_Sec [OF w] show "world_good K w' \<and> commanded\<^sup>=\<^sup>= (world_view K w) (world_view K w') \<and> safe_prog K p"
      by blast
  qed
qed

lemma safe_bind_ok: "safe_prog K p \<Longrightarrow> (\<And>a. safe_prog K (f a)) \<Longrightarrow> safe_prog K (bind_ok p f)"
  unfolding bind_ok_def by (intro safe_bind) (auto intro: safe_Ret split: sum.split)

text \<open>A call that leaves the stored state alone or changes it by a command.\<close>

lemma safe_critical:
  fixes m :: "(world, 'e, 'a) io"
  assumes "\<And>s. triple (world_stands K s) m
    (\<lambda>_ w. \<exists>s'. world_stands K s' w \<and> commanded\<^sup>=\<^sup>= s s') (\<lambda>w. \<exists>s'. world_stands K s' w \<and> commanded\<^sup>=\<^sup>= s s')"
  shows "safe_prog K (critical m)"
  unfolding critical_def
proof (rule safe_Sec)
  fix w w' and p :: "(world, 'e + 'a) prog"
  assume w: "world_good K w" and r: "map_prod Ret id (m w) = (p, w')"
  then obtain q where q: "m w = (q, w')" and p: "p = Ret q" by (auto simp: map_prod_def split: prod.splits)
  have "world_stands K (world_view K w) w" using w by (simp add: stands_for_def)
  then have "\<exists>s'. world_stands K s' w' \<and> commanded\<^sup>=\<^sup>= (world_view K w) s'"
    using triple_Inr [OF assms] triple_Inl [OF assms] q by (cases q) blast+
  then show "world_good K w' \<and> commanded\<^sup>=\<^sup>= (world_view K w) (world_view K w') \<and> safe_prog K p"
    by (auto simp: stands_for_def p safe_Ret)
qed

lemma safe_same:
  assumes "\<And>s. triple (world_stands K s) m (\<lambda>_. world_stands K s) (world_stands K s)"
  shows "safe_prog K (critical m)"
  by (rule safe_critical, rule triple_weaken [OF assms]) auto

text \<open>The second critical section of a rename, on whatever store it finds.\<close>

lemma rename_update_safe:
  assumes "trim (p_name q) \<noteq> []"
  shows "safe_prog K (critical (lift_conn (rename_update K pid q)))"
proof (rule safe_critical)
  fix s
  show "triple (world_stands K s) (lift_conn (rename_update K pid q))
     (\<lambda>_ w. \<exists>s'. world_stands K s' w \<and> commanded\<^sup>=\<^sup>= s s') (\<lambda>w. \<exists>s'. world_stands K s' w \<and> commanded\<^sup>=\<^sup>= s s')"
  proof (cases "st_names s pid = None")
    case True
    have "triple (sqlite_stands K s) (rename_update K pid q) (\<lambda>_. sqlite_stands K s) (sqlite_stands K s)"
      by (rule rename_update_missing [OF True])
    from lift_conn_triple [OF this] show ?thesis
      unfolding world_stands_eq by (rule triple_weaken) auto
  next
    case False
    have "commanded s (spec_create pid (p_name q) s)"
      using assms False
      by (intro commandedI [of "RenameProfile pid (p_name q)"]) simp
    then show ?thesis
      unfolding world_stands_eq
      by (intro triple_weaken [OF lift_conn_triple [OF rename_update_law [OF assms False, of K]]]) auto
  qed
qed

lemma safe_rename: "safe_prog K (rename_sections K pid name)"
proof -
  have list: "safe_prog K (critical (lift_conn (sqlite_list_profiles K)))"
  proof (rule safe_same)
    fix s
    show "triple (world_stands K s) (lift_conn (sqlite_list_profiles K)) (\<lambda>_. world_stands K s) (world_stands K s)"
      using lift_conn_triple [OF sqlite_list_law [of K s]] unfolding world_stands_eq
      by (rule triple_weaken) auto
  qed
  have update: "safe_prog K (bind_ok (Ret (map_err AppDomain (profile_rename profile name)))
      (\<lambda>profile. critical (lift_conn (rename_update K pid profile))))" for profile
    by (cases "trim name = []")
      (auto simp: bind_ok_def profile_rename_def validate_profile_name_def intro!: safe_Ret rename_update_safe)
  show ?thesis
    unfolding rename_sections_def
    by (rule safe_bind_ok [OF list safe_bind_ok [OF safe_Ret update]])
qed

text \<open>The sections of a command, of a reply and of a connection.\<close>

lemma safe_handle_command:
  assumes "wf_command (crates_of K) cmd"
  shows "safe_prog K (critical (handle_command (system_service os K J) cmd))"
proof (rule safe_critical)
  fix s
  have ok: "command_ok (wf_assignment (crates_of K)) (\<lambda>_. True) cmd"
    using assms by (cases cmd) (auto simp: wf_command_def)
  show "triple (world_stands K s) (handle_command (system_service os K J) cmd)
     (\<lambda>_ w. \<exists>s'. world_stands K s' w \<and> commanded\<^sup>=\<^sup>= s s') (\<lambda>w. \<exists>s'. world_stands K s' w \<and> commanded\<^sup>=\<^sup>= s s')"
    by (rule triple_weaken [OF service.handle_command_law [OF ok]]) (auto intro: commandedI)
qed

lemma safe_route: "safe_prog K (route_sections (system_service os K J) control)"
proof -
  note same = safe_same triple_weaken
  have active: "safe_prog K (critical (active_profile (system_service os K J)))"
  proof (rule safe_same)
    fix s
    show "triple (world_stands K s) (active_profile (system_service os K J)) (\<lambda>_. world_stands K s) (world_stands K s)"
      by (rule triple_weaken [OF service.active_profile_law]) auto
  qed
  have find: "safe_prog K (critical (find_assignment (repository (system_service os K J)) pid control))" for pid
  proof (rule safe_same)
    fix s
    show "triple (world_stands K s) (find_assignment (repository (system_service os K J)) pid control)
        (\<lambda>_. world_stands K s) (world_stands K s)"
      unfolding connection_service_simps by (rule triple_weaken [OF lifted.find_law]) auto
  qed
  have run: "safe_prog K (critical (run_action (system_service os K J) pid control action))" for pid action
    by (rule safe_same, rule triple_keeps, rule service.run_action_frame)
  show ?thesis
    unfolding route_sections_def
    by (intro safe_bind_ok active find) (auto intro: safe_Ret run split: option.split)
qed

lemma safe_command:
  assumes "wf_command (crates_of K) cmd"
  shows "safe_prog K (command_sections os K J cmd)"
  using safe_handle_command [OF assms]
  by (cases cmd) (auto intro!: safe_bind_ok safe_rename safe_route safe_Ret)


section \<open>Replies and connections\<close>

lemma safe_write: "safe_prog K (critical (write_protocol_message J m))"
proof (rule safe_same, rule triple_keeps, rule keepsI)
  fix s w r w'
  show "world_stands K s w \<Longrightarrow> write_protocol_message J m w = (r, w') \<Longrightarrow> world_stands K s w'"
    by (rule write_stands)
qed

lemma safe_connection: "safe_prog K (connection_sections os K J session items)"
proof (induction items arbitrary: session)
  case (Cons item items)
  show ?case
  proof (cases item)
    case (Inl e)
    then show ?thesis by (auto simp: bind_ok_def intro: safe_Ret)
  next
    case (Inr line)
    obtain d s' where d: "receive_line J (crates_of K) session line = (d, s')" by fastforce
    have "safe_prog K (reply_sections os K J d)"
    proof (cases d)
      case (Command r cmd)
      then have "wf_command (crates_of K) cmd"
        using receive_line_command [of J "crates_of K" session line r cmd s'] d by simp
      with Command show ?thesis by (auto intro!: safe_bind safe_command safe_Ret)
    qed (simp add: safe_Ret)
    with Cons Inr d show ?thesis
      by (auto simp: bind_ok_def [of "Ret _"] intro!: safe_bind safe_bind_ok safe_write)
  qed
qed (simp add: safe_Ret)

section \<open>The process with its connections\<close>

text \<open>The shared database connection and the threads, each with what belongs to it alone (its socket
  and the programs it starts) and the sections that it has still to run.\<close>

record server =
  sv_conn :: connection
  sv_threads :: "(world \<times> (world, string + unit) prog) list"

inductive server_step :: "os \<Rightarrow> 'u deps \<Rightarrow> serde_json \<Rightarrow> server \<Rightarrow> server \<Rightarrow> bool" for os K J where
  joins:
    "server_step os K J S (S\<lparr>sv_threads := sv_threads S @
       [(w, connection_sections os K J (protocol_session_new CARGO_PKG_VERSION) items)]\<rparr>)"
| runs:
    "i < length (sv_threads S) \<Longrightarrow> sv_threads S ! i = (w, Sec s) \<Longrightarrow>
     s (w\<lparr>w_conn := sv_conn S\<rparr>) = (p, w') \<Longrightarrow>
     server_step os K J S (S\<lparr>sv_conn := w_conn w', sv_threads := (sv_threads S)[i := (w', p)]\<rparr>)"
| leaves:
    "sv_threads S = ts @ (w, Ret r) # ts' \<Longrightarrow> server_step os K J S (S\<lparr>sv_threads := ts @ ts'\<rparr>)"

inductive_cases server_stepE: "server_step os K J S S'"

definition server_ok :: "'u deps \<Rightarrow> server \<Rightarrow> bool" where
  "server_ok K S \<longleftrightarrow> sqlite_good K (sv_conn S) \<and> (\<forall>(w, p) \<in> set (sv_threads S). safe_prog K p)"

lemma server_step_ok:
  assumes "server_step os K J S S'" and ok: "server_ok K S"
  shows "server_ok K S' \<and> commanded\<^sup>=\<^sup>= (sqlite_view K (sv_conn S)) (sqlite_view K (sv_conn S'))"
  using assms(1)
proof cases
  case (joins w items)
  with ok show ?thesis by (auto simp: server_ok_def safe_connection)
next
  case (runs i w s p w')
  have "safe_prog K (Sec s)"
    using ok runs(2,3) unfolding server_ok_def by (metis (mono_tags, lifting) case_prodD nth_mem)
  moreover have "world_good K (w\<lparr>w_conn := sv_conn S\<rparr>)" using ok by (simp add: server_ok_def world_good_def)
  ultimately have "world_good K w'" and "safe_prog K p"
    and "commanded\<^sup>=\<^sup>= (world_view K (w\<lparr>w_conn := sv_conn S\<rparr>)) (world_view K w')"
    using runs(4) unfolding safe_prog_simps by blast+
  moreover have "\<forall>(w, p) \<in> set ((sv_threads S)[i := (w', p)]). safe_prog K p"
    using ok \<open>safe_prog K p\<close> set_update_subset_insert [of "sv_threads S" i "(w', p)"]
    by (auto simp: server_ok_def)
  ultimately show ?thesis
    by (auto simp: runs(1) server_ok_def world_good_def world_view_def)
next
  case (leaves ts w r ts')
  with ok show ?thesis by (auto simp: server_ok_def)
qed

text \<open>Whatever the interleaving, the store goes through complete commands only.\<close>

lemma server_run:
  assumes "(server_step os K J)\<^sup>*\<^sup>* S S'" and "server_ok K S"
  shows "server_ok K S' \<and> commanded\<^sup>*\<^sup>* (sqlite_view K (sv_conn S)) (sqlite_view K (sv_conn S'))"
  using assms
proof (induction rule: rtranclp_induct)
  case (step S1 S2)
  then have ok: "server_ok K S1" and c: "commanded\<^sup>*\<^sup>* (sqlite_view K (sv_conn S)) (sqlite_view K (sv_conn S1))"
    by auto
  from server_step_ok [OF step(2) ok] c show ?case
    by (auto intro: rtranclp.rtrancl_into_rtrancl)
qed auto

text \<open>The answer of a rename tells whether the profile was active when its first section ran.\<close>

lemma rename_sections_first:
  assumes w: "world_good K w" and s1: "rename_sections K pid name = Sec s1" and r: "s1 w = (Sec s2, w1)"
  shows "world_view K w1 = world_view K w \<and> world_good K w1 \<and>
    s2 = (\<lambda>w. map_prod Ret id (lift_conn (rename_update K pid
      \<lparr>p_id = pid, p_name = name, p_is_active = (st_active (world_view K w1) = Some pid)\<rparr>) w))"
proof -
  have st: "world_stands K (world_view K w) w" using w by (simp add: stands_for_def)
  obtain q c where l: "lift_conn (sqlite_list_profiles K) w = (q, c)" by fastforce
  show ?thesis
  proof (cases q)
    case (Inl e)
    with s1 r l show ?thesis by (auto simp: rename_sections_def bind_ok_def critical_def)
  next
    case (Inr ps)
    have law: "world_stands K (world_view K w) c" "lists_profiles (world_view K w) ps"
      using triple_Inr [OF lift_conn_triple [OF sqlite_list_law [of K "world_view K w"]]] st l Inr
      unfolding world_stands_eq by blast+
    show ?thesis
    proof (cases "find (\<lambda>p. p_id p = pid) ps")
      case None
      with s1 r l Inr show ?thesis by (auto simp: rename_sections_def bind_ok_def critical_def)
    next
      case (Some p)
      then have "p \<in> set ps" and pid: "p_id p = pid" by (auto dest: find_Some_mem)
      with law(2) have p: "is_profile (world_view K w) p" by (auto simp: lists_profiles_def)
      show ?thesis
      proof (cases "trim name = []")
        case True
        with s1 r l Inr Some show ?thesis
          by (auto simp: rename_sections_def bind_ok_def critical_def profile_rename_def validate_profile_name_def)
      next
        case False
        with s1 r l Inr Some have "w1 = c"
          and s2: "s2 = (\<lambda>w. map_prod Ret id (lift_conn (rename_update K pid (p\<lparr>p_name := name\<rparr>)) w))"
          by (auto simp: rename_sections_def bind_ok_def critical_def profile_rename_def validate_profile_name_def)
        moreover have "p\<lparr>p_name := name\<rparr> =
            \<lparr>p_id = pid, p_name = name, p_is_active = (st_active (world_view K w) = Some pid)\<rparr>"
          using p pid by (simp add: is_profile_def profile_eq_iff)
        ultimately show ?thesis using law(1) by (simp add: stands_for_def)
      qed
    qed
  qed
qed


lemma rename_sections_start:
  assumes "sqlite_good K (w_conn w)" and "faults (w_conn w) = []"
    and "st_names (world_view K w) pid \<noteq> None" and "trim name \<noteq> []"
  shows "\<exists>s1 s2. rename_sections K pid name = Sec s1 \<and> s1 w = (Sec s2, w)"
proof -
  obtain ps where ps: "sqlite_list_profiles K (w_conn w) = (Inr ps, w_conn w)"
    using list_profiles_free [OF assms(1,2)] by blast
  then have l: "lift_conn (sqlite_list_profiles K) w = (Inr ps, w)" by (simp add: lift_conn_def)
  have "sqlite_stands K (world_view K w) (w_conn w)" using assms(1) by (simp add: stands_for_def world_view_def)
  from triple_Inr [OF sqlite_list_law this ps] have "lists_profiles (world_view K w) ps" by blast
  moreover obtain n where "st_names (world_view K w) pid = Some n" using assms(3) by blast
  then have "is_profile (world_view K w)
      \<lparr>p_id = pid, p_name = n, p_is_active = (st_active (world_view K w) = Some pid)\<rparr>"
    by (simp add: is_profile_def)
  ultimately obtain p where "p \<in> set ps" and "p_id p = pid"
    by (force simp: lists_profiles_def)
  then obtain q where "find (\<lambda>p. p_id p = pid) ps = Some q"
    by (metis (mono_tags, lifting) find_None_iff not_None_eq)
  with l assms(4) show ?thesis
    by (auto simp: rename_sections_def bind_ok_def critical_def profile_rename_def validate_profile_name_def)
qed

end
