(* ===== verification/Keyro_Progress.thy ===== *)
theory Keyro_Progress
  imports Keyro_Concurrent
begin

text \<open>
  Connections come to an end.  A line is served in at most four critical sections, so that threads
  which have read finitely many lines can take only finitely many steps between them, however they
  are interleaved; and as long as a thread is left some thread can go on.
\<close>

section \<open>How many sections a program has\<close>

text \<open>No path through the program has more than \<open>n\<close> sections.\<close>

inductive within :: "nat \<Rightarrow> ('w, 'a) prog \<Rightarrow> bool" where
  within_Ret: "within n (Ret a)"
| within_Sec: "(\<And>w. within n (fst (s w))) \<Longrightarrow> within (Suc n) (Sec s)"

inductive_cases within_SecE: "within n (Sec s)"

inductive_simps within_0_simps: "within 0 (Sec s)"

lemma within_next: "within n (Sec s) \<Longrightarrow> s w = (p, w') \<Longrightarrow> \<exists>m. n = Suc m \<and> within m p"
  by (metis fst_conv within_SecE)

lemma within_mono: "within n p \<Longrightarrow> n \<le> m \<Longrightarrow> within m p"
proof (induction arbitrary: m rule: within.induct)
  case (within_Sec n s)
  then show ?case by (cases m) (auto intro: within.intros)
qed (rule within_Ret)

lemma within_bind: "within n p \<Longrightarrow> (\<And>a. within m (f a)) \<Longrightarrow> within (n + m) (bind_prog p f)"
proof (induction rule: within.induct)
  case (within_Ret n a)
  from this [of a] show ?case by (auto intro: within_mono)
next
  case (within_Sec n s)
  then have "within (n + m) (bind_prog (fst (s w)) f)" for w by blast
  then show ?case by (simp add: within.within_Sec)
qed

lemma within_bind_ok: "within n p \<Longrightarrow> (\<And>a. within m (f a)) \<Longrightarrow> within (n + m) (bind_ok p f)"
  unfolding bind_ok_def by (rule within_bind) (auto intro: within_Ret split: sum.splits)

lemma within_critical: "within (Suc n) (critical m)"
  unfolding critical_def by (rule within_Sec) (auto intro: within_Ret simp: map_prod_def split: prod.splits)

lemma within_rename: "within 2 (rename_sections K pid name)"
  unfolding rename_sections_def
  using within_bind_ok [OF within_critical [of 0] within_bind_ok [OF within_Ret [of 0]
        within_bind_ok [OF within_Ret [of 0] within_critical [of 0]]]] by (simp add: numeral_2_eq_2)

lemma within_route: "within 3 (route_sections self c)"
proof -
  have "within 1 (case found of None \<Rightarrow> Ret (Inl AssignmentNotFound)
      | Some a \<Rightarrow> (case first_action a of None \<Rightarrow> Ret (Inl AssignmentHasNoAction)
          | Some action \<Rightarrow> critical (run_action self (p_id p) c action)))" for found p
    by (auto intro: within_Ret within_critical [of 0, simplified] split: option.splits)
  from within_bind_ok [OF within_critical [of 0] within_bind_ok [OF within_critical [of 0] this]]
  show ?thesis unfolding route_sections_def by (simp add: eval_nat_numeral)
qed

lemma within_command: "within 3 (command_sections os K J cmd)"
proof (cases cmd)
  case (RenameProfile pid name)
  then show ?thesis using within_bind_ok [OF within_rename within_Ret [of 1]] by simp
next
  case (VirtualControlInput c)
  then show ?thesis using within_bind_ok [OF within_route within_Ret [of 0]] by simp
qed (use within_critical [of 2] in \<open>simp_all add: eval_nat_numeral\<close>)

lemma within_reply: "within 3 (reply_sections os K J d)"
  using within_bind [OF within_command within_Ret [of 0]] by (cases d) (simp_all add: within_Ret)

lemma within_connection: "within (4 * length items) (connection_sections os K J s items)"
proof (induction items arbitrary: s)
  case (Cons item items)
  have "within (4 * length (item # items)) (bind_prog (reply_sections os K J d) (\<lambda>reply.
      bind_ok (critical (write_protocol_message J reply)) (\<lambda>_. connection_sections os K J s' items)))" for d s'
    using within_bind [OF within_reply within_bind_ok [OF within_critical [of 0] Cons.IH]]
    by (simp add: eval_nat_numeral)
  from within_bind_ok [OF within_Ret [of 0] this] show ?case
    by (auto simp: split_def)
qed (simp add: within_Ret)

section \<open>Runs without new connections\<close>

definition proceeds :: "os \<Rightarrow> 'u deps \<Rightarrow> serde_json \<Rightarrow> server \<Rightarrow> server \<Rightarrow> bool" where
  "proceeds os K J S S' \<longleftrightarrow> server_step os K J S S' \<and> length (sv_threads S') \<le> length (sv_threads S)"

text \<open>A server whose threads can take \<open>N\<close> steps at most, counting the one that each ends with.\<close>

definition steps_left :: "nat \<Rightarrow> server \<Rightarrow> bool" where
  "steps_left N S \<longleftrightarrow>
     (\<exists>ns. list_all2 (\<lambda>n (_, p). within n p) ns (sv_threads S) \<and> sum_list (map Suc ns) = N)"

lemma proceeds_steps_left:
  assumes "proceeds os K J S S'" and "steps_left N S"
  shows "\<exists>M < N. steps_left M S'"
proof -
  obtain ns where ns: "list_all2 (\<lambda>n (_, p). within n p) ns (sv_threads S)" and N: "sum_list (map Suc ns) = N"
    using assms(2) by (auto simp: steps_left_def)
  from assms(1) have "server_step os K J S S'" by (simp add: proceeds_def)
  then show ?thesis
  proof cases
    case (joins w items)
    with assms(1) show ?thesis by (simp add: proceeds_def)
  next
    case (runs i w s p w')
    have i: "i < length ns" and wi: "within (ns ! i) (Sec s)"
      using list_all2_lengthD [OF ns] list_all2_nthD2 [OF ns runs(2)] runs(2,3) by auto
    from within_next [OF wi runs(4)] obtain m where m: "ns ! i = Suc m" "within m p" by blast
    have "list_all2 (\<lambda>n (_, p). within n p) (ns[i := m]) ((sv_threads S)[i := (w', p)])"
      using m(2) by (intro list_all2_update_cong [OF ns]) simp
    moreover have "sum_list (map Suc ns) = Suc (sum_list (map Suc (ns[i := m])))"
    proof -
      have "ns = take i ns @ Suc m # drop (Suc i) ns" using i m(1) using id_take_nth_drop [OF i] m(1) by simp
      then have "sum_list (map Suc ns) = sum_list (map Suc (take i ns @ Suc m # drop (Suc i) ns))" by simp
      then show ?thesis using i by (simp add: upd_conv_take_nth_drop)
    qed
    ultimately show ?thesis using N unfolding runs(1) steps_left_def
      by (intro exI [of _ "sum_list (map Suc (ns[i := m]))"]) auto
  next
    case (leaves ts w r ts')
    from ns leaves(2) obtain ns1 n ns2 where "ns = ns1 @ n # ns2"
      and "list_all2 (\<lambda>n (_, p). within n p) ns1 ts" "list_all2 (\<lambda>n (_, p). within n p) ns2 ts'"
      by (auto simp: list_all2_append2 list_all2_Cons2)
    moreover then have "list_all2 (\<lambda>n (_, p). within n p) (ns1 @ ns2) (ts @ ts')"
      by (simp add: list_all2_appendI)
    ultimately show ?thesis using N unfolding leaves(1) steps_left_def
      by (intro exI [of _ "sum_list (map Suc (ns1 @ ns2))"]) auto
  qed
qed

lemma proceeds_bounded: "(proceeds os K J ^^ k) S S' \<Longrightarrow> steps_left N S \<Longrightarrow> k \<le> N"
proof (induction k arbitrary: N S)
  case (Suc k)
  from Suc.prems(1) obtain S1 where "proceeds os K J S S1" and r: "(proceeds os K J ^^ k) S1 S'"
    by (meson relpowp_Suc_D2)
  with proceeds_steps_left Suc.prems(2) obtain M where "M < N" and "steps_left M S1" by blast
  with Suc.IH [OF r] show ?case by fastforce
qed simp

lemma proceeds_possible:
  assumes "sv_threads S \<noteq> []"
  shows "\<exists>S'. proceeds os K J S S'"
proof -
  obtain w p ts where t: "sv_threads S = (w, p) # ts" using assms by (metis list.exhaust surj_pair)
  show ?thesis
  proof (cases p)
    case (Ret r)
    with t leaves [of S "[]" w r ts] show ?thesis
      by (intro exI [of _ "S\<lparr>sv_threads := ts\<rparr>"]) (simp add: proceeds_def)
  next
    case (Sec s)
    obtain p' w' where "s (w\<lparr>w_conn := sv_conn S\<rparr>) = (p', w')" by fastforce
    with t Sec runs [of 0 S w s p' w'] show ?thesis
      by (intro exI [of _ "S\<lparr>sv_conn := w_conn w', sv_threads := (w', p') # ts\<rparr>"]) (simp add: proceeds_def)
  qed
qed

lemma connections_steps_left:
  "sv_threads S = map (\<lambda>(w, items). (w, connection_sections os K J (protocol_session_new CARGO_PKG_VERSION) items)) cs \<Longrightarrow>
   steps_left (\<Sum>(_, items) \<leftarrow> cs. Suc (4 * length items)) S"
  unfolding steps_left_def
  by (intro exI [of _ "map (\<lambda>(_, items). 4 * length items) cs"])
    (auto simp: list_all2_conv_all_nth within_connection split_def o_def)

end
