(* ===== verification/Keyro_Memory.thy ===== *)
theory Keyro_Memory
  imports Keyro_App
begin

text \<open>
  The implementations of the traits in the unit tests of \<open>crates/core-app/src/lib.rs\<close>: a repository
  that keeps its profiles and assignments in two vectors, an opener and a sink that record their
  calls.  They share one state.  On a repository with an active profile every operation of
  \<open>MemoryRepository\<close> is what the abstract state says, with a definite outcome; this makes it a
  reference for the real repository.
\<close>

section \<open>The test doubles\<close>

record memory =
  m_profiles :: "profile list"
  m_assignments :: "assignment list"
  m_rng :: "uuid stream"
  m_opened :: "string list"
  m_error :: "string option"
  m_events :: "core_event list"

definition memory_new :: "uuid stream \<Rightarrow> memory" where
  "memory_new g =
     \<lparr>m_profiles = [], m_assignments = [], m_rng = g, m_opened = [], m_error = None, m_events = []\<rparr>"

definition with_memory_rng :: "(uuid stream, 'e, 'a) io \<Rightarrow> (memory, 'e, 'a) io" where
  "with_memory_rng m = (\<lambda>w. case m (m_rng w) of (r, g) \<Rightarrow> (r, w\<lparr>m_rng := g\<rparr>))"

definition push_profile :: "profile \<Rightarrow> (memory, 'e, unit) io" where
  "push_profile p = (\<lambda>w. (Inr (), w\<lparr>m_profiles := m_profiles w @ [p]\<rparr>))"

definition memory_ensure_default_profile :: "(memory, app_error, profile) io" where
  "memory_ensure_default_profile = (\<lambda>w.
     case find p_is_active (m_profiles w) of
       Some profile \<Rightarrow> (Inr profile, w)
     | None \<Rightarrow>
         io_bind (io_map_err AppDomain (with_memory_rng (profile_new ''Default'' True))) (\<lambda>profile.
         io_bind (push_profile profile) (\<lambda>_.
         io_return profile)) w)"

definition memory_create_profile :: "string \<Rightarrow> (memory, app_error, profile) io" where
  "memory_create_profile name =
     io_bind (io_map_err AppDomain (with_memory_rng (profile_new name False))) (\<lambda>profile.
     io_bind (push_profile profile) (\<lambda>_.
     io_return profile))"

definition memory_list_profiles :: "(memory, app_error, profile list) io" where
  "memory_list_profiles = (\<lambda>w. (Inr (m_profiles w), w))"

text \<open>An update of the element that \<open>iter_mut().find(..)\<close> returns.\<close>

fun update_first :: "('a \<Rightarrow> bool) \<Rightarrow> 'a \<Rightarrow> 'a list \<Rightarrow> 'a list" where
  "update_first P y [] = []"
| "update_first P y (x # xs) = (if P x then y # xs else x # update_first P y xs)"

definition memory_rename_profile :: "profile_id \<Rightarrow> string \<Rightarrow> (memory, app_error, profile) io" where
  "memory_rename_profile profile_id name = (\<lambda>w.
     case find (\<lambda>p. p_id p = profile_id) (m_profiles w) of
       None \<Rightarrow> (Inl ProfileNotFound, w)
     | Some profile \<Rightarrow>
         (case profile_rename profile name of
            Inl e \<Rightarrow> (Inl (AppDomain e), w)
          | Inr profile \<Rightarrow>
              (Inr profile,
               w\<lparr>m_profiles := update_first (\<lambda>p. p_id p = profile_id) profile (m_profiles w)\<rparr>)))"

definition memory_set_active_profile :: "profile_id \<Rightarrow> (memory, app_error, unit) io" where
  "memory_set_active_profile profile_id = (\<lambda>w.
     if \<not> list_ex (\<lambda>p. p_id p = profile_id) (m_profiles w) then (Inl ProfileNotFound, w)
     else (Inr (),
       w\<lparr>m_profiles := map (\<lambda>p. p\<lparr>p_is_active := (p_id p = profile_id)\<rparr>) (m_profiles w)\<rparr>))"

definition memory_save_assignment :: "assignment \<Rightarrow> (memory, app_error, unit) io" where
  "memory_save_assignment a = (\<lambda>w.
     if \<not> list_ex (\<lambda>p. p_id p = a_profile_id a) (m_profiles w) then (Inl ProfileNotFound, w)
     else (Inr (),
       w\<lparr>m_assignments :=
           filter (\<lambda>b. \<not> (a_profile_id b = a_profile_id a \<and> a_control b = a_control a))
             (m_assignments w) @ [a]\<rparr>))"

definition memory_clear_assignment :: "profile_id \<Rightarrow> control_id \<Rightarrow> (memory, app_error, unit) io" where
  "memory_clear_assignment profile_id control = (\<lambda>w.
     if \<not> list_ex (\<lambda>p. p_id p = profile_id) (m_profiles w) then (Inl ProfileNotFound, w)
     else (Inr (),
       w\<lparr>m_assignments :=
           filter (\<lambda>b. \<not> (a_profile_id b = profile_id \<and> a_control b = control)) (m_assignments w)\<rparr>))"

definition memory_load_snapshot_state :: "(memory, app_error, snapshot_state) io" where
  "memory_load_snapshot_state = (\<lambda>w.
     (Inr \<lparr>ss_profiles = m_profiles w, ss_assignments = m_assignments w\<rparr>, w))"

definition memory_find_assignment ::
  "profile_id \<Rightarrow> control_id \<Rightarrow> (memory, app_error, assignment option) io" where
  "memory_find_assignment profile_id control = (\<lambda>w.
     (Inr (find (\<lambda>a. a_profile_id a = profile_id \<and> a_control a = control) (m_assignments w)), w))"

definition memory_repository :: "memory repository_ops" where
  "memory_repository =
     \<lparr>ensure_default_profile = memory_ensure_default_profile,
      create_profile = memory_create_profile,
      list_profiles = memory_list_profiles,
      rename_profile = memory_rename_profile,
      set_active_profile = memory_set_active_profile,
      save_assignment = memory_save_assignment,
      clear_assignment = memory_clear_assignment,
      load_snapshot_state = memory_load_snapshot_state,
      find_assignment = memory_find_assignment\<rparr>"

definition recording_opener :: "safe_url \<Rightarrow> (memory, open_url_error, unit) io" where
  "recording_opener url = (\<lambda>w.
     let w = w\<lparr>m_opened := m_opened w @ [safe_url_as_str url]\<rparr>
     in case m_error w of
          Some message \<Rightarrow> (Inl (OpenUrlError message), w)
        | None \<Rightarrow> (Inr (), w))"

definition recording_events :: "core_event \<Rightarrow> (memory, app_error, unit) io" where
  "recording_events event = (\<lambda>w. (Inr (), w\<lparr>m_events := m_events w @ [event]\<rparr>))"

text \<open>\<open>CoreService::new(repository, opener, events)\<close>.\<close>

definition memory_service :: "memory core_service" where
  "memory_service =
     \<lparr>repository = memory_repository, url_opener = recording_opener, event_sink = recording_events,
      random_v4 = with_memory_rng (\<lambda>g. (Inr (shd g), stl g))\<rparr>"

section \<open>The vectors as an abstract state\<close>

definition memory_stands :: "core_state \<Rightarrow> memory \<Rightarrow> bool" where
  "memory_stands s w \<longleftrightarrow>
     wf_state s \<and> lists_profiles s (m_profiles w) \<and> lists_assignments s (m_assignments w)"

lemma memory_new_stands:
  "memory_stands \<lparr>st_names = Map.empty, st_active = None, st_actions = Map.empty\<rparr> (memory_new g)"
  by (auto simp: memory_stands_def memory_new_def wf_state_def lists_profiles_def lists_assignments_def is_profile_def)

lemma listed_profile_exists:
  assumes l: "lists_profiles s ps"
  shows "list_ex (\<lambda>p. p_id p = pid) ps \<longleftrightarrow> st_names s pid \<noteq> None"
proof (cases "st_names s pid")
  case None
  have "p_id p \<noteq> pid" if "p \<in> set ps" for p
  proof -
    from l that have "is_profile s p" by (simp add: lists_profiles_def)
    then have "st_names s (p_id p) = Some (p_name p)" by (simp add: is_profile_def)
    with None show ?thesis by (metis option.distinct(1))
  qed
  with None show ?thesis by (auto simp: list_ex_iff)
next
  case (Some n)
  then have "is_profile s \<lparr>p_id = pid, p_name = n, p_is_active = (st_active s = Some pid)\<rparr>"
    by (simp add: is_profile_def)
  with l have "\<exists>p \<in> set ps. p_id p = pid"
    by (intro bexI [of _ "\<lparr>p_id = pid, p_name = n, p_is_active = (st_active s = Some pid)\<rparr>"])
      (auto simp: lists_profiles_def)
  with Some show ?thesis by (simp add: list_ex_iff)
qed

lemma listed_profile_find:
  assumes "lists_profiles s ps"
  shows "find (\<lambda>p. p_id p = pid) ps =
    map_option (\<lambda>n. \<lparr>p_id = pid, p_name = n, p_is_active = (st_active s = Some pid)\<rparr>) (st_names s pid)"
proof (cases "st_names s pid")
  case None
  with listed_profile_exists [OF assms, of pid] show ?thesis by (auto simp: list_ex_iff find_None_mem)
next
  case (Some n)
  with listed_profile_exists [OF assms, of pid] have "find (\<lambda>p. p_id p = pid) ps \<noteq> None"
    by (auto simp: list_ex_iff find_None_mem)
  then obtain p where p: "find (\<lambda>p. p_id p = pid) ps = Some p" by auto
  with assms have "is_profile s p" "p_id p = pid" by (auto simp: lists_profiles_def dest: find_Some_mem)
  with p Some show ?thesis by (auto simp: is_profile_def profile_eq_iff)
qed

lemma listed_active_find:
  assumes "lists_profiles s ps" and "wf_state s"
  shows "map_option p_id (find p_is_active ps) = st_active s"
proof (cases "find p_is_active ps")
  case None
  have "st_active s = None"
  proof (rule ccontr)
    assume "st_active s \<noteq> None"
    then obtain a where a: "st_active s = Some a" by auto
    with assms(2) obtain n where "st_names s a = Some n" by (auto simp: wf_state_def)
    with a have "is_profile s \<lparr>p_id = a, p_name = n, p_is_active = True\<rparr>" by (simp add: is_profile_def)
    with assms(1) None show False by (auto simp: lists_profiles_def find_None_mem)
  qed
  with None show ?thesis by simp
next
  case (Some p)
  with assms(1) show ?thesis by (auto simp: lists_profiles_def is_profile_def dest: find_Some_mem)
qed

lemma listed_assignment_find:
  assumes "lists_assignments s as"
  shows "find (\<lambda>a. a_profile_id a = pid \<and> a_control a = c) as =
    map_option (\<lambda>xs. \<lparr>a_profile_id = pid, a_control = c, a_actions = xs\<rparr>) (st_actions s (pid, c))"
proof (cases "find (\<lambda>a. a_profile_id a = pid \<and> a_control a = c) as")
  case None
  have "st_actions s (pid, c) \<noteq> Some xs" for xs
  proof
    assume "st_actions s (pid, c) = Some xs"
    with assms have "\<lparr>a_profile_id = pid, a_control = c, a_actions = xs\<rparr> \<in> set as"
      by (simp add: lists_assignments_def)
    with None show False by (auto simp: find_None_mem)
  qed
  with None show ?thesis by (cases "st_actions s (pid, c)") auto
next
  case (Some a)
  with assms show ?thesis by (auto simp: lists_assignments_def dest: find_Some_mem)
qed

section \<open>Every operation\<close>

lemma update_first_key:
  "distinct (map f xs) \<Longrightarrow> f y = k \<Longrightarrow>
   update_first (\<lambda>x. f x = k) y xs = map (\<lambda>x. if f x = k then y else x) xs"
proof (induction xs)
  case (Cons x xs)
  show ?case
  proof (cases "f x = k")
    case True
    have "map (\<lambda>x. if f x = k then y else x) xs = xs"
      using Cons.prems(1) True by (intro map_idI) (auto simp: image_iff)
    with True show ?thesis by simp
  qed (use Cons in simp)
qed simp

lemma memory_create:
  assumes w: "memory_stands s w" and new: "st_names s (ProfileId (shd (m_rng w))) = None" and n: "trim name \<noteq> []"
  shows "memory_create_profile name w =
      (Inr \<lparr>p_id = ProfileId (shd (m_rng w)), p_name = name, p_is_active = False\<rparr>, snd (memory_create_profile name w))"
    and "memory_stands (spec_create (ProfileId (shd (m_rng w))) name s) (snd (memory_create_profile name w))"
    and "m_rng (snd (memory_create_profile name w)) = stl (m_rng w)"
proof -
  let ?pid = "ProfileId (shd (m_rng w))"
  have run: "memory_create_profile name w = (Inr \<lparr>p_id = ?pid, p_name = name, p_is_active = False\<rparr>,
      w\<lparr>m_rng := stl (m_rng w), m_profiles := m_profiles w @ [\<lparr>p_id = ?pid, p_name = name, p_is_active = False\<rparr>]\<rparr>)"
    using n by (simp add: memory_create_profile_def io_bind_def io_map_err_def with_memory_rng_def profile_new_apply push_profile_def)
  then show "memory_create_profile name w = (Inr \<lparr>p_id = ?pid, p_name = name, p_is_active = False\<rparr>,
      snd (memory_create_profile name w))" "m_rng (snd (memory_create_profile name w)) = stl (m_rng w)" by simp_all
  have act: "st_active s \<noteq> Some ?pid" using w new by (auto simp: memory_stands_def wf_state_def)
  have "{p. is_profile (spec_create ?pid name s) p} =
      insert \<lparr>p_id = ?pid, p_name = name, p_is_active = False\<rparr> {p. is_profile s p}"
    using new act by (auto simp: is_profile_def spec_create_def profile_eq_iff)
  moreover have "?pid \<notin> p_id ` {p. is_profile s p}" using new by (auto simp: is_profile_def)
  ultimately show "memory_stands (spec_create ?pid name s) (snd (memory_create_profile name w))"
    using w unfolding run
    by (auto simp: memory_stands_def lists_profiles_def lists_assignments_def wf_state_def spec_create_def)
qed

lemma memory_ensure_active:
  assumes w: "memory_stands s w" and a: "st_active s = Some a"
  shows "\<exists>p. memory_ensure_default_profile w = (Inr p, w) \<and> is_profile s p \<and> p_is_active p"
proof -
  have "map_option p_id (find p_is_active (m_profiles w)) = Some a"
    using listed_active_find [of s "m_profiles w"] w a by (simp add: memory_stands_def)
  then obtain p where p: "find p_is_active (m_profiles w) = Some p" by auto
  with w have "is_profile s p" "p_is_active p"
    by (auto simp: memory_stands_def lists_profiles_def dest: find_Some_mem)
  with p show ?thesis by (simp add: memory_ensure_default_profile_def)
qed

lemma memory_rename:
  assumes w: "memory_stands s w"
  shows "fst (memory_rename_profile pid name w) =
      (if st_names s pid = None then Inl ProfileNotFound
       else if trim name = [] then Inl (AppDomain EmptyProfileName)
       else Inr \<lparr>p_id = pid, p_name = name, p_is_active = (st_active s = Some pid)\<rparr>)"
    and "memory_stands
      (if st_names s pid = None \<or> trim name = [] then s else spec_create pid name s)
      (snd (memory_rename_profile pid name w))"
    and "m_rng (snd (memory_rename_profile pid name w)) = m_rng w"
proof -
  have l: "lists_profiles s (m_profiles w)" using w by (simp add: memory_stands_def)
  let ?p = "\<lparr>p_id = pid, p_name = name, p_is_active = (st_active s = Some pid)\<rparr>"
  show "fst (memory_rename_profile pid name w) =
      (if st_names s pid = None then Inl ProfileNotFound
       else if trim name = [] then Inl (AppDomain EmptyProfileName) else Inr ?p)"
    and "m_rng (snd (memory_rename_profile pid name w)) = m_rng w"
    by (auto simp: memory_rename_profile_def listed_profile_find [OF l] profile_rename_def
        validate_profile_name_def split: option.splits)
  show "memory_stands (if st_names s pid = None \<or> trim name = [] then s else spec_create pid name s)
      (snd (memory_rename_profile pid name w))"
  proof (cases "st_names s pid = None \<or> trim name = []")
    case True
    then have "snd (memory_rename_profile pid name w) = w"
      by (auto simp: memory_rename_profile_def listed_profile_find [OF l] profile_rename_def
          validate_profile_name_def split: option.splits)
    with w True show ?thesis by simp
  next
    case False
    let ?ps = "map (\<lambda>p. if p_id p = pid then ?p else p) (m_profiles w)"
    have d: "distinct (map p_id (m_profiles w))" using l by (simp add: lists_profiles_def)
    have "snd (memory_rename_profile pid name w) = w\<lparr>m_profiles := ?ps\<rparr>"
      using False by (auto simp: memory_rename_profile_def listed_profile_find [OF l] profile_rename_def
          validate_profile_name_def update_first_key [OF d])
    moreover have "map p_id ?ps = map p_id (m_profiles w)" by auto
    moreover have "set ?ps = {p. is_profile (spec_create pid name s) p}"
    proof -
      have "set (m_profiles w) = {p. is_profile s p}" using l by (simp add: lists_profiles_def)
      moreover have "\<exists>p. is_profile s p \<and> p_id p = pid"
        using False by (intro exI [of _ "\<lparr>p_id = pid, p_name = the (st_names s pid),
          p_is_active = (st_active s = Some pid)\<rparr>"]) (auto simp: is_profile_def)
      ultimately show ?thesis
        by (force simp: is_profile_def spec_create_def profile_eq_iff image_iff)
    qed
    ultimately have "lists_profiles (spec_create pid name s) ?ps"
      and "snd (memory_rename_profile pid name w) = w\<lparr>m_profiles := ?ps\<rparr>"
      unfolding lists_profiles_def using d by (simp_all only: simp_thms)
    with w False show ?thesis
      by (auto simp: memory_stands_def lists_assignments_def wf_state_def spec_create_def)
  qed
qed

lemma memory_activate:
  assumes w: "memory_stands s w"
  shows "fst (memory_set_active_profile pid w) = (if st_names s pid = None then Inl ProfileNotFound else Inr ())"
    and "memory_stands (if st_names s pid = None then s else spec_activate pid s)
      (snd (memory_set_active_profile pid w))"
    and "m_rng (snd (memory_set_active_profile pid w)) = m_rng w"
proof -
  have l: "lists_profiles s (m_profiles w)" using w by (simp add: memory_stands_def)
  show "fst (memory_set_active_profile pid w) = (if st_names s pid = None then Inl ProfileNotFound else Inr ())"
    and "m_rng (snd (memory_set_active_profile pid w)) = m_rng w"
    by (simp_all add: memory_set_active_profile_def listed_profile_exists [OF l])
  let ?ps = "map (\<lambda>p. p\<lparr>p_is_active := (p_id p = pid)\<rparr>) (m_profiles w)"
  have "map p_id ?ps = map p_id (m_profiles w)" by simp
  moreover have "set ?ps = {p. is_profile (spec_activate pid s) p}"
  proof -
    have "set (m_profiles w) = {p. is_profile s p}" using l by (simp add: lists_profiles_def)
    moreover have "p \<in> (\<lambda>p. p\<lparr>p_is_active := (p_id p = pid)\<rparr>) ` {p. is_profile s p}"
      if "is_profile (spec_activate pid s) p" for p
      using that by (intro image_eqI [of _ _ "p\<lparr>p_is_active := (st_active s = Some (p_id p))\<rparr>"])
        (auto simp: is_profile_def spec_activate_def profile_eq_iff)
    ultimately show ?thesis by (auto simp: is_profile_def spec_activate_def)
  qed
  ultimately have "lists_profiles (spec_activate pid s) ?ps"
    using l unfolding lists_profiles_def by (simp only: simp_thms)
  with w show "memory_stands (if st_names s pid = None then s else spec_activate pid s)
      (snd (memory_set_active_profile pid w))"
    by (auto simp: memory_set_active_profile_def listed_profile_exists [OF l] memory_stands_def
        lists_assignments_def wf_state_def spec_activate_def)
qed

text \<open>Saving and clearing drop the old assignment of the control.\<close>

lemma lists_assignments_clear:
  "lists_assignments s as \<Longrightarrow>
   lists_assignments (spec_clear pid c s) (filter (\<lambda>b. \<not> (a_profile_id b = pid \<and> a_control b = c)) as)"
  by (auto simp: lists_assignments_def spec_clear_def distinct_map_filter)

lemma lists_assignments_save:
  assumes "lists_assignments s as" and "a_actions a \<noteq> []"
  shows "lists_assignments (spec_save a s)
    (filter (\<lambda>b. \<not> (a_profile_id b = a_profile_id a \<and> a_control b = a_control a)) as @ [a])"
proof -
  let ?as = "filter (\<lambda>b. \<not> (a_profile_id b = a_profile_id a \<and> a_control b = a_control a)) as"
  have "lists_assignments (spec_clear (a_profile_id a) (a_control a) s) ?as"
    by (rule lists_assignments_clear [OF assms(1)])
  then have d: "distinct (map (\<lambda>a. (a_profile_id a, a_control a)) ?as)"
    and e: "set ?as = {b. st_actions (spec_clear (a_profile_id a) (a_control a) s) (a_profile_id b, a_control b) = Some (a_actions b)}"
    by (simp_all only: lists_assignments_def)
  have "set (?as @ [a]) = {b. st_actions (spec_save a s) (a_profile_id b, a_control b) = Some (a_actions b)}"
    unfolding set_append e using assms(2) by (auto simp: spec_save_def spec_clear_def assignment.equality)
  moreover have "distinct (map (\<lambda>a. (a_profile_id a, a_control a)) (?as @ [a]))"
    using d by auto
  ultimately show ?thesis by (simp only: lists_assignments_def)
qed

lemma memory_save:
  assumes w: "memory_stands s w" and a: "a_actions a \<noteq> []"
  shows "fst (memory_save_assignment a w) = (if st_names s (a_profile_id a) = None then Inl ProfileNotFound else Inr ())"
    and "memory_stands (if st_names s (a_profile_id a) = None then s else spec_save a s)
      (snd (memory_save_assignment a w))"
    and "m_rng (snd (memory_save_assignment a w)) = m_rng w"
  using w lists_assignments_save [of s "m_assignments w" a] a
  by (auto simp: memory_save_assignment_def memory_stands_def listed_profile_exists lists_profiles_def
      is_profile_def wf_state_def spec_save_def)

lemma memory_clear:
  assumes w: "memory_stands s w"
  shows "fst (memory_clear_assignment pid c w) = (if st_names s pid = None then Inl ProfileNotFound else Inr ())"
    and "memory_stands (if st_names s pid = None then s else spec_clear pid c s)
      (snd (memory_clear_assignment pid c w))"
    and "m_rng (snd (memory_clear_assignment pid c w)) = m_rng w"
  using w lists_assignments_clear [of s "m_assignments w" pid c]
  by (auto simp: memory_clear_assignment_def memory_stands_def listed_profile_exists lists_profiles_def
      is_profile_def wf_state_def spec_clear_def)

lemma memory_find:
  "memory_stands s w \<Longrightarrow> memory_find_assignment pid c w =
     (Inr (map_option (\<lambda>xs. \<lparr>a_profile_id = pid, a_control = c, a_actions = xs\<rparr>) (st_actions s (pid, c))), w)"
  by (simp add: memory_find_assignment_def memory_stands_def listed_assignment_find)

end
