(* ===== verification/Keyro_Agreement.thy ===== *)
theory Keyro_Agreement
  imports Keyro_Memory Keyro_Storage_Total
begin

text \<open>
  The SQLite repository against the reference in memory: started from states that stand for the same
  profiles and assignments, one of them active, and drawing the same random identifiers, both answer
  every sequence of calls alike, up to the order of listings, as long as the engine does not fail
  and the drawn identifiers are new.
\<close>

section \<open>Calls and their answers\<close>

datatype repository_call =
    EnsureDefaultProfile
  | CreateProfileCall string
  | ListProfilesCall
  | RenameProfileCall profile_id string
  | SetActiveProfileCall profile_id
  | SaveAssignmentCall assignment
  | ClearAssignmentCall profile_id control_id
  | LoadSnapshotState
  | FindAssignmentCall profile_id control_id

text \<open>Listings are compared without their order.\<close>

datatype repository_answer =
    AProfile profile
  | AProfiles "profile multiset"
  | ADone
  | ASnapshot "profile multiset" "assignment multiset"
  | AFound "assignment option"

fun call_repository :: "'w repository_ops \<Rightarrow> repository_call \<Rightarrow> ('w, app_error, repository_answer) io" where
  "call_repository R EnsureDefaultProfile = io_bind (ensure_default_profile R) (\<lambda>p. io_return (AProfile p))"
| "call_repository R (CreateProfileCall name) = io_bind (create_profile R name) (\<lambda>p. io_return (AProfile p))"
| "call_repository R ListProfilesCall = io_bind (list_profiles R) (\<lambda>ps. io_return (AProfiles (mset ps)))"
| "call_repository R (RenameProfileCall pid name) =
     io_bind (rename_profile R pid name) (\<lambda>p. io_return (AProfile p))"
| "call_repository R (SetActiveProfileCall pid) = io_bind (set_active_profile R pid) (\<lambda>_. io_return ADone)"
| "call_repository R (SaveAssignmentCall a) = io_bind (save_assignment R a) (\<lambda>_. io_return ADone)"
| "call_repository R (ClearAssignmentCall pid c) = io_bind (clear_assignment R pid c) (\<lambda>_. io_return ADone)"
| "call_repository R LoadSnapshotState =
     io_bind (load_snapshot_state R) (\<lambda>s. io_return (ASnapshot (mset (ss_profiles s)) (mset (ss_assignments s))))"
| "call_repository R (FindAssignmentCall pid c) = io_bind (find_assignment R pid c) (\<lambda>a. io_return (AFound a))"

fun run_calls ::
  "'w repository_ops \<Rightarrow> repository_call list \<Rightarrow> 'w \<Rightarrow> (app_error + repository_answer) list \<times> 'w" where
  "run_calls R [] w = ([], w)"
| "run_calls R (call # calls) w =
     (case call_repository R call w of
        (r, w') \<Rightarrow> (case run_calls R calls w' of (rs, w'') \<Rightarrow> (r # rs, w'')))"

text \<open>Assignments that are stored have an action, and URLs that parse.\<close>

fun wf_call :: "'u crates \<Rightarrow> repository_call \<Rightarrow> bool" where
  "wf_call C (SaveAssignmentCall a) \<longleftrightarrow> wf_assignment C a \<and> a_actions a \<noteq> []"
| "wf_call C _ \<longleftrightarrow> True"

section \<open>What the engine's calls leave alone\<close>

text \<open>No failure is to come, and the random source stands at \<open>g\<close>.\<close>

definition quiet :: "uuid stream \<Rightarrow> connection \<Rightarrow> bool" where
  "quiet g c \<longleftrightarrow> faults c = [] \<and> rng c = g"

lemma quiet_stmt: "(\<And>c. rng (snd (f c)) = rng c \<and> faults (snd (f c)) = faults c) \<Longrightarrow> keeps (quiet g) (stmt f)"
  by (auto simp: keeps_def quiet_def stmt_def)

lemma quiet_prepare: "keeps (quiet g) prepare"
  unfolding prepare_def by (rule quiet_stmt) simp

lemma quiet_query: "keeps (quiet g) (query f)"
  unfolding query_def by (rule quiet_stmt) simp

lemma quiet_execute: "keeps (quiet g) (execute f)"
  unfolding execute_def by (rule quiet_stmt) (auto split: sum.splits)

lemma quiet_insert_profile: "keeps (quiet g) (insert_profile i n a)"
  unfolding insert_profile_def by (rule quiet_stmt) (auto simp: Let_def)

lemma quiet_insert_assignment: "keeps (quiet g) (insert_assignment row)"
  unfolding insert_assignment_def by (rule quiet_stmt) auto

lemma quiet_exists: "keeps (quiet g) (profile_exists K pid)"
  unfolding profile_exists_def by (intro keeps_map_err quiet_query)

lemma quiet_reads:
  "keeps (quiet g) (sqlite_list_profiles K)" "keeps (quiet g) (list_profiles_locked K)"
  "keeps (quiet g) (sqlite_load_snapshot_state K)" "keeps (quiet g) (sqlite_find_assignment K pid c)"
proof -
  show list: "keeps (quiet g) (sqlite_list_profiles K)" and "keeps (quiet g) (sqlite_find_assignment K pid c)"
    unfolding sqlite_list_profiles_def sqlite_find_assignment_def
    by (intro keeps_map_err keeps_bind keeps_return quiet_prepare quiet_query)+
  show locked: "keeps (quiet g) (list_profiles_locked K)"
    unfolding list_profiles_locked_def by (intro keeps_map_err keeps_bind quiet_prepare quiet_query)
  show "keeps (quiet g) (sqlite_load_snapshot_state K)"
    unfolding sqlite_load_snapshot_state_def list_assignments_locked_def
    by (intro keeps_bind locked keeps_map_err keeps_return quiet_prepare quiet_query)
qed

lemma quiet_transaction:
  assumes "keeps (quiet g) body"
  shows "keeps (quiet g) (transaction err body)"
proof (rule keepsI)
  fix c r c'
  assume q: "quiet g c" and t: "transaction err body c = (r, c')"
  obtain r1 c1 where b: "body c = (r1, c1)" by fastforce
  from keepsD [OF assms q b] have q1: "quiet g c1" .
  from transaction_free [of c body r1 c1 err] b q q1 t show "quiet g c'"
    by (auto simp: quiet_def split: sum.splits)
qed

lemma quiet_writes:
  "keeps (quiet g) (sqlite_rename_profile K pid name)" "keeps (quiet g) (sqlite_set_active_profile K pid)"
  "keeps (quiet g) (sqlite_save_assignment K a)" "keeps (quiet g) (sqlite_clear_assignment K pid ctl)"
proof -
  have insert: "keeps (quiet g) (insert_actions K p c n as)" for p c n as
    by (induction as arbitrary: n)
      (simp_all add: keeps_bind keeps_map_err quiet_insert_assignment)
  show "keeps (quiet g) (sqlite_rename_profile K pid name)"
    unfolding sqlite_rename_profile_def rename_update_def update_name_def
    by (intro keeps_bind quiet_reads keeps_of_res keeps_map_err quiet_execute) auto
  show "keeps (quiet g) (sqlite_set_active_profile K pid)"
    unfolding sqlite_set_active_profile_def update_activate_def update_deactivate_def
    by (auto intro!: quiet_transaction keeps_bind quiet_exists keeps_map_err quiet_execute)
  show "keeps (quiet g) (sqlite_save_assignment K a)"
    unfolding sqlite_save_assignment_def delete_assignment_def
    by (auto intro!: quiet_transaction keeps_bind quiet_exists keeps_map_err quiet_execute insert)
  show "keeps (quiet g) (sqlite_clear_assignment K pid ctl)"
    unfolding sqlite_clear_assignment_def delete_assignment_def
    by (auto intro!: keeps_bind quiet_exists keeps_map_err quiet_execute)
qed

lemma quiet_create:
  assumes "quiet g c" and "trim name \<noteq> []"
  shows "quiet (stl g) (snd (sqlite_create_profile K name c))"
proof -
  have q: "quiet (stl g) (c\<lparr>rng := stl (rng c)\<rparr>)" using assms(1) by (simp add: quiet_def)
  obtain r c' where i: "insert_profile (profile_id_to_string (crates_of K) (ProfileId (shd (rng c)))) name 0
      (c\<lparr>rng := stl (rng c)\<rparr>) = (r, c')" by fastforce
  from keepsD [OF quiet_insert_profile q i] i assms(2) show ?thesis
    by (auto simp: sqlite_create_profile_def io_bind_def io_map_err_def with_rng_def profile_new_apply split: sum.splits)
qed

lemma blank_create: "trim name = [] \<Longrightarrow> sqlite_create_profile K name c = (Inl (AppDomain EmptyProfileName), c)"
  by (simp add: sqlite_create_profile_def io_bind_def io_map_err_def with_rng_def profile_new_apply)

text \<open>With an active profile, starting up draws nothing.\<close>

lemma ensure_active:
  assumes s: "sqlite_stands K s c" and f: "faults c = []" and a: "st_active s = Some a"
  shows "\<exists>p. sqlite_ensure_default_profile K c = (Inr p, c)"
proof -
  let ?C = "crates_of K"
  have u: "uuid_text_ok ?C" and p: "wf_profile_rows ?C (t_profiles (db c))" and v: "s = tables_view ?C (db c)"
    using s by (auto simp: sqlite_stands_iff wf_tables_def)
  from a v obtain row where row: "select_active (db c) = Some row"
    by (cases "select_active (db c)") (auto simp: tables_view_def view_active_def)
  then have "row \<in> set (t_profiles (db c))" using select_active_iff [OF p] by blast
  then obtain q where "profile_of_row ?C row = Inr q"
    using p profile_of_row_ok [OF u, of row] by (auto simp: wf_profile_rows_def)
  with row f show ?thesis
    by (simp add: sqlite_ensure_default_profile_def load_active_profile_def io_bind_def io_map_err_def)
qed

section \<open>The outcome of the real repository\<close>

text \<open>A call that fails stands for the old state, one that succeeds for the new one.\<close>

lemma stands_after:
  assumes "triple (sqlite_stands K s) m Q (sqlite_stands K s)" and "sqlite_stands K s c"
    and "\<And>a w. Q a w \<Longrightarrow> sqlite_stands K t w" and "isl (fst (m c)) \<longleftrightarrow> b"
  shows "sqlite_stands K (if b then s else t) (snd (m c))"
proof -
  obtain r c' where r: "m c = (r, c')" by fastforce
  show ?thesis
  proof (cases r)
    case (Inl e)
    with r triple_Inl [OF assms(1,2)] assms(4) show ?thesis by simp
  next
    case (Inr a)
    with r triple_Inr [OF assms(1,2)] assms(3,4) show ?thesis by simp
  qed
qed

lemma sqlite_rename_after:
  assumes s: "sqlite_stands K s c" and f: "faults c = []"
  shows "sqlite_stands K (if st_names s pid = None \<or> trim name = [] then s else spec_create pid name s)
    (snd (sqlite_rename_profile K pid name c))"
  by (rule stands_after [OF sqlite_rename_law s]) (simp_all add: rename_free [OF s f])

lemma sqlite_activate_after:
  assumes s: "sqlite_stands K s c" and f: "faults c = []" and a: "st_active s \<noteq> None"
  shows "sqlite_stands K (if st_names s pid = None then s else spec_activate pid s)
    (snd (sqlite_set_active_profile K pid c))"
  by (rule stands_after [OF sqlite_activate_law s]) (use a in \<open>simp_all add: activate_free [OF s f] del: not_None_eq\<close>)

lemma sqlite_save_after:
  assumes s: "sqlite_stands K s c" and f: "faults c = []" and a: "wf_assignment (crates_of K) a"
  shows "sqlite_stands K (if st_names s (a_profile_id a) = None then s else spec_save a s)
    (snd (sqlite_save_assignment K a c))"
  by (rule stands_after [OF sqlite_save_law [OF a] s]) (simp_all add: save_free [OF s f a])

lemma sqlite_clear_after:
  assumes s: "sqlite_stands K s c" and f: "faults c = []"
  shows "sqlite_stands K (if st_names s pid = None then s else spec_clear pid ctl s)
    (snd (sqlite_clear_assignment K pid ctl c))"
  by (rule stands_after [OF sqlite_clear_law s]) (simp_all add: clear_free [OF s f])

lemma sqlite_create_after:
  assumes s: "sqlite_stands K s c" and f: "faults c = []"
    and new: "st_names s (ProfileId (shd (rng c))) = None" and n: "trim name \<noteq> []"
  shows "sqlite_stands K (spec_create (ProfileId (shd (rng c))) name s) (snd (sqlite_create_profile K name c))"
proof -
  have "sqlite_create_profile K name c = (Inr \<lparr>p_id = ProfileId (shd (rng c)), p_name = name, p_is_active = False\<rparr>,
      snd (sqlite_create_profile K name c))"
    using create_free [OF s f new, of name] n by (simp add: prod_eq_iff)
  from triple_Inr [OF sqlite_create_law s this] show ?thesis by simp
qed

section \<open>Both together\<close>

definition alike :: "'u deps \<Rightarrow> uuid stream \<Rightarrow> core_state \<Rightarrow> connection \<Rightarrow> memory \<Rightarrow> bool" where
  "alike K g s c m \<longleftrightarrow>
     sqlite_stands K s c \<and> quiet g c \<and> memory_stands s m \<and> m_rng m = g \<and> st_active s \<noteq> None"

lemma alikeD:
  "alike K g s c m \<Longrightarrow> sqlite_stands K s c \<and> faults c = [] \<and> quiet g c \<and> memory_stands s m \<and> m_rng m = g \<and> rng c = g \<and>
   st_active s \<noteq> None"
  by (simp add: alike_def quiet_def)

text \<open>The answers agree, and the states afterwards.\<close>

definition step_alike ::
  "'u deps \<Rightarrow> uuid stream \<Rightarrow> core_state \<Rightarrow> ('e + 'a) \<times> connection \<Rightarrow> ('e + 'a) \<times> memory \<Rightarrow> bool" where
  "step_alike K g s x y \<longleftrightarrow> fst x = fst y \<and> alike K g s (snd x) (snd y)"

lemma step_alike_map: "step_alike K g s x y \<Longrightarrow> step_alike K g s (apfst (map_sum id f) x) (apfst (map_sum id f) y)"
  by (simp add: step_alike_def)

lemma bind_return_map: "io_bind m (\<lambda>a. io_return (f a)) w = apfst (map_sum id f) (m w)"
  by (auto simp: io_bind_def split: prod.splits sum.splits)

lemmas call_simps = call_repository.simps bind_return_map sqlite_repository_def memory_repository_def
  repository_ops.simps

lemma rename_alike:
  assumes "alike K g s c m"
  shows "step_alike K g (if st_names s pid = None \<or> trim name = [] then s else spec_create pid name s)
    (sqlite_rename_profile K pid name c) (memory_rename_profile pid name m)"
  using alikeD [OF assms] rename_free [of K s c pid name] memory_rename [of s m pid name]
    sqlite_rename_after [of K s c pid name] keepsD [OF quiet_writes(1) _ surjective_pairing, of g c K pid name]
  by (simp add: step_alike_def alike_def spec_create_def)

lemma activate_alike:
  assumes "alike K g s c m"
  shows "step_alike K g (if st_names s pid = None then s else spec_activate pid s)
    (sqlite_set_active_profile K pid c) (memory_set_active_profile pid m)"
  using alikeD [OF assms] activate_free [of K s c pid] memory_activate [of s m pid]
    sqlite_activate_after [of K s c pid] keepsD [OF quiet_writes(2) _ surjective_pairing, of g c K pid]
  by (simp add: step_alike_def alike_def spec_activate_def del: not_None_eq)

lemma save_alike:
  assumes "alike K g s c m" and "wf_assignment (crates_of K) a" and "a_actions a \<noteq> []"
  shows "step_alike K g (if st_names s (a_profile_id a) = None then s else spec_save a s)
    (sqlite_save_assignment K a c) (memory_save_assignment a m)"
  using alikeD [OF assms(1)] save_free [of K s c a] memory_save [of s m a] assms(2,3)
    sqlite_save_after [of K s c a] keepsD [OF quiet_writes(3) _ surjective_pairing, of g c K a]
  by (simp add: step_alike_def alike_def spec_save_def)

lemma clear_alike:
  assumes "alike K g s c m"
  shows "step_alike K g (if st_names s pid = None then s else spec_clear pid ctl s)
    (sqlite_clear_assignment K pid ctl c) (memory_clear_assignment pid ctl m)"
  using alikeD [OF assms(1)] clear_free [of K s c pid ctl] memory_clear [of s m pid ctl]
    sqlite_clear_after [of K s c pid ctl] keepsD [OF quiet_writes(4) _ surjective_pairing, of g c K pid ctl]
  by (simp add: step_alike_def alike_def spec_clear_def)

lemma create_alike:
  assumes a: "alike K g s c m" and new: "st_names s (ProfileId (shd g)) = None" and n: "trim name \<noteq> []"
  shows "step_alike K (stl g) (spec_create (ProfileId (shd g)) name s)
    (sqlite_create_profile K name c) (memory_create_profile name m)"
  using alikeD [OF a] new n create_free [of K s c name] memory_create [of s m name]
    sqlite_create_after [of K s c name] quiet_create [of g c name K]
  by (simp add: step_alike_def alike_def spec_create_def) (metis fst_conv)

lemma blank_create_alike:
  "alike K g s c m \<Longrightarrow> trim name = [] \<Longrightarrow>
   step_alike K g s (sqlite_create_profile K name c) (memory_create_profile name m)"
  by (simp add: step_alike_def blank_create memory_create_profile_def io_bind_def io_map_err_def
      with_memory_rng_def profile_new_apply)

lemma ensure_alike:
  assumes a: "alike K g s c m"
  shows "step_alike K g s (sqlite_ensure_default_profile K c) (memory_ensure_default_profile m)"
proof -
  note A = alikeD [OF a]
  obtain aid where aid: "st_active s = Some aid" using A by auto
  obtain p where p: "sqlite_ensure_default_profile K c = (Inr p, c)" using ensure_active A aid by blast
  have "is_profile (sqlite_view K c) p \<and> p_is_active p \<and> sqlite_view K c = s"
    using triple_Inr [OF sqlite_ensure_law _ p] A aid by (auto simp: stands_for_def)
  moreover obtain q where q: "memory_ensure_default_profile m = (Inr q, m)" "is_profile s q" "p_is_active q"
    using memory_ensure_active A aid by blast
  ultimately have "p = q" using aid by (auto simp: is_profile_def profile_eq_iff)
  with p q a show ?thesis by (simp add: step_alike_def)
qed

lemma reads_alike:
  assumes a: "alike K g s c m"
  shows "step_alike K g s (call_repository (sqlite_repository K) ListProfilesCall c)
      (call_repository memory_repository ListProfilesCall m)"
    and "step_alike K g s (call_repository (sqlite_repository K) LoadSnapshotState c)
      (call_repository memory_repository LoadSnapshotState m)"
    and "step_alike K g s (call_repository (sqlite_repository K) (FindAssignmentCall pid ctl) c)
      (call_repository memory_repository (FindAssignmentCall pid ctl) m)"
proof -
  note A = alikeD [OF a]
  have good: "sqlite_good K c" using A by (simp add: stands_for_def)
  have mps: "mset ps = mset qs" if "lists_profiles s ps" "lists_profiles s qs" for ps qs
    using that by (auto simp: lists_profiles_def distinct_map intro: set_eq_iff_mset_eq_distinct [THEN iffD1])
  have mas: "mset as = mset bs" if "lists_assignments s as" "lists_assignments s bs" for as bs
    using that by (auto simp: lists_assignments_def distinct_map intro: set_eq_iff_mset_eq_distinct [THEN iffD1])
  obtain ps where ps: "sqlite_list_profiles K c = (Inr ps, c)" using list_profiles_free good A by blast
  from triple_Inr [OF sqlite_list_law _ ps] A have "lists_profiles s ps" by blast
  with mps [of ps "m_profiles m"] A ps a
  show "step_alike K g s (call_repository (sqlite_repository K) ListProfilesCall c)
      (call_repository memory_repository ListProfilesCall m)"
    by (simp add: step_alike_def io_bind_def sqlite_repository_def memory_repository_def memory_list_profiles_def
        memory_stands_def)
  obtain st where st: "sqlite_load_snapshot_state K c = (Inr st, c)" using load_snapshot_free good A by blast
  from triple_Inr [OF sqlite_snapshot_law _ st] A
  have "lists_profiles s (ss_profiles st)" "lists_assignments s (ss_assignments st)" by blast+
  with mps [of "ss_profiles st" "m_profiles m"] mas [of "ss_assignments st" "m_assignments m"] A st a
  show "step_alike K g s (call_repository (sqlite_repository K) LoadSnapshotState c)
      (call_repository memory_repository LoadSnapshotState m)"
    by (simp add: step_alike_def io_bind_def sqlite_repository_def memory_repository_def memory_load_snapshot_state_def
        memory_stands_def)
  obtain r where r: "sqlite_find_assignment K pid ctl c = (Inr r, c)" using find_assignment_free good A by blast
  from triple_Inr [OF sqlite_find_law _ r] A
  have "r = map_option (\<lambda>xs. \<lparr>a_profile_id = pid, a_control = ctl, a_actions = xs\<rparr>) (st_actions s (pid, ctl))" by blast
  with A r a show "step_alike K g s (call_repository (sqlite_repository K) (FindAssignmentCall pid ctl) c)
      (call_repository memory_repository (FindAssignmentCall pid ctl) m)"
    by (simp add: step_alike_def io_bind_def sqlite_repository_def memory_repository_def memory_find [of s])
qed

text \<open>The next \<open>n\<close> identifiers are different from each other and from those in use.\<close>

definition fresh_draws :: "nat \<Rightarrow> uuid stream \<Rightarrow> core_state \<Rightarrow> bool" where
  "fresh_draws n g s \<longleftrightarrow> distinct (stake n g) \<and> (\<forall>u \<in> set (stake n g). ProfileId u \<notin> dom (st_names s))"

lemma call_alike:
  assumes a: "alike K g s c m" and wf: "wf_call (crates_of K) call" and fresh: "fresh_draws (Suc n) g s"
  shows "\<exists>g' s'. step_alike K g' s' (call_repository (sqlite_repository K) call c)
      (call_repository memory_repository call m) \<and> fresh_draws n g' s'"
proof -
  have same: "fresh_draws n g s'" if "dom (st_names s') = dom (st_names s)" for s'
  proof -
    have "stake (Suc n) g = stake n g @ [g !! n]" by (rule stake_Suc)
    with fresh that show ?thesis by (simp add: fresh_draws_def del: stake.simps)
  qed
  show ?thesis
  proof (cases call)
    case EnsureDefaultProfile
    with step_alike_map [OF ensure_alike [OF a], of AProfile] same [OF refl] show ?thesis
      unfolding EnsureDefaultProfile call_simps by blast
  next
    case (CreateProfileCall name)
    show ?thesis
    proof (cases "trim name = []")
      case True
      with step_alike_map [OF blank_create_alike [OF a], of name AProfile] same [OF refl] CreateProfileCall
      show ?thesis unfolding CreateProfileCall call_simps by blast
    next
      case False
      have new: "st_names s (ProfileId (shd g)) = None"
        using fresh by (simp add: fresh_draws_def domIff)
      have "fresh_draws n (stl g) (spec_create (ProfileId (shd g)) name s)"
        using fresh by (auto simp: fresh_draws_def spec_create_def)
      with step_alike_map [OF create_alike [OF a new False], of AProfile] CreateProfileCall
      show ?thesis unfolding CreateProfileCall call_simps by blast
    qed
  next
    case (RenameProfileCall pid name)
    have "fresh_draws n g (if st_names s pid = None \<or> trim name = [] then s else spec_create pid name s)"
      by (rule same) (auto simp: spec_create_def)
    with step_alike_map [OF rename_alike [OF a, of pid name], of AProfile] RenameProfileCall
    show ?thesis unfolding RenameProfileCall call_simps by blast
  next
    case (SetActiveProfileCall pid)
    have "fresh_draws n g (if st_names s pid = None then s else spec_activate pid s)"
      by (rule same) (auto simp: spec_activate_def)
    with step_alike_map [OF activate_alike [OF a, of pid], of "\<lambda>_. ADone"] SetActiveProfileCall
    show ?thesis unfolding SetActiveProfileCall call_simps by blast
  next
    case (SaveAssignmentCall b)
    with wf have b: "wf_assignment (crates_of K) b" "a_actions b \<noteq> []" by simp_all
    have "fresh_draws n g (if st_names s (a_profile_id b) = None then s else spec_save b s)"
      by (rule same) (auto simp: spec_save_def)
    with step_alike_map [OF save_alike [OF a b], of "\<lambda>_. ADone"] SaveAssignmentCall
    show ?thesis unfolding SaveAssignmentCall call_simps by blast
  next
    case (ClearAssignmentCall pid ctl)
    have "fresh_draws n g (if st_names s pid = None then s else spec_clear pid ctl s)"
      by (rule same) (auto simp: spec_clear_def)
    with step_alike_map [OF clear_alike [OF a, of pid ctl], of "\<lambda>_. ADone"] ClearAssignmentCall
    show ?thesis unfolding ClearAssignmentCall call_simps by blast
  qed (use reads_alike [OF a] same [OF refl] in blast)+
qed

lemma run_calls_alike:
  assumes "alike K g s c m" and "\<forall>call \<in> set calls. wf_call (crates_of K) call"
    and "fresh_draws (length calls) g s"
  shows "fst (run_calls (sqlite_repository K) calls c) = fst (run_calls memory_repository calls m) \<and>
    (\<exists>g' s'. alike K g' s' (snd (run_calls (sqlite_repository K) calls c)) (snd (run_calls memory_repository calls m)))"
  using assms
proof (induction calls arbitrary: g s c m)
  case (Cons call calls)
  obtain r c' where r: "call_repository (sqlite_repository K) call c = (r, c')" by fastforce
  obtain q m' where q: "call_repository memory_repository call m = (q, m')" by fastforce
  have "fresh_draws (Suc (length calls)) g s" "wf_call (crates_of K) call" using Cons.prems(2,3) by simp_all
  from call_alike [OF Cons.prems(1) this(2,1)] r q
  obtain g' s' where "r = q" "alike K g' s' c' m'" "fresh_draws (length calls) g' s'"
    by (auto simp: step_alike_def)
  with Cons.IH [of g' s' c' m'] Cons.prems(2) r q show ?case by (simp add: split_def)
qed auto

end
