(* ===== verification/Keyro_Lifetime.thy ===== *)
theory Keyro_Lifetime
  imports Keyro_Main Keyro_Concurrent
begin

text \<open>
  The stored data over many lives of the process.  A life starts with \<open>main\<close>, serves any number of
  connections, and ends at any moment; between lives and during them the rest of the machine does
  what it likes.  The file then holds what the connection to it had stored, since every statement
  outside a transaction and every transaction is durable when it returns.
\<close>

definition stored :: "connection \<Rightarrow> disk \<Rightarrow> disk" where
  "stored c d = d\<lparr>d_schema := (d_schema d)
     \<lparr>s_profiles := Some (t_profiles (db c)), s_assignments := Some (t_assignments (db c))\<rparr>\<rparr>"

text \<open>What the machine cannot change: the database file and what the process knows of it.\<close>

definition same_store :: "host \<Rightarrow> host \<Rightarrow> bool" where
  "same_store h h' \<longleftrightarrow> h_conn h' = h_conn h \<and> d_schema (h_disk h') = d_schema (h_disk h)"

inductive life_step ::
  "os \<Rightarrow> 'u deps \<Rightarrow> serde_json \<Rightarrow> connection command_status \<Rightarrow> host \<Rightarrow> host \<Rightarrow> bool" for os K J run where
  starts:
    "h_conn h = None \<Longrightarrow> \<forall>f. lk_owner (h_lock h) = Some f \<longrightarrow> f < lk_next (h_lock h) \<Longrightarrow>
     keyro_main os K run h = (r, h') \<Longrightarrow> life_step os K J run h h'"
| serves:
    "h_conn h = Some c \<Longrightarrow> (server_step os K J)\<^sup>*\<^sup>* \<lparr>sv_conn = c, sv_threads = []\<rparr> S \<Longrightarrow>
     life_step os K J run h (h\<lparr>h_conn := Some (sv_conn S)\<rparr>)"
| ends:
    "h_conn h = Some c \<Longrightarrow> life_step os K J run h (h\<lparr>h_conn := None, h_disk := stored c (h_disk h)\<rparr>)"
| elsewhere:
    "same_store h h' \<Longrightarrow> life_step os K J run h h'"

inductive_cases life_stepE: "life_step os K J run h h'"

text \<open>The store is well-formed, and a connection to it is good.\<close>

definition store_ok :: "'u deps \<Rightarrow> host \<Rightarrow> bool" where
  "store_ok K h \<longleftrightarrow> wf_tables (crates_of K) (host_tables h) \<and> (\<forall>c. h_conn h = Some c \<longrightarrow> sqlite_good K c)"

text \<open>What happens to the stored state: a command, or the creation of a default profile.\<close>

definition evolves :: "core_state \<Rightarrow> core_state \<Rightarrow> bool" where
  "evolves s s' \<longleftrightarrow> commanded s s' \<or> may_initialize s s'"

lemma ends_tables: "h_conn h = Some c \<Longrightarrow> host_tables (h\<lparr>h_conn := None, h_disk := stored c (h_disk h)\<rparr>) = host_tables h"
  by (simp add: host_tables_def stored_def schema_rows_def)

lemma life_step_ok:
  assumes "life_step os K J run h h'" and ok: "store_ok K h" and u: "uuid_text_ok (crates_of K)"
  shows "store_ok K h' \<and> evolves\<^sup>*\<^sup>* (host_view K h) (host_view K h')"
  using assms(1)
proof cases
  case (starts r)
  with keyro_main_data [OF starts(3,1,2) u] ok show ?thesis
    by (auto simp: store_ok_def evolves_def intro: r_into_rtranclp)
next
  case (serves c S)
  have "server_ok K \<lparr>sv_conn = c, sv_threads = []\<rparr>"
    using ok serves(2) by (simp add: server_ok_def store_ok_def)
  from server_run [OF serves(3) this] have good: "sqlite_good K (sv_conn S)"
    and c: "commanded\<^sup>*\<^sup>* (sqlite_view K c) (sqlite_view K (sv_conn S))" by (simp_all add: server_ok_def)
  have "evolves\<^sup>*\<^sup>* (sqlite_view K c) (sqlite_view K (sv_conn S))"
    by (rule rtranclp_mono [THEN predicate2D, OF _ c]) (auto simp: evolves_def)
  with good serves(1,2) show ?thesis
    by (simp add: store_ok_def host_tables_def host_view_def sqlite_view_def sqlite_good_def)
next
  case (ends c)
  with ok ends_tables [OF ends(2)] show ?thesis by (simp add: store_ok_def host_view_def)
next
  case elsewhere
  then have "host_tables h' = host_tables h" by (simp add: same_store_def host_tables_def split: option.split)
  with ok elsewhere show ?thesis by (simp add: store_ok_def host_view_def same_store_def)
qed

lemma life_ok:
  assumes "(life_step os K J run)\<^sup>*\<^sup>* h h'" and "store_ok K h" and u: "uuid_text_ok (crates_of K)"
  shows "store_ok K h' \<and> evolves\<^sup>*\<^sup>* (host_view K h) (host_view K h')"
  using assms(1,2)
proof (induction rule: rtranclp_induct)
  case (step h1 h2)
  then have "store_ok K h1" "evolves\<^sup>*\<^sup>* (host_view K h) (host_view K h1)" by auto
  with life_step_ok [OF step(2) _ u] show ?case by (auto intro: rtranclp_trans)
qed simp

lemma evolves_keeps:
  assumes "evolves s s'" and "wf_state s"
  shows "wf_state s' \<and> (st_active s \<noteq> None \<longrightarrow> st_active s' \<noteq> None) \<and> dom (st_names s) \<subseteq> dom (st_names s')"
  using assms(1) unfolding evolves_def
proof
  assume "commanded s s'"
  then have "commanded\<^sup>*\<^sup>* s s'" by blast
  from commanded_keeps [OF this assms(2)] \<open>commanded s s'\<close> assms(2) show ?thesis
    by (auto simp: commanded_def intro: command_spec_wf)
qed (use assms(2) in \<open>auto simp: may_initialize_def wf_state_def spec_defs\<close>)

lemma evolves_star_keeps:
  assumes "evolves\<^sup>*\<^sup>* s s'" and "wf_state s"
  shows "wf_state s' \<and> (st_active s \<noteq> None \<longrightarrow> st_active s' \<noteq> None) \<and> dom (st_names s) \<subseteq> dom (st_names s')"
  using assms
proof (induction rule: rtranclp_induct)
  case (step y z)
  then have y: "wf_state y \<and> (st_active s \<noteq> None \<longrightarrow> st_active y \<noteq> None) \<and> dom (st_names s) \<subseteq> dom (st_names y)" by blast
  from evolves_keeps [OF step(2)] y show ?case by blast
qed simp

text \<open>From one life to the next.\<close>

lemma next_life_view:
  assumes ok: "store_ok K h" and c: "h_conn h = Some c" and u: "uuid_text_ok (crates_of K)"
    and act: "st_active (sqlite_view K c) \<noteq> None"
    and same: "same_store (h\<lparr>h_conn := None, h_disk := stored c (h_disk h)\<rparr>) h1"
    and owner: "\<forall>f. lk_owner (h_lock h1) = Some f \<longrightarrow> f < lk_next (h_lock h1)"
    and run: "keyro_main os K run h1 = (r, h2)" and c2: "h_conn h2 = Some c2"
  shows "sqlite_stands K (sqlite_view K c) c2"
proof -
  have none: "h_conn h1 = None" using same by (simp add: same_store_def)
  have t: "host_tables h1 = db c"
    using same by (simp add: same_store_def host_tables_def stored_def schema_rows_def)
  have "wf_tables (crates_of K) (host_tables h1)" using ok c t by (simp add: store_ok_def host_tables_def)
  from keyro_main_data [OF run none owner u this] c2
  have good: "sqlite_good K c2" and may: "may_initialize (host_view K h1) (host_view K h2)" by auto
  have "host_view K h1 = sqlite_view K c" using t by (simp add: host_view_def sqlite_view_def)
  with may act have "host_view K h2 = sqlite_view K c" by (simp add: may_initialize_def)
  with good c2 show ?thesis by (simp add: stands_for_def host_view_def host_tables_def sqlite_view_def)
qed

end
