(* ===== verification/Keyro_Json.thy ===== *)
theory Keyro_Json
  imports Keyro_Protocol
begin

text \<open>
  The wire notation of the messages of \<open>crates/core-protocol/src/lib.rs\<close>: the JSON values that the
  \<open>serde\<close> attributes of the types declare.  A struct is an object with a member for each field and no
  other (\<open>deny_unknown_fields\<close>); an enum with data is an object with a tag (\<open>tag = "type"\<close>,
  \<open>"kind"\<close> or \<open>"state"\<close>), a plain enum is a string, both in snake case (\<open>rename_all\<close>).

  \<open>write_*\<close> is what a value is printed as, \<open>read_*\<close> reads this notation with the members of an
  object in any order.  The derived readers accept a few more notations (an array for a struct, a
  member \<open>null\<close> that is left out); nothing is said of those here.
\<close>

section \<open>Reading objects\<close>

text \<open>The values of an object that has exactly the given members, in the given order.\<close>

definition fields :: "string list \<Rightarrow> json_value \<Rightarrow> json_value list option" where
  "fields ks v =
     (case v of
        JObject m \<Rightarrow>
          if distinct (map fst m) \<and> set (map fst m) = set ks
          then Some (map (\<lambda>k. the (map_of m k)) ks) else None
      | _ \<Rightarrow> None)"

definition struct0 :: "'x \<Rightarrow> json_value \<Rightarrow> 'x option" where
  "struct0 f v = (case fields [] v of Some [] \<Rightarrow> Some f | _ \<Rightarrow> None)"

definition struct1 ::
  "string \<Rightarrow> (json_value \<Rightarrow> 'a option) \<Rightarrow> ('a \<Rightarrow> 'x) \<Rightarrow> json_value \<Rightarrow> 'x option" where
  "struct1 k r f v = (case fields [k] v of Some [w] \<Rightarrow> map_option f (r w) | _ \<Rightarrow> None)"

definition struct2 ::
  "string \<Rightarrow> (json_value \<Rightarrow> 'a option) \<Rightarrow> string \<Rightarrow> (json_value \<Rightarrow> 'b option) \<Rightarrow>
   ('a \<Rightarrow> 'b \<Rightarrow> 'x) \<Rightarrow> json_value \<Rightarrow> 'x option" where
  "struct2 k1 r1 k2 r2 f v =
     (case fields [k1, k2] v of
        Some [v1, v2] \<Rightarrow>
          (case (r1 v1, r2 v2) of (Some a, Some b) \<Rightarrow> Some (f a b) | _ \<Rightarrow> None)
      | _ \<Rightarrow> None)"

definition struct3 ::
  "string \<Rightarrow> (json_value \<Rightarrow> 'a option) \<Rightarrow> string \<Rightarrow> (json_value \<Rightarrow> 'b option) \<Rightarrow>
   string \<Rightarrow> (json_value \<Rightarrow> 'c option) \<Rightarrow> ('a \<Rightarrow> 'b \<Rightarrow> 'c \<Rightarrow> 'x) \<Rightarrow> json_value \<Rightarrow> 'x option" where
  "struct3 k1 r1 k2 r2 k3 r3 f v =
     (case fields [k1, k2, k3] v of
        Some [v1, v2, v3] \<Rightarrow>
          (case (r1 v1, r2 v2, r3 v3) of (Some a, Some b, Some c) \<Rightarrow> Some (f a b c) | _ \<Rightarrow> None)
      | _ \<Rightarrow> None)"

text \<open>The tag of an object, and the object without it.\<close>

definition tagged :: "string \<Rightarrow> json_value \<Rightarrow> (string \<times> json_value) option" where
  "tagged key v =
     (case v of
        JObject m \<Rightarrow>
          if distinct (map fst m) then
            (case map_of m key of
               Some (JString tag) \<Rightarrow> Some (tag, JObject (filter (\<lambda>(k, _). k \<noteq> key) m))
             | _ \<Rightarrow> None)
          else None
      | _ \<Rightarrow> None)"

definition variants ::
  "string \<Rightarrow> (string \<times> (json_value \<Rightarrow> 'x option)) list \<Rightarrow> json_value \<Rightarrow> 'x option" where
  "variants key alts v =
     (case tagged key v of
        None \<Rightarrow> None
      | Some (tag, rest) \<Rightarrow> (case map_of alts tag of None \<Rightarrow> None | Some r \<Rightarrow> r rest))"

text \<open>Numbers: only those written as digits are read as a \<open>u16\<close>.\<close>

definition nat_text :: "string \<Rightarrow> nat option" where
  "nat_text t = (if t \<noteq> [] \<and> list_all is_digit t then Some (read_nat t) else None)"

fun read_u16 :: "json_value \<Rightarrow> u16 option" where
  "read_u16 (JNumber t) =
     (case nat_text t of
        Some n \<Rightarrow> if n < 2 ^ 16 then Some (of_nat n) else None
      | None \<Rightarrow> None)"
| "read_u16 _ = None"

definition write_u16 :: "u16 \<Rightarrow> json_value" where
  "write_u16 n = JNumber (show_nat (unat n))"

text \<open>An enum without data.\<close>

definition read_name :: "(string \<times> 'x) list \<Rightarrow> json_value \<Rightarrow> 'x option" where
  "read_name names v = Option.bind (value_as_str v) (map_of names)"

section \<open>Client messages\<close>

definition read_encoder_operation_dto :: "json_value \<Rightarrow> encoder_operation_dto option" where
  "read_encoder_operation_dto =
     read_name [(''left'', LeftDto), (''right'', RightDto), (''press'', PressDto)]"

fun write_encoder_operation_dto :: "encoder_operation_dto \<Rightarrow> json_value" where
  "write_encoder_operation_dto LeftDto = JString ''left''"
| "write_encoder_operation_dto RightDto = JString ''right''"
| "write_encoder_operation_dto PressDto = JString ''press''"

definition read_control_dto :: "json_value \<Rightarrow> control_dto option" where
  "read_control_dto = variants ''kind''
     [(''key'', struct2 ''page'' read_u16 ''key'' read_u16 KeyDto),
      (''encoder'', struct3 ''page'' read_u16 ''encoder'' read_u16
         ''operation'' read_encoder_operation_dto EncoderDto)]"

fun write_control_dto :: "control_dto \<Rightarrow> json_value" where
  "write_control_dto (KeyDto page key) = JObject
     [(''kind'', JString ''key''), (''page'', write_u16 page), (''key'', write_u16 key)]"
| "write_control_dto (EncoderDto page encoder operation) = JObject
     [(''kind'', JString ''encoder''), (''page'', write_u16 page), (''encoder'', write_u16 encoder),
      (''operation'', write_encoder_operation_dto operation)]"

definition read_action_dto :: "json_value \<Rightarrow> action_dto option" where
  "read_action_dto = variants ''kind'' [(''open_url'', struct1 ''url'' value_as_str OpenUrlDto)]"

fun write_action_dto :: "action_dto \<Rightarrow> json_value" where
  "write_action_dto (OpenUrlDto url) = JObject [(''kind'', JString ''open_url''), (''url'', JString url)]"

definition read_assignment_dto :: "json_value \<Rightarrow> assignment_dto option" where
  "read_assignment_dto = struct3 ''profile_id'' value_as_str ''control'' read_control_dto
     ''action'' read_action_dto
     (\<lambda>p c a. \<lparr>ad_profile_id = p, ad_control = c, ad_action = a\<rparr>)"

definition write_assignment_dto :: "assignment_dto \<Rightarrow> json_value" where
  "write_assignment_dto a = JObject
     [(''profile_id'', JString (ad_profile_id a)), (''control'', write_control_dto (ad_control a)),
      (''action'', write_action_dto (ad_action a))]"

definition read_client_component :: "json_value \<Rightarrow> client_component option" where
  "read_client_component = read_name [(''studio'', Studio)]"

fun write_client_component :: "client_component \<Rightarrow> json_value" where
  "write_client_component Studio = JString ''studio''"

definition read_protocol_version :: "json_value \<Rightarrow> protocol_version option" where
  "read_protocol_version = struct2 ''major'' read_u16 ''minor'' read_u16
     (\<lambda>a b. \<lparr>pv_major = a, pv_minor = b\<rparr>)"

definition write_protocol_version :: "protocol_version \<Rightarrow> json_value" where
  "write_protocol_version v = JObject
     [(''major'', write_u16 (pv_major v)), (''minor'', write_u16 (pv_minor v))]"

definition read_handshake_message :: "json_value \<Rightarrow> handshake_message option" where
  "read_handshake_message = struct3 ''component'' read_client_component
     ''component_version'' value_as_str ''protocol'' read_protocol_version
     (\<lambda>c v p. \<lparr>hm_component = c, hm_component_version = v, hm_protocol = p\<rparr>)"

definition read_client_message :: "json_value \<Rightarrow> client_message option" where
  "read_client_message = variants ''type''
     [(''handshake'', \<lambda>v. map_option CmHandshake (read_handshake_message v)),
      (''get_snapshot'', struct0 (CmGetSnapshot GetSnapshotMessage)),
      (''list_profiles'', struct0 (CmListProfiles ListProfilesMessage)),
      (''create_profile'', struct1 ''name'' value_as_str (\<lambda>n. CmCreateProfile \<lparr>cp_name = n\<rparr>)),
      (''rename_profile'', struct2 ''profile_id'' value_as_str ''name'' value_as_str
         (\<lambda>p n. CmRenameProfile \<lparr>rp_profile_id = p, rp_name = n\<rparr>)),
      (''set_active_profile'', struct1 ''profile_id'' value_as_str
         (\<lambda>p. CmSetActiveProfile \<lparr>sap_profile_id = p\<rparr>)),
      (''save_assignment'', struct1 ''assignment'' read_assignment_dto
         (\<lambda>a. CmSaveAssignment \<lparr>sa_assignment = a\<rparr>)),
      (''clear_assignment'', struct2 ''profile_id'' value_as_str ''control'' read_control_dto
         (\<lambda>p c. CmClearAssignment \<lparr>ca_profile_id = p, ca_control = c\<rparr>)),
      (''virtual_control_input'', struct1 ''control'' read_control_dto
         (\<lambda>c. CmVirtualControlInput \<lparr>vci_control = c\<rparr>))]"

fun write_client_message :: "client_message \<Rightarrow> json_value" where
  "write_client_message (CmHandshake m) = JObject
     [(''type'', JString ''handshake''), (''component'', write_client_component (hm_component m)),
      (''component_version'', JString (hm_component_version m)),
      (''protocol'', write_protocol_version (hm_protocol m))]"
| "write_client_message (CmGetSnapshot _) = JObject [(''type'', JString ''get_snapshot'')]"
| "write_client_message (CmListProfiles _) = JObject [(''type'', JString ''list_profiles'')]"
| "write_client_message (CmCreateProfile m) = JObject
     [(''type'', JString ''create_profile''), (''name'', JString (cp_name m))]"
| "write_client_message (CmRenameProfile m) = JObject
     [(''type'', JString ''rename_profile''), (''profile_id'', JString (rp_profile_id m)),
      (''name'', JString (rp_name m))]"
| "write_client_message (CmSetActiveProfile m) = JObject
     [(''type'', JString ''set_active_profile''), (''profile_id'', JString (sap_profile_id m))]"
| "write_client_message (CmSaveAssignment m) = JObject
     [(''type'', JString ''save_assignment''),
      (''assignment'', write_assignment_dto (sa_assignment m))]"
| "write_client_message (CmClearAssignment m) = JObject
     [(''type'', JString ''clear_assignment''), (''profile_id'', JString (ca_profile_id m)),
      (''control'', write_control_dto (ca_control m))]"
| "write_client_message (CmVirtualControlInput m) = JObject
     [(''type'', JString ''virtual_control_input''),
      (''control'', write_control_dto (vci_control m))]"

definition read_client_envelope :: "json_value \<Rightarrow> client_envelope option" where
  "read_client_envelope = struct2 ''request_id'' value_as_str ''message'' read_client_message
     (\<lambda>r m. \<lparr>ce_request_id = r, ce_message = m\<rparr>)"

definition write_client_envelope :: "client_envelope \<Rightarrow> json_value" where
  "write_client_envelope e = JObject
     [(''request_id'', JString (ce_request_id e)), (''message'', write_client_message (ce_message e))]"

section \<open>Server messages\<close>

definition write_profile_dto :: "profile_dto \<Rightarrow> json_value" where
  "write_profile_dto p = JObject
     [(''id'', JString (pd_id p)), (''name'', JString (pd_name p)), (''is_active'', JBool (pd_is_active p))]"

definition write_device_layout_dto :: "device_layout_dto \<Rightarrow> json_value" where
  "write_device_layout_dto l = JObject
     [(''page_count'', write_u16 (dl_page_count l)), (''key_rows'', write_u16 (dl_key_rows l)),
      (''key_columns'', write_u16 (dl_key_columns l)), (''encoder_count'', write_u16 (dl_encoder_count l))]"

definition write_snapshot_assignment_dto :: "snapshot_assignment_dto \<Rightarrow> json_value" where
  "write_snapshot_assignment_dto a = JObject
     [(''profile_id'', JString (sd_profile_id a)), (''control'', write_control_dto (sd_control a)),
      (''actions'', JArray (map write_action_dto (sd_actions a)))]"

fun write_action_failure_code :: "action_failure_code \<Rightarrow> json_value" where
  "write_action_failure_code CodeOpenUrlFailed = JString ''open_url_failed''"
| "write_action_failure_code CodeNoActionAssigned = JString ''no_action_assigned''"
| "write_action_failure_code CodeValidationFailed = JString ''validation_failed''"
| "write_action_failure_code CodeInternal = JString ''internal''"

fun write_action_event_dto :: "action_event_dto \<Rightarrow> json_value" where
  "write_action_event_dto (EvRunning run pid control) = JObject
     [(''state'', JString ''running''), (''execution_id'', JString run), (''profile_id'', JString pid),
      (''control'', write_control_dto control)]"
| "write_action_event_dto (EvSucceeded run) = JObject
     [(''state'', JString ''succeeded''), (''execution_id'', JString run)]"
| "write_action_event_dto (EvFailed run code message) = JObject
     [(''state'', JString ''failed''), (''execution_id'', JString run),
      (''code'', write_action_failure_code code), (''message'', JString message)]"

fun write_error_code :: "error_code \<Rightarrow> json_value" where
  "write_error_code IncompatibleProtocol = JString ''incompatible_protocol''"
| "write_error_code UnknownMessage = JString ''unknown_message''"
| "write_error_code ValidationFailed = JString ''validation_failed''"
| "write_error_code NotFound = JString ''not_found''"
| "write_error_code Internal = JString ''internal''"

definition write_error_dto :: "error_dto \<Rightarrow> json_value" where
  "write_error_dto e = JObject
     [(''code'', write_error_code (ed_code e)), (''message'', JString (ed_message e))]"

fun write_server_message :: "server_message \<Rightarrow> json_value" where
  "write_server_message (MsgHandshakeAccepted r core_version protocol) = JObject
     [(''type'', JString ''handshake_accepted''), (''request_id'', JString r),
      (''core_version'', JString core_version), (''protocol'', write_protocol_version protocol)]"
| "write_server_message (MsgProfiles r profiles) = JObject
     [(''type'', JString ''profiles''), (''request_id'', JString r),
      (''profiles'', JArray (map write_profile_dto profiles))]"
| "write_server_message (MsgProfile r profile) = JObject
     [(''type'', JString ''profile''), (''request_id'', JString r),
      (''profile'', write_profile_dto profile)]"
| "write_server_message (MsgSnapshot r layout profiles assignments) = JObject
     [(''type'', JString ''snapshot''), (''request_id'', JString r),
      (''layout'', write_device_layout_dto layout),
      (''profiles'', JArray (map write_profile_dto profiles)),
      (''assignments'', JArray (map write_snapshot_assignment_dto assignments))]"
| "write_server_message (MsgAcknowledged r) = JObject
     [(''type'', JString ''acknowledged''), (''request_id'', JString r)]"
| "write_server_message (MsgActionEvent event) = JObject
     [(''type'', JString ''action_event''), (''event'', write_action_event_dto event)]"
| "write_server_message (MsgError r error) = JObject
     [(''type'', JString ''error''),
      (''request_id'', case r of None \<Rightarrow> JNull | Some r \<Rightarrow> JString r),
      (''error'', write_error_dto error)]"

section \<open>Facts\<close>

lemma fields_Some:
  "fields ks v = Some vs \<longleftrightarrow>
     (\<exists>m. v = JObject m \<and> distinct (map fst m) \<and> fst ` set m = set ks \<and>
        vs = map (\<lambda>k. the (map_of m k)) ks)"
  by (cases v) (auto simp: fields_def)

lemma fields_JObject:
  "distinct (map fst m) \<Longrightarrow> fst ` set m = set ks \<Longrightarrow>
   fields ks (JObject m) = Some (map (\<lambda>k. the (map_of m k)) ks)"
  by (simp add: fields_def)

lemma struct0_Some: "struct0 f v = Some x \<longleftrightarrow> fields [] v = Some [] \<and> x = f"
  by (auto simp: struct0_def split: option.splits list.splits)

lemma struct1_Some:
  "struct1 k r f v = Some x \<longleftrightarrow> (\<exists>w a. fields [k] v = Some [w] \<and> r w = Some a \<and> x = f a)"
  by (auto simp: struct1_def split: option.splits list.splits)

lemma struct2_Some:
  "struct2 k1 r1 k2 r2 f v = Some x \<longleftrightarrow>
     (\<exists>v1 v2 a b. fields [k1, k2] v = Some [v1, v2] \<and> r1 v1 = Some a \<and> r2 v2 = Some b \<and> x = f a b)"
  by (auto simp: struct2_def split: option.splits list.splits)

lemma struct3_Some:
  "struct3 k1 r1 k2 r2 k3 r3 f v = Some x \<longleftrightarrow>
     (\<exists>v1 v2 v3 a b c. fields [k1, k2, k3] v = Some [v1, v2, v3] \<and>
        r1 v1 = Some a \<and> r2 v2 = Some b \<and> r3 v3 = Some c \<and> x = f a b c)"
  by (auto simp: struct3_def split: option.splits list.splits)

lemmas struct_Some = struct0_Some struct1_Some struct2_Some struct3_Some

lemma variants_Some:
  "variants key alts v = Some x \<longleftrightarrow>
     (\<exists>tag rest r. tagged key v = Some (tag, rest) \<and> map_of alts tag = Some r \<and> r rest = Some x)"
  by (auto simp: variants_def split: option.splits)

lemma tagged_JObject:
  "distinct (map fst m) \<Longrightarrow> key \<notin> set (map fst m) \<Longrightarrow>
   tagged key (JObject ((key, JString tag) # m)) = Some (tag, JObject m)"
  by (auto simp: tagged_def image_iff intro!: filter_True)

lemma nat_text_show_nat [simp]: "nat_text (show_nat n) = Some n"
  using read_show_nat [of n] by (simp add: nat_text_def)

lemma read_write_u16 [simp]: "read_u16 (write_u16 n) = Some n"
  using unsigned_less [of n] by (simp add: write_u16_def)

lemma read_write_operation [simp]:
  "read_encoder_operation_dto (write_encoder_operation_dto op) = Some op"
  by (cases op) (simp_all add: read_encoder_operation_dto_def read_name_def)

lemma read_write_component [simp]: "read_client_component (write_client_component c) = Some c"
  by (cases c) (simp add: read_client_component_def read_name_def)

lemmas reading = variants_def tagged_JObject struct0_def struct1_def struct2_def struct3_def fields_JObject

lemma read_write_control [simp]: "read_control_dto (write_control_dto c) = Some c"
  by (cases c) (auto simp: read_control_dto_def reading)

lemma read_write_action [simp]: "read_action_dto (write_action_dto a) = Some a"
  by (cases a) (auto simp: read_action_dto_def reading)

lemma read_write_assignment [simp]: "read_assignment_dto (write_assignment_dto a) = Some a"
  by (auto simp: read_assignment_dto_def write_assignment_dto_def reading)

lemma read_write_version [simp]: "read_protocol_version (write_protocol_version v) = Some v"
  by (auto simp: read_protocol_version_def write_protocol_version_def reading)

lemma read_write_client_message [simp]: "read_client_message (write_client_message m) = Some m"
proof (cases m)
  case (CmGetSnapshot x)
  then show ?thesis by (cases x) (auto simp: read_client_message_def reading)
next
  case (CmListProfiles x)
  then show ?thesis by (cases x) (auto simp: read_client_message_def reading)
qed (auto simp: read_client_message_def read_handshake_message_def reading)

lemma read_write_client_envelope: "read_client_envelope (write_client_envelope e) = Some e"
  by (auto simp: read_client_envelope_def write_client_envelope_def reading)

end
