(* ===== verification/Keyro_Schema.thy ===== *)
theory Keyro_Schema
  imports Keyro_Json
begin

text \<open>
  \<open>protocol/schemas/v0.3.0/core-studio.schema.json\<close>: the published description of the messages, as
  data of the type \<open>schema\<close> with the meaning \<open>validates\<close>, and its relation to the types of
  \<open>crates/core-protocol/src/lib.rs\<close>.

  \<open>schema\<close> has the forms of schema that the document uses.  Every object of the document is closed
  (\<open>additionalProperties: false\<close>).  \<open>format\<close> is an annotation and not checked; the one \<open>pattern\<close> is
  \<open>^https?://\<close>.  Integers are those written as digits.
\<close>

section \<open>Schemas\<close>

datatype schema =
    Const string
  | ConstNumber nat
  | Enum "string list"
  | TypeString nat
  | HttpUrl
  | TypeBoolean
  | TypeNull
  | TypeInteger nat "nat option"
  | TypeArray schema
  | TypeObject "string list" "(string \<times> schema) list"
  | OneOf "schema list"
  | AnyOf "schema list"

definition http_prefix :: "string \<Rightarrow> bool" where
  "http_prefix s \<longleftrightarrow> take 7 s = ''http://'' \<or> take 8 s = ''https://''"

primrec validates :: "schema \<Rightarrow> json_value \<Rightarrow> bool" where
  "validates (Const s) = (\<lambda>v. v = JString s)"
| "validates (ConstNumber n) = (\<lambda>v. case v of JNumber t \<Rightarrow> nat_text t = Some n | _ \<Rightarrow> False)"
| "validates (Enum ss) = (\<lambda>v. case v of JString s \<Rightarrow> s \<in> set ss | _ \<Rightarrow> False)"
| "validates (TypeString n) = (\<lambda>v. case v of JString s \<Rightarrow> n \<le> length s | _ \<Rightarrow> False)"
| "validates HttpUrl = (\<lambda>v. case v of JString s \<Rightarrow> http_prefix s | _ \<Rightarrow> False)"
| "validates TypeBoolean = (\<lambda>v. case v of JBool _ \<Rightarrow> True | _ \<Rightarrow> False)"
| "validates TypeNull = (\<lambda>v. v = JNull)"
| "validates (TypeInteger lo hi) = (\<lambda>v.
     case v of
       JNumber t \<Rightarrow>
         (case nat_text t of
            Some n \<Rightarrow> lo \<le> n \<and> (case hi of None \<Rightarrow> True | Some h \<Rightarrow> n \<le> h)
          | None \<Rightarrow> False)
     | _ \<Rightarrow> False)"
| "validates (TypeArray s) = (\<lambda>v. case v of JArray vs \<Rightarrow> list_all (validates s) vs | _ \<Rightarrow> False)"
| "validates (TypeObject req props) = (\<lambda>v.
     case v of
       JObject m \<Rightarrow>
         distinct (map fst m) \<and> set req \<subseteq> set (map fst m) \<and>
         list_all (\<lambda>(k, w). case map_of (map (map_prod id validates) props) k of
            None \<Rightarrow> False | Some p \<Rightarrow> p w) m
     | _ \<Rightarrow> False)"
| "validates (OneOf ss) = (\<lambda>v. length (filter (\<lambda>p. p v) (map validates ss)) = 1)"
| "validates (AnyOf ss) = (\<lambda>v. list_ex (\<lambda>p. p v) (map validates ss))"

declare validates.simps(10) [simp del]

lemmas validates_TypeObject = validates.simps(10)

section \<open>The document\<close>

definition uuid_schema :: schema where "uuid_schema = TypeString 0"

definition index_schema :: schema where "index_schema = TypeInteger 0 (Some 65535)"

definition handshakeProtocolVersion :: schema where
  "handshakeProtocolVersion = TypeObject [''major'', ''minor'']
     [(''major'', ConstNumber 0), (''minor'', ConstNumber 3)]"

definition keyControl :: schema where
  "keyControl = TypeObject [''kind'', ''page'', ''key'']
     [(''kind'', Const ''key''), (''page'', index_schema), (''key'', index_schema)]"

definition encoderControl :: schema where
  "encoderControl = TypeObject [''kind'', ''page'', ''encoder'', ''operation'']
     [(''kind'', Const ''encoder''), (''page'', index_schema), (''encoder'', index_schema),
      (''operation'', Enum [''left'', ''right'', ''press''])]"

definition control_schema :: schema where "control_schema = OneOf [keyControl, encoderControl]"

definition openUrlAction :: schema where
  "openUrlAction = TypeObject [''kind'', ''url''] [(''kind'', Const ''open_url''), (''url'', HttpUrl)]"

definition action_schema :: schema where "action_schema = OneOf [openUrlAction]"

definition assignment_schema :: schema where
  "assignment_schema = TypeObject [''profile_id'', ''control'', ''action'']
     [(''profile_id'', uuid_schema), (''control'', control_schema), (''action'', action_schema)]"

definition handshake_schema :: schema where
  "handshake_schema = TypeObject [''type'', ''component'', ''component_version'', ''protocol'']
     [(''type'', Const ''handshake''), (''component'', Const ''studio''),
      (''component_version'', TypeString 1), (''protocol'', handshakeProtocolVersion)]"

definition getSnapshot :: schema where
  "getSnapshot = TypeObject [''type''] [(''type'', Const ''get_snapshot'')]"

definition listProfiles :: schema where
  "listProfiles = TypeObject [''type''] [(''type'', Const ''list_profiles'')]"

definition createProfile :: schema where
  "createProfile = TypeObject [''type'', ''name'']
     [(''type'', Const ''create_profile''), (''name'', TypeString 1)]"

definition renameProfile :: schema where
  "renameProfile = TypeObject [''type'', ''profile_id'', ''name'']
     [(''type'', Const ''rename_profile''), (''profile_id'', uuid_schema), (''name'', TypeString 1)]"

definition setActiveProfile :: schema where
  "setActiveProfile = TypeObject [''type'', ''profile_id'']
     [(''type'', Const ''set_active_profile''), (''profile_id'', uuid_schema)]"

definition saveAssignment :: schema where
  "saveAssignment = TypeObject [''type'', ''assignment'']
     [(''type'', Const ''save_assignment''), (''assignment'', assignment_schema)]"

definition clearAssignment :: schema where
  "clearAssignment = TypeObject [''type'', ''profile_id'', ''control'']
     [(''type'', Const ''clear_assignment''), (''profile_id'', uuid_schema), (''control'', control_schema)]"

definition virtualControlInput :: schema where
  "virtualControlInput = TypeObject [''type'', ''control'']
     [(''type'', Const ''virtual_control_input''), (''control'', control_schema)]"

definition clientMessage :: schema where
  "clientMessage = OneOf
     [handshake_schema, getSnapshot, listProfiles, createProfile, renameProfile, setActiveProfile,
      saveAssignment, clearAssignment, virtualControlInput]"

definition clientEnvelope :: schema where
  "clientEnvelope = TypeObject [''request_id'', ''message'']
     [(''request_id'', TypeString 1), (''message'', clientMessage)]"

definition snapshotAssignment :: schema where
  "snapshotAssignment = TypeObject [''profile_id'', ''control'', ''actions'']
     [(''profile_id'', uuid_schema), (''control'', control_schema), (''actions'', TypeArray action_schema)]"

definition profile_schema :: schema where
  "profile_schema = TypeObject [''id'', ''name'', ''is_active'']
     [(''id'', uuid_schema), (''name'', TypeString 1), (''is_active'', TypeBoolean)]"

definition count_schema :: schema where "count_schema = TypeInteger 1 (Some 65535)"

definition deviceLayout :: schema where
  "deviceLayout = TypeObject [''page_count'', ''key_rows'', ''key_columns'', ''encoder_count'']
     [(''page_count'', count_schema), (''key_rows'', count_schema),
      (''key_columns'', count_schema), (''encoder_count'', count_schema)]"

definition handshakeAccepted :: schema where
  "handshakeAccepted = TypeObject [''type'', ''request_id'', ''core_version'', ''protocol'']
     [(''type'', Const ''handshake_accepted''), (''request_id'', TypeString 1),
      (''core_version'', TypeString 1), (''protocol'', handshakeProtocolVersion)]"

definition profiles_schema :: schema where
  "profiles_schema = TypeObject [''type'', ''request_id'', ''profiles'']
     [(''type'', Const ''profiles''), (''request_id'', TypeString 1),
      (''profiles'', TypeArray profile_schema)]"

definition profileResponse :: schema where
  "profileResponse = TypeObject [''type'', ''request_id'', ''profile'']
     [(''type'', Const ''profile''), (''request_id'', TypeString 1), (''profile'', profile_schema)]"

definition snapshot_schema :: schema where
  "snapshot_schema =
     TypeObject [''type'', ''request_id'', ''layout'', ''profiles'', ''assignments'']
     [(''type'', Const ''snapshot''), (''request_id'', TypeString 1), (''layout'', deviceLayout),
      (''profiles'', TypeArray profile_schema), (''assignments'', TypeArray snapshotAssignment)]"

definition acknowledged :: schema where
  "acknowledged = TypeObject [''type'', ''request_id'']
     [(''type'', Const ''acknowledged''), (''request_id'', TypeString 1)]"

definition actionRunning :: schema where
  "actionRunning = TypeObject [''state'', ''execution_id'', ''profile_id'', ''control'']
     [(''state'', Const ''running''), (''execution_id'', uuid_schema), (''profile_id'', uuid_schema),
      (''control'', control_schema)]"

definition actionSucceeded :: schema where
  "actionSucceeded = TypeObject [''state'', ''execution_id'']
     [(''state'', Const ''succeeded''), (''execution_id'', uuid_schema)]"

definition actionFailed :: schema where
  "actionFailed = TypeObject [''state'', ''execution_id'', ''code'', ''message'']
     [(''state'', Const ''failed''), (''execution_id'', uuid_schema),
      (''code'', Enum [''open_url_failed'', ''no_action_assigned'', ''validation_failed'', ''internal'']),
      (''message'', TypeString 0)]"

definition actionEventPayload :: schema where
  "actionEventPayload = OneOf [actionRunning, actionSucceeded, actionFailed]"

definition actionEvent :: schema where
  "actionEvent = TypeObject [''type'', ''event'']
     [(''type'', Const ''action_event''), (''event'', actionEventPayload)]"

definition error_schema :: schema where
  "error_schema = TypeObject [''type'', ''request_id'', ''error'']
     [(''type'', Const ''error''), (''request_id'', AnyOf [TypeString 1, TypeNull]),
      (''error'', TypeObject [''code'', ''message'']
        [(''code'', Enum [''incompatible_protocol'', ''unknown_message'', ''validation_failed'',
            ''not_found'', ''internal'']),
         (''message'', TypeString 0)])]"

definition serverMessage :: schema where
  "serverMessage = OneOf
     [handshakeAccepted, profiles_schema, profileResponse, snapshot_schema, acknowledged,
      actionEvent, error_schema]"

definition core_studio :: schema where "core_studio = OneOf [clientEnvelope, serverMessage]"

section \<open>Schemas and readers\<close>

text \<open>A schema admits exactly the values that a reader reads as something with the property \<open>P\<close>.\<close>

definition corresponds :: "schema \<Rightarrow> (json_value \<Rightarrow> 'x option) \<Rightarrow> ('x \<Rightarrow> bool) \<Rightarrow> bool" where
  "corresponds s r P \<longleftrightarrow> (\<forall>v. validates s v \<longleftrightarrow> (\<exists>x. r v = Some x \<and> P x))"

named_theorems corresponding "schemas and the readers they correspond to"

lemma correspondsI: "(\<And>v. validates s v \<longleftrightarrow> (\<exists>x. r v = Some x \<and> P x)) \<Longrightarrow> corresponds s r P"
  by (simp add: corresponds_def)

lemma corresponds_iff: "corresponds s r P \<Longrightarrow> validates s v \<longleftrightarrow> (\<exists>x. r v = Some x \<and> P x)"
  by (simp add: corresponds_def)

lemma map_of_validates: "map_of (map (map_prod id validates) props) k = map_option validates (map_of props k)"
  by (induction props) auto

text \<open>A closed object whose members are all required.\<close>

lemma validates_members:
  assumes "distinct (map fst props)" and "distinct (map fst m)" and "fst ` set m = fst ` set props"
  shows "validates (TypeObject (map fst props) props) (JObject m) \<longleftrightarrow>
    (\<forall>(k, s) \<in> set props. validates s (the (map_of m k)))"
proof -
  have p: "map_of props k = Some s \<longleftrightarrow> (k, s) \<in> set props" for k s
    using assms(1) by (simp add: map_of_eq_Some_iff)
  have v: "map_of m k = Some w \<longleftrightarrow> (k, w) \<in> set m" for k w
    using assms(2) by (simp add: map_of_eq_Some_iff)
  have both: "\<exists>s. map_of props k = Some s" if "map_of m k = Some w" for k w
    using that v assms(3) by (metis domI domIff dom_map_of_conv_image_fst fst_conv image_eqI not_None_eq)
  have other: "\<exists>w. map_of m k = Some w" if "map_of props k = Some s" for k s
    using that p assms(3) by (metis domI domIff dom_map_of_conv_image_fst fst_conv image_eqI not_None_eq)
  have "(\<forall>k w. map_of m k = Some w \<longrightarrow> (\<exists>s. map_of props k = Some s \<and> validates s w)) \<longleftrightarrow>
      (\<forall>k s. map_of props k = Some s \<longrightarrow> validates s (the (map_of m k)))"
    using both other by fastforce
  moreover have "(case map_of (map (map_prod id validates) props) k of None \<Rightarrow> False | Some q \<Rightarrow> q w) \<longleftrightarrow>
      (\<exists>s. map_of props k = Some s \<and> validates s w)" for k w
    by (cases "map_of props k") (simp_all add: map_of_validates)
  then have "validates (TypeObject (map fst props) props) (JObject m) \<longleftrightarrow>
      (\<forall>k w. map_of m k = Some w \<longrightarrow> (\<exists>s. map_of props k = Some s \<and> validates s w))"
    using assms(2, 3) v by (auto simp: validates_TypeObject list_all_iff)
  ultimately show ?thesis using p by auto
qed

lemma validates_object:
  assumes "distinct (map fst props)"
  shows "validates (TypeObject (map fst props) props) v \<longleftrightarrow>
    (\<exists>vs. fields (map fst props) v = Some vs \<and> list_all2 validates (map snd props) vs)"
proof (cases "\<exists>m. v = JObject m \<and> distinct (map fst m) \<and> fst ` set m = fst ` set props")
  case True
  then obtain m where m: "v = JObject m" "distinct (map fst m)" "fst ` set m = fst ` set props" by blast
  then have "fields (map fst props) v = Some (map (\<lambda>k. the (map_of m k)) (map fst props))"
    by (simp add: fields_def)
  with validates_members [OF assms m(2, 3)] m(1) show ?thesis
    by (auto simp: list_all2_conv_all_nth all_set_conv_all_nth split_beta)
next
  case False
  have "list_all (\<lambda>(k, w). case map_of (map (map_prod id validates) props) k of
      None \<Rightarrow> False | Some p \<Rightarrow> p w) m \<Longrightarrow> fst ` set m \<subseteq> fst ` set props" for m
    by (force simp: list_all_iff map_of_validates dest: map_of_SomeD split: option.splits)
  with False show ?thesis
    by (cases v) (auto simp: fields_def validates_TypeObject)
qed

text \<open>The tag of a variant is one more member.\<close>

lemma fields_tagged:
  assumes "key \<notin> set ks"
  shows "fields (key # ks) v = Some (JString tag # vs) \<longleftrightarrow>
    (\<exists>rest. tagged key v = Some (tag, rest) \<and> fields ks rest = Some vs)"
proof (cases "\<exists>m. v = JObject m \<and> distinct (map fst m)")
  case True
  then obtain m where m: "v = JObject m" "distinct (map fst m)" by blast
  let ?m = "filter (\<lambda>(k, _). k \<noteq> key) m"
  have d: "distinct (map fst ?m)" using m(2) by (simp add: distinct_map_filter)
  have dom: "fst ` set ?m = fst ` set m - {key}" by force
  have "map_of ?m k = map_of m k" if "k \<noteq> key" for k
    using that by (induction m) auto
  then have vs: "map (\<lambda>k. the (map_of ?m k)) ks = map (\<lambda>k. the (map_of m k)) ks"
    using assms by (intro map_cong refl) metis
  have "fst ` set m = insert key (set ks) \<longleftrightarrow> key \<in> fst ` set m \<and> fst ` set m - {key} = set ks"
    using assms by blast
  moreover have "key \<in> fst ` set m \<and> the (map_of m key) = JString tag \<longleftrightarrow> map_of m key = Some (JString tag)"
    by (cases "map_of m key") (force simp: map_of_eq_None_iff dest: map_of_SomeD)+
  moreover have "fields (key # ks) v = Some (JString tag # vs) \<longleftrightarrow>
      fst ` set m = insert key (set ks) \<and> the (map_of m key) = JString tag \<and>
      map (\<lambda>k. the (map_of m k)) ks = vs"
    using m by (simp add: fields_def)
  moreover have "tagged key v = Some (tag, rest) \<longleftrightarrow> map_of m key = Some (JString tag) \<and> rest = JObject ?m" for rest
    using m by (auto simp: tagged_def simp del: map_of_eq_Some_iff split: option.splits json_value.splits)
  moreover have "fields ks (JObject ?m) = Some vs \<longleftrightarrow> fst ` set m - {key} = set ks \<and> map (\<lambda>k. the (map_of m k)) ks = vs"
    using d dom vs by (simp add: fields_def del: map_eq_conv)
  ultimately show ?thesis by auto
next
  case False
  then show ?thesis by (cases v) (auto simp: fields_def tagged_def)
qed

lemma corresponds_struct0:
  assumes "P f"
  shows "corresponds (TypeObject [] []) (struct0 f) P"
  using validates_object [of "[]"] assms
  by (auto simp: corresponds_def struct0_Some list_all2_Cons1)

lemma corresponds_struct1:
  assumes "corresponds s r Q" and "\<And>a. P (f a) \<longleftrightarrow> Q a"
  shows "corresponds (TypeObject [k] [(k, s)]) (struct1 k r f) P"
proof (rule correspondsI)
  fix v
  have "validates (TypeObject [k] [(k, s)]) v \<longleftrightarrow> (\<exists>w. fields [k] v = Some [w] \<and> validates s w)"
    using validates_object [of "[(k, s)]" v] by (auto simp: list_all2_Cons1)
  then show "validates (TypeObject [k] [(k, s)]) v \<longleftrightarrow> (\<exists>x. struct1 k r f v = Some x \<and> P x)"
    by (auto simp: struct1_Some corresponds_iff [OF assms(1)] assms(2))
qed

lemma corresponds_struct2:
  assumes "corresponds s1 r1 Q1" and "corresponds s2 r2 Q2" and "k1 \<noteq> k2"
    and "\<And>a b. P (f a b) \<longleftrightarrow> Q1 a \<and> Q2 b"
  shows "corresponds (TypeObject [k1, k2] [(k1, s1), (k2, s2)]) (struct2 k1 r1 k2 r2 f) P"
proof (rule correspondsI)
  fix v
  have "validates (TypeObject [k1, k2] [(k1, s1), (k2, s2)]) v \<longleftrightarrow>
      (\<exists>v1 v2. fields [k1, k2] v = Some [v1, v2] \<and> validates s1 v1 \<and> validates s2 v2)"
    using validates_object [of "[(k1, s1), (k2, s2)]" v] assms(3) by (auto simp: list_all2_Cons1)
  then show "validates (TypeObject [k1, k2] [(k1, s1), (k2, s2)]) v \<longleftrightarrow>
      (\<exists>x. struct2 k1 r1 k2 r2 f v = Some x \<and> P x)"
    by (auto simp: struct2_Some corresponds_iff [OF assms(1)] corresponds_iff [OF assms(2)] assms(4))
qed

lemma corresponds_struct3:
  assumes "corresponds s1 r1 Q1" and "corresponds s2 r2 Q2" and "corresponds s3 r3 Q3"
    and "distinct [k1, k2, k3]" and "\<And>a b c. P (f a b c) \<longleftrightarrow> Q1 a \<and> Q2 b \<and> Q3 c"
  shows "corresponds (TypeObject [k1, k2, k3] [(k1, s1), (k2, s2), (k3, s3)])
    (struct3 k1 r1 k2 r2 k3 r3 f) P"
proof (rule correspondsI)
  fix v
  have "validates (TypeObject [k1, k2, k3] [(k1, s1), (k2, s2), (k3, s3)]) v \<longleftrightarrow>
      (\<exists>v1 v2 v3. fields [k1, k2, k3] v = Some [v1, v2, v3] \<and>
         validates s1 v1 \<and> validates s2 v2 \<and> validates s3 v3)"
    using validates_object [of "[(k1, s1), (k2, s2), (k3, s3)]" v] assms(4)
    by (auto simp: list_all2_Cons1)
  then show "validates (TypeObject [k1, k2, k3] [(k1, s1), (k2, s2), (k3, s3)]) v \<longleftrightarrow>
      (\<exists>x. struct3 k1 r1 k2 r2 k3 r3 f v = Some x \<and> P x)"
    by (auto simp: struct3_Some corresponds_iff [OF assms(1)] corresponds_iff [OF assms(2)]
        corresponds_iff [OF assms(3)] assms(5))
qed

text \<open>A tagged enum: each variant is an object whose tag is a constant of its own.\<close>

lemma validates_tagged:
  assumes "key \<notin> set (map fst props)" and "distinct (map fst props)"
  shows "validates (TypeObject (key # map fst props) ((key, Const tag) # props)) v \<longleftrightarrow>
    (\<exists>rest. tagged key v = Some (tag, rest) \<and> validates (TypeObject (map fst props) props) rest)"
proof -
  have "validates (TypeObject (key # map fst props) ((key, Const tag) # props)) v \<longleftrightarrow>
      (\<exists>vs. fields (key # map fst props) v = Some (JString tag # vs) \<and>
         list_all2 validates (map snd props) vs)"
    using validates_object [of "(key, Const tag) # props" v] assms
    by (auto simp: list_all2_Cons1)
  then show ?thesis
    using fields_tagged [OF assms(1)] validates_object [OF assms(2)] by auto
qed

definition variant :: "string \<Rightarrow> string \<times> (string \<times> schema) list \<Rightarrow> schema" where
  "variant key alt = (case alt of (tag, props) \<Rightarrow>
     TypeObject (key # map fst props) ((key, Const tag) # props))"

lemma corresponds_variants:
  assumes "list_all2 (\<lambda>(tag, props) (tag', r). tag' = tag \<and> key \<notin> set (map fst props) \<and>
      distinct (map fst props) \<and> corresponds (TypeObject (map fst props) props) r P) alts rs"
    and "distinct (map fst alts)"
  shows "corresponds (OneOf (map (variant key) alts)) (variants key rs) P"
proof (rule correspondsI)
  fix v
  have keys: "map fst rs = map fst alts"
    using assms(1) by (induction rule: list_all2_induct) auto
  have alt: "validates (variant key (tag, props)) v \<longleftrightarrow>
      (\<exists>rest r. tagged key v = Some (tag, rest) \<and> map_of rs tag = Some r \<and> (\<exists>x. r rest = Some x \<and> P x))"
    if a: "(tag, props) \<in> set alts" for tag props
  proof -
    from a obtain i where i: "i < length alts" "alts ! i = (tag, props)" by (auto simp: in_set_conv_nth)
    obtain tag' r where r: "rs ! i = (tag', r)" by (cases "rs ! i")
    have "(tag', r) \<in> set rs" using i(1) r list_all2_lengthD [OF assms(1)] by (metis nth_mem)
    with list_all2_nthD [OF assms(1) i(1)] i(2) r have "(tag, r) \<in> set rs" "key \<notin> set (map fst props)"
      "distinct (map fst props)" and c: "corresponds (TypeObject (map fst props) props) r P"
      by simp_all
    moreover from this have "map_of rs tag = Some r"
      using assms(2) keys by (simp add: map_of_eq_Some_iff)
    ultimately show ?thesis
      by (simp add: variant_def validates_tagged corresponds_iff [OF c])
  qed
  let ?ok = "\<lambda>a. validates (variant key a) v"
  have one: "length (filter ?ok alts) \<le> 1"
  proof (cases "tagged key v")
    case None
    then have "filter ?ok alts = []" using alt by (auto simp: filter_empty_conv)
    then show ?thesis by simp
  next
    case (Some t)
    have "fst ` set (filter ?ok alts) \<subseteq> {fst t}" using alt Some by auto
    moreover have "distinct (map fst (filter ?ok alts))" using assms(2) by (simp add: distinct_map_filter)
    ultimately show ?thesis
      using card_mono [of "{fst t}" "fst ` set (filter ?ok alts)"] distinct_card [of "map fst (filter ?ok alts)"]
      by simp
  qed
  have "validates (OneOf (map (variant key) alts)) v \<longleftrightarrow> (\<exists>a \<in> set alts. ?ok a)"
    using one by (cases "filter ?ok alts") (auto simp: filter_map o_def filter_empty_conv
        dest: filter_eq_ConsD)
  also have "\<dots> \<longleftrightarrow> (\<exists>x. variants key rs v = Some x \<and> P x)"
  proof -
    have "tag \<in> fst ` set alts" if "map_of rs tag = Some r" for tag r
      using that keys by (metis list.set_map map_of_SomeD fst_conv image_eqI)
    then show ?thesis
      using alt by (fastforce simp: variants_Some)
  qed
  finally show "validates (OneOf (map (variant key) alts)) v \<longleftrightarrow> (\<exists>x. variants key rs v = Some x \<and> P x)" .
qed

end
