(* ===== verification/Keyro_Conform.thy ===== *)
theory Keyro_Conform
  imports Keyro_Schema
begin

text \<open>
  What the schema says of the Rust types: the values it admits as a client's envelope are those that
  are read as an envelope with the property \<open>conforming_envelope\<close>, and a server message is written
  as a value it admits exactly when it has the property \<open>conforming_reply\<close>.
\<close>

section \<open>Client messages\<close>

fun http_action :: "action_dto \<Rightarrow> bool" where
  "http_action (OpenUrlDto url) \<longleftrightarrow> http_prefix url"

fun conforming_message :: "client_message \<Rightarrow> bool" where
  "conforming_message (CmHandshake m) \<longleftrightarrow>
     hm_component_version m \<noteq> [] \<and> hm_protocol m = protocol_version_current"
| "conforming_message (CmCreateProfile m) \<longleftrightarrow> cp_name m \<noteq> []"
| "conforming_message (CmRenameProfile m) \<longleftrightarrow> rp_name m \<noteq> []"
| "conforming_message (CmSaveAssignment m) \<longleftrightarrow> http_action (ad_action (sa_assignment m))"
| "conforming_message _ \<longleftrightarrow> True"

definition conforming_envelope :: "client_envelope \<Rightarrow> bool" where
  "conforming_envelope e \<longleftrightarrow> ce_request_id e \<noteq> [] \<and> conforming_message (ce_message e)"

lemma corresponds_string [corresponding]:
  "corresponds (TypeString n) value_as_str (\<lambda>s. n \<le> length s)"
  "corresponds uuid_schema value_as_str (\<lambda>_. True)"
  "corresponds HttpUrl value_as_str http_prefix"
  by (auto simp: corresponds_def uuid_schema_def elim: value_as_str.elims split: json_value.split)

lemma corresponds_nonempty: "corresponds (TypeString 1) value_as_str (\<lambda>s. s \<noteq> [])"
  using corresponds_string(1) [of 1] by (simp add: Suc_le_eq)

lemma corresponds_index: "corresponds index_schema read_u16 (\<lambda>_. True)"
  by (rule correspondsI)
    (auto simp: index_schema_def split: json_value.split option.split elim!: read_u16.elims)

lemma corresponds_number:
  assumes "n < 2 ^ 16"
  shows "corresponds (ConstNumber n) read_u16 (\<lambda>x. x = of_nat n)"
proof (rule correspondsI)
  fix v
  have "(of_nat m :: u16) = of_nat n \<longleftrightarrow> m = n" if "m < 2 ^ 16" for m
    using that assms by (simp add: word_of_nat_eq_iff take_bit_nat_eq_self)
  then show "validates (ConstNumber n) v \<longleftrightarrow> (\<exists>x. read_u16 v = Some x \<and> x = of_nat n)"
    using assms by (cases v) (auto split: option.split)
qed

lemma corresponds_operation:
  "corresponds (Enum [''left'', ''right'', ''press'']) read_encoder_operation_dto (\<lambda>_. True)"
  by (rule correspondsI)
    (auto simp: read_encoder_operation_dto_def read_name_def split: json_value.split elim!: value_as_str.elims)

lemma corresponds_studio: "corresponds (Const ''studio'') read_client_component (\<lambda>_. True)"
  by (rule correspondsI)
    (auto simp: read_client_component_def read_name_def split: if_splits bind_splits elim!: value_as_str.elims)

lemma corresponds_version:
  "corresponds handshakeProtocolVersion read_protocol_version (\<lambda>v. v = protocol_version_current)"
  unfolding handshakeProtocolVersion_def read_protocol_version_def
  by (rule corresponds_struct2 [OF corresponds_number corresponds_number])
    (simp_all add: protocol_version_current_def PROTOCOL_MAJOR_def PROTOCOL_MINOR_def)

text \<open>The alternatives of a tagged enum, in the form of the general lemma.\<close>

lemmas variants_of_document =
  keyControl_def encoderControl_def openUrlAction_def handshake_schema_def getSnapshot_def
  listProfiles_def createProfile_def renameProfile_def setActiveProfile_def saveAssignment_def
  clearAssignment_def virtualControlInput_def

lemma corresponds_control: "corresponds control_schema read_control_dto (\<lambda>_. True)"
proof -
  have "corresponds (OneOf (map (variant ''kind'')
      [(''key'', [(''page'', index_schema), (''key'', index_schema)]),
       (''encoder'', [(''page'', index_schema), (''encoder'', index_schema),
          (''operation'', Enum [''left'', ''right'', ''press''])])])) read_control_dto (\<lambda>_. True)"
    unfolding read_control_dto_def
    by (rule corresponds_variants)
      (simp_all add: corresponds_struct2 [OF corresponds_index corresponds_index]
        corresponds_struct3 [OF corresponds_index corresponds_index corresponds_operation])
  then show ?thesis by (simp add: control_schema_def variants_of_document variant_def)
qed

lemma corresponds_action: "corresponds action_schema read_action_dto http_action"
proof -
  have "corresponds (OneOf (map (variant ''kind'') [(''open_url'', [(''url'', HttpUrl)])]))
      read_action_dto http_action"
    unfolding read_action_dto_def
    by (rule corresponds_variants) (simp_all add: corresponds_struct1 [OF corresponds_string(3)])
  then show ?thesis by (simp add: action_schema_def variants_of_document variant_def)
qed

lemma corresponds_assignment:
  "corresponds assignment_schema read_assignment_dto (\<lambda>a. http_action (ad_action a))"
  unfolding assignment_schema_def read_assignment_dto_def
  by (rule corresponds_struct3 [OF corresponds_string(2) corresponds_control corresponds_action])
    simp_all

lemma corresponds_handshake:
  "corresponds (TypeObject [''component'', ''component_version'', ''protocol'']
      [(''component'', Const ''studio''), (''component_version'', TypeString 1),
       (''protocol'', handshakeProtocolVersion)])
    (\<lambda>v. map_option CmHandshake (read_handshake_message v)) conforming_message"
proof -
  have "corresponds (TypeObject [''component'', ''component_version'', ''protocol'']
      [(''component'', Const ''studio''), (''component_version'', TypeString 1),
       (''protocol'', handshakeProtocolVersion)]) read_handshake_message
      (\<lambda>m. conforming_message (CmHandshake m))"
    unfolding read_handshake_message_def
    by (rule corresponds_struct3 [OF corresponds_studio corresponds_nonempty corresponds_version])
      simp_all
  then show ?thesis by (auto simp: corresponds_def)
qed

lemma corresponds_client_message: "corresponds clientMessage read_client_message conforming_message"
proof -
  have "corresponds (OneOf (map (variant ''type'')
      [(''handshake'', [(''component'', Const ''studio''), (''component_version'', TypeString 1),
          (''protocol'', handshakeProtocolVersion)]),
       (''get_snapshot'', []), (''list_profiles'', []),
       (''create_profile'', [(''name'', TypeString 1)]),
       (''rename_profile'', [(''profile_id'', uuid_schema), (''name'', TypeString 1)]),
       (''set_active_profile'', [(''profile_id'', uuid_schema)]),
       (''save_assignment'', [(''assignment'', assignment_schema)]),
       (''clear_assignment'', [(''profile_id'', uuid_schema), (''control'', control_schema)]),
       (''virtual_control_input'', [(''control'', control_schema)])]))
      read_client_message conforming_message"
    unfolding read_client_message_def
    by (rule corresponds_variants)
      (simp_all add: corresponds_handshake [simplified] corresponds_struct0
        corresponds_struct1 [OF corresponds_nonempty [simplified]]
        corresponds_struct2 [OF corresponds_string(2) corresponds_nonempty [simplified]]
        corresponds_struct1 [OF corresponds_string(2)] corresponds_struct1 [OF corresponds_assignment]
        corresponds_struct2 [OF corresponds_string(2) corresponds_control]
        corresponds_struct1 [OF corresponds_control])
  then show ?thesis by (simp add: clientMessage_def variants_of_document variant_def)
qed

lemma corresponds_client_envelope:
  "corresponds clientEnvelope read_client_envelope conforming_envelope"
  unfolding clientEnvelope_def read_client_envelope_def
  by (rule corresponds_struct2 [OF corresponds_nonempty corresponds_client_message])
    (simp_all add: conforming_envelope_def)

section \<open>Server messages\<close>

definition named :: "profile_dto \<Rightarrow> bool" where "named p \<longleftrightarrow> pd_name p \<noteq> []"

definition http_actions :: "snapshot_assignment_dto \<Rightarrow> bool" where
  "http_actions a \<longleftrightarrow> list_all http_action (sd_actions a)"

definition positive_layout :: "device_layout_dto \<Rightarrow> bool" where
  "positive_layout l \<longleftrightarrow>
     dl_page_count l \<noteq> 0 \<and> dl_key_rows l \<noteq> 0 \<and> dl_key_columns l \<noteq> 0 \<and> dl_encoder_count l \<noteq> 0"

fun conforming_reply :: "server_message \<Rightarrow> bool" where
  "conforming_reply (MsgHandshakeAccepted r version protocol) \<longleftrightarrow>
     r \<noteq> [] \<and> version \<noteq> [] \<and> protocol = protocol_version_current"
| "conforming_reply (MsgProfiles r ps) \<longleftrightarrow> r \<noteq> [] \<and> list_all named ps"
| "conforming_reply (MsgProfile r p) \<longleftrightarrow> r \<noteq> [] \<and> named p"
| "conforming_reply (MsgSnapshot r layout ps as) \<longleftrightarrow>
     r \<noteq> [] \<and> positive_layout layout \<and> list_all named ps \<and> list_all http_actions as"
| "conforming_reply (MsgAcknowledged r) \<longleftrightarrow> r \<noteq> []"
| "conforming_reply (MsgActionEvent _) \<longleftrightarrow> True"
| "conforming_reply (MsgError r _) \<longleftrightarrow> r \<noteq> Some []"

lemma validates_write_u16 [simp]:
  "validates index_schema (write_u16 n)" "validates count_schema (write_u16 n) \<longleftrightarrow> n \<noteq> 0"
proof -
  have "unat n < 65536" using unsigned_less [of n] by simp
  moreover have "0 < unat n \<longleftrightarrow> n \<noteq> 0" by (metis neq0_conv unsigned_eq_0_iff)
  ultimately show "validates index_schema (write_u16 n)" "validates count_schema (write_u16 n) \<longleftrightarrow> n \<noteq> 0"
    by (auto simp: index_schema_def count_schema_def write_u16_def Suc_le_eq)
qed

lemma validates_string [simp]:
  "validates uuid_schema (JString s)" "validates (TypeString n) (JString s) \<longleftrightarrow> n \<le> length s"
  by (simp_all add: uuid_schema_def)

lemma validates_write_control [simp]: "validates control_schema (write_control_dto c)"
  by (metis corresponds_iff [OF corresponds_control] read_write_control)

lemma validates_write_action [simp]: "validates action_schema (write_action_dto a) \<longleftrightarrow> http_action a"
  by (simp add: corresponds_iff [OF corresponds_action])

lemma validates_write_version [simp]:
  "validates handshakeProtocolVersion (write_protocol_version v) \<longleftrightarrow> v = protocol_version_current"
  by (simp add: corresponds_iff [OF corresponds_version])

lemma validates_write_profile [simp]: "validates profile_schema (write_profile_dto p) \<longleftrightarrow> named p"
  by (simp add: profile_schema_def write_profile_dto_def validates_TypeObject named_def Suc_le_eq)

lemma validates_write_layout [simp]:
  "validates deviceLayout (write_device_layout_dto l) \<longleftrightarrow> positive_layout l"
  by (simp add: deviceLayout_def write_device_layout_dto_def validates_TypeObject positive_layout_def)

lemma validates_write_snapshot_assignment [simp]:
  "validates snapshotAssignment (write_snapshot_assignment_dto a) \<longleftrightarrow> http_actions a"
  by (simp add: snapshotAssignment_def write_snapshot_assignment_dto_def validates_TypeObject
      http_actions_def list_all_iff)

lemma validates_write_event [simp]: "validates actionEventPayload (write_action_event_dto e)"
proof (cases e)
  case (EvFailed run code message)
  then show ?thesis
    by (cases code) (simp_all add: actionEventPayload_def actionRunning_def actionSucceeded_def
        actionFailed_def validates_TypeObject)
qed (simp_all add: actionEventPayload_def actionRunning_def actionSucceeded_def actionFailed_def
      validates_TypeObject)

lemma validates_write_error_code [simp]:
  "validates (Enum [''incompatible_protocol'', ''unknown_message'', ''validation_failed'',
     ''not_found'', ''internal'']) (write_error_code c)"
  by (cases c) simp_all

lemmas replies_of_document =
  handshakeAccepted_def profiles_schema_def profileResponse_def snapshot_schema_def acknowledged_def
  actionEvent_def error_schema_def

lemma server_message_conforms:
  "validates serverMessage (write_server_message m) \<longleftrightarrow> conforming_reply m"
proof (cases m)
  case (MsgError r e)
  then show ?thesis
    by (cases r) (simp_all add: serverMessage_def replies_of_document validates_TypeObject
        write_error_dto_def Suc_le_eq del: validates.simps(3))
qed (simp_all add: serverMessage_def replies_of_document validates_TypeObject list_all_iff Suc_le_eq)

end
