(* ===== verification/Keyro_Exchange.thy ===== *)
theory Keyro_Exchange
  imports Keyro_Conform Keyro_Connection
begin

text \<open>
  What Core and its client exchange, measured by the schema: a line that conforms is understood by
  the session, and as long as the client saves no other URLs than the schema allows, every line
  that Core writes is that of a message the schema admits.
\<close>

lemma trim_Nil [simp]: "trim [] = []"
  by (auto simp: trim_eq_Nil intro: exI [of _ "[]"])

section \<open>Lines that conform\<close>

text \<open>\<open>parse\<close> is the grammar of JSON, with the members of an object as they stand in the text.
  The derived reader understands the notation its attributes declare.\<close>

definition serde_reads :: "serde_json \<Rightarrow> (string \<Rightarrow> json_value option) \<Rightarrow> bool" where
  "serde_reads J parse \<longleftrightarrow>
     (\<forall>line v e. parse line = Some v \<and> read_client_envelope v = Some e \<longrightarrow>
        from_str_envelope J line = Inr e)"

lemma decode_conforming:
  assumes "serde_reads J parse" and "parse line = Some v" and "validates clientEnvelope v"
  obtains e where "read_client_envelope v = Some e" "conforming_envelope e"
    "decode_client_envelope J line =
       (if trim (ce_request_id e) = [] then Inl EmptyRequestId else Inr e)"
proof -
  obtain e where e: "read_client_envelope v = Some e" "conforming_envelope e"
    using assms(3) by (auto simp: corresponds_iff [OF corresponds_client_envelope])
  then have "from_str_envelope J line = Inr e"
    using assms(1, 2) by (auto simp: serde_reads_def)
  with e that show ?thesis by (simp add: decode_client_envelope_def)
qed

lemma command_error_validation:
  "command_from_message C m = Inl e \<Longrightarrow>
   ipc_error_message r e =
     MsgError r \<lparr>ed_code = ValidationFailed, ed_message = ipc_error_text e\<rparr>"
proof -
  have index: "u8_index f n = Inl e \<Longrightarrow> e = IndexOutOfRange f n" for f n
    by (cases "u8_of_u16 n") (auto simp: u8_index_def)
  have ctl: "control_from_dto c = Inl e \<Longrightarrow> (\<exists>f n. e = IndexOutOfRange f n) \<or> (\<exists>d. e = IpcDomain d)" for c
    by (cases c) (auto simp: res_bind_Inl map_err_Inl dest!: index)
  have act: "action_from_dto C a = Inl e \<Longrightarrow> (\<exists>d. e = IpcDomain d)" for a
    by (cases a) (auto simp: res_bind_Inl map_err_Inl)
  assume "command_from_message C m = Inl e"
  then have "e = HandshakeRequiresSession \<or> (\<exists>f n. e = IndexOutOfRange f n) \<or> (\<exists>d. e = IpcDomain d)"
    by (cases m) (auto simp: res_bind_Inl map_err_Inl assignment_from_dto_def dest!: ctl act)
  then show ?thesis by (auto simp: ipc_error_message_def)
qed

lemma command_error_code:
  "command_from_message C m = Inl e \<Longrightarrow> ipc_error_message r e = MsgError r' error \<Longrightarrow>
   ed_code error = ValidationFailed"
  by (auto dest!: command_error_validation [of C m e r])

section \<open>Stores that conform\<close>

fun http_url :: "action \<Rightarrow> bool" where
  "http_url (OpenUrl u) \<longleftrightarrow> http_prefix (safe_url_as_str u)"

text \<open>Every URL of the state starts as the schema demands, and no profile has an empty name.\<close>

definition http_store :: "core_state \<Rightarrow> bool" where
  "http_store s \<longleftrightarrow> (\<forall>k acts. st_actions s k = Some acts \<longrightarrow> list_all http_url acts)"

definition names_store :: "core_state \<Rightarrow> bool" where
  "names_store s \<longleftrightarrow> (\<forall>pid. st_names s pid \<noteq> Some [])"

lemma sqlite_names_store:
  assumes "sqlite_good K c"
  shows "names_store (sqlite_view K c)"
proof -
  have "trim (pr_name r) \<noteq> []" if "find P (t_profiles (db c)) = Some r" for P r
  proof -
    have "r \<in> set (t_profiles (db c))" using that by (auto simp: find_Some_iff)
    with assms show ?thesis by (simp add: sqlite_good_def wf_tables_def wf_profile_rows_def)
  qed
  then show ?thesis
    by (fastforce simp: names_store_def sqlite_view_def tables_view_def view_names_def)
qed

lemma sqlite_http_store:
  assumes "\<And>r u. r \<in> set (t_assignments (db c)) \<Longrightarrow> ar_action_url r = Some u \<Longrightarrow> http_prefix u"
  shows "http_store (sqlite_view K c)"
proof -
  have "http_url act" if "r \<in> set (t_assignments (db c))"
    "decode_action (crates_of K) (ar_action_kind r) (ar_action_url r) = Inr act" for r act
    using that assms by (auto simp: decode_action_def safe_url_parse_Inr split: if_splits)
  moreover have "\<exists>r \<in> set (t_assignments (db c)).
      decode_action (crates_of K) (ar_action_kind r) (ar_action_url r) = Inr act"
    if "st_actions (sqlite_view K c) (pid, ctl) = Some acts" "act \<in> set acts" for pid ctl acts act
  proof -
    let ?rows = "select_actions (profile_id_to_string (crates_of K) pid) (encode_control ctl) (db c)"
    have "collect (\<lambda>r. decode_action (crates_of K) (ar_action_kind r) (ar_action_url r)) ?rows = Inr acts"
      using that(1) by (simp add: sqlite_view_def tables_view_def view_actions_def
          split: sum.splits if_splits)
    then have all: "list_all2 (\<lambda>r act.
        decode_action (crates_of K) (ar_action_kind r) (ar_action_url r) = Inr act) ?rows acts"
      by (simp only: collect_Inr_iff)
    from that(2) obtain i where i: "i < length acts" "acts ! i = act" by (auto simp: in_set_conv_nth)
    then have "?rows ! i \<in> set ?rows" using list_all2_lengthD [OF all] by simp
    moreover from this have "?rows ! i \<in> set (t_assignments (db c))" by (simp add: select_actions_def)
    ultimately show ?thesis using list_all2_nthD2 [OF all i(1)] i(2) by (intro bexI) auto
  qed
  ultimately have "http_url act"
    if "st_actions (sqlite_view K c) k = Some acts" "act \<in> set acts" for k acts act
    using that by (metis prod.collapse)
  then show ?thesis by (simp add: http_store_def list_all_iff)
qed

text \<open>A dispatch saves only URLs that the schema allows.\<close>

fun http_dispatch :: "protocol_dispatch \<Rightarrow> bool" where
  "http_dispatch (Command _ (SaveAssignment a)) \<longleftrightarrow> list_all http_url (a_actions a)"
| "http_dispatch _ \<longleftrightarrow> True"

definition saves_http :: "serde_json \<Rightarrow> string \<Rightarrow> bool" where
  "saves_http J line \<longleftrightarrow>
     (\<forall>e m. decode_client_envelope J line = Inr e \<longrightarrow> ce_message e = CmSaveAssignment m \<longrightarrow>
        http_action (ad_action (sa_assignment m)))"

lemma conforming_saves_http:
  assumes "serde_reads J parse" and "parse line = Some v" and "validates clientEnvelope v"
  shows "saves_http J line"
  by (rule decode_conforming [OF assms])
    (auto simp: saves_http_def conforming_envelope_def split: if_splits)

lemma receive_line_http:
  assumes "receive_line J C s line = (d, s')" and "saves_http J line"
  shows "http_dispatch d"
proof (cases d)
  case (Command r cmd)
  show ?thesis
  proof (cases cmd)
    case (SaveAssignment a)
    from assms(1) obtain env where env: "decode_client_envelope J line = Inr env"
      "dispatch_envelope C s env = (d, s')"
      using Command by (cases rule: receive_line_cases) auto
    then have "command_from_message C (ce_message env) = Inr (SaveAssignment a)"
      using Command SaveAssignment by (simp add: dispatch_envelope_command)
    then obtain m act where m: "ce_message env = CmSaveAssignment m"
      and act: "action_from_dto C (ad_action (sa_assignment m)) = Inr act" "a_actions a = [act]"
      by (cases "ce_message env") (auto simp: assignment_from_dto_def)
    then have "http_url act \<longleftrightarrow> http_action (ad_action (sa_assignment m))"
      by (cases act; cases "ad_action (sa_assignment m)") (auto simp: safe_url_parse_Inr)
    with m env act assms(2) Command SaveAssignment show ?thesis by (simp add: saves_http_def)
  qed (use Command in simp_all)
qed simp

section \<open>One line\<close>

lemma conforming_errors [simp]:
  "conforming_reply (error_message r e) \<longleftrightarrow> r \<noteq> Some []"
  "conforming_reply (ipc_error_message r e') \<longleftrightarrow> r \<noteq> Some []"
  "conforming_reply (protocol_error_message r e'') \<longleftrightarrow> r \<noteq> Some []"
  by (cases e) (simp_all add: error_message_def ipc_error_message_def protocol_error_message_def)

lemma conforming_event [simp]: "conforming_reply (event_from_core C e)"
  by (cases e) simp_all

lemma receive_line_conforms:
  assumes "receive_line J C s line = (Immediate m, s')" and "core_version s \<noteq> []"
  shows "conforming_reply m"
proof -
  have "dispatch_reply_id (Immediate m) \<noteq> Some []"
    using receive_line_reply [OF assms(1)] line_request_id_not_blank [of J line "[]"] by auto
  with assms show ?thesis
    by (auto simp: handshake_response_def is_exactly_current dispatch_envelope_def Let_def
        elim!: receive_line_cases split: client_message.splits if_splits sum.splits)
qed

lemma profile_dto_named: "named (profile_to_dto C p) \<longleftrightarrow> p_name p \<noteq> []"
  by (simp add: named_def profile_to_dto_def)

lemma listed_profiles_named:
  "lists_profiles s ps \<Longrightarrow> names_store s \<Longrightarrow> list_all named (map (profile_to_dto C) ps)"
  by (auto simp: lists_profiles_def is_profile_def names_store_def list_all_iff profile_dto_named)

lemma listed_assignments_http:
  "lists_assignments s as \<Longrightarrow> http_store s \<Longrightarrow>
   list_all http_actions (map (snapshot_assignment_to_dto C \<circ> snapshot_assignment_of) as)"
proof -
  have "http_action (action_to_dto act) \<longleftrightarrow> http_url act" for act by (cases act) simp
  then show "lists_assignments s as \<Longrightarrow> http_store s \<Longrightarrow> ?thesis"
    by (fastforce simp: lists_assignments_def http_store_def list_all_iff http_actions_def
        snapshot_assignment_to_dto_def snapshot_assignment_of_def)
qed

lemma layout_positive: "positive_layout (layout_to_dto MVP_DEVICE_LAYOUT)"
  by (simp add: positive_layout_def layout_to_dto_def MVP_DEVICE_LAYOUT_def layout_defs)

lemma response_conforms:
  assumes "command_spec cmd s resp s'" and "names_store s" and "http_store s" and "r \<noteq> []"
  shows "conforming_reply (response_from_core C r resp)"
  using assms
  by (cases cmd) (auto simp: layout_positive listed_profiles_named listed_assignments_http [unfolded o_def]
      profile_dto_named o_def)

lemma command_http_store:
  assumes "command_spec cmd s resp s'" and "http_store s" and "http_dispatch (Command r cmd)"
  shows "http_store s'"
  using assms by (cases cmd) (auto simp: http_store_def spec_defs split: if_splits)

text \<open>A line whose message the schema admits.\<close>

definition admitted :: "serde_json \<Rightarrow> effect \<Rightarrow> bool" where
  "admitted J x \<longleftrightarrow> (\<forall>l. x = LineSent l \<longrightarrow>
     (\<exists>m. x = sent_line J m \<and> validates serverMessage (write_server_message m)))"

lemma admitted_launched [simp]: "admitted J (Launched p as)"
  by (simp add: admitted_def)

lemma admitted_sent [simp]: "conforming_reply m \<Longrightarrow> admitted J (sent_line J m)"
  unfolding admitted_def server_message_conforms by metis

lemma admitted_opened [simp]: "list_all (admitted J) (opened_by os url)"
  by (auto simp: opened_by_def split: option.split)

lemma command_effects_admitted:
  "command_effects s cmd (emitted_line K J) (opened_by os) r xs \<Longrightarrow> list_all (admitted J) xs"
  by (auto simp: command_effects_def route_effects_def split: core_command.splits sum.splits)

lemma served_admitted:
  assumes "served os K J d s s' es reply" and "receive_line J C session line = (d, session')"
    and "core_version session \<noteq> []" and "saves_http J line" and "names_store s" and "http_store s"
  shows "list_all (admitted J) es" and "conforming_reply reply" and "http_store s'"
proof -
  have http: "http_dispatch d" using receive_line_http [OF assms(2, 4)] .
  have id: "dispatch_reply_id d \<noteq> Some []"
    using receive_line_reply [OF assms(2)] line_request_id_not_blank [of J line "[]"] by auto
  have "list_all (admitted J) es \<and> conforming_reply reply \<and> http_store s'"
  proof (cases d)
    case (Immediate m)
    with assms receive_line_conforms show ?thesis by fastforce
  next
    case (Command r cmd)
    with assms(1, 5, 6) http id show ?thesis
      by (auto simp: response_conforms dest: command_effects_admitted command_http_store)
  qed
  then show "list_all (admitted J) es" and "conforming_reply reply" and "http_store s'" by blast+
qed

section \<open>A connection\<close>

lemma connection_loop_admitted:
  assumes "world_stands K s w" and "http_store s" and "core_version session \<noteq> []"
    and "\<And>line. Inr line \<in> set items \<Longrightarrow> saves_http J line"
    and "connection_loop K J (system_service os K J) session items w = (r, w')"
  shows "\<exists>s' xs. world_stands K s' w' \<and> http_store s' \<and> world_trace w' = world_trace w @ xs \<and>
    list_all (admitted J) xs"
  using assms
proof (induction items arbitrary: session s w)
  case Nil
  then show ?case by auto
next
  case (Cons item items)
  show ?case
  proof (cases item)
    case (Inl e)
    with Cons.prems show ?thesis by (auto simp: io_bind_def)
  next
    case (Inr line)
    obtain d session' where d: "receive_line J (crates_of K) session line = (d, session')" by fastforce
    obtain q w1 where q: "dispatch_reply K (system_service os K J) d w = (q, w1)" by fastforce
    from dispatch_reply_law [OF Cons.prems(1) d q] obtain s1 es reply
      where reply: "q = Inr reply" and s1: "world_stands K s1 w1"
        and es: "world_trace w1 = world_trace w @ es" and sv: "served os K J d s s1 es reply"
      by blast
    have "names_store s"
      using Cons.prems(1) sqlite_names_store by (auto simp: stands_for_def world_good_def world_view_def)
    moreover have "saves_http J line" using Cons.prems(4) Inr by simp
    ultimately have ok: "list_all (admitted J) es" "conforming_reply reply" "http_store s1"
      using served_admitted [OF sv d] Cons.prems(2, 3) by blast+
    have v: "core_version session' \<noteq> []" using receive_line_state(1) [OF d] Cons.prems(3) by simp
    obtain p w2 where wr: "write_protocol_message J reply w1 = (p, w2)" by fastforce
    note s2 = write_stands [OF wr s1] and tr = write_protocol_message_law(2) [OF wr]
    show ?thesis
    proof (cases p)
      case (Inl e)
      with Cons.prems(5) Inr d q reply wr have "w' = w2" by (simp add: io_bind_def)
      with s2 ok es tr Inl show ?thesis by auto
    next
      case Ok: (Inr u)
      with Cons.prems(5) Inr d q reply wr
      have rest: "connection_loop K J (system_service os K J) session' items w2 = (r, w')"
        by (simp add: io_bind_def)
      from Cons.IH [OF s2 ok(3) v _ rest] Cons.prems(4) obtain s' xs
        where "world_stands K s' w'" "http_store s'" "world_trace w' = world_trace w2 @ xs" "list_all (admitted J) xs"
        by auto
      with es tr Ok ok show ?thesis
        by (intro exI [of _ s'] exI [of _ "es @ sent_line J reply # xs"]) simp
    qed
  qed
qed

end
