(* ===== verification/Keyro_Testing.thy ===== *)
theory Keyro_Testing
  imports Keyro_Prelude
begin

text \<open>
  The vocabulary of the repository's own unit tests, so that they can be run on the model: a test is
  an effectful program whose failure is a panic.  \<open>let PATTERN = e else panic!\<close> is an \<open>expect\<close> on a
  \<open>case\<close>.
\<close>

type_synonym ('w, 'a) test = "('w, string, 'a) io"

definition expect :: "bool \<Rightarrow> ('w, unit) test" where
  "expect b = (\<lambda>w. if b then (Inr (), w) else (Inl ''assertion failed'', w))"

definition unwrap :: "('w, 'e, 'a) io \<Rightarrow> ('w, 'a) test" where
  "unwrap m = io_map_err (\<lambda>_. ''called unwrap() on an Err value'') m"

definition unwrap_err :: "('w, 'e, 'a) io \<Rightarrow> ('w, 'e) test" where
  "unwrap_err m = (\<lambda>w.
     case m w of
       (Inl e, w') \<Rightarrow> (Inr e, w')
     | (Inr _, w') \<Rightarrow> (Inl ''called unwrap_err() on an Ok value'', w'))"

definition unwrap_some :: "'a option \<Rightarrow> ('w, 'a) test" where
  "unwrap_some x = io_of_res (ok_or ''called unwrap() on a None value'' x)"

text \<open>\<open>is_ok()\<close> and \<open>is_err()\<close> of a call.\<close>

definition is_ok :: "('w, 'e, 'a) io \<Rightarrow> ('w, bool) test" where
  "is_ok m = (\<lambda>w. case m w of (r, w') \<Rightarrow> (Inr (\<not> isl r), w'))"

text \<open>A look at the state, for what the test holds a handle of.\<close>

definition observe :: "('w \<Rightarrow> 'a) \<Rightarrow> ('w, 'a) test" where
  "observe f = (\<lambda>w. (Inr (f w), w))"

definition passes :: "('w, 'a) test \<Rightarrow> 'w \<Rightarrow> bool" where
  "passes t w \<longleftrightarrow> \<not> isl (fst (t w))"

text \<open>A test is run step by step: \<open>run\<close> collects how each step computes from a given state.\<close>

named_theorems run "how tests and calls compute"

lemma passesI: "t w = (Inr a, w') \<Longrightarrow> passes t w"
  by (simp add: passes_def)

lemma io_map_err_run [run]:
  "m w = (Inr a, w') \<Longrightarrow> io_map_err g m w = (Inr a, w')"
  "m w = (Inl e, w') \<Longrightarrow> io_map_err g m w = (Inl (g e), w')"
  by (simp_all add: io_map_err_def)

lemma io_try_run [run]:
  "m w = (Inr a, w') \<Longrightarrow> io_try m f g w = f a w'"
  "m w = (Inl e, w') \<Longrightarrow> io_try m f g w = g e w'"
  by (simp_all add: io_try_def)

lemma unwrap_run [run]: "m w = (Inr a, w') \<Longrightarrow> unwrap m w = (Inr a, w')"
  by (simp add: unwrap_def io_map_err_def)

lemma unwrap_err_run [run]: "m w = (Inl e, w') \<Longrightarrow> unwrap_err m w = (Inr e, w')"
  by (simp add: unwrap_err_def)

lemma unwrap_some_run [run]: "unwrap_some (Some a) w = (Inr a, w)"
  by (simp add: unwrap_some_def)

lemma is_ok_run [run]:
  "m w = (Inr a, w') \<Longrightarrow> is_ok m w = (Inr True, w')"
  "m w = (Inl e, w') \<Longrightarrow> is_ok m w = (Inr False, w')"
  by (simp_all add: is_ok_def)

lemma expect_run [run]: "b \<Longrightarrow> expect b w = (Inr (), w)"
  by (simp add: expect_def)

lemma observe_run [run]: "observe f w = (Inr (f w), w)"
  by (simp add: observe_def)

lemmas [run] = io_bind_Inr_apply io_bind_Inl_apply

text \<open>Names of white space are blank.\<close>

lemma blank_spaces: "trim (replicate n (CHR '' '')) = []"
proof -
  have "CHR '' '' = char_of (32 :: nat)" by code_simp
  then have "[CHR '' ''] \<in> set white_space" by (simp add: white_space_def)
  then have "set (replicate n [CHR '' '']) \<subseteq> set white_space" by auto
  moreover have "concat (replicate n [CHR '' '']) = replicate n (CHR '' '')" by (induction n) auto
  ultimately show ?thesis using trim_eq_Nil by metis
qed

end
