(* ===== verification/Keyro_Ipc_Tests.thy ===== *)
theory Keyro_Ipc_Tests
  imports Keyro_App_Tests Keyro_Exchange
begin

text \<open>
  The unit tests of \<open>crates/core-protocol/src/lib.rs\<close> and \<open>crates/core-ipc/src/lib.rs\<close> that concern
  the program's own code, on the test vectors of \<open>protocol/test-vectors\<close>.  \<open>text\<close> is how a JSON value
  stands in a file; the tests pass for every \<open>serde_json\<close> that reads the notation of the types and
  every URL and UUID crate that accepts the URL and the identifier in the vectors.  Tests that only
  exercise \<open>serde_json\<close> are left out.
\<close>

section \<open>Test vectors\<close>

abbreviation vector_uuid :: string where
  "vector_uuid \<equiv> ''550e8400-e29b-41d4-a716-446655440000''"

definition envelope_value :: "string \<Rightarrow> (string \<times> json_value) list \<Rightarrow> json_value" where
  "envelope_value request_id message =
     JObject [(''request_id'', JString request_id), (''message'', JObject message)]"

definition key_00_value :: json_value where
  "key_00_value = JObject
     [(''kind'', JString ''key''), (''page'', JNumber ''0''), (''key'', JNumber ''0'')]"

definition handshake_value :: "string \<Rightarrow> string \<Rightarrow> json_value" where
  "handshake_value request_id minor = envelope_value request_id
     [(''type'', JString ''handshake''), (''component'', JString ''studio''),
      (''component_version'', JString ''0.3.0''),
      (''protocol'', JObject [(''major'', JNumber ''0''), (''minor'', JNumber minor)])]"

definition vector_handshake :: json_value where
  "vector_handshake = handshake_value ''req-handshake'' ''3''"

definition vector_virtual_control_input :: json_value where
  "vector_virtual_control_input = envelope_value ''req-virtual-key-press''
     [(''type'', JString ''virtual_control_input''), (''control'', key_00_value)]"

definition vector_save_assignment :: json_value where
  "vector_save_assignment = envelope_value ''req-save-assignment''
     [(''type'', JString ''save_assignment''),
      (''assignment'', JObject
         [(''profile_id'', JString vector_uuid),
          (''control'', JObject
             [(''kind'', JString ''encoder''), (''page'', JNumber ''0''), (''encoder'', JNumber ''1''),
              (''operation'', JString ''right'')]),
          (''action'', JObject
             [(''kind'', JString ''open_url''), (''url'', JString ''https://example.com'')])])]"

definition vector_get_snapshot :: json_value where
  "vector_get_snapshot = envelope_value ''req-snapshot'' [(''type'', JString ''get_snapshot'')]"

definition vector_create_profile :: json_value where
  "vector_create_profile = envelope_value ''req-create-profile''
     [(''type'', JString ''create_profile''), (''name'', JString ''Work'')]"

definition vector_rename_profile :: json_value where
  "vector_rename_profile = envelope_value ''req-rename-profile''
     [(''type'', JString ''rename_profile''), (''profile_id'', JString vector_uuid),
      (''name'', JString ''Deep Work'')]"

definition vector_clear_assignment :: json_value where
  "vector_clear_assignment = envelope_value ''req-clear-assignment''
     [(''type'', JString ''clear_assignment''), (''profile_id'', JString vector_uuid),
      (''control'', key_00_value)]"

text \<open>Values that the tests write themselves.\<close>

definition large_index_value :: json_value where
  "large_index_value = envelope_value ''req-large-index''
     [(''type'', JString ''virtual_control_input''),
      (''control'', JObject
         [(''kind'', JString ''key''), (''page'', JNumber ''300''), (''key'', JNumber ''0'')])]"

definition unknown_message_value :: json_value where
  "unknown_message_value = envelope_value ''req-unknown'' [(''type'', JString ''does_not_exist'')]"

definition empty_request_value :: json_value where
  "empty_request_value = envelope_value [] [(''type'', JString ''list_profiles'')]"

text \<open>What is read.\<close>

lemma digit_texts [simp]:
  "nat_text ''0'' = Some 0" "nat_text ''1'' = Some 1" "nat_text ''3'' = Some 3" "nat_text ''4'' = Some 4"
  "nat_text ''300'' = Some 300"
  by code_simp+

lemmas vector_defs =
  vector_handshake_def vector_virtual_control_input_def vector_save_assignment_def
  vector_get_snapshot_def vector_create_profile_def vector_rename_profile_def
  vector_clear_assignment_def large_index_value_def unknown_message_value_def
  empty_request_value_def handshake_value_def envelope_value_def key_00_value_def

lemma read_vectors:
  "read_client_envelope (handshake_value r m) = map_option (\<lambda>n. \<lparr>ce_request_id = r, ce_message = CmHandshake
     \<lparr>hm_component = Studio, hm_component_version = ''0.3.0'',
      hm_protocol = \<lparr>pv_major = 0, pv_minor = n\<rparr>\<rparr>\<rparr>) (read_u16 (JNumber m))"
  "read_client_envelope vector_virtual_control_input = Some \<lparr>ce_request_id = ''req-virtual-key-press'',
     ce_message = CmVirtualControlInput \<lparr>vci_control = KeyDto 0 0\<rparr>\<rparr>"
  "read_client_envelope vector_save_assignment = Some \<lparr>ce_request_id = ''req-save-assignment'',
     ce_message = CmSaveAssignment \<lparr>sa_assignment =
       \<lparr>ad_profile_id = vector_uuid, ad_control = EncoderDto 0 1 RightDto,
        ad_action = OpenUrlDto ''https://example.com''\<rparr>\<rparr>\<rparr>"
  "read_client_envelope vector_get_snapshot = Some \<lparr>ce_request_id = ''req-snapshot'',
     ce_message = CmGetSnapshot GetSnapshotMessage\<rparr>"
  "read_client_envelope vector_create_profile = Some \<lparr>ce_request_id = ''req-create-profile'',
     ce_message = CmCreateProfile \<lparr>cp_name = ''Work''\<rparr>\<rparr>"
  "read_client_envelope vector_rename_profile = Some \<lparr>ce_request_id = ''req-rename-profile'',
     ce_message = CmRenameProfile \<lparr>rp_profile_id = vector_uuid, rp_name = ''Deep Work''\<rparr>\<rparr>"
  "read_client_envelope vector_clear_assignment = Some \<lparr>ce_request_id = ''req-clear-assignment'',
     ce_message = CmClearAssignment \<lparr>ca_profile_id = vector_uuid, ca_control = KeyDto 0 0\<rparr>\<rparr>"
  "read_client_envelope large_index_value = Some \<lparr>ce_request_id = ''req-large-index'',
     ce_message = CmVirtualControlInput \<lparr>vci_control = KeyDto 300 0\<rparr>\<rparr>"
  "read_client_envelope empty_request_value = Some \<lparr>ce_request_id = [],
     ce_message = CmListProfiles ListProfilesMessage\<rparr>"
  by (auto simp: vector_defs read_client_envelope_def read_client_message_def read_handshake_message_def
      read_client_component_def read_protocol_version_def read_control_dto_def read_assignment_dto_def
      read_action_dto_def read_encoder_operation_dto_def read_name_def reading split: option.splits)

text \<open>The vectors conform to the schema; the others do not.\<close>

lemma vectors_conform:
  "list_all (validates clientEnvelope)
     [vector_handshake, vector_virtual_control_input, vector_save_assignment, vector_get_snapshot,
      vector_create_profile, vector_rename_profile, vector_clear_assignment, large_index_value]"
  "\<not> validates clientEnvelope unknown_message_value" "\<not> validates clientEnvelope empty_request_value"
  "\<not> validates clientEnvelope (handshake_value r ''4'')"
  by (simp_all add: corresponds_iff [OF corresponds_client_envelope] read_vectors conforming_envelope_def
      vector_handshake_def http_prefix_def protocol_version_current_def PROTOCOL_MAJOR_def
      PROTOCOL_MINOR_def unknown_message_value_def envelope_value_def)
    (simp add: read_client_envelope_def read_client_message_def reading)

text \<open>The JSON reader on texts of values.\<close>

definition reads_texts :: "serde_json \<Rightarrow> (json_value \<Rightarrow> string) \<Rightarrow> bool" where
  "reads_texts J text \<longleftrightarrow>
     (\<forall>v. (\<forall>e. read_client_envelope v = Some e \<longrightarrow> from_str_envelope J (text v) = Inr e))"

lemma req_not_blank: "trim (CHR ''r'' # s) \<noteq> []"
  by (rule printable_not_blank [of "CHR ''r''"]) simp_all

lemma decode_text [run]:
  assumes "reads_texts J text" and "read_client_envelope v = Some \<lparr>ce_request_id = r, ce_message = m\<rparr>"
  shows "decode_client_envelope J (text v) =
    (if trim r = [] then Inl EmptyRequestId else Inr \<lparr>ce_request_id = r, ce_message = m\<rparr>)"
  using assms by (simp add: reads_texts_def decode_client_envelope_def)

lemma io_of_res_run [run]: "io_of_res r w = (r, w)"
  by (simp add: io_of_res_def)

section \<open>core-protocol\<close>

definition decodes_virtual_control_test_vector :: "serde_json \<Rightarrow> (json_value \<Rightarrow> string) \<Rightarrow> ('w, unit) test" where
  "decodes_virtual_control_test_vector J text =
     io_bind (unwrap (io_of_res (decode_client_envelope J (text vector_virtual_control_input)))) (\<lambda>envelope.
     io_bind (expect (ce_request_id envelope = ''req-virtual-key-press'')) (\<lambda>_.
     expect (ce_message envelope = CmVirtualControlInput \<lparr>vci_control = KeyDto 0 0\<rparr>)))"

definition decodes_save_assignment_test_vector :: "serde_json \<Rightarrow> (json_value \<Rightarrow> string) \<Rightarrow> ('w, unit) test" where
  "decodes_save_assignment_test_vector J text =
     io_bind (unwrap (io_of_res (decode_client_envelope J (text vector_save_assignment)))) (\<lambda>envelope.
     io_bind (expect (ce_request_id envelope = ''req-save-assignment'')) (\<lambda>_.
     expect (case ce_message envelope of CmSaveAssignment _ \<Rightarrow> True | _ \<Rightarrow> False)))"

definition decodes_handshake_test_vector :: "serde_json \<Rightarrow> (json_value \<Rightarrow> string) \<Rightarrow> ('w, unit) test" where
  "decodes_handshake_test_vector J text =
     io_bind (unwrap (io_of_res (decode_client_envelope J (text vector_handshake)))) (\<lambda>envelope.
     io_bind (expect (ce_request_id envelope = ''req-handshake'')) (\<lambda>_.
     expect (ce_message envelope = CmHandshake
       \<lparr>hm_component = Studio, hm_component_version = ''0.3.0'', hm_protocol = protocol_version_current\<rparr>)))"

definition decodes_profile_command_test_vectors :: "serde_json \<Rightarrow> (json_value \<Rightarrow> string) \<Rightarrow> ('w, unit) test" where
  "decodes_profile_command_test_vectors J text =
     io_bind (unwrap (io_of_res (decode_client_envelope J (text vector_create_profile)))) (\<lambda>envelope.
     io_bind (expect (case ce_message envelope of CmCreateProfile _ \<Rightarrow> True | _ \<Rightarrow> False)) (\<lambda>_.
     io_bind (unwrap (io_of_res (decode_client_envelope J (text vector_rename_profile)))) (\<lambda>envelope.
     io_bind (expect (case ce_message envelope of CmRenameProfile _ \<Rightarrow> True | _ \<Rightarrow> False)) (\<lambda>_.
     io_bind (unwrap (io_of_res (decode_client_envelope J (text vector_clear_assignment)))) (\<lambda>envelope.
     expect (case ce_message envelope of CmClearAssignment _ \<Rightarrow> True | _ \<Rightarrow> False))))))"

definition decodes_get_snapshot_test_vector :: "serde_json \<Rightarrow> (json_value \<Rightarrow> string) \<Rightarrow> ('w, unit) test" where
  "decodes_get_snapshot_test_vector J text =
     io_bind (unwrap (io_of_res (decode_client_envelope J (text vector_get_snapshot)))) (\<lambda>envelope.
     io_bind (expect (ce_request_id envelope = ''req-snapshot'')) (\<lambda>_.
     expect (ce_message envelope = CmGetSnapshot GetSnapshotMessage)))"

definition rejects_empty_request_id :: "serde_json \<Rightarrow> (json_value \<Rightarrow> string) \<Rightarrow> ('w, unit) test" where
  "rejects_empty_request_id J text =
     io_bind (unwrap_err (io_of_res (decode_client_envelope J (text empty_request_value)))) (\<lambda>e.
     expect (case e of EmptyRequestId \<Rightarrow> True | _ \<Rightarrow> False))"

definition protocol_v0_requires_exact_version_match :: "('w, unit) test" where
  "protocol_v0_requires_exact_version_match =
     io_bind (expect (is_exactly \<lparr>pv_major = 0, pv_minor = 2\<rparr> \<lparr>pv_major = 0, pv_minor = 2\<rparr>)) (\<lambda>_.
     expect (\<not> is_exactly \<lparr>pv_major = 0, pv_minor = 2\<rparr> \<lparr>pv_major = 0, pv_minor = 3\<rparr>))"

lemma version_current: "\<lparr>pv_major = 0, pv_minor = 3\<rparr> = protocol_version_current"
  by (simp add: protocol_version_current_def PROTOCOL_MAJOR_def PROTOCOL_MINOR_def)

theorem protocol_tests_pass:
  assumes "reads_texts J text"
  shows "passes (decodes_virtual_control_test_vector J text) w"
    and "passes (decodes_save_assignment_test_vector J text) w"
    and "passes (decodes_handshake_test_vector J text) w"
    and "passes (decodes_profile_command_test_vectors J text) w"
    and "passes (decodes_get_snapshot_test_vector J text) w"
    and "passes (rejects_empty_request_id J text) w"
    and "passes protocol_v0_requires_exact_version_match w"
proof -
  note vectors = decode_text [OF assms] read_vectors req_not_blank
  show "passes (decodes_virtual_control_test_vector J text) w"
    "passes (decodes_save_assignment_test_vector J text) w"
    "passes (decodes_handshake_test_vector J text) w"
    "passes (decodes_profile_command_test_vectors J text) w"
    "passes (decodes_get_snapshot_test_vector J text) w"
    "passes (rejects_empty_request_id J text) w"
    by (rule passesI, simp add: decodes_virtual_control_test_vector_def
        decodes_save_assignment_test_vector_def decodes_handshake_test_vector_def
        decodes_profile_command_test_vectors_def decodes_get_snapshot_test_vector_def
        rejects_empty_request_id_def vectors vector_handshake_def version_current run)+
  show "passes protocol_v0_requires_exact_version_match w"
    by (rule passesI) (simp add: protocol_v0_requires_exact_version_match_def is_exactly_def run)
qed

section \<open>core-ipc\<close>

text \<open>The two functions of the crate that only its tests use.\<close>

definition decode_protocol_dispatch ::
  "serde_json \<Rightarrow> 'u crates \<Rightarrow> string \<Rightarrow> string \<Rightarrow> protocol_dispatch" where
  "decode_protocol_dispatch J C line version =
     (case decode_client_envelope J line of
        Inr envelope \<Rightarrow>
          (case ce_message envelope of
             CmHandshake message \<Rightarrow>
               Immediate (handshake_response (ce_request_id envelope) (hm_protocol message) version)
           | message \<Rightarrow>
               (case command_from_message C message of
                  Inr command \<Rightarrow> Command (ce_request_id envelope) command
                | Inl error \<Rightarrow> Immediate (ipc_error_message (Some (ce_request_id envelope)) error)))
      | Inl error \<Rightarrow> Immediate (protocol_error_message (extract_request_id J line) error))"

definition decode_protocol_command ::
  "serde_json \<Rightarrow> 'u crates \<Rightarrow> string \<Rightarrow> ipc_error + string \<times> core_command" where
  "decode_protocol_command J C line =
     res_bind (map_err IpcProtocol (decode_client_envelope J line)) (\<lambda>envelope.
     res_bind (command_from_message C (ce_message envelope)) (\<lambda>command.
     Inr (ce_request_id envelope, command)))"

text \<open>They agree with an established session, up to its answer to a second handshake.\<close>

lemma receive_line_established:
  assumes "session_state s = Established"
    and "\<And>env m. decode_client_envelope J line = Inr env \<Longrightarrow> ce_message env \<noteq> CmHandshake m"
  shows "receive_line J C s line = (decode_protocol_dispatch J C line (core_version s), s)"
  using assms by (auto simp: receive_line_def dispatch_envelope_def decode_protocol_dispatch_def
      split: sum.splits client_message.splits)

definition contains :: "string \<Rightarrow> string \<Rightarrow> bool" where
  "contains s part \<longleftrightarrow> list_ex (\<lambda>n. take (length part) (drop n s) = part) [0..<Suc (length s)]"

text \<open>A call of \<open>receive_line\<close> on the session that the test holds.\<close>

definition session_receive ::
  "serde_json \<Rightarrow> 'u crates \<Rightarrow> string \<Rightarrow> (protocol_session, protocol_dispatch) test" where
  "session_receive J C line = (\<lambda>s. case receive_line J C s line of (d, s') \<Rightarrow> (Inr d, s'))"

definition decodes_protocol_virtual_control_command ::
  "serde_json \<Rightarrow> (json_value \<Rightarrow> string) \<Rightarrow> 'u crates \<Rightarrow> ('w, unit) test" where
  "decodes_protocol_virtual_control_command J text C =
     io_bind (unwrap (io_of_res (decode_protocol_command J C (text vector_virtual_control_input))))
       (\<lambda>(request_id, command).
     io_bind (expect (request_id = ''req-virtual-key-press'')) (\<lambda>_.
     io_bind (unwrap (io_of_res (control_key 0 0))) (\<lambda>control.
     expect (command = VirtualControlInput control))))"

definition decodes_protocol_assignment_command ::
  "serde_json \<Rightarrow> (json_value \<Rightarrow> string) \<Rightarrow> 'u crates \<Rightarrow> ('w, unit) test" where
  "decodes_protocol_assignment_command J text C =
     io_bind (unwrap (io_of_res (decode_protocol_command J C (text vector_save_assignment))))
       (\<lambda>(request_id, command).
     io_bind (expect (request_id = ''req-save-assignment'')) (\<lambda>_.
     expect (case command of SaveAssignment _ \<Rightarrow> True | _ \<Rightarrow> False)))"

definition decodes_protocol_snapshot_command ::
  "serde_json \<Rightarrow> (json_value \<Rightarrow> string) \<Rightarrow> 'u crates \<Rightarrow> ('w, unit) test" where
  "decodes_protocol_snapshot_command J text C =
     io_bind (unwrap (io_of_res (decode_protocol_command J C (text vector_get_snapshot))))
       (\<lambda>(request_id, command).
     io_bind (expect (request_id = ''req-snapshot'')) (\<lambda>_.
     expect (command = GetSnapshot)))"

definition decodes_protocol_profile_mutation_commands ::
  "serde_json \<Rightarrow> (json_value \<Rightarrow> string) \<Rightarrow> 'u crates \<Rightarrow> ('w, unit) test" where
  "decodes_protocol_profile_mutation_commands J text C =
     io_bind (unwrap (io_of_res (decode_protocol_command J C (text vector_create_profile))))
       (\<lambda>(request_id, command).
     io_bind (expect (request_id = ''req-create-profile'')) (\<lambda>_.
     io_bind (expect (command = CreateProfile ''Work'')) (\<lambda>_.
     io_bind (unwrap (io_of_res (decode_protocol_command J C (text vector_rename_profile))))
       (\<lambda>(request_id, command).
     io_bind (expect (request_id = ''req-rename-profile'')) (\<lambda>_.
     io_bind (expect (case command of RenameProfile _ _ \<Rightarrow> True | _ \<Rightarrow> False)) (\<lambda>_.
     io_bind (unwrap (io_of_res (decode_protocol_command J C (text vector_clear_assignment))))
       (\<lambda>(request_id, command).
     io_bind (expect (request_id = ''req-clear-assignment'')) (\<lambda>_.
     expect (case command of ClearAssignment _ _ \<Rightarrow> True | _ \<Rightarrow> False)))))))))"

definition encodes_snapshot_response_with_layout_and_assignments :: "'u crates \<Rightarrow> ('w, unit) test" where
  "encodes_snapshot_response_with_layout_and_assignments C =
     io_bind (unwrap (io_of_res (profile_id_parse C vector_uuid))) (\<lambda>i.
     let profile = \<lparr>p_id = i, p_name = ''Default'', p_is_active = True\<rparr> in
     io_bind (unwrap (io_of_res (control_key 0 0))) (\<lambda>control.
     io_bind (unwrap (io_of_res (safe_url_parse C ''https://example.com''))) (\<lambda>url.
     case response_from_core C ''req-snapshot'' (RespSnapshot
         \<lparr>cs_layout = MVP_DEVICE_LAYOUT, cs_profiles = [profile],
          cs_assignments = [\<lparr>sn_profile_id = p_id profile, sn_control = control, sn_actions = [OpenUrl url]\<rparr>]\<rparr>) of
       MsgSnapshot request_id layout profiles assignments \<Rightarrow>
         io_bind (expect (request_id = ''req-snapshot'')) (\<lambda>_.
         io_bind (expect (dl_page_count layout = 4)) (\<lambda>_.
         io_bind (expect (dl_key_rows layout = 3)) (\<lambda>_.
         io_bind (expect (dl_key_columns layout = 4)) (\<lambda>_.
         io_bind (expect (dl_encoder_count layout = 2)) (\<lambda>_.
         io_bind (expect (pd_id (profiles ! 0) = profile_id_to_string C (p_id profile))) (\<lambda>_.
         io_bind (expect (sd_profile_id (assignments ! 0) = profile_id_to_string C (p_id profile))) (\<lambda>_.
         io_bind (expect (sd_control (assignments ! 0) = KeyDto 0 0)) (\<lambda>_.
         expect (length (sd_actions (assignments ! 0)) = 1)))))))))
     | _ \<Rightarrow> expect False)))"

definition encodes_profile_response :: "'u crates \<Rightarrow> ('w, unit) test" where
  "encodes_profile_response C =
     io_bind (unwrap (io_of_res (profile_id_parse C vector_uuid))) (\<lambda>i.
     let profile = \<lparr>p_id = i, p_name = ''Work'', p_is_active = False\<rparr> in
     case response_from_core C ''req-create-profile'' (RespProfile profile) of
       MsgProfile request_id encoded \<Rightarrow>
         io_bind (expect (request_id = ''req-create-profile'')) (\<lambda>_.
         io_bind (expect (pd_id encoded = profile_id_to_string C (p_id profile))) (\<lambda>_.
         io_bind (expect (pd_name encoded = ''Work'')) (\<lambda>_.
         expect (\<not> pd_is_active encoded))))
     | _ \<Rightarrow> expect False)"

definition preserves_request_id_when_message_type_is_unknown ::
  "serde_json \<Rightarrow> (json_value \<Rightarrow> string) \<Rightarrow> 'u crates \<Rightarrow> ('w, unit) test" where
  "preserves_request_id_when_message_type_is_unknown J text C =
     (case decode_protocol_dispatch J C (text unknown_message_value) ''core-test'' of
        Immediate (MsgError request_id error) \<Rightarrow>
          io_bind (expect (request_id = Some ''req-unknown'')) (\<lambda>_.
          expect (ed_code error = UnknownMessage))
      | _ \<Rightarrow> expect False)"

definition rejects_protocol_indices_that_do_not_fit_domain_adapter ::
  "serde_json \<Rightarrow> (json_value \<Rightarrow> string) \<Rightarrow> 'u crates \<Rightarrow> ('w, unit) test" where
  "rejects_protocol_indices_that_do_not_fit_domain_adapter J text C =
     (case decode_protocol_dispatch J C (text large_index_value) ''core-test'' of
        Immediate (MsgError request_id error) \<Rightarrow>
          io_bind (expect (request_id = Some ''req-large-index'')) (\<lambda>_.
          expect (ed_code error = ValidationFailed))
      | _ \<Rightarrow> expect False)"

definition session_accepts_handshake_before_commands ::
  "serde_json \<Rightarrow> (json_value \<Rightarrow> string) \<Rightarrow> 'u crates \<Rightarrow> (protocol_session, unit) test" where
  "session_accepts_handshake_before_commands J text C =
     io_bind (session_receive J C (text vector_handshake)) (\<lambda>d.
     case d of
       Immediate (MsgHandshakeAccepted request_id version _) \<Rightarrow>
         io_bind (expect (request_id = ''req-handshake'')) (\<lambda>_.
         io_bind (expect (version = ''core-test'')) (\<lambda>_.
         io_bind (session_receive J C (text vector_virtual_control_input)) (\<lambda>d.
         case d of
           Command request_id command \<Rightarrow>
             io_bind (expect (request_id = ''req-virtual-key-press'')) (\<lambda>_.
             expect (case command of VirtualControlInput _ \<Rightarrow> True | _ \<Rightarrow> False))
         | _ \<Rightarrow> expect False)))
     | _ \<Rightarrow> expect False)"

definition session_rejects_commands_before_handshake ::
  "serde_json \<Rightarrow> (json_value \<Rightarrow> string) \<Rightarrow> 'u crates \<Rightarrow> (protocol_session, unit) test" where
  "session_rejects_commands_before_handshake J text C =
     io_bind (session_receive J C (text vector_virtual_control_input)) (\<lambda>d.
     case d of
       Immediate (MsgError request_id error) \<Rightarrow>
         io_bind (expect (request_id = Some ''req-virtual-key-press'')) (\<lambda>_.
         io_bind (expect (ed_code error = ValidationFailed)) (\<lambda>_.
         expect (contains (ed_message error) ''handshake required'')))
     | _ \<Rightarrow> expect False)"

definition incompatible_handshake_does_not_open_session ::
  "serde_json \<Rightarrow> (json_value \<Rightarrow> string) \<Rightarrow> 'u crates \<Rightarrow> (protocol_session, unit) test" where
  "incompatible_handshake_does_not_open_session J text C =
     io_bind (session_receive J C (text (handshake_value ''req-handshake'' ''4''))) (\<lambda>d.
     case d of
       Immediate (MsgError request_id error) \<Rightarrow>
         io_bind (expect (request_id = Some ''req-handshake'')) (\<lambda>_.
         io_bind (expect (ed_code error = IncompatibleProtocol)) (\<lambda>_.
         io_bind (session_receive J C (text vector_virtual_control_input)) (\<lambda>d.
         case d of
           Immediate (MsgError request_id error) \<Rightarrow>
             io_bind (expect (request_id = Some ''req-virtual-key-press'')) (\<lambda>_.
             expect (ed_code error = ValidationFailed))
         | _ \<Rightarrow> expect False)))
     | _ \<Rightarrow> expect False)"

definition duplicate_handshake_is_rejected_without_closing_session ::
  "serde_json \<Rightarrow> (json_value \<Rightarrow> string) \<Rightarrow> 'u crates \<Rightarrow> (protocol_session, unit) test" where
  "duplicate_handshake_is_rejected_without_closing_session J text C =
     io_bind (session_receive J C (text vector_handshake)) (\<lambda>d.
     io_bind (expect (case d of Immediate (MsgHandshakeAccepted _ _ _) \<Rightarrow> True | _ \<Rightarrow> False)) (\<lambda>_.
     io_bind (session_receive J C (text (handshake_value ''req-renegotiate'' ''4''))) (\<lambda>d.
     case d of
       Immediate (MsgError request_id error) \<Rightarrow>
         io_bind (expect (request_id = Some ''req-renegotiate'')) (\<lambda>_.
         io_bind (expect (ed_code error = ValidationFailed)) (\<lambda>_.
         io_bind (expect (contains (ed_message error) ''already completed'')) (\<lambda>_.
         io_bind (session_receive J C (text vector_virtual_control_input)) (\<lambda>d.
         expect (case d of Command _ _ \<Rightarrow> True | _ \<Rightarrow> False)))))
     | _ \<Rightarrow> expect False)))"

definition maps_application_failures_to_sanitized_protocol_errors :: "('w, unit) test" where
  "maps_application_failures_to_sanitized_protocol_errors =
     (case error_message (Some ''req-storage'')
         (Storage ''database path /secret/keyro.sqlite failed'') of
        MsgError request_id error \<Rightarrow>
          io_bind (expect (request_id = Some ''req-storage'')) (\<lambda>_.
          io_bind (expect (ed_code error = Internal)) (\<lambda>_.
          expect (ed_message error = ''command failed'')))
      | _ \<Rightarrow> expect False)"

definition maps_missing_profiles_to_not_found_protocol_errors :: "('w, unit) test" where
  "maps_missing_profiles_to_not_found_protocol_errors =
     (case error_message (Some ''req-missing'') ProfileNotFound of
        MsgError request_id error \<Rightarrow>
          io_bind (expect (request_id = Some ''req-missing'')) (\<lambda>_.
          io_bind (expect (ed_code error = NotFound)) (\<lambda>_.
          expect (ed_message error = ''profile not found'')))
      | _ \<Rightarrow> expect False)"

text \<open>The state of this test is the random source; \<open>Default::default()\<close> of \<open>ActionRunId\<close> draws from it.\<close>

definition action_run_id_default :: "(uuid stream, 'e, action_run_id) io" where
  "action_run_id_default = io_bind new_v4 (\<lambda>u. io_return (ActionRunId u))"

definition maps_core_action_events_to_protocol_events :: "'u crates \<Rightarrow> (uuid stream, unit) test" where
  "maps_core_action_events_to_protocol_events C =
     io_bind (unwrap (io_of_res (control_encoder 1 0 Press))) (\<lambda>control.
     io_bind profile_id_new (\<lambda>profile_id.
     io_bind action_run_id_default (\<lambda>run_id.
     case event_from_core C (ActionRunning run_id profile_id control) of
       MsgActionEvent (EvRunning execution_id encoded_profile_id encoded_control) \<Rightarrow>
         io_bind (expect (execution_id \<noteq> [])) (\<lambda>_.
         io_bind (expect (encoded_profile_id = profile_id_to_string C profile_id)) (\<lambda>_.
         io_bind (expect (encoded_control = EncoderDto 1 0 PressDto)) (\<lambda>_.
         io_bind action_run_id_default (\<lambda>run_id.
         case event_from_core C (ActionFailed run_id OpenUrlFailed ''open failed'') of
           MsgActionEvent (EvFailed _ code message) \<Rightarrow>
             io_bind (expect (code = CodeOpenUrlFailed)) (\<lambda>_.
             expect (message = ''open failed''))
         | _ \<Rightarrow> expect False))))
     | _ \<Rightarrow> expect False)))"

text \<open>The command tests.\<close>

lemma session_receive_run [run]:
  "receive_line J C s line = (d, s') \<Longrightarrow> session_receive J C line s = (Inr d, s')"
  by (simp add: session_receive_def)

lemma receive_text:
  assumes "reads_texts J text" and "read_client_envelope v = Some \<lparr>ce_request_id = CHR ''r'' # r, ce_message = m\<rparr>"
  shows "receive_line J C s (text v) = dispatch_envelope C s \<lparr>ce_request_id = CHR ''r'' # r, ce_message = m\<rparr>"
  using assms by (simp add: receive_line_def decode_text req_not_blank)

theorem command_tests_pass:
  assumes reads: "reads_texts J text"
    and uuid: "profile_id_parse C vector_uuid = Inr i"
    and url: "safe_url_parse C ''https://example.com'' = Inr (SafeUrl ''https://example.com'')"
  shows "passes (decodes_protocol_virtual_control_command J text C) w"
    and "passes (decodes_protocol_assignment_command J text C) w"
    and "passes (decodes_protocol_snapshot_command J text C) w"
    and "passes (decodes_protocol_profile_mutation_commands J text C) w"
    and "passes (rejects_protocol_indices_that_do_not_fit_domain_adapter J text C) w"
proof -
  note vectors = decode_text [OF reads] read_vectors req_not_blank
  note conversions = decode_protocol_command_def decode_protocol_dispatch_def assignment_from_dto_def
    u8_index_def u8_of_u16_def assignment_single_def control_key_def control_encoder_def
    page_index_new_def key_index_new_def encoder_index_new_def layout_defs uuid url
  show "passes (decodes_protocol_virtual_control_command J text C) w"
    "passes (decodes_protocol_assignment_command J text C) w"
    "passes (decodes_protocol_snapshot_command J text C) w"
    "passes (decodes_protocol_profile_mutation_commands J text C) w"
    by (rule passesI, simp add: decodes_protocol_virtual_control_command_def
        decodes_protocol_assignment_command_def decodes_protocol_snapshot_command_def
        decodes_protocol_profile_mutation_commands_def vectors conversions run)+
  show "passes (rejects_protocol_indices_that_do_not_fit_domain_adapter J text C) w"
    by (rule passesI) (simp add: rejects_protocol_indices_that_do_not_fit_domain_adapter_def
        vectors conversions ipc_error_message_def run)
qed

theorem session_tests_pass:
  assumes reads: "reads_texts J text"
  shows "passes (session_accepts_handshake_before_commands J text C) (protocol_session_new ''core-test'')"
    and "passes (session_rejects_commands_before_handshake J text C) (protocol_session_new ''core-test'')"
    and "passes (incompatible_handshake_does_not_open_session J text C) (protocol_session_new ''core-test'')"
    and "passes (duplicate_handshake_is_rejected_without_closing_session J text C)
      (protocol_session_new ''core-test'')"
proof -
  note sessions = receive_text [OF reads] read_vectors vector_handshake_def protocol_session_new_def
    dispatch_envelope_def handshake_response_def is_exactly_def protocol_version_current_def
    PROTOCOL_MAJOR_def PROTOCOL_MINOR_def u8_index_def u8_of_u16_def Let_def
  have parts: "contains ''handshake required before command routing'' ''handshake required''"
    "contains ''handshake already completed for this connection'' ''already completed''"
    by code_simp+
  show "passes (session_accepts_handshake_before_commands J text C) (protocol_session_new ''core-test'')"
    by (rule passesI) (simp add: session_accepts_handshake_before_commands_def sessions run)
  show "passes (session_rejects_commands_before_handshake J text C) (protocol_session_new ''core-test'')"
    by (rule passesI) (simp add: session_rejects_commands_before_handshake_def sessions parts run)
  show "passes (incompatible_handshake_does_not_open_session J text C) (protocol_session_new ''core-test'')"
    by (rule passesI) (simp add: incompatible_handshake_does_not_open_session_def sessions run)
  show "passes (duplicate_handshake_is_rejected_without_closing_session J text C)
      (protocol_session_new ''core-test'')"
    by (rule passesI)
      (simp add: duplicate_handshake_is_rejected_without_closing_session_def sessions parts run)
qed

theorem message_tests_pass:
  assumes uuid: "profile_id_parse C vector_uuid = Inr i"
    and url: "safe_url_parse C ''https://example.com'' = Inr (SafeUrl ''https://example.com'')"
    and unknown: "from_str_envelope J (text unknown_message_value) = Inl e"
      "from_str_value J (text unknown_message_value) = Some unknown_message_value"
    and printed: "\<And>u. uuid_to_string C u \<noteq> []"
  shows "passes (encodes_snapshot_response_with_layout_and_assignments C) w"
    and "passes (encodes_profile_response C) w"
    and "passes (preserves_request_id_when_message_type_is_unknown J text C) w"
    and "passes maps_application_failures_to_sanitized_protocol_errors w"
    and "passes maps_missing_profiles_to_not_found_protocol_errors w"
    and "passes (maps_core_action_events_to_protocol_events C) g"
proof -
  show "passes (encodes_snapshot_response_with_layout_and_assignments C) w"
    by (rule passesI) (simp add: encodes_snapshot_response_with_layout_and_assignments_def uuid url Let_def
        layout_to_dto_def MVP_DEVICE_LAYOUT_def layout_defs profile_to_dto_def snapshot_assignment_to_dto_def run)
  show "passes (encodes_profile_response C) w"
    by (rule passesI) (simp add: encodes_profile_response_def uuid Let_def profile_to_dto_def run)
  show "passes (preserves_request_id_when_message_type_is_unknown J text C) w"
    using unknown
    by (intro passesI) (simp add: preserves_request_id_when_message_type_is_unknown_def
        decode_protocol_dispatch_def decode_client_envelope_def protocol_error_message_def
        extract_request_id_def unknown_message_value_def envelope_value_def req_not_blank run)
  show "passes maps_application_failures_to_sanitized_protocol_errors w"
    "passes maps_missing_profiles_to_not_found_protocol_errors w"
    by (rule passesI, simp add: maps_application_failures_to_sanitized_protocol_errors_def
        maps_missing_profiles_to_not_found_protocol_errors_def error_message_def run)+
  show "passes (maps_core_action_events_to_protocol_events C) g"
    by (rule passesI) (simp add: maps_core_action_events_to_protocol_events_def run control_encoder_def
        page_index_new_def encoder_index_new_def layout_defs profile_id_new_def action_run_id_default_def
        printed)
qed

end
