(* ===== verification/Keyro_Storage_Tests.thy ===== *)
theory Keyro_Storage_Tests
  imports Keyro_App_Tests Keyro_Migrate
begin

text \<open>
  The unit tests of \<open>crates/core-storage-sqlite/src/lib.rs\<close>, run on the model: they pass on a disk
  where no call fails, for every clock and every random source whose first values differ, with a
  URL crate that accepts the URLs of the tests and UUIDs that print as texts they are parsed from.
\<close>

text \<open>\<open>let repository = in_memory().unwrap();\<close> and the rest of a test; and the same with \<open>open(path)\<close>,
  after which the file holds what the closed connection has committed.\<close>

definition with_in_memory :: "(connection, 'a) test \<Rightarrow> (disk, 'a) test" where
  "with_in_memory rest =
     io_bind (unwrap sqlite_in_memory) (\<lambda>c d. case rest c of (r, _) \<Rightarrow> (r, d))"

definition closed_file :: "connection \<Rightarrow> disk \<Rightarrow> disk" where
  "closed_file c d = d\<lparr>d_schema := (d_schema d)\<lparr>s_profiles := Some (t_profiles (db c)),
     s_assignments := Some (t_assignments (db c))\<rparr>, d_clock := clock c, d_rng := rng c, d_faults := faults c\<rparr>"

definition with_open :: "(connection, 'a) test \<Rightarrow> (disk, 'a) test" where
  "with_open rest =
     io_bind (unwrap sqlite_open) (\<lambda>c d. case rest c of (r, c') \<Rightarrow> (r, closed_file c' d))"

section \<open>Tests\<close>

text \<open>\<open>Assignment::single(.., Action::OpenUrl { url: SafeUrl::parse(text).unwrap() }).unwrap()\<close>\<close>

definition single_url :: "'u crates \<Rightarrow> profile_id \<Rightarrow> control_id \<Rightarrow> string \<Rightarrow> ('w, assignment) test" where
  "single_url C pid control text =
     io_bind (unwrap (io_of_res (safe_url_parse C text))) (\<lambda>url.
     unwrap (io_of_res (assignment_single pid control (OpenUrl url))))"

definition creates_default_active_profile :: "'u deps \<Rightarrow> (disk, unit) test" where
  "creates_default_active_profile K = with_in_memory (
     io_bind (unwrap (sqlite_ensure_default_profile K)) (\<lambda>profile.
     io_bind (unwrap (sqlite_list_profiles K)) (\<lambda>profiles.
     io_bind (expect (p_is_active profile)) (\<lambda>_.
     io_bind (expect (length profiles = 1)) (\<lambda>_.
     expect (p_is_active (profiles ! 0)))))))"

definition persists_assignment_round_trip :: "'u deps \<Rightarrow> (disk, unit) test" where
  "persists_assignment_round_trip K = with_in_memory (
     io_bind (unwrap (sqlite_ensure_default_profile K)) (\<lambda>profile.
     io_bind (unwrap (io_of_res (control_encoder 1 1 Right))) (\<lambda>control.
     io_bind (unwrap (io_of_res (safe_url_parse (crates_of K) ''https://example.com/path''))) (\<lambda>url.
     let assignment =
       \<lparr>a_profile_id = p_id profile, a_control = control, a_actions = [OpenUrl url]\<rparr> in
     io_bind (single_url (crates_of K) (p_id profile) control ''https://example.com/replacement'') (\<lambda>replacement.
     io_bind (unwrap (sqlite_save_assignment K assignment)) (\<lambda>_.
     io_bind (unwrap (sqlite_save_assignment K replacement)) (\<lambda>_.
     io_bind (unwrap (sqlite_find_assignment K (p_id profile) control)) (\<lambda>found.
     io_bind (unwrap_some found) (\<lambda>loaded.
     io_bind (expect (loaded = replacement)) (\<lambda>_.
     io_bind (unwrap (sqlite_load_snapshot_state K)) (\<lambda>snapshot.
     expect (ss_assignments snapshot = [replacement]))))))))))))"

definition file_database_restores_profile_and_assignment :: "'u deps \<Rightarrow> (disk, unit) test" where
  "file_database_restores_profile_and_assignment K =
     io_bind (unwrap (io_of_res (control_key 0 0))) (\<lambda>control.
     io_bind (with_open (
       io_bind (unwrap (sqlite_ensure_default_profile K)) (\<lambda>profile.
       io_bind (single_url (crates_of K) (p_id profile) control ''https://example.com'') (\<lambda>assignment.
       io_bind (unwrap (sqlite_save_assignment K assignment)) (\<lambda>_.
       io_return (p_id profile)))))) (\<lambda>profile_id.
     with_open (
       io_bind (unwrap (sqlite_list_profiles K)) (\<lambda>profiles.
       io_bind (expect (p_id (profiles ! 0) = profile_id)) (\<lambda>_.
       io_bind (unwrap (sqlite_find_assignment K profile_id control)) (\<lambda>found.
       io_bind (expect (found \<noteq> None)) (\<lambda>_.
       io_bind (unwrap (sqlite_load_snapshot_state K)) (\<lambda>snapshot.
       expect (length (ss_assignments snapshot) = 1)))))))))"

definition file_database_restores_created_and_renamed_profiles :: "'u deps \<Rightarrow> (disk, unit) test" where
  "file_database_restores_created_and_renamed_profiles K =
     io_bind (with_open (
       io_bind (unwrap (sqlite_ensure_default_profile K)) (\<lambda>_.
       io_bind (unwrap (sqlite_create_profile K ''Work'')) (\<lambda>profile.
       io_bind (unwrap (sqlite_rename_profile K (p_id profile) ''Deep Work'')) (\<lambda>_.
       io_return (p_id profile)))))) (\<lambda>profile_id.
     with_open (
       io_bind (unwrap (sqlite_list_profiles K)) (\<lambda>profiles.
       io_bind (expect (list_ex (\<lambda>profile. p_id profile = profile_id \<and> p_name profile = ''Deep Work'' \<and>
         \<not> p_is_active profile) profiles)) (\<lambda>_.
       expect (length (filter p_is_active profiles) = 1)))))"

definition snapshot_state_preserves_ordered_assignment_actions :: "'u deps \<Rightarrow> (disk, unit) test" where
  "snapshot_state_preserves_ordered_assignment_actions K = with_in_memory (
     io_bind (unwrap (sqlite_ensure_default_profile K)) (\<lambda>profile.
     io_bind (unwrap (io_of_res (control_key 0 0))) (\<lambda>control.
     io_bind (unwrap (io_of_res (safe_url_parse (crates_of K) ''https://example.com/first''))) (\<lambda>first.
     io_bind (unwrap (io_of_res (safe_url_parse (crates_of K) ''https://example.com/second''))) (\<lambda>second.
     let assignment =
       \<lparr>a_profile_id = p_id profile, a_control = control, a_actions = [OpenUrl first, OpenUrl second]\<rparr> in
     io_bind (unwrap (sqlite_save_assignment K assignment)) (\<lambda>_.
     io_bind (unwrap (sqlite_load_snapshot_state K)) (\<lambda>snapshot.
     expect (ss_assignments snapshot = [assignment]))))))))"

definition persists_profile_create_rename_and_assignment_clear :: "'u deps \<Rightarrow> (disk, unit) test" where
  "persists_profile_create_rename_and_assignment_clear K = with_in_memory (
     io_bind (unwrap (sqlite_ensure_default_profile K)) (\<lambda>default_profile.
     io_bind (unwrap (io_of_res (control_encoder 0 0 Press))) (\<lambda>control.
     io_bind (single_url (crates_of K) (p_id default_profile) control ''https://example.com'') (\<lambda>assignment.
     io_bind (unwrap (sqlite_save_assignment K assignment)) (\<lambda>_.
     io_bind (unwrap (sqlite_create_profile K '' Work '')) (\<lambda>work.
     io_bind (expect (p_name work = '' Work '')) (\<lambda>_.
     io_bind (expect (\<not> p_is_active work)) (\<lambda>_.
     io_bind (unwrap (sqlite_rename_profile K (p_id work) '' Deep Work '')) (\<lambda>renamed.
     io_bind (expect (p_name renamed = '' Deep Work '')) (\<lambda>_.
     io_bind (unwrap (sqlite_clear_assignment K (p_id default_profile) control)) (\<lambda>_.
     io_bind (unwrap (sqlite_load_snapshot_state K)) (\<lambda>snapshot.
     io_bind (expect (list_ex (\<lambda>profile. p_id profile = p_id work \<and> p_name profile = '' Deep Work '')
       (ss_profiles snapshot))) (\<lambda>_.
     expect (ss_assignments snapshot = []))))))))))))))"

definition clear_assignment_removes_only_the_targeted_control_and_is_idempotent ::
  "'u deps \<Rightarrow> (disk, unit) test" where
  "clear_assignment_removes_only_the_targeted_control_and_is_idempotent K = with_in_memory (
     io_bind (unwrap (sqlite_ensure_default_profile K)) (\<lambda>profile.
     io_bind (unwrap (io_of_res (control_key 0 0))) (\<lambda>first_control.
     io_bind (unwrap (io_of_res (control_key 0 1))) (\<lambda>second_control.
     io_bind (single_url (crates_of K) (p_id profile) first_control ''https://example.com/first'') (\<lambda>first.
     io_bind (single_url (crates_of K) (p_id profile) second_control ''https://example.com/second'') (\<lambda>second.
     io_bind (unwrap (sqlite_save_assignment K first)) (\<lambda>_.
     io_bind (unwrap (sqlite_save_assignment K second)) (\<lambda>_.
     io_bind (unwrap (sqlite_clear_assignment K (p_id profile) first_control)) (\<lambda>_.
     io_bind (unwrap (sqlite_clear_assignment K (p_id profile) first_control)) (\<lambda>_.
     io_bind (unwrap (sqlite_find_assignment K (p_id profile) first_control)) (\<lambda>found.
     io_bind (expect (found = None)) (\<lambda>_.
     io_bind (unwrap (sqlite_find_assignment K (p_id profile) second_control)) (\<lambda>found.
     io_bind (unwrap_some found) (\<lambda>found.
     expect (found = second)))))))))))))))"

definition profile_mutations_reject_missing_profiles :: "'u deps \<Rightarrow> (disk, unit) test" where
  "profile_mutations_reject_missing_profiles K = with_in_memory (
     io_bind (unwrap (sqlite_ensure_default_profile K)) (\<lambda>_.
     io_bind (with_rng profile_id_new) (\<lambda>missing_profile.
     io_bind (unwrap_err (sqlite_rename_profile K missing_profile ''Missing'')) (\<lambda>e.
     io_bind (expect (e = ProfileNotFound)) (\<lambda>_.
     io_bind (unwrap (io_of_res (control_key 0 0))) (\<lambda>control.
     io_bind (unwrap_err (sqlite_clear_assignment K missing_profile control)) (\<lambda>e.
     io_bind (expect (e = ProfileNotFound)) (\<lambda>_.
     io_bind (unwrap (io_of_res (control_key 0 0))) (\<lambda>control.
     io_bind (single_url (crates_of K) missing_profile control ''https://example.com'') (\<lambda>assignment.
     io_bind (unwrap_err (sqlite_save_assignment K assignment)) (\<lambda>e.
     expect (e = ProfileNotFound))))))))))))"

text \<open>The trigger that the test creates makes the next insertion fail: after the start of the
  transaction, the look at the profile and the deletion, which do not.\<close>

definition forced_insert_failure :: "(connection, unit) test" where
  "forced_insert_failure = (\<lambda>c. (Inr (), c\<lparr>faults := [None, None, None, Some ''forced insert failure'']\<rparr>))"

definition drop_trigger :: "(connection, unit) test" where
  "drop_trigger = (\<lambda>c. (Inr (), c\<lparr>faults := []\<rparr>))"

definition failed_assignment_save_rolls_back_existing_assignment :: "'u deps \<Rightarrow> (disk, unit) test" where
  "failed_assignment_save_rolls_back_existing_assignment K = with_in_memory (
     io_bind (unwrap (sqlite_ensure_default_profile K)) (\<lambda>profile.
     io_bind (unwrap (io_of_res (control_key 0 0))) (\<lambda>control.
     io_bind (single_url (crates_of K) (p_id profile) control ''https://example.com/original'') (\<lambda>original.
     io_bind (unwrap (sqlite_save_assignment K original)) (\<lambda>_.
     io_bind forced_insert_failure (\<lambda>_.
     io_bind (single_url (crates_of K) (p_id profile) control ''https://example.com/replacement'') (\<lambda>replacement.
     io_bind (is_ok (sqlite_save_assignment K replacement)) (\<lambda>saved.
     io_bind (expect (\<not> saved)) (\<lambda>_.
     io_bind drop_trigger (\<lambda>_.
     io_bind (unwrap (sqlite_find_assignment K (p_id profile) control)) (\<lambda>found.
     io_bind (unwrap_some found) (\<lambda>loaded.
     expect (loaded = original)))))))))))))"

section \<open>They pass\<close>

text \<open>Controls and identifiers are compared through the injectivity of their encodings.\<close>

declare encode_control.simps [simp del] profile_id_to_string.simps [simp del]

definition fresh_disk :: "string stream \<Rightarrow> uuid stream \<Rightarrow> disk" where
  "fresh_disk clk g =
     \<lparr>d_schema = empty_schema, d_pragma = False, d_clock = clk, d_rng = g, d_faults = []\<rparr>"

definition open_conn :: "profile_row list \<Rightarrow> assignment_row list \<Rightarrow> string stream \<Rightarrow> uuid stream \<Rightarrow> connection" where
  "open_conn ps as clk g =
     \<lparr>db = \<lparr>t_profiles = ps, t_assignments = as\<rparr>, foreign_keys = True, clock = clk, rng = g, faults = []\<rparr>"

definition default_row :: "'u deps \<Rightarrow> profile_id \<Rightarrow> string \<Rightarrow> profile_row" where
  "default_row K pid t =
     \<lparr>pr_id = profile_id_to_string (crates_of K) pid, pr_name = ''Default'', pr_is_active = 1, pr_created_at = t\<rparr>"

lemma opened [run]:
  "sqlite_in_memory (fresh_disk clk g) =
     (Inr (open_conn [] [] clk g), (fresh_disk clk g)\<lparr>d_pragma := True\<rparr>)"
  by (simp add: sqlite_in_memory_def sqlite_open_def migrate_def migration_steps pragma_foreign_keys_on_def
      disk_stmt_def io_bind_def fresh_disk_def empty_schema_def table_or_new_def connection_of_def schema_rows_def
      open_conn_def Let_def)

lemma with_in_memory_passes:
  "passes rest (open_conn [] [] clk g) \<Longrightarrow> passes (with_in_memory rest) (fresh_disk clk g)"
  by (cases "rest (open_conn [] [] clk g)") (simp add: passes_def with_in_memory_def run)

lemmas storage_steps =
  sqlite_ensure_default_profile_def sqlite_list_profiles_def list_profiles_locked_def
  sqlite_save_assignment_def sqlite_find_assignment_def sqlite_load_snapshot_state_def
  list_assignments_locked_def sqlite_clear_assignment_def sqlite_create_profile_def
  sqlite_rename_profile_def rename_update_def transaction_def profile_exists_def load_active_profile_def
  insert_profile_def delete_assignment_def insert_assignment_def update_name_def execute_def query_def
  prepare_def stmt_def with_rng_def io_bind_def io_map_err_def io_try_def

lemma ensure_default_run [run]:
  "sqlite_ensure_default_profile K (open_conn [] [] clk g) =
     (Inr \<lparr>p_id = ProfileId (shd g), p_name = ''Default'', p_is_active = True\<rparr>,
      open_conn [default_row K (ProfileId (shd g)) (shd clk)] [] (stl clk) (stl g))"
  by (simp add: storage_steps open_conn_def select_active_def profile_new_apply names_not_blank default_row_def)

lemma decode_default_row [run]:
  "uuid_text_ok (crates_of K) \<Longrightarrow> profile_of_row (crates_of K) (default_row K pid t) =
     Inr \<lparr>p_id = pid, p_name = ''Default'', p_is_active = True\<rparr>"
  by (simp add: profile_of_row_def default_row_def)

lemma default_row_simps [run]:
  "pr_id (default_row K pid t) = profile_id_to_string (crates_of K) pid" "pr_name (default_row K pid t) = ''Default''"
  "pr_is_active (default_row K pid t) = 1" "pr_created_at (default_row K pid t) = t"
  by (simp_all add: default_row_def)

lemma row_key_on_control:
  "row_key r = row_key (assignment_row_of C pid ctl n act) \<Longrightarrow>
   on_control (profile_id_to_string C pid) (encode_control ctl) r"
  by (cases "encode_control ctl"; cases act) (simp add: row_key_def assignment_row_of_def)

text \<open>Saving for an existing profile.\<close>

lemma save_run [run]:
  assumes "list_ex (\<lambda>r. pr_id r = profile_id_to_string (crates_of K) pid) ps"
  shows "sqlite_save_assignment K \<lparr>a_profile_id = pid, a_control = ctl, a_actions = [act]\<rparr> (open_conn ps as clk g) =
    (Inr (), open_conn ps (filter (\<lambda>r. \<not> on_control (profile_id_to_string (crates_of K) pid) (encode_control ctl) r) as @
       [assignment_row_of (crates_of K) pid ctl 0 act]) clk g)"
proof -
  have "\<not> list_ex (\<lambda>r. row_key r = row_key (assignment_row_of (crates_of K) pid ctl 0 act))
      (filter (\<lambda>r. \<not> on_control (profile_id_to_string (crates_of K) pid) (encode_control ctl) r) as)"
    using row_key_on_control by (fastforce simp: list_ex_iff)
  moreover have "ar_profile_id (assignment_row_of (crates_of K) pid ctl 0 act) = profile_id_to_string (crates_of K) pid"
    by (cases "encode_control ctl"; cases act) (simp add: assignment_row_of_def)
  ultimately show ?thesis
    using assms by (simp add: storage_steps open_conn_def select_exists_def)
qed

lemma save_missing_run [run]:
  assumes "\<not> list_ex (\<lambda>r. pr_id r = profile_id_to_string (crates_of K) (a_profile_id a)) ps"
  shows "sqlite_save_assignment K a (open_conn ps as clk g) = (Inl ProfileNotFound, open_conn ps as clk g)"
  using assms by (simp add: storage_steps open_conn_def select_exists_def io_fail_def)

lemma clear_run [run]:
  "sqlite_clear_assignment K pid ctl (open_conn ps as clk g) =
    (if list_ex (\<lambda>r. pr_id r = profile_id_to_string (crates_of K) pid) ps
     then (Inr (), open_conn ps (filter (\<lambda>r. \<not> on_control (profile_id_to_string (crates_of K) pid) (encode_control ctl) r) as) clk g)
     else (Inl ProfileNotFound, open_conn ps as clk g))"
  by (simp add: storage_steps open_conn_def select_exists_def io_fail_def)

lemma list_run [run]:
  assumes "collect (profile_of_row (crates_of K)) (sort_key (\<lambda>r. (pr_created_at r, pr_name r)) ps) = Inr profiles"
  shows "sqlite_list_profiles K (open_conn ps as clk g) = (Inr profiles, open_conn ps as clk g)"
  using assms by (simp add: storage_steps open_conn_def select_profiles_def)

lemma rename_missing_run [run]:
  assumes "collect (profile_of_row (crates_of K)) (sort_key (\<lambda>r. (pr_created_at r, pr_name r)) ps) = Inr profiles"
    and "find (\<lambda>p. p_id p = pid) profiles = None"
  shows "sqlite_rename_profile K pid name (open_conn ps as clk g) = (Inl ProfileNotFound, open_conn ps as clk g)"
  using list_run [OF assms(1)] assms(2) by (simp add: sqlite_rename_profile_def io_bind_def)

lemma new_id_run [run]:
  "with_rng profile_id_new (open_conn ps as clk g) = (Inr (ProfileId (shd g)), open_conn ps as clk (stl g))"
  by (simp add: with_rng_def profile_id_new_def io_bind_def open_conn_def)

text \<open>Saving two actions for a control without any.\<close>

lemma save_two_run [run]:
  assumes "list_ex (\<lambda>r. pr_id r = profile_id_to_string (crates_of K) pid) ps"
  shows "sqlite_save_assignment K \<lparr>a_profile_id = pid, a_control = ctl, a_actions = [act, act']\<rparr> (open_conn ps [] clk g) =
    (Inr (), open_conn ps [assignment_row_of (crates_of K) pid ctl 0 act,
       assignment_row_of (crates_of K) pid ctl 1 act'] clk g)"
  using assms by (simp add: storage_steps open_conn_def select_exists_def row_key_assignment_row_of split: prod.split)

text \<open>Saving when the insertion fails.\<close>

lemma save_failing_run [run]:
  assumes "list_ex (\<lambda>r. pr_id r = profile_id_to_string (crates_of K) pid) ps"
  shows "sqlite_save_assignment K \<lparr>a_profile_id = pid, a_control = ctl, a_actions = [act]\<rparr>
      ((open_conn ps as clk g)\<lparr>faults := [None, None, None, Some e]\<rparr>) =
    (Inl (to_app_error K (SqliteFailure e)), open_conn ps as clk g)"
  using assms by (simp add: storage_steps open_conn_def select_exists_def)

lemma trigger_run [run]:
  "forced_insert_failure c = (Inr (), c\<lparr>faults := [None, None, None, Some ''forced insert failure'']\<rparr>)"
  "drop_trigger (open_conn ps as clk g) = (Inr (), open_conn ps as clk g)"
  by (simp_all add: forced_insert_failure_def drop_trigger_def open_conn_def)

lemma find_run [run]:
  assumes "collect (\<lambda>row. decode_action (crates_of K) (ar_action_kind row) (ar_action_url row))
      (sort_key ar_action_position (filter (on_control (profile_id_to_string (crates_of K) pid) (encode_control ctl)) as)) =
    Inr actions"
  shows "sqlite_find_assignment K pid ctl (open_conn ps as clk g) =
    (Inr (if actions = [] then None
       else Some \<lparr>a_profile_id = pid, a_control = ctl, a_actions = actions\<rparr>), open_conn ps as clk g)"
  using assms by (simp add: storage_steps open_conn_def select_actions_def)

lemma snapshot_run [run]:
  assumes "collect (profile_of_row (crates_of K)) (sort_key (\<lambda>r. (pr_created_at r, pr_name r)) ps) = Inr profiles"
    and "collect (assignment_of_row (crates_of K)) (sort_key row_key as) = Inr rows"
  shows "sqlite_load_snapshot_state K (open_conn ps as clk g) =
    (Inr \<lparr>ss_profiles = profiles, ss_assignments = group_assignments rows []\<rparr>, open_conn ps as clk g)"
  using assms by (simp add: storage_steps open_conn_def select_profiles_def select_assignments_def)

lemma single_url_run [run]:
  "safe_url_parse C text = Inr (SafeUrl text) \<Longrightarrow>
   single_url C pid ctl text w = (Inr \<lparr>a_profile_id = pid, a_control = ctl, a_actions = [OpenUrl (SafeUrl text)]\<rparr>, w)"
  by (simp add: single_url_def run assignment_single_def)

lemma controls_run [run]:
  "control_key 0 1 = Inr (Key (PageIndex 0) (KeyIndex 1))"
  "control_encoder 1 1 op = Inr (Encoder (PageIndex 1) (EncoderIndex 1) op)"
  by (simp_all add: control_key_def control_encoder_def page_index_new_def key_index_new_def encoder_index_new_def
      layout_defs)

lemma decode_open_url [run]:
  "safe_url_parse C t = Inr u \<Longrightarrow> decode_action C ''open_url'' (Some t) = Inr (OpenUrl u)"
  by (simp add: decode_action_def)

lemma rows_in_order [run]:
  "row_key (assignment_row_of C p c 0 a) \<le> row_key (assignment_row_of C p c (Suc 0) b)"
  by (simp add: row_key_assignment_row_of split: prod.split)

text \<open>A second, inactive profile; the two are listed in either order.\<close>

definition inactive_row :: "'u deps \<Rightarrow> profile_id \<Rightarrow> string \<Rightarrow> string \<Rightarrow> profile_row" where
  "inactive_row K pid name t =
     \<lparr>pr_id = profile_id_to_string (crates_of K) pid, pr_name = name, pr_is_active = 0, pr_created_at = t\<rparr>"

lemma inactive_row_simps [run]:
  "pr_id (inactive_row K pid name t) = profile_id_to_string (crates_of K) pid"
  "pr_is_active (inactive_row K pid name t) = 0"
  "uuid_text_ok (crates_of K) \<Longrightarrow> profile_of_row (crates_of K) (inactive_row K pid name t) =
     Inr \<lparr>p_id = pid, p_name = name, p_is_active = False\<rparr>"
  by (simp_all add: inactive_row_def profile_of_row_def)

lemma create_run [run]:
  assumes "uuid_text_ok (crates_of K)" and "p \<noteq> ProfileId (shd g)" and "trim name \<noteq> []"
  shows "sqlite_create_profile K name (open_conn [default_row K p t] as clk g) =
    (Inr \<lparr>p_id = ProfileId (shd g), p_name = name, p_is_active = False\<rparr>,
     open_conn [default_row K p t, inactive_row K (ProfileId (shd g)) name (shd clk)] as (stl clk) (stl g))"
  using assms
  by (simp add: storage_steps open_conn_def profile_new_apply default_row_def inactive_row_def Let_def)

definition two_profiles :: "profile_id \<Rightarrow> profile_id \<Rightarrow> string \<Rightarrow> profile list" where
  "two_profiles p q name =
     [\<lparr>p_id = p, p_name = ''Default'', p_is_active = True\<rparr>, \<lparr>p_id = q, p_name = name, p_is_active = False\<rparr>]"

lemma two_listed:
  assumes "uuid_text_ok (crates_of K)"
  obtains profiles where "collect (profile_of_row (crates_of K)) (sort_key (\<lambda>r. (pr_created_at r, pr_name r))
      [default_row K p t, inactive_row K q name u]) = Inr profiles"
    and "profiles = two_profiles p q name \<or> profiles = rev (two_profiles p q name)"
proof -
  let ?k = "\<lambda>r. (pr_created_at r, pr_name r)" and ?a = "default_row K p t" and ?b = "inactive_row K q name u"
  have "sort_key ?k [?a, ?b] = [?a, ?b] \<or> sort_key ?k [?a, ?b] = [?b, ?a]" by simp
  then show thesis
  proof
    assume e: "sort_key ?k [?a, ?b] = [?a, ?b]"
    show thesis
      by (rule that [of "two_profiles p q name"], unfold e)
        (simp_all add: assms two_profiles_def inactive_row_simps decode_default_row)
  next
    assume e: "sort_key ?k [?a, ?b] = [?b, ?a]"
    show thesis
      by (rule that [of "rev (two_profiles p q name)"], unfold e)
        (simp_all add: assms two_profiles_def inactive_row_simps decode_default_row)
  qed
qed

lemma update_run:
  "uuid_text_ok (crates_of K) \<Longrightarrow> p \<noteq> q \<Longrightarrow>
   rename_update K q r (open_conn [default_row K p t, inactive_row K q old u] as clk g) =
    (Inr r, open_conn [default_row K p t, inactive_row K q (p_name r) u] as clk g)"
  by (simp add: rename_update_def update_name_def execute_def stmt_def open_conn_def default_row_def inactive_row_def
      io_map_err_def io_bind_def)

lemma rename_run [run]:
  assumes "uuid_text_ok (crates_of K)" and "p \<noteq> q" and "trim name \<noteq> []"
  shows "sqlite_rename_profile K q name (open_conn [default_row K p t, inactive_row K q old u] as clk g) =
    (Inr \<lparr>p_id = q, p_name = name, p_is_active = False\<rparr>,
     open_conn [default_row K p t, inactive_row K q name u] as clk g)"
proof (rule two_listed [OF assms(1), of p t q old u])
  fix profiles
  assume l: "collect (profile_of_row (crates_of K)) (sort_key (\<lambda>r. (pr_created_at r, pr_name r))
      [default_row K p t, inactive_row K q old u]) = Inr profiles"
    and "profiles = two_profiles p q old \<or> profiles = rev (two_profiles p q old)"
  then have "find (\<lambda>p. p_id p = q) profiles = Some \<lparr>p_id = q, p_name = old, p_is_active = False\<rparr>"
    using assms(2) by (auto simp: two_profiles_def)
  then show ?thesis
    using assms by (simp add: sqlite_rename_profile_def io_bind_def list_run [OF l] profile_rename_def
        validate_profile_name_def update_run)
qed

definition urls_accepted :: "'u crates \<Rightarrow> string list \<Rightarrow> bool" where
  "urls_accepted C texts \<longleftrightarrow> list_all (\<lambda>t. safe_url_parse C t = Inr (SafeUrl t)) texts"

theorem storage_tests_pass:
  assumes K: "uuid_text_ok (crates_of K)" and g: "shd (stl g) \<noteq> shd g"
    and urls: "urls_accepted (crates_of K)
      [''https://example.com/path'', ''https://example.com/replacement'', ''https://example.com'',
       ''https://example.com/first'', ''https://example.com/second'', ''https://example.com/original'']"
  shows "passes (creates_default_active_profile K) (fresh_disk clk g)"
    and "passes (persists_assignment_round_trip K) (fresh_disk clk g)"
    and "passes (snapshot_state_preserves_ordered_assignment_actions K) (fresh_disk clk g)"
    and "passes (clear_assignment_removes_only_the_targeted_control_and_is_idempotent K) (fresh_disk clk g)"
    and "passes (profile_mutations_reject_missing_profiles K) (fresh_disk clk g)"
    and "passes (failed_assignment_save_rolls_back_existing_assignment K) (fresh_disk clk g)"
    and "passes (persists_profile_create_rename_and_assignment_clear K) (fresh_disk clk g)"
proof -
  note url = urls [unfolded urls_accepted_def, simplified]
  note steps = run K url wf_safe_url_def encode_control_inj layout_defs
  show "passes (creates_default_active_profile K) (fresh_disk clk g)"
    unfolding creates_default_active_profile_def
    by (rule with_in_memory_passes, rule passesI) (simp add: steps)
  show "passes (persists_assignment_round_trip K) (fresh_disk clk g)"
    unfolding persists_assignment_round_trip_def
    by (rule with_in_memory_passes, rule passesI) (simp add: steps Let_def assignment_of_row_of)
  show "passes (clear_assignment_removes_only_the_targeted_control_and_is_idempotent K) (fresh_disk clk g)"
    unfolding clear_assignment_removes_only_the_targeted_control_and_is_idempotent_def
    by (rule with_in_memory_passes, rule passesI) (simp add: steps)
  show "passes (profile_mutations_reject_missing_profiles K) (fresh_disk clk g)"
    unfolding profile_mutations_reject_missing_profiles_def
    using g by (intro with_in_memory_passes passesI) (simp add: steps)
  show "passes (snapshot_state_preserves_ordered_assignment_actions K) (fresh_disk clk g)"
    unfolding snapshot_state_preserves_ordered_assignment_actions_def
    by (rule with_in_memory_passes, rule passesI) (simp add: steps Let_def assignment_of_row_of)
  show "passes (failed_assignment_save_rolls_back_existing_assignment K) (fresh_disk clk g)"
    unfolding failed_assignment_save_rolls_back_existing_assignment_def
    apply (rule with_in_memory_passes, rule passesI) apply (simp add: steps)
    apply (subst io_bind_Inr_apply) apply (rule is_ok_run(2)) apply (rule save_failing_run) apply (simp add: steps)
    apply (simp add: steps)
    done
  obtain profiles where l: "collect (profile_of_row (crates_of K)) (sort_key (\<lambda>r. (pr_created_at r, pr_name r))
      [default_row K (ProfileId (shd g)) (shd clk),
       inactive_row K (ProfileId (shd (stl g))) '' Deep Work '' (shd (stl clk))]) = Inr profiles"
    and p: "profiles = two_profiles (ProfileId (shd g)) (ProfileId (shd (stl g))) '' Deep Work '' \<or>
      profiles = rev (two_profiles (ProfileId (shd g)) (ProfileId (shd (stl g))) '' Deep Work '')"
    by (rule two_listed [OF K])
  then have "list_ex (\<lambda>p. p_id p = ProfileId (shd (stl g)) \<and> p_name p = '' Deep Work '') profiles"
    by (auto simp: two_profiles_def)
  then show "passes (persists_profile_create_rename_and_assignment_clear K) (fresh_disk clk g)"
    unfolding persists_profile_create_rename_and_assignment_clear_def
    using g by (intro with_in_memory_passes passesI) (simp add: steps names_not_blank snapshot_run [OF l])
qed

text \<open>A file with all tables.\<close>

definition full_disk :: "profile_row list \<Rightarrow> assignment_row list \<Rightarrow> string stream \<Rightarrow> uuid stream \<Rightarrow> disk" where
  "full_disk ps as clk g =
     \<lparr>d_schema = \<lparr>s_migrations = Some [1], s_profiles = Some ps, s_index = True, s_assignments = Some as\<rparr>,
      d_pragma = True, d_clock = clk, d_rng = g, d_faults = []\<rparr>"

lemma open_run:
  "sqlite_open (fresh_disk clk g) = (Inr (open_conn [] [] clk g), full_disk [] [] clk g)"
  "sqlite_open (full_disk ps as clk g) = (Inr (open_conn ps as clk g), full_disk ps as clk g)"
  by (simp_all add: sqlite_open_def migrate_def migration_steps pragma_foreign_keys_on_def disk_stmt_def io_bind_def
      fresh_disk_def full_disk_def empty_schema_def table_or_new_def connection_of_def schema_rows_def open_conn_def Let_def)

lemma closed_run: "closed_file (open_conn ps as clk g) (full_disk ps' as' clk' g') = full_disk ps as clk g"
  by (simp add: closed_file_def open_conn_def full_disk_def)

lemma with_open_run [run]:
  "t (open_conn [] [] clk g) = (Inr a, open_conn ps as clk' g') \<Longrightarrow>
     with_open t (fresh_disk clk g) = (Inr a, full_disk ps as clk' g')"
  "t (open_conn ps as clk g) = (Inr a, open_conn ps' as' clk' g') \<Longrightarrow>
     with_open t (full_disk ps as clk g) = (Inr a, full_disk ps' as' clk' g')"
  by (simp_all add: with_open_def io_bind_def unwrap_def io_map_err_def open_run closed_run)

theorem storage_file_tests_pass:
  assumes K: "uuid_text_ok (crates_of K)" and g: "shd (stl g) \<noteq> shd g"
    and url: "safe_url_parse (crates_of K) ''https://example.com'' = Inr (SafeUrl ''https://example.com'')"
  shows "passes (file_database_restores_profile_and_assignment K) (fresh_disk clk g)"
    and "passes (file_database_restores_created_and_renamed_profiles K) (fresh_disk clk g)"
proof -
  note steps = run K url wf_safe_url_def encode_control_inj layout_defs assignment_of_row_of
  show "passes (file_database_restores_profile_and_assignment K) (fresh_disk clk g)"
    by (rule passesI) (simp add: file_database_restores_profile_and_assignment_def steps)
  obtain profiles where l: "collect (profile_of_row (crates_of K)) (sort_key (\<lambda>r. (pr_created_at r, pr_name r))
      [default_row K (ProfileId (shd g)) (shd clk),
       inactive_row K (ProfileId (shd (stl g))) ''Deep Work'' (shd (stl clk))]) = Inr profiles"
    and p: "profiles = two_profiles (ProfileId (shd g)) (ProfileId (shd (stl g))) ''Deep Work'' \<or>
      profiles = rev (two_profiles (ProfileId (shd g)) (ProfileId (shd (stl g))) ''Deep Work'')"
    by (rule two_listed [OF K])
  then have "list_ex (\<lambda>p. p_id p = ProfileId (shd (stl g)) \<and> p_name p = ''Deep Work'' \<and> \<not> p_is_active p) profiles"
    and "length (filter p_is_active profiles) = 1"
    by (auto simp: two_profiles_def)
  then show "passes (file_database_restores_created_and_renamed_profiles K) (fresh_disk clk g)"
    using g by (intro passesI)
      (simp add: file_database_restores_created_and_renamed_profiles_def steps names_not_blank list_run [OF l])
qed

end
