(* ===== verification/Keyro_Main_Tests.thy ===== *)
theory Keyro_Main_Tests
  imports Keyro_Ipc_Tests Keyro_Storage_Tests Keyro_Server Keyro_Listener
begin

text \<open>
  The unit tests of \<open>crates/keyro-core/src/main.rs\<close>, run on the model: a client of a connection that
  writes two lines and reads what comes back, and the bound on workers.  They pass for every
  \<open>serde_json\<close> that reads back what it writes and keeps the meaning of a value that is parsed and
  printed again.  The test with two clients that stay connected depends on threads and is left out.
\<close>

section \<open>Test doubles\<close>

text \<open>\<open>RecordingOpener\<close>: \<open>opened\<close> are the texts that appear among the effects, \<open>error\<close> is fixed.\<close>

definition recording_url_opener :: "string option \<Rightarrow> safe_url \<Rightarrow> (world, open_url_error, unit) io" where
  "recording_url_opener error url = (\<lambda>w.
     let w' = w\<lparr>w_effects := w_effects w @ [Launched (safe_url_as_str url) []]\<rparr> in
     case error of Some message \<Rightarrow> (Inl (OpenUrlError message), w') | None \<Rightarrow> (Inr (), w'))"

fun opened_texts :: "effect list \<Rightarrow> string list" where
  "opened_texts [] = []"
| "opened_texts (Launched program _ # es) = program # opened_texts es"
| "opened_texts (_ # es) = opened_texts es"

text \<open>A pair of sockets around a repository: nothing written so far.\<close>

definition world_on :: "connection \<Rightarrow> effect list \<Rightarrow> world" where
  "world_on c es = \<lparr>w_conn = c, w_launches = [], w_writes = [], w_poisoned = False, w_effects = es\<rparr>"

definition with_stream_pair :: "(world, 'a) test \<Rightarrow> (connection, 'a) test" where
  "with_stream_pair rest c = (case rest (world_on c []) of (r, w) \<Rightarrow> (r, w_conn w))"

text \<open>\<open>read_line\<close> takes the next line that has been sent to the client; at the end there is none and the
  text stays empty.\<close>

fun take_line :: "effect list \<Rightarrow> string \<times> effect list" where
  "take_line [] = ([], [])"
| "take_line (LineSent line # es) = (line @ [char_of (10 :: nat)], es)"
| "take_line (e # es) = (case take_line es of (line, es') \<Rightarrow> (line, e # es'))"

definition read_server_message :: "(string \<Rightarrow> server_message option) \<Rightarrow> (world, server_message) test" where
  "read_server_message from_str = (\<lambda>w.
     case take_line (w_effects w) of
       (line, es) \<Rightarrow> unwrap_some (from_str (trim_end line)) (w\<lparr>w_effects := es\<rparr>))"

definition compact_json :: "serde_json \<Rightarrow> (json_value \<Rightarrow> string) \<Rightarrow> string \<Rightarrow> ('w, string) test" where
  "compact_json J show_value input =
     io_bind (unwrap_some (from_str_value J input)) (\<lambda>v. io_return (show_value v))"

text \<open>The client writes two lines and closes its side; the handler serves them to the end.\<close>

definition serve_two_lines ::
  "'u deps \<Rightarrow> serde_json \<Rightarrow> (json_value \<Rightarrow> string) \<Rightarrow> (json_value \<Rightarrow> string) \<Rightarrow> string option \<Rightarrow>
   json_value \<Rightarrow> json_value \<Rightarrow> (world, unit) test" where
  "serve_two_lines K J text show_value error v v' =
     io_bind (compact_json J show_value (text v)) (\<lambda>line.
     io_bind (compact_json J show_value (text v')) (\<lambda>line'.
     unwrap (handle_dev_connection_inner K J (recording_url_opener error) (Inr ()) [Inr line, Inr line'])))"

section \<open>Tests\<close>

definition ipc_event_sink_writes_action_events_to_connection ::
  "'u deps \<Rightarrow> serde_json \<Rightarrow> (string \<Rightarrow> server_message option) \<Rightarrow> (world, unit) test" where
  "ipc_event_sink_writes_action_events_to_connection K J from_str =
     io_bind (unwrap (io_of_res (control_key 0 0))) (\<lambda>control.
     io_bind (lift_conn (with_rng profile_id_new)) (\<lambda>profile_id.
     io_bind (lift_conn (with_rng new_v4)) (\<lambda>run_id.
     io_bind (unwrap (ipc_event_sink J (crates_of K)
       (ActionRunning (ActionRunId run_id) profile_id control))) (\<lambda>_.
     io_bind (read_server_message from_str) (\<lambda>message.
     case message of
       MsgActionEvent (EvRunning _ encoded_profile_id _) \<Rightarrow>
         expect (encoded_profile_id = profile_id_to_string (crates_of K) profile_id)
     | _ \<Rightarrow> expect False)))))"

definition is_handshake_accepted :: "server_message \<Rightarrow> bool" where
  "is_handshake_accepted message = (case message of MsgHandshakeAccepted _ _ _ \<Rightarrow> True | _ \<Rightarrow> False)"

definition dev_connection_delivers_action_events_before_acknowledgement ::
  "'u deps \<Rightarrow> serde_json \<Rightarrow> (json_value \<Rightarrow> string) \<Rightarrow> (json_value \<Rightarrow> string) \<Rightarrow>
   (string \<Rightarrow> server_message option) \<Rightarrow> (disk, unit) test" where
  "dev_connection_delivers_action_events_before_acknowledgement K J text show_value from_str =
     with_in_memory (
     io_bind (unwrap (sqlite_ensure_default_profile K)) (\<lambda>profile.
     io_bind (unwrap (io_of_res (control_key 0 0))) (\<lambda>control.
     io_bind (single_url (crates_of K) (p_id profile) control ''https://example.com'') (\<lambda>assignment.
     io_bind (unwrap (sqlite_save_assignment K assignment)) (\<lambda>_.
     with_stream_pair (
       io_bind (serve_two_lines K J text show_value None vector_handshake vector_virtual_control_input) (\<lambda>_.
       io_bind (read_server_message from_str) (\<lambda>handshake.
       io_bind (read_server_message from_str) (\<lambda>running.
       io_bind (read_server_message from_str) (\<lambda>succeeded.
       io_bind (read_server_message from_str) (\<lambda>acknowledged.
       io_bind (expect (is_handshake_accepted handshake)) (\<lambda>_.
       io_bind (expect (case running of
           MsgActionEvent (EvRunning _ _ running_control) \<Rightarrow> running_control = KeyDto 0 0 | _ \<Rightarrow> False)) (\<lambda>_.
       io_bind (expect (case succeeded of MsgActionEvent (EvSucceeded _) \<Rightarrow> True | _ \<Rightarrow> False)) (\<lambda>_.
       io_bind (expect (acknowledged = MsgAcknowledged ''req-virtual-key-press'')) (\<lambda>_.
       io_bind (observe (\<lambda>w. opened_texts (w_effects w))) (\<lambda>texts.
       expect (texts = [''https://example.com''])))))))))))))))))"

definition dev_connection_returns_snapshot_with_persisted_assignment ::
  "'u deps \<Rightarrow> serde_json \<Rightarrow> (json_value \<Rightarrow> string) \<Rightarrow> (json_value \<Rightarrow> string) \<Rightarrow>
   (string \<Rightarrow> server_message option) \<Rightarrow> (disk, unit) test" where
  "dev_connection_returns_snapshot_with_persisted_assignment K J text show_value from_str =
     with_in_memory (
     io_bind (unwrap (sqlite_ensure_default_profile K)) (\<lambda>profile.
     io_bind (unwrap (io_of_res (control_key 0 0))) (\<lambda>control.
     io_bind (single_url (crates_of K) (p_id profile) control ''https://example.com'') (\<lambda>assignment.
     io_bind (unwrap (sqlite_save_assignment K assignment)) (\<lambda>_.
     with_stream_pair (
       io_bind (serve_two_lines K J text show_value None vector_handshake vector_get_snapshot) (\<lambda>_.
       io_bind (read_server_message from_str) (\<lambda>handshake.
       io_bind (read_server_message from_str) (\<lambda>snapshot.
       io_bind (expect (is_handshake_accepted handshake)) (\<lambda>_.
       case snapshot of
         MsgSnapshot request_id layout profiles assignments \<Rightarrow>
           io_bind (expect (request_id = ''req-snapshot'')) (\<lambda>_.
           io_bind (expect (dl_page_count layout = 4)) (\<lambda>_.
           io_bind (expect (dl_key_rows layout = 3)) (\<lambda>_.
           io_bind (expect (dl_key_columns layout = 4)) (\<lambda>_.
           io_bind (expect (dl_encoder_count layout = 2)) (\<lambda>_.
           io_bind (expect (pd_id (profiles ! 0) = profile_id_to_string (crates_of K) (p_id profile))) (\<lambda>_.
           io_bind (expect (length assignments = 1)) (\<lambda>_.
           io_bind (expect (sd_profile_id (assignments ! 0) =
             profile_id_to_string (crates_of K) (p_id profile))) (\<lambda>_.
           io_bind (expect (sd_control (assignments ! 0) = KeyDto 0 0)) (\<lambda>_.
           expect (length (sd_actions (assignments ! 0)) = 1))))))))))
       | _ \<Rightarrow> expect False))))))))))"

definition dev_connection_delivers_failed_action_event_before_error ::
  "'u deps \<Rightarrow> serde_json \<Rightarrow> (json_value \<Rightarrow> string) \<Rightarrow> (json_value \<Rightarrow> string) \<Rightarrow>
   (string \<Rightarrow> server_message option) \<Rightarrow> (disk, unit) test" where
  "dev_connection_delivers_failed_action_event_before_error K J text show_value from_str =
     with_in_memory (
     io_bind (unwrap (sqlite_ensure_default_profile K)) (\<lambda>profile.
     io_bind (unwrap (io_of_res (control_key 0 0))) (\<lambda>control.
     io_bind (single_url (crates_of K) (p_id profile) control ''https://example.com'') (\<lambda>assignment.
     io_bind (unwrap (sqlite_save_assignment K assignment)) (\<lambda>_.
     with_stream_pair (
       io_bind (serve_two_lines K J text show_value (Some ''open failed'')
         vector_handshake vector_virtual_control_input) (\<lambda>_.
       io_bind (read_server_message from_str) (\<lambda>handshake.
       io_bind (read_server_message from_str) (\<lambda>running.
       io_bind (read_server_message from_str) (\<lambda>failed.
       io_bind (read_server_message from_str) (\<lambda>request_error.
       io_bind (expect (is_handshake_accepted handshake)) (\<lambda>_.
       io_bind (expect (case running of MsgActionEvent (EvRunning _ _ _) \<Rightarrow> True | _ \<Rightarrow> False)) (\<lambda>_.
       io_bind (expect (case failed of
           MsgActionEvent (EvFailed _ _ message) \<Rightarrow> message = ''open failed'' | _ \<Rightarrow> False)) (\<lambda>_.
       expect (case request_error of
           MsgError request_id _ \<Rightarrow> request_id = Some ''req-virtual-key-press'' | _ \<Rightarrow> False)))))))))))))))"

text \<open>The state of this test are the threads.  While the clients are there no worker ends; when they are
  dropped all do.\<close>

definition accept_dev :: "dev_connections \<Rightarrow> (threads, dev_connections) test" where
  "accept_dev connections = (\<lambda>t.
     case accept_connection connections t of
       (Inl e, _, t') \<Rightarrow> (Inl e, t') | (Inr _, connections', t') \<Rightarrow> (Inr connections', t'))"

fun accept_clients :: "nat \<Rightarrow> dev_connections \<Rightarrow> (threads, dev_connections) test" where
  "accept_clients 0 connections = io_return connections"
| "accept_clients (Suc n) connections = io_bind (accept_dev connections) (accept_clients n)"

definition drop_clients :: "(threads, unit) test" where
  "drop_clients = (\<lambda>t. (Inr (), t\<lparr>th_ends := sconst (map fst (th_running t))\<rparr>))"

definition dev_connections_bound_idle_clients_and_reclaim_disconnected_workers :: "(threads, unit) test" where
  "dev_connections_bound_idle_clients_and_reclaim_disconnected_workers =
     io_bind (accept_clients MAX_DEV_CONNECTIONS dev_connections_default) (\<lambda>connections.
     io_bind (accept_dev connections) (\<lambda>connections.
     io_bind (observe (\<lambda>t. length (th_running t))) (\<lambda>served.
     io_bind (expect (served = MAX_DEV_CONNECTIONS)) (\<lambda>_.
     io_bind (expect (length (workers connections) = MAX_DEV_CONNECTIONS)) (\<lambda>_.
     io_bind drop_clients (\<lambda>_.
     io_bind (observe (\<lambda>t. running (time_passes t))) (\<lambda>left.
     io_bind (expect (list_all (\<lambda>worker. worker \<notin> left) (workers connections))) (\<lambda>_.
     io_bind (accept_dev connections) (\<lambda>connections.
     expect (length (workers connections) = 1))))))))))"

section \<open>They pass\<close>

text \<open>\<open>from_str\<close> reads what \<open>J\<close> writes, with white space after it; a parsed and printed text means the
  same as before.\<close>

definition reads_back :: "serde_json \<Rightarrow> (string \<Rightarrow> server_message option) \<Rightarrow> bool" where
  "reads_back J from_str \<longleftrightarrow>
     (\<forall>m. \<exists>line. to_string_message J m = Inr line \<and>
        from_str (trim_end (line @ [char_of (10 :: nat)])) = Some m)"

definition compacts :: "serde_json \<Rightarrow> (json_value \<Rightarrow> string) \<Rightarrow> (json_value \<Rightarrow> string) \<Rightarrow> bool" where
  "compacts J text show_value \<longleftrightarrow>
     (\<forall>v e. read_client_envelope v = Some e \<longrightarrow>
        (\<exists>v'. from_str_value J (text v) = Some v' \<and> from_str_envelope J (show_value v') = Inr e))"

definition printed :: "serde_json \<Rightarrow> server_message \<Rightarrow> string" where
  "printed J m = (case to_string_message J m of Inr line \<Rightarrow> line | Inl _ \<Rightarrow> [])"

lemma world_on_simps [run]:
  "w_conn (world_on c es) = c" "w_effects (world_on c es) = es"
  "(world_on c es)\<lparr>w_conn := c'\<rparr> = world_on c' es" "(world_on c es)\<lparr>w_effects := es'\<rparr> = world_on c es'"
  by (simp_all add: world_on_def)

lemma lift_conn_run [run]: "m c = (r, c') \<Longrightarrow> lift_conn m (world_on c es) = (r, world_on c' es)"
  by (simp add: lift_conn_def run)

lemma write_run [run]:
  "reads_back J from_str \<Longrightarrow>
   write_protocol_message J m (world_on c es) = (Inr (), world_on c (es @ [LineSent (printed J m)]))"
  unfolding reads_back_def
  by (erule allE [of _ m]) (auto simp: write_protocol_message_def encode_protocol_message_def
      encode_server_message_def lock_writer_def write_line_def io_bind_def printed_def world_on_def)

lemma read_run [run]:
  assumes "reads_back J from_str" and "take_line es = (printed J m @ [char_of (10 :: nat)], es')"
  shows "read_server_message from_str (world_on c es) = (Inr m, world_on c es')"
proof -
  obtain line where "to_string_message J m = Inr line"
    and "from_str (trim_end (line @ [char_of (10 :: nat)])) = Some m"
    using assms(1) unfolding reads_back_def by meson
  with assms(2) show ?thesis by (simp add: read_server_message_def printed_def run)
qed

lemma emit_run [run]:
  "reads_back J from_str \<Longrightarrow> ipc_event_sink J C event (world_on c es) =
     (Inr (), world_on c (es @ [LineSent (printed J (event_from_core C event))]))"
  by (simp add: ipc_event_sink_def io_map_err_def write_run)

lemma opener_run [run]:
  "recording_url_opener None url (world_on c es) = (Inr (), world_on c (es @ [Launched (safe_url_as_str url) []]))"
  "recording_url_opener (Some e) url (world_on c es) =
     (Inl (OpenUrlError e), world_on c (es @ [Launched (safe_url_as_str url) []]))"
  by (simp_all add: recording_url_opener_def run)

lemma new_v4_run [run]:
  "with_rng new_v4 (open_conn ps as clk g) = (Inr (shd g), open_conn ps as clk (stl g))"
  by (simp add: with_rng_def new_v4_def open_conn_def)

lemma with_stream_pair_run [run]:
  "t (world_on c []) = (Inr a, w) \<Longrightarrow> with_stream_pair t c = (Inr a, w_conn w)"
  by (simp add: with_stream_pair_def)

text \<open>Two lines.\<close>

lemma io_bind_of_Inr: "io_bind (io_of_res (Inr a)) f = f a"
  by (simp add: io_bind_def fun_eq_iff)

lemma compact_run [run]:
  "from_str_value J input = Some v \<Longrightarrow> compact_json J show_value input w = (Inr (show_value v), w)"
  by (simp add: compact_json_def run io_return_def)

lemma serve_two_lines_run:
  assumes "compacts J text show_value"
    and "read_client_envelope v = Some \<lparr>ce_request_id = CHR ''r'' # r, ce_message = m\<rparr>"
    and "read_client_envelope v' = Some \<lparr>ce_request_id = CHR ''r'' # r', ce_message = m'\<rparr>"
    and "dispatch_envelope (crates_of K) (protocol_session_new CARGO_PKG_VERSION)
      \<lparr>ce_request_id = CHR ''r'' # r, ce_message = m\<rparr> = (d, s)"
    and "dispatch_envelope (crates_of K) s \<lparr>ce_request_id = CHR ''r'' # r', ce_message = m'\<rparr> = (d', s')"
    and "io_bind (dispatch_reply K (connection_service K J (recording_url_opener error)) d) (\<lambda>reply.
      io_bind (write_protocol_message J reply) (\<lambda>_.
      io_bind (dispatch_reply K (connection_service K J (recording_url_opener error)) d') (\<lambda>reply.
      io_bind (write_protocol_message J reply) (\<lambda>_. io_return ())))) w = (Inr (), w')"
  shows "serve_two_lines K J text show_value error v v' w = (Inr (), w')"
proof -
  obtain u u' where u: "from_str_value J (text v) = Some u" "from_str_value J (text v') = Some u'"
    and "from_str_envelope J (show_value u) = Inr \<lparr>ce_request_id = CHR ''r'' # r, ce_message = m\<rparr>"
    and "from_str_envelope J (show_value u') = Inr \<lparr>ce_request_id = CHR ''r'' # r', ce_message = m'\<rparr>"
    using assms(1-3) unfolding compacts_def by meson
  then have "receive_line J (crates_of K) (protocol_session_new CARGO_PKG_VERSION) (show_value u) = (d, s)"
    and "receive_line J (crates_of K) s (show_value u') = (d', s')"
    using assms(4, 5) by (simp_all add: receive_line_def decode_client_envelope_def req_not_blank)
  with u assms(6) show ?thesis
    by (simp add: serve_two_lines_def handle_dev_connection_inner_def io_bind_of_Inr run)
qed

lemma handshake_dispatch:
  "read_client_envelope vector_handshake = Some \<lparr>ce_request_id = ''req-handshake'', ce_message =
     CmHandshake \<lparr>hm_component = Studio, hm_component_version = ''0.3.0'',
       hm_protocol = protocol_version_current\<rparr>\<rparr>"
  "dispatch_envelope C (protocol_session_new v) \<lparr>ce_request_id = r, ce_message =
     CmHandshake \<lparr>hm_component = Studio, hm_component_version = ''0.3.0'',
       hm_protocol = protocol_version_current\<rparr>\<rparr> =
   (Immediate (MsgHandshakeAccepted r v protocol_version_current),
    (protocol_session_new v)\<lparr>session_state := Established\<rparr>)"
  by (simp_all add: vector_handshake_def read_vectors protocol_version_current_def PROTOCOL_MAJOR_def
      PROTOCOL_MINOR_def dispatch_envelope_def protocol_session_new_def handshake_response_def
      is_exactly_def Let_def)

lemma established_dispatch:
  "session_state s = Established \<Longrightarrow> dispatch_envelope C s
     \<lparr>ce_request_id = r, ce_message = CmVirtualControlInput \<lparr>vci_control = KeyDto 0 0\<rparr>\<rparr> =
   (Command r (VirtualControlInput (Key (PageIndex 0) (KeyIndex 0))), s)"
  "session_state s = Established \<Longrightarrow> dispatch_envelope C s
     \<lparr>ce_request_id = r, ce_message = CmGetSnapshot GetSnapshotMessage\<rparr> = (Command r GetSnapshot, s)"
  by (simp_all add: dispatch_envelope_def Let_def u8_index_def u8_of_u16_def control_key_def
      page_index_new_def key_index_new_def layout_defs)

text \<open>The store of the tests: one profile with one assigned key.\<close>

abbreviation test_url :: safe_url where "test_url \<equiv> SafeUrl ''https://example.com''"

abbreviation test_control :: control_id where "test_control \<equiv> Key (PageIndex 0) (KeyIndex 0)"

definition test_conn :: "'u deps \<Rightarrow> string \<Rightarrow> uuid \<Rightarrow> string stream \<Rightarrow> uuid stream \<Rightarrow> connection" where
  "test_conn K t u clk g = open_conn [default_row K (ProfileId u) t]
     [assignment_row_of (crates_of K) (ProfileId u) test_control 0 (OpenUrl test_url)] clk g"

lemma press_run:
  assumes "uuid_text_ok (crates_of K)" and "reads_back J from_str"
    and "safe_url_parse (crates_of K) ''https://example.com'' = Inr test_url"
  shows "handle_command (connection_service K J (recording_url_opener error)) (VirtualControlInput test_control)
      (world_on (test_conn K t u clk g) es) =
    (case error of
       None \<Rightarrow> (Inr RespAcknowledged, world_on (test_conn K t u clk (stl g)) (es @
         [LineSent (printed J (event_from_core (crates_of K)
            (ActionRunning (ActionRunId (shd g)) (ProfileId u) test_control))),
          Launched ''https://example.com'' [],
          LineSent (printed J (event_from_core (crates_of K) (ActionSucceeded (ActionRunId (shd g)))))]))
     | Some e \<Rightarrow> (Inl (AppOpenUrl (OpenUrlError e)), world_on (test_conn K t u clk (stl g)) (es @
         [LineSent (printed J (event_from_core (crates_of K)
            (ActionRunning (ActionRunId (shd g)) (ProfileId u) test_control))),
          Launched ''https://example.com'' [],
          LineSent (printed J (event_from_core (crates_of K)
            (ActionFailed (ActionRunId (shd g)) OpenUrlFailed (app_error_text (AppOpenUrl (OpenUrlError e))))))])))"
  using assms
  by (simp add: route_virtual_control_def active_profile_def run_action_def connection_service_def run
      test_conn_def sqlite_repository_def ensure_exactly_one_active_def first_action_def action_run_id_new_def io_fail_def
      io_return_def split: option.split)

lemma snapshot_command_run:
  assumes "uuid_text_ok (crates_of K)"
    and "safe_url_parse (crates_of K) ''https://example.com'' = Inr test_url"
  shows "handle_command (connection_service K J opener) GetSnapshot (world_on (test_conn K t u clk g) es) =
    (Inr (RespSnapshot
       \<lparr>cs_layout = MVP_DEVICE_LAYOUT,
        cs_profiles = [\<lparr>p_id = ProfileId u, p_name = ''Default'', p_is_active = True\<rparr>],
        cs_assignments = [\<lparr>sn_profile_id = ProfileId u, sn_control = test_control,
          sn_actions = [OpenUrl test_url]\<rparr>]\<rparr>),
     world_on (test_conn K t u clk g) es)"
  using assms
  by (simp add: connection_service_def run test_conn_def sqlite_repository_def ensure_exactly_one_active_def
      assignment_of_row_of wf_safe_url_def layout_defs snapshot_assignment_of_def)

lemma prepared_run:
  assumes "uuid_text_ok (crates_of K)"
    and "safe_url_parse (crates_of K) ''https://example.com'' = Inr test_url"
    and "rest \<lparr>p_id = ProfileId (shd g), p_name = ''Default'', p_is_active = True\<rparr>
      (test_conn K (shd clk) (shd g) (stl clk) (stl g)) = (Inr a, c)"
  shows "passes (with_in_memory (
     io_bind (unwrap (sqlite_ensure_default_profile K)) (\<lambda>profile.
     io_bind (unwrap (io_of_res (control_key 0 0))) (\<lambda>control.
     io_bind (single_url (crates_of K) (p_id profile) control ''https://example.com'') (\<lambda>assignment.
     io_bind (unwrap (sqlite_save_assignment K assignment)) (\<lambda>_. rest profile)))))) (fresh_disk clk g)"
  using assms by (intro with_in_memory_passes passesI) (simp add: run test_conn_def)

theorem main_tests_pass:
  assumes K: "uuid_text_ok (crates_of K)" and J: "reads_back J from_str"
    and compacts: "compacts J text show_value"
    and url: "safe_url_parse (crates_of K) ''https://example.com'' = Inr test_url"
  shows "passes (ipc_event_sink_writes_action_events_to_connection K J from_str)
      (world_on (open_conn ps as clk g) [])"
    and "passes (dev_connection_delivers_action_events_before_acknowledgement K J text show_value from_str)
      (fresh_disk clk g)"
    and "passes (dev_connection_returns_snapshot_with_persisted_assignment K J text show_value from_str)
      (fresh_disk clk g)"
    and "passes (dev_connection_delivers_failed_action_event_before_error K J text show_value from_str)
      (fresh_disk clk g)"
proof -
  note served = serve_two_lines_run [OF compacts handshake_dispatch(1) _ handshake_dispatch(2)]
  note steps = run read_run [OF J] write_run [OF J] press_run [OF K J url] snapshot_command_run [OF K url]
    is_handshake_accepted_def with_stream_pair_def
  show "passes (ipc_event_sink_writes_action_events_to_connection K J from_str)
      (world_on (open_conn ps as clk g) [])"
    by (rule passesI) (simp add: ipc_event_sink_writes_action_events_to_connection_def steps emit_run [OF J])
  have press: "serve_two_lines K J text show_value error vector_handshake vector_virtual_control_input
      (world_on (test_conn K t u clk g) []) = (Inr (), world_on (test_conn K t u clk (stl g))
        ([LineSent (printed J (MsgHandshakeAccepted ''req-handshake'' CARGO_PKG_VERSION protocol_version_current)),
          LineSent (printed J (event_from_core (crates_of K)
            (ActionRunning (ActionRunId (shd g)) (ProfileId u) test_control))),
          Launched ''https://example.com'' []] @
         map (LineSent \<circ> printed J) (case error of
           None \<Rightarrow> [event_from_core (crates_of K) (ActionSucceeded (ActionRunId (shd g))),
             MsgAcknowledged ''req-virtual-key-press'']
         | Some e \<Rightarrow> [event_from_core (crates_of K)
               (ActionFailed (ActionRunId (shd g)) OpenUrlFailed (app_error_text (AppOpenUrl (OpenUrlError e)))),
             error_message (Some ''req-virtual-key-press'') (AppOpenUrl (OpenUrlError e))])))"
    for error t u clk g
    by (cases error; rule served [OF read_vectors(2) established_dispatch(1)])
      (simp_all add: steps del: event_from_core.simps handle_command.simps)
  show "passes (dev_connection_delivers_action_events_before_acknowledgement K J text show_value from_str)
      (fresh_disk clk g)"
    unfolding dev_connection_delivers_action_events_before_acknowledgement_def
    by (rule prepared_run [OF K url]) (simp add: steps press)
  show "passes (dev_connection_delivers_failed_action_event_before_error K J text show_value from_str)
      (fresh_disk clk g)"
    unfolding dev_connection_delivers_failed_action_event_before_error_def
    by (rule prepared_run [OF K url]) (simp add: steps press error_message_def)
  have snapshot: "serve_two_lines K J text show_value None vector_handshake vector_get_snapshot
      (world_on (test_conn K t u clk g) []) = (Inr (), world_on (test_conn K t u clk g)
        (map (LineSent \<circ> printed J)
          [MsgHandshakeAccepted ''req-handshake'' CARGO_PKG_VERSION protocol_version_current,
           response_from_core (crates_of K) ''req-snapshot'' (RespSnapshot
       \<lparr>cs_layout = MVP_DEVICE_LAYOUT,
        cs_profiles = [\<lparr>p_id = ProfileId u, p_name = ''Default'', p_is_active = True\<rparr>],
        cs_assignments = [\<lparr>sn_profile_id = ProfileId u, sn_control = test_control,
          sn_actions = [OpenUrl test_url]\<rparr>]\<rparr>)]))"
    for t u clk g
    by (rule served [OF read_vectors(4) established_dispatch(2)])
      (simp_all add: steps del: response_from_core.simps handle_command.simps)
  show "passes (dev_connection_returns_snapshot_with_persisted_assignment K J text show_value from_str)
      (fresh_disk clk g)"
    unfolding dev_connection_returns_snapshot_with_persisted_assignment_def
    by (rule prepared_run [OF K url])
      (simp add: steps snapshot layout_to_dto_def MVP_DEVICE_LAYOUT_def layout_defs profile_to_dto_def
        snapshot_assignment_to_dto_def)
qed

text \<open>Workers.\<close>

definition served_by :: "nat \<Rightarrow> threads" where
  "served_by n = \<lparr>th_running = map (\<lambda>i. (i, word_of_nat i)) [0..<n], th_ends = sconst [], th_next = n,
     th_faults = []\<rparr>"

definition tracking :: "nat \<Rightarrow> dev_connections" where
  "tracking n = \<lparr>workers = [0..<n], next_id = word_of_nat n\<rparr>"

lemma reap_idle:
  assumes "set ws \<subseteq> running t" and t: "time_passes t = t"
  shows "reap i ws t = (ws, t)"
proof (induction "length ws - i" arbitrary: i)
  case 0
  then show ?case by (subst reap.simps) simp
next
  case (Suc n)
  then have "ws ! i \<in> set ws" by simp
  with assms(1) have "is_finished (ws ! i) t = (False, t)"
    by (simp add: is_finished_def t subset_iff)
  moreover have "reap (i + 1) ws t = (ws, t)" using Suc by (intro Suc(1)) simp
  ultimately show ?case by (subst reap.simps) simp
qed

lemma set_swap_remove: "ws \<noteq> [] \<Longrightarrow> set (swap_remove 0 ws) \<subseteq> set ws"
  using swap_remove_mset [of 0 ws] by (metis diff_empty insert_subset length_greater_0_conv order_refl
      set_mset_add_mset_insert set_mset_mset)

lemma time_passes_again:
  "th_ends t = sconst es \<Longrightarrow> time_passes (time_passes t) = time_passes t"
  by (simp add: time_passes_def)

lemma reap_ended:
  "set ws \<subseteq> set es \<Longrightarrow> th_ends t = sconst es \<Longrightarrow>
   reap 0 ws t = ([], if ws = [] then t else time_passes t)"
proof (induction "length ws" arbitrary: ws t)
  case 0
  then show ?case by (subst reap.simps) simp
next
  case (Suc n)
  have less: "set (swap_remove 0 ws) \<subseteq> set es"
    using Suc(2,3) set_swap_remove [of ws] by fastforce
  have ended: "is_finished (ws ! 0) t = (True, time_passes t)"
    using Suc(2-) by (cases ws) (auto simp: is_finished_def running_def time_passes_def)
  have "th_ends (time_passes t) = sconst es" using Suc(4) by (simp add: time_passes_def)
  with Suc(1) [OF _ less] Suc(2) ended time_passes_again [OF Suc(4)] show ?case
    by (subst reap.simps) (auto simp: length_swap_remove)
qed

lemma accept_idle [run]:
  assumes "n < MAX_DEV_CONNECTIONS"
  shows "accept_dev (tracking n) (served_by n) = (Inr (tracking (Suc n)), served_by (Suc n))"
proof -
  have "reap 0 [0..<n] (served_by n) = ([0..<n], served_by n)"
    by (rule reap_idle) (force simp: served_by_def running_def time_passes_def)+
  with assms show ?thesis
    by (simp add: accept_dev_def accept_connection_def tracking_def spawn_def Let_def)
      (simp add: served_by_def)
qed

lemma accept_full [run]:
  "accept_dev (tracking MAX_DEV_CONNECTIONS) (served_by MAX_DEV_CONNECTIONS) =
     (Inr (tracking MAX_DEV_CONNECTIONS), served_by MAX_DEV_CONNECTIONS)"
proof -
  have "reap 0 [0..<n] (served_by n) = ([0..<n], served_by n)" for n
    by (rule reap_idle) (force simp: served_by_def running_def time_passes_def)+
  then show ?thesis
    by (simp add: accept_dev_def accept_connection_def tracking_def Let_def)
qed

lemma accept_clients_run [run]:
  "n + m \<le> MAX_DEV_CONNECTIONS \<Longrightarrow>
   accept_clients n (tracking m) (served_by m) = (Inr (tracking (n + m)), served_by (n + m))"
  by (induction n arbitrary: m) (simp_all add: run)

theorem worker_test_passes:
  "passes dev_connections_bound_idle_clients_and_reclaim_disconnected_workers (served_by 0)"
proof -
  let ?n = MAX_DEV_CONNECTIONS
  let ?t = "(served_by ?n)\<lparr>th_ends := sconst [0..<?n]\<rparr>"
  have dropped: "drop_clients (served_by ?n) = (Inr (), ?t)"
    by (simp add: drop_clients_def served_by_def comp_def)
  have left: "running (time_passes ?t) = {}"
    by (auto simp: time_passes_def running_def served_by_def)
  have "reap 0 [0..<?n] ?t = ([], time_passes ?t)"
    by (subst reap_ended [of _ "[0..<?n]"]) (simp_all add: MAX_DEV_CONNECTIONS_def)
  then obtain t' where again: "accept_dev (tracking ?n) ?t = (Inr \<lparr>workers = [?n], next_id = 9\<rparr>, t')"
    by (simp add: accept_dev_def accept_connection_def tracking_def Let_def spawn_def time_passes_def
        served_by_def MAX_DEV_CONNECTIONS_def)
  have served: "length (th_running (served_by ?n)) = ?n" by (simp add: served_by_def)
  have tracked: "length (workers (tracking ?n)) = ?n" by (simp add: tracking_def)
  have start: "dev_connections_default = tracking 0"
    by (simp add: dev_connections_default_def tracking_def)
  show ?thesis
    unfolding dev_connections_bound_idle_clients_and_reclaim_disconnected_workers_def start
    by (rule passesI, subst io_bind_Inr_apply, rule accept_clients_run, simp)
      (simp add: run served dropped left tracked again list_all_iff)
qed

end
