(* ===== verification/Keyro_Host_Tests.thy ===== *)
theory Keyro_Host_Tests
  imports Keyro_Testing Keyro_Logging_History Keyro_Instance Keyro_Listener
begin

text \<open>
  The unit tests of \<open>crates/keyro-core/src/logging.rs\<close>, \<open>single_instance.rs\<close> and the one of
  \<open>windows_ipc.rs\<close> that does not depend on threads, run on the model.  A logging test starts in an
  empty directory on a file system whose calls succeed; it takes less time than the modification
  times of files resolve, so that the clock stands still, unless the age of a log is what it tests.
\<close>

section \<open>Test vocabulary\<close>

text \<open>\<open>Write::write_all\<close>: a write that accepts nothing is an error.\<close>

function write_all :: "log_retention \<Rightarrow> string \<Rightarrow> unit log_io" where
  "write_all retention buf w =
     (if buf = [] then (Inr (), w)
      else
        (case log_handle_write retention buf w of
           (Inl e, w') \<Rightarrow> (Inl e, w')
         | (Inr n, w') \<Rightarrow>
             if n = 0 then (Inl ''failed to write whole buffer'', w')
             else write_all retention (drop n buf) w'))"
  by pat_completeness auto
termination
  by (relation "measure (\<lambda>(_, buf, _). length buf)") auto

declare write_all.simps [simp del]

text \<open>\<open>fs::write\<close> of a new file.\<close>

definition fs_write :: "string \<Rightarrow> string \<Rightarrow> (log_world, unit) test" where
  "fs_write name data = (\<lambda>w.
     (Inr (), w\<lparr>lw_dir := lw_dir w @ [(name, lw_next w)],
        lw_files := (lw_files w)(lw_next w := \<lparr>f_data = data, f_modified = shd (lw_clock w)\<rparr>),
        lw_clock := stl (lw_clock w), lw_next := Suc (lw_next w)\<rparr>))"

text \<open>The sum of the sizes of all files, and the logs with their sizes.\<close>

definition total_size :: "log_world \<Rightarrow> nat" where
  "total_size w = sum_list (map (log_size w) (lw_dir w))"

definition log_sizes :: "log_world \<Rightarrow> nat list" where
  "log_sizes w = map (log_size w) (logs w)"

fun repeat :: "nat \<Rightarrow> ('w, unit) test \<Rightarrow> ('w, unit) test" where
  "repeat 0 m = io_return ()"
| "repeat (Suc n) m = io_bind m (\<lambda>_. repeat n m)"

definition retention_of :: "nat \<Rightarrow> nat \<Rightarrow> nat \<Rightarrow> nat \<Rightarrow> log_retention" where
  "retention_of file_bytes total_bytes files age =
     \<lparr>max_file_bytes = file_bytes, max_total_bytes = total_bytes, max_files = files, max_age = age\<rparr>"

section \<open>Logging tests\<close>

definition default_retention_matches_product_policy :: "(log_world, unit) test" where
  "default_retention_matches_product_policy =
     (let retention = log_retention_default in
      io_bind (expect (max_file_bytes retention = 5 * 1024 * 1024)) (\<lambda>_.
      io_bind (expect (max_total_bytes retention = 50 * 1024 * 1024)) (\<lambda>_.
      io_bind (expect (max_files retention = 10)) (\<lambda>_.
      expect (max_age retention = 14 * 24 * 60 * 60)))))"

definition rejects_invalid_retention_settings :: "(log_world, unit) test" where
  "rejects_invalid_retention_settings =
     (let valid = retention_of 1 1 1 60 in
      io_bind (is_ok (rotating_log_writer_new (valid\<lparr>max_file_bytes := 0\<rparr>))) (\<lambda>ok.
      io_bind (expect (\<not> ok)) (\<lambda>_.
      io_bind (is_ok (rotating_log_writer_new (valid\<lparr>max_total_bytes := 0\<rparr>))) (\<lambda>ok.
      io_bind (expect (\<not> ok)) (\<lambda>_.
      io_bind (is_ok (rotating_log_writer_new (valid\<lparr>max_files := 0\<rparr>))) (\<lambda>ok.
      io_bind (expect (\<not> ok)) (\<lambda>_.
      io_bind (is_ok (rotating_log_writer_new (valid\<lparr>max_file_bytes := 2, max_total_bytes := 1\<rparr>))) (\<lambda>ok.
      expect (\<not> ok)))))))))"

definition rotates_when_current_file_exceeds_limit :: "(log_world, unit) test" where
  "rotates_when_current_file_exceeds_limit =
     (let retention = retention_of 12 36 3 60 in
      io_bind (unwrap (rotating_log_writer_new retention)) (\<lambda>_.
      io_bind (unwrap (write_all retention (''hello world'' @ [char_of (10 :: nat)]))) (\<lambda>_.
      io_bind (unwrap (write_all retention (''second line'' @ [char_of (10 :: nat)]))) (\<lambda>_.
      io_bind (unwrap log_handle_flush) (\<lambda>_.
      io_bind (observe (file_exists ''keyro-core.log'')) (\<lambda>exists.
      io_bind (expect exists) (\<lambda>_.
      io_bind (observe (file_exists ''keyro-core.0.log'')) (\<lambda>exists.
      expect exists))))))))"

definition keeps_configured_number_of_rotated_files :: "(log_world, unit) test" where
  "keeps_configured_number_of_rotated_files =
     (let retention = retention_of 4 12 2 60 in
      io_bind (unwrap (rotating_log_writer_new retention)) (\<lambda>_.
      io_bind (repeat 5 (unwrap (write_all retention (''data'' @ [char_of (10 :: nat)])))) (\<lambda>_.
      io_bind (unwrap log_handle_flush) (\<lambda>_.
      io_bind (observe (file_exists ''keyro-core.log'')) (\<lambda>exists.
      io_bind (expect exists) (\<lambda>_.
      io_bind (observe (file_exists ''keyro-core.0.log'')) (\<lambda>exists.
      io_bind (expect exists) (\<lambda>_.
      io_bind (observe (file_exists ''keyro-core.1.log'')) (\<lambda>exists.
      expect (\<not> exists))))))))))"

definition enforces_total_log_bytes :: "(log_world, unit) test" where
  "enforces_total_log_bytes =
     (let retention = retention_of 10 18 10 60 in
      io_bind (unwrap (rotating_log_writer_new retention)) (\<lambda>_.
      io_bind (repeat 4 (unwrap (write_all retention (''123456789'' @ [char_of (10 :: nat)])))) (\<lambda>_.
      io_bind (unwrap log_handle_flush) (\<lambda>_.
      io_bind (observe total_size) (\<lambda>total_bytes.
      expect (total_bytes \<le> max_total_bytes retention))))))"

definition splits_large_writes_across_rotated_files :: "(log_world, unit) test" where
  "splits_large_writes_across_rotated_files =
     (let retention = retention_of 4 40 10 60 in
      io_bind (unwrap (rotating_log_writer_new retention)) (\<lambda>_.
      io_bind (unwrap (write_all retention ''1234567890'')) (\<lambda>_.
      io_bind (unwrap log_handle_flush) (\<lambda>_.
      io_bind (observe log_sizes) (\<lambda>sizes.
      io_bind (expect (3 \<le> length sizes)) (\<lambda>_.
      expect (list_all (\<lambda>len. len \<le> max_file_bytes retention) sizes)))))))"

definition startup_cleanup_enforces_count_and_total_bytes :: "(log_world, unit) test" where
  "startup_cleanup_enforces_count_and_total_bytes =
     io_bind (fs_write (rotated_log_path 0) ''12345'') (\<lambda>_.
     io_bind (fs_write (rotated_log_path 1) ''12345'') (\<lambda>_.
     io_bind (fs_write (rotated_log_path 2) ''12345'') (\<lambda>_.
     io_bind (fs_write (rotated_log_path 3) ''12345'') (\<lambda>_.
     io_bind (fs_write (rotated_log_path 4) ''12345'') (\<lambda>_.
     io_bind (fs_write ''keyro-core.log'' ''12345'') (\<lambda>_.
     let retention = retention_of 10 15 3 60 in
     io_bind (unwrap (rotating_log_writer_new retention)) (\<lambda>_.
     io_bind (observe log_sizes) (\<lambda>sizes.
     io_bind (expect (length sizes \<le> max_files retention)) (\<lambda>_.
     io_bind (expect (sum_list sizes \<le> max_total_bytes retention)) (\<lambda>_.
     io_bind (observe (file_exists ''keyro-core.log'')) (\<lambda>exists.
     expect exists)))))))))))"

definition cleanup_ignores_unrelated_files :: "(log_world, unit) test" where
  "cleanup_ignores_unrelated_files =
     io_bind (fs_write ''studio.log'' ''not a keyro core log'') (\<lambda>_.
     io_bind (fs_write ''keyro-core.log'' ''12345'') (\<lambda>_.
     io_bind (unwrap (rotating_log_writer_new log_retention_default)) (\<lambda>_.
     io_bind (observe (file_exists ''studio.log'')) (\<lambda>exists.
     expect exists))))"

definition startup_cleanup_removes_oversized_core_logs :: "(log_world, unit) test" where
  "startup_cleanup_removes_oversized_core_logs =
     io_bind (fs_write ''keyro-core.0.log'' ''12345'') (\<lambda>_.
     io_bind (fs_write ''keyro-core.log'' ''12345'') (\<lambda>_.
     let retention = retention_of 4 40 10 60 in
     io_bind (unwrap (rotating_log_writer_new retention)) (\<lambda>_.
     io_bind (observe (file_exists ''keyro-core.0.log'')) (\<lambda>exists.
     io_bind (expect (\<not> exists)) (\<lambda>_.
     io_bind (observe (file_exists ''keyro-core.log'')) (\<lambda>exists.
     io_bind (expect exists) (\<lambda>_.
     io_bind (observe (\<lambda>w. map_option (\<lambda>i. log_size w (''keyro-core.log'', i))
       (map_of (lw_dir w) ''keyro-core.log''))) (\<lambda>size.
     expect (size = Some 0)))))))))"

definition startup_cleanup_removes_expired_core_logs :: "(log_world, unit) test" where
  "startup_cleanup_removes_expired_core_logs =
     io_bind (fs_write ''keyro-core.0.log'' ''12345'') (\<lambda>_.
     let retention = retention_of 10 40 10 0 in
     io_bind (unwrap (rotating_log_writer_new retention)) (\<lambda>_.
     io_bind (observe (file_exists ''keyro-core.0.log'')) (\<lambda>exists.
     io_bind (expect (\<not> exists)) (\<lambda>_.
     io_bind (observe (file_exists ''keyro-core.log'')) (\<lambda>exists.
     expect exists)))))"

section \<open>Guard and pipe tests\<close>

definition prevents_second_guard_for_same_directory :: "string \<Rightarrow> string \<Rightarrow> nat \<Rightarrow> (lock_world, unit) test" where
  "prevents_second_guard_for_same_directory dir path pid =
     io_bind (unwrap (acquire dir path pid)) (\<lambda>first.
     io_bind (is_ok (acquire dir path pid)) (\<lambda>second.
     io_bind (expect (\<not> second)) (\<lambda>_.
     io_bind (\<lambda>w. (Inr (), drop_guard first w)) (\<lambda>_.
     io_bind (observe (\<lambda>w. lk_content w \<noteq> None)) (\<lambda>exists.
     io_bind (expect exists) (\<lambda>_.
     io_bind (is_ok (acquire dir path pid)) (\<lambda>ok.
     expect ok)))))))"

text \<open>Dropping a pipe gives up its instance.\<close>

definition pipe_rejects_second_first_instance :: "string \<Rightarrow> threads \<Rightarrow> (pipes, unit) test" where
  "pipe_rejects_second_first_instance path t =
     io_bind (unwrap (create_pipe path True t)) (\<lambda>_.
     io_bind (is_ok (create_pipe path True t)) (\<lambda>ok.
     io_bind (expect (\<not> ok)) (\<lambda>_.
     io_bind (\<lambda>p. (Inr (), p\<lparr>pi_held := pi_held p - 1\<rparr>)) (\<lambda>_.
     io_bind (is_ok (create_pipe path True t)) (\<lambda>ok.
     expect ok)))))"

section \<open>They pass\<close>

text \<open>An empty directory, and the clock of the test.\<close>

definition empty_dir :: "nat stream \<Rightarrow> log_world" where
  "empty_dir clk =
     \<lparr>lw_dir = [], lw_files = (\<lambda>_. \<lparr>f_data = [], f_modified = 0\<rparr>), lw_next = 0, lw_file = 0,
      lw_clock = clk, lw_faults = [], lw_shorts = [], lw_poisoned = False\<rparr>"

text \<open>Steps are computed from the outside in: a computation first, then the branch that it takes.\<close>

lemma applied:
  "io_bind m f w = (case m w of (r, w') \<Rightarrow> (case r of Inl e \<Rightarrow> (Inl e, w') | Inr a \<Rightarrow> f a w'))"
  "io_try m f g w = (case m w of (r, w') \<Rightarrow> (case r of Inl e \<Rightarrow> g e w' | Inr a \<Rightarrow> f a w'))"
  "unwrap m w = (case m w of
     (r, w') \<Rightarrow> (case r of Inl _ \<Rightarrow> (Inl ''called unwrap() on an Err value'', w') | Inr a \<Rightarrow> (Inr a, w')))"
  "is_ok m w = (case m w of (r, w') \<Rightarrow> (Inr (\<not> isl r), w'))"
  "observe h w = (Inr (h w), w)"
  "expect b w = (if b then (Inr (), w) else (Inl ''assertion failed'', w))"
  by (auto simp: io_bind_def io_try_def unwrap_def io_map_err_def is_ok_def observe_def expect_def
      split: prod.split sum.split)

lemma outermost:
  "w = w' \<Longrightarrow> io_bind m f w = io_bind m f w'"
  "w = w' \<Longrightarrow> io_try m f g w = io_try m f g w'"
  "w = w' \<Longrightarrow> unwrap m w = unwrap m w'"
  "w = w' \<Longrightarrow> is_ok m w = is_ok m w'"
  by simp_all

lemma write_all_run:
  "write_all retention [] w = (Inr (), w)"
  "\<lbrakk>buf \<noteq> []; log_handle_write retention buf w = (Inr n, w'); n \<noteq> 0\<rbrakk> \<Longrightarrow>
   write_all retention buf w = write_all retention (drop n buf) w'"
  by (subst write_all.simps; simp)+

lemma not_before: "\<not> (t :: nat) < t - k" by simp

lemma literal_names: "''keyro-core.log'' = LOG_FILE_NAME" "''keyro-core.0.log'' = rotated_log_path 0"
  "''keyro-core.1.log'' = rotated_log_path 1"
  by code_simp+

lemmas calls = log_handle_write_def log_handle_flush_def log_write_def lock_log_def metadata_def sys_def
  rotate_def cleanup_retention_def current_log_needs_rotation_def retention_cutoff_def now_def write_file_def
  flush_file_def rotate_logs_def open_current_log_def remove_if_exists_def rename_if_exists_def remove_file_def
  rename_file_def file_exists_def remove_entry_def rotating_log_writer_new_def validate_retention_def io_fail_def
  fs_write_def

lemmas cleanups = cleanup_logs_free newest_first_def retained_def discard_def log_size_def log_time_def
  describe_def less_eq_reverse_def sat_add64_def u64_max_def not_before

lemmas looks = total_size_def log_sizes_def logs_def log_size_def file_exists_def

lemma repeat_run:
  "repeat 0 m w = (Inr (), w)" "repeat (Suc n) m w = io_bind m (\<lambda>_. repeat n m) w"
  "repeat (numeral k) m w = io_bind m (\<lambda>_. repeat (pred_numeral k) m) w"
  by (simp_all add: numeral_eq_Suc)

lemma shift_run:
  "shift_logs (numeral k) w = io_bind (rename_if_exists (rotated_log_path (pred_numeral k))
     (rotated_log_path (numeral k))) (\<lambda>_. shift_logs (pred_numeral k)) w"
  by (simp add: numeral_eq_Suc)

lemmas test_steps = passes_def Let_def retention_of_def empty_dir_def calls cleanups applied write_all_run
  repeat_run shift_run looks

text \<open>What the tests write matters by its length only.\<close>

lemma rotates_test: "60 \<le> t \<Longrightarrow> passes rotates_when_current_file_exceeds_limit (empty_dir (sconst t))"
proof -
  assume t: "60 \<le> t"
  define a b where "a = ''hello world'' @ [char_of (10 :: nat)]" and "b = ''second line'' @ [char_of (10 :: nat)]"
  then have "length a = 12" "length b = 12" "a \<noteq> []" "b \<noteq> []" by simp_all
  with t show ?thesis
    unfolding rotates_when_current_file_exceeds_limit_def literal_names a_def [symmetric] b_def [symmetric]
    by (simp add: test_steps cong: outermost)
qed

lemma keeps_test: "60 \<le> t \<Longrightarrow> passes keeps_configured_number_of_rotated_files (empty_dir (sconst t))"
proof -
  assume t: "60 \<le> t"
  define a where "a = ''data'' @ [char_of (10 :: nat)]"
  then have "length a = 5" "a \<noteq> []" by simp_all
  with t show ?thesis
    unfolding keeps_configured_number_of_rotated_files_def literal_names a_def [symmetric]
    by (simp add: test_steps cong: outermost)
qed

lemma total_test: "60 \<le> t \<Longrightarrow> passes enforces_total_log_bytes (empty_dir (sconst t))"
proof -
  assume t: "60 \<le> t"
  define a where "a = ''123456789'' @ [char_of (10 :: nat)]"
  then have "length a = 10" "a \<noteq> []" by simp_all
  with t show ?thesis
    unfolding enforces_total_log_bytes_def literal_names a_def [symmetric]
    by (simp add: test_steps cong: outermost)
qed

lemma splits_test: "60 \<le> t \<Longrightarrow> passes splits_large_writes_across_rotated_files (empty_dir (sconst t))"
proof -
  assume t: "60 \<le> t"
  define a where "a = ''1234567890''"
  then have "length a = 10" "a \<noteq> []" by simp_all
  with t show ?thesis
    unfolding splits_large_writes_across_rotated_files_def literal_names a_def [symmetric]
    by (simp add: test_steps cong: outermost)
qed

lemma startup_test: "60 \<le> t \<Longrightarrow> passes startup_cleanup_enforces_count_and_total_bytes (empty_dir (sconst t))"
proof -
  assume t: "60 \<le> t"
  define a where "a = ''12345''"
  then have "length a = 5" "a \<noteq> []" by simp_all
  with t show ?thesis
    unfolding startup_cleanup_enforces_count_and_total_bytes_def literal_names a_def [symmetric]
    by (simp add: test_steps cong: outermost)
qed

lemma oversized_test: "60 \<le> t \<Longrightarrow> passes startup_cleanup_removes_oversized_core_logs (empty_dir (sconst t))"
proof -
  assume t: "60 \<le> t"
  define a where "a = ''12345''"
  then have "length a = 5" "a \<noteq> []" by simp_all
  with t show ?thesis
    unfolding startup_cleanup_removes_oversized_core_logs_def literal_names a_def [symmetric]
    by (simp add: test_steps cong: outermost)
qed

lemma unrelated_name: "\<not> is_keyro_log ''studio.log''" "''studio.log'' \<noteq> LOG_FILE_NAME"
  "LOG_FILE_NAME \<noteq> ''studio.log''"
  by code_simp+

lemma unrelated_test:
  "max_age log_retention_default \<le> t \<Longrightarrow> passes cleanup_ignores_unrelated_files (empty_dir (sconst t))"
  unfolding cleanup_ignores_unrelated_files_def literal_names
  by (simp add: test_steps log_retention_default_def unrelated_name cong: outermost)

lemma expired_test:
  "shd clk < shd (stl clk) \<Longrightarrow> passes startup_cleanup_removes_expired_core_logs (empty_dir clk)"
  unfolding startup_cleanup_removes_expired_core_logs_def literal_names
  by (simp add: test_steps cong: outermost)

theorem logging_tests_pass:
  assumes "60 \<le> t" and "max_age log_retention_default \<le> d" and "shd clk < shd (stl clk)"
  shows "passes default_retention_matches_product_policy w"
    and "passes rejects_invalid_retention_settings w"
    and "passes rotates_when_current_file_exceeds_limit (empty_dir (sconst t))"
    and "passes keeps_configured_number_of_rotated_files (empty_dir (sconst t))"
    and "passes enforces_total_log_bytes (empty_dir (sconst t))"
    and "passes splits_large_writes_across_rotated_files (empty_dir (sconst t))"
    and "passes startup_cleanup_enforces_count_and_total_bytes (empty_dir (sconst t))"
    and "passes cleanup_ignores_unrelated_files (empty_dir (sconst d))"
    and "passes startup_cleanup_removes_oversized_core_logs (empty_dir (sconst t))"
    and "passes startup_cleanup_removes_expired_core_logs (empty_dir clk)"
  using assms
  by (simp_all add: rotates_test keeps_test total_test splits_test startup_test unrelated_test oversized_test
      expired_test)
    (simp_all add: passes_def default_retention_matches_product_policy_def rejects_invalid_retention_settings_def
      calls applied retention_of_def log_retention_default_def cong: outermost)

theorem guard_test_passes:
  "passes (prevents_second_guard_for_same_directory dir path pid)
     \<lparr>lk_content = content, lk_owner = None, lk_next = n, lk_faults = []\<rparr>"
  by (simp add: passes_def prevents_second_guard_for_same_directory_def applied acquire_def lock_call_def
      open_lock_file_def try_lock_exclusive_def set_len_0_def write_content_def drop_guard_def unlock_def
      close_lock_file_def io_map_err_def io_fail_def cong: outermost)

theorem pipe_test_passes:
  "passes (pipe_rejects_second_first_instance path (t\<lparr>th_running := []\<rparr>))
     \<lparr>pi_held = 0, pi_granted = qs, pi_faults = []\<rparr>"
  by (simp add: passes_def pipe_rejects_second_first_instance_def applied create_pipe_def create_named_pipe_def
      pipe_call_def Let_def PIPE_ACCESS_DUPLEX_def FILE_FLAG_FIRST_PIPE_INSTANCE_def MAX_DEV_CONNECTIONS_def
      cong: outermost)

end
