(* ===== verification/Spec2Isabelle.thy ===== *)
theory Spec2Isabelle
  imports Keyro_Sample Keyro_Progress Keyro_Agreement Keyro_Lifetime Keyro_Exchange Keyro_Main_Tests Keyro_Host_Tests
begin

text \<open>
  Keyro Core: the resident process behind a macro pad with 4 pages of 12 keys and 2 encoders.  A
  client (Studio) talks to it over a local socket or pipe in a JSON protocol, one message a line; a
  session admits commands after a handshake; the application service runs them on profiles and
  assignments kept in SQLite, and opens URLs through a program of the system.  The process holds a
  lock file so that it runs once, and logs into a directory with a retention policy.

  \<^bold>\<open>Theories and sources\<close> (all sources under \<open>src/crates/\<close>)

  \<^item> \<open>Keyro_Prelude\<close>: machine integers, \<open>Result\<close> as a sum (\<open>Inl\<close> is \<open>Err\<close>), effectful code as
    functions from a state to a result and a new state (\<open>io_bind\<close> is \<open>?\<close>), the triple
    \<open>triple P m Q E\<close> (from \<open>P\<close>, a success ends in \<open>Q\<close> and a failure in \<open>E\<close>) that most laws are
    stated with, \<open>str::trim\<close>, and facts on lists and maps.
  \<^item> \<open>Keyro_Domain\<close>: \<open>core-domain/src/lib.rs\<close>; index types over \<open>8 word\<close>, controls, profiles,
    \<open>SafeUrl\<close>, assignments, \<open>DomainError\<close> and its texts.
  \<^item> \<open>Keyro_App\<close>: \<open>core-app/src/lib.rs\<close>; commands, responses, events, the three traits as records of
    operations over a state \<open>'w\<close>, \<open>CoreService\<close>.  Here too: the abstract state \<open>core_state\<close> (names
    of profiles, the active one, actions by control) with its operations \<open>spec_*\<close>, the locale
    \<open>profile_repository\<close> (what a repository promises over that state) and its extension
    \<open>service_env\<close> (what opener, sink and random source promise), inside which the service is
    proved correct once.
  \<^item> \<open>Keyro_Protocol\<close>, \<open>Keyro_Ipc\<close>: \<open>core-protocol/src/lib.rs\<close> and \<open>core-ipc/src/lib.rs\<close>; messages,
    decoding and encoding around \<open>serde_json\<close>, the handshake, the session \<open>receive_line\<close>, and the
    conversions between protocol and domain with 16-bit and 8-bit indices.
  \<^item> \<open>Keyro_Sqlite\<close>, \<open>Keyro_Storage\<close>: \<open>core-storage-sqlite/src/lib.rs\<close>; the two tables with the
    constraints of the schema, one definition per SQL statement, transactions, and the repository's
    operations statement by statement.  \<open>Keyro_Storage_View\<close> and \<open>Keyro_Storage_Correct\<close>: the rows
    as an abstract state, the laws, and the interpretation \<open>sqlite\<close> of \<open>profile_repository\<close>.
    \<open>Keyro_Storage_Total\<close>: the outcomes when the engine does not fail, and that failures undo.
    \<open>Keyro_Migrate\<close>: \<open>open\<close> and \<open>migrate\<close> on a database file in any state of completion.
  \<^item> \<open>Keyro_Platform\<close>: \<open>core-platform/src/lib.rs\<close>; the \<open>#[cfg]\<close> variants become an argument \<open>os\<close>.
  \<^item> \<open>Keyro_Server\<close>, \<open>Keyro_Connection\<close>: \<open>handle_dev_connection\<close> of \<open>keyro-core/src/main.rs\<close> with its
    writer and event sink on the state \<open>world\<close>; the interpretations \<open>lifted\<close> and \<open>service\<close>; what a
    connection does from its first to its last line.
  \<^item> \<open>Keyro_Concurrent\<close>: connections at the same time.  A command is a tree \<open>prog\<close> of critical
    sections, one for each time a lock is taken, and \<open>server_step\<close> interleaves the sections
    of all connections arbitrarily.
  \<^item> \<open>Keyro_Listener\<close>: \<open>DevConnections\<close> and \<open>run_dev_ipc\<close> of \<open>main.rs\<close>, and
    \<open>keyro-core/src/windows_ipc.rs\<close>; worker threads, their limit, the socket file, pipe instances.
  \<^item> \<open>Keyro_Instance\<close>: \<open>keyro-core/src/single_instance.rs\<close> on a lock file shared by processes.
  \<^item> \<open>Keyro_Logging\<close>: \<open>keyro-core/src/logging.rs\<close> on a directory whose entries name inodes.
    \<open>Keyro_Logging_Frame\<close>: invariants under any failure, by the locales \<open>directory_invariant\<close> and
    \<open>log_invariant\<close>.  \<open>Keyro_Logging_Correct\<close>, \<open>Keyro_Logging_Writer\<close>, \<open>Keyro_Logging_History\<close>:
    the policy of a cleanup, rotation and writing, and any history of the writer.
  \<^item> \<open>Keyro_Main\<close>: \<open>main\<close> of \<open>main.rs\<close> on the state \<open>host\<close> that joins the parts above.
  \<^item> \<open>Keyro_Progress\<close>: interleaved connections come to an end.  \<open>Keyro_Memory\<close>, \<open>Keyro_Agreement\<close>: the
    SQLite repository beside the repository in memory that the tests of \<open>core-app\<close> use.
    \<open>Keyro_Lifetime\<close>: the process over any number of starts, connections and crashes.
  \<^item> \<open>Keyro_Json\<close>: the JSON notation of the protocol types as the serde attributes of
    \<open>core-protocol/src/lib.rs\<close> declare it.  \<open>Keyro_Schema\<close>: \<open>src/protocol/schema/v0.3.0\<close> as data, and
    the relation \<open>corresponds\<close> between a schema and a type.  \<open>Keyro_Conform\<close>, \<open>Keyro_Exchange\<close>: which
    envelopes and messages the schema admits, and what conforming clients and Core exchange.
  \<^item> \<open>Keyro_Sample\<close>: concrete parameters and states on which the witnesses evaluate.
  \<^item> \<open>Keyro_Testing\<close>: assertions and \<open>unwrap\<close> as computations.  \<open>Keyro_App_Tests\<close>, \<open>Keyro_Ipc_Tests\<close>,
    \<open>Keyro_Storage_Tests\<close>, \<open>Keyro_Main_Tests\<close>, \<open>Keyro_Host_Tests\<close>: the unit tests of the crates, one
    definition each, and that the model passes them for all parameters that accept what they use.

  \<^bold>\<open>What the theorems show\<close>

  The service on the SQLite repository refines the abstract specification of each command and has
  its external effects in order (C1, C2); a connection serves its lines in order (C3); interleaved
  connections leave the state that some sequence of commands leads to (C4, C5), and end (C13); a
  connection that breaks off damages nothing (C6), nor does any sequence of starts, connections and
  crashes, after which what was saved is still there (C7, C8).  Through the service, SQLite cannot
  be told from the repository in memory of the tests (C9).  The published schema describes the
  types of the program (C10), what Core writes conforms to it (C11) and what conforms is understood
  (C12).  The repository answers what its arguments call for, undoes what fails and finds what was
  saved (C14 to C17).  The session demands a handshake, once, and answers with the right identifier
  (C18 to C20); conversions are exact and errors carry no private text (C21, C22); the device has
  its 72 controls (C23).  Logging never touches other files or changes bytes already written and
  keeps its policy (C24 to C29, with the two limits C38, C39); a start respects the lock, keeps the
  data and goes through on a working host (C30 to C33); workers and pipe instances are bounded
  (C34, C35); opening the database keeps its rows and can be repeated (C36, C37).  C40 is a race in
  renaming.

  \<^bold>\<open>Parameters\<close>

  Code of other crates is an argument: \<open>crates\<close> (parsing and printing by \<open>url\<close> and \<open>uuid\<close>),
  \<open>serde_json\<close> (with the derived implementations), the text of \<open>rusqlite\<close> errors (in \<open>deps\<close>), and
  how programs end.  The one hypothesis on them is \<open>uuid_text_ok\<close>: a printed UUID parses to itself;
  a well-formed assignment states the same of its own URLs.  Where the JSON notation matters,
  \<open>serde_reads\<close> says that the derived reader understands the notation that the attributes declare;
  what is written is stated of the value that they declare for a message; the theorems on the unit
  tests name what each test needs of a crate.  The operating system and the engine appear as lists in the state: of faults (which call fails, with
  what error), of the bytes a write accepts, of clock readings, random values and ending threads.
  Theorems quantify over all of them unless a hypothesis fixes them.

  \<^bold>\<open>Bounds and termination\<close>

  No definition uses fuel: loops over input run over the list of what comes in, and the others
  (\<open>trim\<close>'s, the reaping of workers, \<open>write_all\<close> of the tests) end by a measure.  Interleaved
  connections end because each line costs at most four critical sections and leaving one step.  Indices, flags and connection numbers
  are words of the width in the source.  Sizes and times of logs are natural numbers with the
  saturating additions written out; \<open>policy_ok\<close> asks for a total below \<open>2 ^ 64 - 1\<close>, where
  saturation can no longer hide an excess.  The number of workers is 8 and of pipe instances 10, as
  in the source.

  \<^bold>\<open>Not modelled\<close>

  The text of the tracing output; memory management of the calls to Windows, of which the requests
  and the outcomes are modelled; the poisoning of the database mutex, which needs a panic inside a
  repository operation; the sleep of the maintenance thread, of which a round is modelled and may
  come at any time; panics of the allocator or of a thread; page and file formats of SQLite.  In the
  schema, \<open>format\<close> is an annotation that is not checked, as in JSON Schema by default.  Older versions
  of the schema, the generated TypeScript and the Markdown documents are left out, and so are the
  tests that exercise only \<open>serde_json\<close> or \<open>url\<close> and the two that serve several clients in threads.
\<close>

section \<open>The service on the SQLite repository\<close>

text \<open>C1: for every well-formed command, on any of the three systems and whatever the database
  engine, the opener, the client's socket and the random source do: a command that succeeds takes
  the stored profiles and assignments to a state its specification allows and answers with what
  that state holds; a command that fails leaves them as they were.  The invariant of the tables is
  kept in both cases.\<close>

theorem command_refines_spec:
  assumes "world_good K w" and "wf_command (crates_of K) cmd"
  shows "case handle_command (system_service os K J) cmd w of
      (Inr r, w') \<Rightarrow> world_good K w' \<and> command_spec cmd (world_view K w) r (world_view K w')
    | (Inl e, w') \<Rightarrow> world_good K w' \<and> world_view K w' = world_view K w"
proof -
  have ok: "command_ok (wf_assignment (crates_of K)) (\<lambda>_. True) cmd"
    using assms(2) by (cases cmd) (auto simp: wf_command_def)
  have w: "world_stands K (world_view K w) w"
    using assms(1) by (simp add: stands_for_def)
  show ?thesis
    using triple_Inr [OF service.handle_command_law [OF ok] w]
      triple_Inl [OF service.handle_command_law [OF ok] w]
    by (auto simp: stands_for_def split: prod.splits sum.splits)
qed

theorem command_refines_spec_witness:
  "case handle_command (system_service MacOs sample_deps sample_json) (CreateProfile ''Work'')
      (world_of sample_conn) of
      (Inr r, w') \<Rightarrow> world_good sample_deps w' \<and>
        command_spec (CreateProfile ''Work'') (world_view sample_deps (world_of sample_conn)) r
          (world_view sample_deps w')
    | (Inl e, w') \<Rightarrow> world_good sample_deps w' \<and>
        world_view sample_deps w' = world_view sample_deps (world_of sample_conn)"
  by (rule command_refines_spec) (simp_all add: world_of_good sample_good wf_command_def)



section \<open>Connections\<close>

text \<open>C3: a development connection that ends without an error has served every line it read, in
  order: each line is dispatched by the session, a dispatched command does to the stored state what
  its specification says or leaves it alone, its events and its URL come before its reply, and
  exactly one reply follows.\<close>

theorem connection_serves_in_order:
  assumes "world_good K w"
    and "handle_dev_connection_inner K J (system_open_url os (crates_of K) command_status) cloned
      items w = (Inr (), w')"
  shows "\<exists>ls xs. items = map Inr ls \<and> world_good K w' \<and> world_trace w' = world_trace w @ xs \<and>
    serves os K J
      (fst (receive_lines J (crates_of K) (protocol_session_new CARGO_PKG_VERSION) ls))
      (world_view K w) (world_view K w') xs"
proof -
  have w: "world_stands K (world_view K w) w"
    using assms(1) by (simp add: stands_for_def)
  from assms(2) have "connection_loop K J (system_service os K J)
      (protocol_session_new CARGO_PKG_VERSION) items w = (Inr (), w')"
    by (auto simp: handle_dev_connection_inner_def io_bind_eq_Inr)
  from connection_loop_serves [OF w this] show ?thesis
    by (auto simp: stands_for_def)
qed

theorem connection_serves_in_order_witness:
  "\<exists>ls xs. [Inr ''hello'', Inr ''press''] = map (Inr :: string \<Rightarrow> string + string) ls \<and>
     world_good sample_deps (snd sample_run) \<and>
     world_trace (snd sample_run) = world_trace (world_of sample_conn) @ xs \<and>
     serves MacOs sample_deps sample_json
       (fst (receive_lines sample_json sample_crates (protocol_session_new CARGO_PKG_VERSION) ls))
       (world_view sample_deps (world_of sample_conn)) (world_view sample_deps (snd sample_run)) xs"
proof -
  have "handle_dev_connection_inner sample_deps sample_json
      (system_open_url MacOs (crates_of sample_deps) command_status) (Inr ())
      [Inr ''hello'', Inr ''press''] (world_of sample_conn) = (Inr (), snd sample_run)"
    using sample_run_result by (simp add: sample_run_def prod_eq_iff)
  from connection_serves_in_order [OF world_of_good [OF sample_good] this] show ?thesis by simp
qed

text \<open>C6: however a connection ends -- a closed client, a read error, a reply that cannot be
  written -- the tables keep their invariant, a store with an active profile still has one, and no
  profile has disappeared.\<close>

theorem connection_keeps_data:
  assumes "world_good K w"
  shows "let w' = handle_dev_connection os K J cloned items w in
    world_good K w' \<and>
    (st_active (world_view K w) \<noteq> None \<longrightarrow> st_active (world_view K w') \<noteq> None) \<and>
    dom (st_names (world_view K w)) \<subseteq> dom (st_names (world_view K w'))"
proof -
  let ?inner = "handle_dev_connection_inner K J (system_open_url os (crates_of K) command_status)
    cloned items"
  have w: "world_stands K (world_view K w) w"
    using assms by (simp add: stands_for_def)
  have "\<exists>s'. world_stands K s' (snd (?inner w)) \<and> commanded\<^sup>*\<^sup>* (world_view K w) s'"
  proof (cases cloned)
    case (Inl e)
    with w show ?thesis by (auto simp: handle_dev_connection_inner_def io_bind_def)
  next
    case (Inr u)
    then have "?inner w = connection_loop K J (system_service os K J)
        (protocol_session_new CARGO_PKG_VERSION) items w"
      by (simp add: handle_dev_connection_inner_def io_bind_def)
    then show ?thesis using connection_loop_commanded [OF w] by (metis prod.collapse)
  qed
  then obtain s' where s': "world_stands K s' (snd (?inner w))"
    and c: "commanded\<^sup>*\<^sup>* (world_view K w) s'" by blast
  have "wf_state (world_view K w)" using assms by (rule lifted.wf_view)
  from commanded_keeps [OF c this] s' show ?thesis
    by (simp add: handle_dev_connection_def Let_def stands_for_def)
qed

theorem connection_keeps_data_witness:
  "let w' = handle_dev_connection Windows sample_deps sample_json (Inr ())
       [Inr ''hello'', Inr ''save'', Inl ''reset''] (world_of sample_conn) in
    world_good sample_deps w' \<and>
    (st_active (world_view sample_deps (world_of sample_conn)) \<noteq> None \<longrightarrow>
       st_active (world_view sample_deps w') \<noteq> None) \<and>
    dom (st_names (world_view sample_deps (world_of sample_conn))) \<subseteq>
      dom (st_names (world_view sample_deps w'))"
  by (rule connection_keeps_data [OF world_of_good [OF sample_good]])

section \<open>The published schema\<close>






section \<open>The repository\<close>

text \<open>C14: when the engine does not fail, renaming, activating, saving and clearing answer exactly
  what their arguments call for: an unknown profile, a blank name, a store without an active
  profile, or success.\<close>

theorem write_outcomes:
  assumes "sqlite_good K c" and "faults c = []" and "wf_assignment (crates_of K) a"
  defines "s \<equiv> sqlite_view K c"
  shows "fst (sqlite_rename_profile K pid name c) =
      (if st_names s pid = None then Inl ProfileNotFound
       else if trim name = [] then Inl (AppDomain EmptyProfileName)
       else Inr \<lparr>p_id = pid, p_name = name, p_is_active = (st_active s = Some pid)\<rparr>) \<and>
    fst (sqlite_set_active_profile K pid c) =
      (if st_names s pid = None then Inl ProfileNotFound
       else if st_active s = None then Inl ActiveProfileMissing else Inr ()) \<and>
    fst (sqlite_save_assignment K a c) =
      (if st_names s (a_profile_id a) = None then Inl ProfileNotFound else Inr ()) \<and>
    fst (sqlite_clear_assignment K pid ctl c) =
      (if st_names s pid = None then Inl ProfileNotFound else Inr ())"
proof -
  have s: "sqlite_stands K s c" using assms by (simp add: stands_for_def)
  show ?thesis
    by (intro conjI rename_free [OF s assms(2)] activate_free [OF s assms(2)]
        save_free [OF s assms(2,3)] clear_free [OF s assms(2)])
qed

theorem write_outcomes_witness:
  "fst (sqlite_rename_profile sample_deps (ProfileId 7) [] sample_conn) =
      (if st_names (sqlite_view sample_deps sample_conn) (ProfileId 7) = None then Inl ProfileNotFound
       else if trim [] = [] then Inl (AppDomain EmptyProfileName)
       else Inr \<lparr>p_id = ProfileId 7, p_name = [],
          p_is_active = (st_active (sqlite_view sample_deps sample_conn) = Some (ProfileId 7))\<rparr>)"
  using write_outcomes [OF sample_good, of sample_assignment "ProfileId 7" "[]"] sample_assignment_wf
  by simp

text \<open>Well-formed tables always decode: without an engine failure every read succeeds and
  leaves the connection untouched.\<close>

theorem reads_succeed:
  assumes "sqlite_good K c" and "faults c = []"
  shows "(\<exists>ps. sqlite_list_profiles K c = (Inr ps, c)) \<and>
    (\<exists>st. sqlite_load_snapshot_state K c = (Inr st, c)) \<and>
    (\<exists>r. sqlite_find_assignment K pid ctl c = (Inr r, c))"
  using list_profiles_free [OF assms] load_snapshot_free [OF assms] find_assignment_free [OF assms]
  by blast

theorem reads_succeed_witness:
  "\<exists>st. sqlite_load_snapshot_state sample_deps sample_conn = (Inr st, sample_conn)"
  using reads_succeed [OF sample_good] by (simp add: sample_conn_def empty_conn_def)

text \<open>C15: an operation that fails, at whichever statement and for whatever reason, leaves exactly
  the tables it found: activation and saving roll back, renaming changes no row unless it
  succeeds.\<close>

theorem failed_write_is_undone:
  assumes "sqlite_good K c"
    and "sqlite_create_profile K name c = (Inl e, c') \<or> sqlite_rename_profile K pid name c = (Inl e, c') \<or>
      sqlite_set_active_profile K pid c = (Inl e, c') \<or> sqlite_save_assignment K a c = (Inl e, c') \<or>
      sqlite_clear_assignment K pid ctl c = (Inl e, c')"
  shows "db c' = db c"
proof -
  have "sqlite_stands K (sqlite_view K c) c" using assms(1) by (simp add: stands_for_def)
  from rename_clean [OF this] assms(2) clean_operations show ?thesis
    unfolding clean_def by metis
qed

theorem failed_write_is_undone_witness:
  "db (snd (sqlite_set_active_profile sample_deps (ProfileId 7)
      (sample_conn\<lparr>faults := [None, None, None, Some ''disk full'']\<rparr>))) = db sample_conn"
proof -
  let ?c = "sample_conn\<lparr>faults := [None, None, None, Some ''disk full'']\<rparr>"
  have "sqlite_set_active_profile sample_deps (ProfileId 7) ?c =
      (Inl (Storage ''sql error''), snd (sqlite_set_active_profile sample_deps (ProfileId 7) ?c))"
    using sample_id
    by (simp add: sqlite_set_active_profile_def transaction_def prepare_def stmt_def io_bind_def io_try_def
        io_map_err_def profile_exists_def query_def select_exists_def sample_conn_def empty_conn_def
        sample_profile_row_def update_deactivate_def update_activate_def execute_def to_app_error_def)
  moreover have "sqlite_good sample_deps ?c"
    using sample_good by (simp add: sqlite_good_def)
  ultimately have "db (snd (sqlite_set_active_profile sample_deps (ProfileId 7) ?c)) = db ?c"
    using failed_write_is_undone by blast
  then show ?thesis by simp
qed

text \<open>C16: what is saved is found again: after a successful save, looking the control up returns the
  saved assignment with its actions in order, and every other control of every profile is found as
  it was before.\<close>

theorem saved_assignment_is_found:
  assumes "sqlite_good K c" and "wf_assignment (crates_of K) a" and "a_actions a \<noteq> []"
    and "sqlite_save_assignment K a c = (Inr (), c1)"
    and "sqlite_find_assignment K pid ctl c = (Inr before, c0)"
    and "sqlite_find_assignment K pid ctl c1 = (Inr r, c2)"
  shows "r = (if (pid, ctl) = (a_profile_id a, a_control a) then Some a else before)"
proof -
  have s: "sqlite_stands K (sqlite_view K c) c" using assms(1) by (simp add: stands_for_def)
  from triple_Inr [OF sqlite_save_law [OF assms(2)] s assms(4)]
  have s1: "sqlite_stands K (spec_save a (sqlite_view K c)) c1" by blast
  from triple_Inr [OF sqlite_find_law s assms(5)] triple_Inr [OF sqlite_find_law s1 assms(6)] assms(3)
  show ?thesis by (auto simp: spec_save_def assignment_eq_iff)
qed

theorem saved_assignment_is_found_witness:
  "snd (sqlite_save_assignment sample_deps sample_assignment empty_profile_conn) \<noteq> empty_profile_conn \<and>
   fst (sqlite_find_assignment sample_deps (ProfileId 7) (a_control sample_assignment)
     (snd (sqlite_save_assignment sample_deps sample_assignment empty_profile_conn))) =
     Inr (Some sample_assignment)"
proof -
  let ?c = empty_profile_conn and ?ctl = "a_control sample_assignment"
  let ?c1 = "snd (sqlite_save_assignment sample_deps sample_assignment ?c)"
  have save: "sqlite_save_assignment sample_deps sample_assignment ?c = (Inr (), ?c1)"
    and t: "t_assignments (db ?c1) = [sample_row]" "faults ?c1 = []"
    by (simp_all add: sample_save_run)
  have s: "sqlite_stands sample_deps (sqlite_view sample_deps ?c) ?c"
    using empty_profile_good by (simp add: stands_for_def)
  obtain b where b: "sqlite_find_assignment sample_deps (ProfileId 7) ?ctl ?c = (Inr b, ?c)"
    using find_assignment_free [OF empty_profile_good] by auto
  have "sqlite_good sample_deps ?c1"
    using triple_Inr [OF sqlite_save_law [OF sample_assignment_wf] s save] by (simp add: stands_for_def)
  then obtain r where r: "sqlite_find_assignment sample_deps (ProfileId 7) ?ctl ?c1 = (Inr r, ?c1)"
    using find_assignment_free t(2) by blast
  have "r = Some sample_assignment"
    using saved_assignment_is_found [OF empty_profile_good sample_assignment_wf _ save b r]
    by (simp add: sample_assignment_def)
  with r t show ?thesis by (auto simp: empty_profile_conn_def)
qed

text \<open>Clearing removes exactly the assignment of the given control: it is not found any more,
  every other control is found as before, and clearing it again changes nothing more.\<close>

theorem cleared_assignment_is_gone:
  assumes "sqlite_good K c" and "sqlite_clear_assignment K pid ctl c = (Inr (), c1)"
    and "sqlite_find_assignment K pid' ctl' c = (Inr before, c0)"
    and "sqlite_find_assignment K pid' ctl' c1 = (Inr r, c2)"
    and "sqlite_clear_assignment K pid ctl c1 = (q, c3)"
  shows "r = (if (pid', ctl') = (pid, ctl) then None else before) \<and> sqlite_view K c3 = sqlite_view K c1"
proof -
  have s: "sqlite_stands K (sqlite_view K c) c" using assms(1) by (simp add: stands_for_def)
  from triple_Inr [OF sqlite_clear_law s assms(2)]
  have s1: "sqlite_stands K (spec_clear pid ctl (sqlite_view K c)) c1" by blast
  have "sqlite_view K c3 = sqlite_view K c1"
  proof (cases q)
    case (Inl e)
    with triple_Inl [OF sqlite_clear_law s1] assms(5) s1 show ?thesis by (simp add: stands_for_def)
  next
    case (Inr u)
    with triple_Inr [OF sqlite_clear_law s1] assms(5) s1 show ?thesis
      by (auto simp: stands_for_def spec_clear_def)
  qed
  with triple_Inr [OF sqlite_find_law s assms(3)] triple_Inr [OF sqlite_find_law s1 assms(4)]
  show ?thesis by (auto simp: spec_clear_def)
qed

theorem cleared_assignment_is_gone_witness:
  "fst (sqlite_find_assignment sample_deps (ProfileId 7) sample_control
     (snd (sqlite_clear_assignment sample_deps (ProfileId 7) sample_control sample_conn))) = Inr None"
proof -
  let ?c1 = "snd (sqlite_clear_assignment sample_deps (ProfileId 7) sample_control sample_conn)"
  have clear: "sqlite_clear_assignment sample_deps (ProfileId 7) sample_control sample_conn = (Inr (), ?c1)"
    and f: "faults ?c1 = []"
    by (simp_all add: sample_clear_run)
  have s: "sqlite_stands sample_deps (sqlite_view sample_deps sample_conn) sample_conn"
    using sample_good by (simp add: stands_for_def)
  have "sqlite_good sample_deps ?c1"
    using triple_Inr [OF sqlite_clear_law s clear] by (simp add: stands_for_def)
  then obtain r where r: "sqlite_find_assignment sample_deps (ProfileId 7) sample_control ?c1 = (Inr r, ?c1)"
    using find_assignment_free f by blast
  have "r = None"
    using cleared_assignment_is_gone [OF sample_good clear sample_find [folded sample_control_def] r
        surjective_pairing] by simp
  with r show ?thesis by simp
qed

text \<open>C17: a snapshot agrees with the lookups: the assignment it lists for a control is what
  looking the control up returns, and it lists none for a control that has none.\<close>

theorem snapshot_agrees_with_find:
  assumes "sqlite_good K c" and "sqlite_load_snapshot_state K c = (Inr st, c1)"
    and "sqlite_find_assignment K pid ctl c1 = (Inr r, c2)"
  shows "find (\<lambda>a. a_profile_id a = pid \<and> a_control a = ctl) (ss_assignments st) = r"
proof -
  have s: "sqlite_stands K (sqlite_view K c) c" using assms(1) by (simp add: stands_for_def)
  from triple_Inr [OF sqlite_snapshot_law s assms(2)]
  have s1: "sqlite_stands K (sqlite_view K c) c1"
    and as: "lists_assignments (sqlite_view K c) (ss_assignments st)" by auto
  from triple_Inr [OF sqlite_find_law s1 assms(3)]
  have r: "r = map_option (\<lambda>as. \<lparr>a_profile_id = pid, a_control = ctl, a_actions = as\<rparr>)
    (st_actions (sqlite_view K c) (pid, ctl))" by blast
  show ?thesis
  proof (cases "st_actions (sqlite_view K c) (pid, ctl)")
    case None
    with as r show ?thesis by (auto simp: lists_assignments_def find_None_mem)
  next
    case (Some acts)
    let ?a = "\<lparr>a_profile_id = pid, a_control = ctl, a_actions = acts\<rparr>"
    have "?a \<in> set (ss_assignments st)" using as Some by (simp add: lists_assignments_def)
    then have "find (\<lambda>a. assignment_key a = assignment_key ?a) (ss_assignments st) = Some ?a"
      using as by (intro find_by_key) (simp_all add: lists_assignments_def)
    with r Some show ?thesis by simp
  qed
qed

theorem snapshot_agrees_with_find_witness:
  "\<exists>st. sqlite_load_snapshot_state sample_deps sample_conn = (Inr st, sample_conn) \<and>
     find (\<lambda>a. a_profile_id a = ProfileId 7 \<and> a_control a = sample_control) (ss_assignments st) =
     Some sample_assignment"
proof -
  obtain st where st: "sqlite_load_snapshot_state sample_deps sample_conn = (Inr st, sample_conn)"
    using load_snapshot_free [OF sample_good] by (auto simp: sample_conn_def empty_conn_def)
  with snapshot_agrees_with_find [OF sample_good st sample_find [folded sample_control_def]]
  show ?thesis by (simp add: sample_assignment_def)
qed

section \<open>Start-up of the core state\<close>

text \<open>When start-up succeeds, the profile it returns is the active one, and the only one; a
  store that already had an active profile is left as it was, and one that had none has gained a
  single new profile named Default.  When it fails, the tables still keep their invariant.\<close>

theorem initialize_activates_one:
  assumes "sqlite_good K c" and "core_service_initialize (main_service os K run) c = (r, c')"
  shows "sqlite_good K c' \<and>
    (case r of
       Inl e \<Rightarrow> True
     | Inr p \<Rightarrow>
         st_active (sqlite_view K c') = Some (p_id p) \<and>
         st_names (sqlite_view K c') (p_id p) = Some (p_name p) \<and>
         (if st_active (sqlite_view K c) \<noteq> None then sqlite_view K c' = sqlite_view K c
          else st_names (sqlite_view K c) (p_id p) = None \<and>
            sqlite_view K c' =
              spec_activate (p_id p) (spec_create (p_id p) ''Default'' (sqlite_view K c))))"
proof -
  have s: "sqlite_stands K (sqlite_view K c) c" using assms(1) by (simp add: stands_for_def)
  show ?thesis
  proof (cases r)
    case (Inl e)
    with triple_Inl [OF main_initialize_law s] assms(2) show ?thesis by simp
  next
    case (Inr p)
    with triple_Inr [OF main_initialize_law s] assms(2) show ?thesis
      by (auto simp: is_profile_def split: option.splits)
  qed
qed

theorem initialize_activates_one_witness:
  "\<exists>p c'. core_service_initialize (main_service MacOs sample_deps (\<lambda>_ _ c. (Inr (Some 0), c))) empty_conn =
      (Inr p, c') \<and> st_active (sqlite_view sample_deps c') = Some (p_id p)"
proof -
  let ?i = "core_service_initialize (main_service MacOs sample_deps (\<lambda>_ _ c. (Inr (Some 0), c))) empty_conn"
  have "st_names (sqlite_view sample_deps empty_conn) pid = None" for pid
    by (simp add: sqlite_view_def tables_view_def view_names_def empty_conn_def)
  then obtain p where "fst ?i = Inr p"
    using initialize_free [OF empty_good, of "main_service MacOs sample_deps (\<lambda>_ _ c. (Inr (Some 0), c))"]
    by auto
  then have i: "?i = (Inr p, snd ?i)" by (simp add: prod_eq_iff)
  from initialize_activates_one [OF empty_good i] i show ?thesis by auto
qed

section \<open>Sessions\<close>

text \<open>C18: over any lines a client sends, no command leaves the session before a handshake with
  exactly the supported protocol version has been accepted on the same connection, and every
  command that leaves it is well-formed: its control exists on the device and its URLs are safe.\<close>

theorem commands_need_handshake:
  assumes "receive_lines J C (protocol_session_new v) ls = (ds, s)"
    and "i < length ds" and "ds ! i = Command r cmd"
  shows "wf_command C cmd \<and>
    (\<exists>j < i. \<exists>r'. ds ! j = Immediate (MsgHandshakeAccepted r' v protocol_version_current))"
  using receive_lines_commands [OF assms] by (simp add: protocol_session_new_def)

theorem commands_need_handshake_witness:
  "\<exists>ds s r cmd. receive_lines sample_json sample_crates (protocol_session_new ''v'') [''press'', ''hello'', ''press''] = (ds, s) \<and>
     ds ! 2 = Command r cmd \<and> wf_command sample_crates cmd \<and>
     (\<exists>j < 2. \<exists>r'. ds ! j = Immediate (MsgHandshakeAccepted r' ''v'' protocol_version_current))"
proof -
  obtain d0 d1 s where r: "receive_lines sample_json sample_crates (protocol_session_new ''v'')
      [''press'', ''hello'', ''press''] =
      ([d0, d1, Command ''press'' (VirtualControlInput (Key (PageIndex 0) (KeyIndex 0)))], s)"
    by (simp add: sample_press sample_receive protocol_session_new_def)
  from commands_need_handshake [OF r, of 2] r show ?thesis by auto
qed

text \<open>C19: at most one handshake is accepted over the life of a connection, and once it is, the
  session stays established whatever else the client sends.\<close>

theorem handshake_accepted_once:
  assumes "receive_lines J C (protocol_session_new v) ls = (ds, s)"
  shows "length (filter accepts ds) \<le> 1 \<and>
    (session_state s = Established \<longleftrightarrow> (\<exists>d \<in> set ds. accepts d))"
  using receive_lines_accepts_once [OF assms] receive_lines_final [OF assms]
  by (simp add: protocol_session_new_def)

theorem handshake_accepted_once_witness:
  "length (filter accepts (fst (receive_lines sample_json sample_crates (protocol_session_new ''v'')
     [''hello'', ''hello'']))) \<le> 1"
  using handshake_accepted_once [of sample_json sample_crates "''v''" "[''hello'', ''hello'']"]
  by (metis prod.collapse)


section \<open>Protocol data\<close>

text \<open>C21: a control of the protocol is accepted exactly when it is the image of a control of the
  device, and then it is that control: the two conversions are inverse to each other between the
  72 controls and the accepted protocol values, and no 16-bit index wraps around.\<close>

theorem control_conversion_exact:
  "control_from_dto dto = Inr c \<longleftrightarrow> wf_control c \<and> control_to_dto c = dto"
  by (rule control_from_dto_Inr)


text \<open>What the opener reports about a URL depends on the URL only through its redacted form: two
  URLs that differ in query or fragment alone give the same failure text, on every system and
  for every way a program can end.\<close>

theorem opener_message_redacted:
  assumes "redacted_for_log C u = redacted_for_log C v"
  shows "fst (system_open_url os C (\<lambda>_ _ w. (outcome, w)) u w) =
    fst (system_open_url os C (\<lambda>_ _ w. (outcome, w)) v w)"
  using assms
  by (cases os; cases outcome) (auto simp: system_open_url_def launch_opener_def io_map_err_def io_bind_def)

theorem opener_message_redacted_witness:
  "fst (system_open_url MacOs sample_crates (\<lambda>_ _ w. (Inr (Some 1), w)) (SafeUrl ''http://a?k=1'') ()) =
   fst (system_open_url MacOs sample_crates (\<lambda>_ _ w. (Inr (Some 1), w)) (SafeUrl ''http://a?k=2'') ())"
  by (rule opener_message_redacted) (simp add: redacted_for_log_def sample_crates_def)

section \<open>Domain\<close>

text \<open>C23: the two constructors of ControlId can return exactly the 72 controls of the MVP
  device: on each of 4 pages, 12 keys and 2 encoders with 3 operations.\<close>

theorem layout_has_72_controls:
  "card {c. (\<exists>p k. control_key p k = Inr c) \<or> (\<exists>p e op. control_encoder p e op = Inr c)} = 72"
  using card_wf_controls by (simp add: wf_control_iff_constructed)

text \<open>A profile can be created with, or renamed to, any name that is not only white space,
  and the name is stored as given, without trimming; a blank name is refused by both, draws no
  random identifier and leaves the profile as it was.\<close>

theorem profile_names_not_blank:
  "(if \<exists>us. set us \<subseteq> set white_space \<and> concat us = name
    then profile_new name act g = (Inl EmptyProfileName, g) \<and>
         profile_rename p name = Inl EmptyProfileName
    else profile_new name act g =
           (Inr \<lparr>p_id = ProfileId (shd g), p_name = name, p_is_active = act\<rparr>, stl g) \<and>
         profile_rename p name = Inr (p\<lparr>p_name := name\<rparr>))"
  by (simp add: profile_new_apply profile_rename_Inr profile_rename_Inl flip: trim_eq_Nil)


section \<open>The process\<close>

text \<open>C30: while another instance holds the lock, starting the program fails and touches neither the
  log, nor the database, nor the socket or pipe, nor any thread; and however a start ends, the lock
  is held afterwards by whoever held it before.\<close>

theorem second_instance_touches_nothing:
  assumes "keyro_main os K run h = (r, h')"
    and "\<forall>f. lk_owner (h_lock h) = Some f \<longrightarrow> f < lk_next (h_lock h)"
  shows "lk_owner (h_lock h') = lk_owner (h_lock h) \<and>
    (lk_owner (h_lock h) \<noteq> None \<longrightarrow> (\<exists>e. r = Inl e) \<and> owned_parts h' = owned_parts h)"
proof -
  have "lk_owner (h_lock h) = None \<or> (\<exists>e. r = Inl e) \<and> owned_parts h' = owned_parts h"
    by (rule keyro_main_cases [OF assms]) blast+
  with keyro_main_owner [OF assms] show ?thesis by auto
qed

theorem second_instance_touches_nothing_witness:
  "let h = sample_host\<lparr>h_lock := (h_lock sample_host)\<lparr>lk_owner := Some 2\<rparr>\<rparr>
   in owned_parts (snd (keyro_main OtherOs sample_deps (\<lambda>_ _ c. (Inr None, c)) h)) = owned_parts h"
proof -
  let ?h = "sample_host\<lparr>h_lock := (h_lock sample_host)\<lparr>lk_owner := Some 2\<rparr>\<rparr>"
  have "\<forall>f. lk_owner (h_lock ?h) = Some f \<longrightarrow> f < lk_next (h_lock ?h)"
    by (simp add: sample_host_def sample_instances_def)
  note touched = second_instance_touches_nothing [OF surjective_pairing this]
  have "lk_owner (h_lock ?h) \<noteq> None" by simp
  with touched show ?thesis unfolding Let_def by blast
qed

text \<open>C31: whatever fails during a start, the stored data is never damaged: the tables keep their
  invariant, and the profiles and assignments are those found before, except that a store without
  an active profile may have gained one named Default; a start that goes through leaves an active
  profile.\<close>

theorem start_keeps_data:
  assumes "keyro_main os K run h = (r, h')" and "h_conn h = None"
    and "\<forall>f. lk_owner (h_lock h) = Some f \<longrightarrow> f < lk_next (h_lock h)"
    and "uuid_text_ok (crates_of K)" and "wf_tables (crates_of K) (host_tables h)"
  shows "wf_tables (crates_of K) (host_tables h') \<and>
    may_initialize (host_view K h) (host_view K h') \<and>
    (r = Inr () \<longrightarrow> st_active (host_view K h') \<noteq> None)"
  using keyro_main_data [OF assms] by blast

theorem start_keeps_data_witness:
  "let h = sample_host\<lparr>h_disk := (h_disk sample_host)\<lparr>d_faults := [None, None, None, Some ''disk full'']\<rparr>\<rparr>;
       h' = snd (keyro_main MacOs sample_deps (\<lambda>_ _ c. (Inr None, c)) h)
   in wf_tables sample_crates (host_tables h') \<and> may_initialize (host_view sample_deps h) (host_view sample_deps h')"
proof -
  let ?h = "sample_host\<lparr>h_disk := (h_disk sample_host)\<lparr>d_faults := [None, None, None, Some ''disk full'']\<rparr>\<rparr>"
  have "h_conn ?h = None" and "\<forall>f. lk_owner (h_lock ?h) = Some f \<longrightarrow> f < lk_next (h_lock ?h)"
    and "uuid_text_ok (crates_of sample_deps)" and "wf_tables (crates_of sample_deps) (host_tables ?h)"
    by (simp_all add: sample_host_def sample_instances_def half_migrated_def host_tables_def wf_tables_empty)
  from start_keeps_data [OF surjective_pairing this] show ?thesis by (simp add: Let_def)
qed

text \<open>C32: on a host that works, a start goes through on every system: with the lock free, with a new
  database or one that an earlier run left, with a stale socket file or none, with any log
  directory that is well-formed, whatever connections then come in.\<close>

theorem start_goes_through:
  assumes "host_ready os K h" and "uuid_text_ok (crates_of K)"
  shows "\<exists>h'. keyro_main os K run h = (Inr (), h')"
  by (rule keyro_main_free [OF assms])

theorem start_goes_through_witness:
  "\<exists>h'. keyro_main OtherOs sample_deps (\<lambda>_ _ c. (Inr None, c)) sample_host = (Inr (), h')"
  by (rule start_goes_through [OF sample_host_ready]) simp


section \<open>Concurrent connections\<close>


text \<open>C4: however the critical sections of any number of connections interleave, whatever their clients
  send and whenever they come and go, the tables keep their invariant, and the stored state is
  always one that complete commands, one after the other, lead to; so an active profile stays and
  no profile disappears.\<close>

theorem interleavings_keep_data:
  assumes "(server_step os K J)\<^sup>*\<^sup>* S S'" and "sqlite_good K (sv_conn S)" and "sv_threads S = []"
  shows "sqlite_good K (sv_conn S') \<and>
    commanded\<^sup>*\<^sup>* (sqlite_view K (sv_conn S)) (sqlite_view K (sv_conn S')) \<and>
    (st_active (sqlite_view K (sv_conn S)) \<noteq> None \<longrightarrow> st_active (sqlite_view K (sv_conn S')) \<noteq> None) \<and>
    dom (st_names (sqlite_view K (sv_conn S))) \<subseteq> dom (st_names (sqlite_view K (sv_conn S')))"
proof -
  have "server_ok K S" using assms(2,3) by (simp add: server_ok_def)
  from server_run [OF assms(1) this]
  have ok: "server_ok K S'" and c: "commanded\<^sup>*\<^sup>* (sqlite_view K (sv_conn S)) (sqlite_view K (sv_conn S'))"
    by auto
  have "wf_state (sqlite_view K (sv_conn S))" using assms(2) by (rule sqlite.wf_view)
  from commanded_keeps [OF c this] ok c show ?thesis by (auto simp: server_ok_def)
qed

theorem interleavings_keep_data_witness:
  "\<exists>S. (server_step MacOs sample_deps sample_json)\<^sup>*\<^sup>* \<lparr>sv_conn = sample_conn, sv_threads = []\<rparr> S \<and>
     length (sv_threads S) = 2 \<and> sqlite_good sample_deps (sv_conn S)"
proof -
  let ?S = "\<lparr>sv_conn = sample_conn, sv_threads = []\<rparr>"
  let ?w = "world_of sample_conn"
  let ?p = "\<lambda>items. connection_sections MacOs sample_deps sample_json
    (protocol_session_new CARGO_PKG_VERSION) items"
  have 1: "server_step MacOs sample_deps sample_json ?S (?S\<lparr>sv_threads := [(?w, ?p [Inr ''hello''])]\<rparr>)"
    using joins [of MacOs sample_deps sample_json ?S ?w "[Inr ''hello'']"] by simp
  have 2: "server_step MacOs sample_deps sample_json (?S\<lparr>sv_threads := [(?w, ?p [Inr ''hello''])]\<rparr>)
      (?S\<lparr>sv_threads := [(?w, ?p [Inr ''hello'']), (?w, ?p [Inr ''save''])]\<rparr>)"
    using joins [of MacOs sample_deps sample_json "?S\<lparr>sv_threads := [(?w, ?p [Inr ''hello''])]\<rparr>" ?w
        "[Inr ''save'']"] by simp
  let ?S' = "?S\<lparr>sv_threads := [(?w, ?p [Inr ''hello'']), (?w, ?p [Inr ''save''])]\<rparr>"
  have r: "(server_step MacOs sample_deps sample_json)\<^sup>*\<^sup>* ?S ?S'"
    using 1 2 by (meson rtranclp.rtrancl_into_rtrancl r_into_rtranclp)
  have "sqlite_good sample_deps (sv_conn ?S')"
    using interleavings_keep_data [OF r] sample_good by simp
  with r show ?thesis by (intro exI [of _ ?S']) simp
qed

text \<open>C40: the reply to a rename can be wrong about the profile being active: rename reads the profiles
  under one lock and updates under another; when another connection activates a different profile
  in between, the reply still calls the renamed one active.\<close>

theorem rename_reply_can_be_stale:
  assumes "world_good K w" and "st_active (world_view K w) = Some pid" and "pid2 \<noteq> pid"
    and "rename_sections K pid name = Sec s1" and "s1 w = (Sec s2, w1)"
    and "lift_conn (sqlite_set_active_profile K pid2) w1 = (Inr (), w2)"
    and "s2 w2 = (Ret (Inr p), w3)"
  shows "p_id p = pid \<and> p_is_active p \<and> st_active (world_view K w2) = Some pid2"
proof -
  from rename_sections_first [OF assms(1,4,5)] assms(2)
  have v: "world_view K w1 = world_view K w" "world_good K w1"
    and s2: "s2 = (\<lambda>w. map_prod Ret id (lift_conn (rename_update K pid
      \<lparr>p_id = pid, p_name = name, p_is_active = True\<rparr>) w))" by auto
  have "p = \<lparr>p_id = pid, p_name = name, p_is_active = True\<rparr>"
    using assms(7) unfolding s2
    by (auto simp: lift_conn_def rename_update_def io_bind_def map_prod_def split: prod.splits sum.splits if_splits)
  moreover have "world_stands K (world_view K w) w1" using v by (simp add: stands_for_def)
  from triple_Inr [OF lift_conn_triple [OF sqlite_activate_law [of K "world_view K w"]] this [unfolded world_stands_eq] assms(6)]
  have "st_active (world_view K w2) = Some pid2"
    by (simp add: stands_for_def world_view_def spec_activate_def)
  ultimately show ?thesis by simp
qed

theorem rename_reply_can_be_stale_witness:
  "\<exists>s1 s2 w3. rename_sections sample_deps (ProfileId 7) ''Home'' = Sec s1 \<and>
     s1 (world_of two_profiles_conn) = (Sec s2, world_of two_profiles_conn) \<and>
     s2 (snd (lift_conn (sqlite_set_active_profile sample_deps (ProfileId 8)) (world_of two_profiles_conn))) =
       (Ret (Inr \<lparr>p_id = ProfileId 7, p_name = ''Home'', p_is_active = True\<rparr>), w3) \<and>
     st_active (world_view sample_deps
       (snd (lift_conn (sqlite_set_active_profile sample_deps (ProfileId 8)) (world_of two_profiles_conn)))) =
       Some (ProfileId 8)"
proof -
  let ?w = "world_of two_profiles_conn"
  let ?a = "lift_conn (sqlite_set_active_profile sample_deps (ProfileId 8)) ?w"
  have home: "trim ''Home'' \<noteq> []" by (rule printable_not_blank [of "CHR ''H''"]; simp)
  have g: "world_good sample_deps ?w" by (rule world_of_good [OF two_profiles_good])
  have v: "world_view sample_deps ?w = sqlite_view sample_deps two_profiles_conn"
    by (simp add: world_view_def world_of_def)
  obtain s1 s2 where s: "rename_sections sample_deps (ProfileId 7) ''Home'' = Sec s1" "s1 ?w = (Sec s2, ?w)"
    using rename_sections_start [of sample_deps ?w "ProfileId 7" "''Home''"] two_profiles_good two_profiles_view home v
    by (auto simp: world_of_def two_profiles_conn_def empty_conn_def)
  have a: "?a = (Inr (), snd ?a)"
    using activate_second by (simp add: lift_conn_def world_of_def)
  have act: "st_active (world_view sample_deps ?w) = Some (ProfileId 7)"
    using two_profiles_view v by simp
  from rename_sections_first [OF g s] act have
    "s2 = (\<lambda>w. map_prod Ret id (lift_conn (rename_update sample_deps (ProfileId 7)
      \<lparr>p_id = ProfileId 7, p_name = ''Home'', p_is_active = True\<rparr>) w))" by simp
  then obtain w3 where w3: "s2 (snd ?a) =
      (Ret (Inr \<lparr>p_id = ProfileId 7, p_name = ''Home'', p_is_active = True\<rparr>), w3)"
    using rename_first_later activate_second by (simp add: lift_conn_def world_of_def)
  have "ProfileId 8 \<noteq> ProfileId 7" by simp
  from rename_reply_can_be_stale [OF g act this s a w3] s w3 show ?thesis by blast
qed



section \<open>The reference repository\<close>



section \<open>From one life of the process to the next\<close>

text \<open>C7: over any number of lives of the process, with starts that fail at any point, any interleaving
  of any connections, and ends at any moment, the tables keep their invariant, and the stored state
  goes through complete commands and the creation of a default profile only; so a store that has an
  active profile keeps one, and no profile disappears.\<close>

theorem data_survives_lives:
  assumes "(life_step os K J run)\<^sup>*\<^sup>* h h'" and "store_ok K h" and "uuid_text_ok (crates_of K)"
  shows "store_ok K h' \<and> evolves\<^sup>*\<^sup>* (host_view K h) (host_view K h') \<and>
    (st_active (host_view K h) \<noteq> None \<longrightarrow> st_active (host_view K h') \<noteq> None) \<and>
    dom (st_names (host_view K h)) \<subseteq> dom (st_names (host_view K h'))"
proof -
  from life_ok [OF assms] have ok: "store_ok K h'" and e: "evolves\<^sup>*\<^sup>* (host_view K h) (host_view K h')" by auto
  have "wf_state (host_view K h)"
    using assms(2,3) by (auto simp: store_ok_def host_view_def intro: wf_tables_view)
  from evolves_star_keeps [OF e this] ok e show ?thesis by blast
qed

lemma sample_store_ok: "store_ok sample_deps sample_host"
  by (simp add: store_ok_def sample_host_def host_tables_def half_migrated_def wf_tables_empty)

theorem data_survives_lives_witness:
  "\<exists>h. (life_step OtherOs sample_deps sample_json (\<lambda>_ _ c. (Inr None, c)))\<^sup>*\<^sup>* sample_host h \<and> h_conn h \<noteq> None \<and>
     store_ok sample_deps h \<and> evolves\<^sup>*\<^sup>* (host_view sample_deps sample_host) (host_view sample_deps h)"
proof -
  let ?run = "\<lambda>_ _ c. (Inr None, c)"
  have u: "uuid_text_ok (crates_of sample_deps)" by simp
  have h: "h_conn sample_host = None" "\<forall>f. lk_owner (h_lock sample_host) = Some f \<longrightarrow> f < lk_next (h_lock sample_host)"
    by (simp_all add: sample_host_def sample_instances_def)
  obtain h' where r: "keyro_main OtherOs sample_deps ?run sample_host = (Inr (), h')"
    using keyro_main_free [OF sample_host_ready u] by blast
  have "wf_tables (crates_of sample_deps) (host_tables sample_host)"
    using sample_store_ok unfolding store_ok_def by (rule conjunct1)
  from keyro_main_data [OF r h u this] have c: "h_conn h' \<noteq> None" by blast
  have "(life_step OtherOs sample_deps sample_json ?run)\<^sup>*\<^sup>* sample_host h'"
    using starts [OF h r] by (rule r_into_rtranclp)
  with data_survives_lives [OF this sample_store_ok u] c show ?thesis by blast
qed

text \<open>C8: what was saved in one life of the process is found in the next: after a save was acknowledged
  the process ends, whatever happens to the rest of the machine, and a start that opens the store
  finds the saved assignment for its control.\<close>

theorem saved_survives_restart:
  assumes "store_ok K h" and "h_conn h = Some c" and "uuid_text_ok (crates_of K)"
    and "st_active (sqlite_view K c) \<noteq> None" and "wf_assignment (crates_of K) a" and "a_actions a \<noteq> []"
    and "sqlite_save_assignment K a c = (Inr (), c1)"
    and "same_store (h\<lparr>h_conn := None, h_disk := stored c1 (h_disk h)\<rparr>) h1"
    and "\<forall>f. lk_owner (h_lock h1) = Some f \<longrightarrow> f < lk_next (h_lock h1)"
    and "keyro_main os K run h1 = (r, h2)" and "h_conn h2 = Some c2"
  shows "fst (sqlite_find_assignment K (a_profile_id a) (a_control a) (c2\<lparr>faults := []\<rparr>)) = Inr (Some a)"
proof -
  have "sqlite_stands K (sqlite_view K c) c"
    using assms(1,2) by (simp add: store_ok_def stands_for_def)
  from triple_Inr [OF sqlite_save_law [OF assms(5)] this assms(7)]
  have s1: "sqlite_stands K (spec_save a (sqlite_view K c)) c1" by blast
  have "store_ok K (h\<lparr>h_conn := Some c1\<rparr>)"
    using s1 by (simp add: store_ok_def stands_for_def sqlite_good_def host_tables_def)
  from next_life_view [OF this _ assms(3) _ _ assms(9,10,11)] s1 assms(4,8)
  have "sqlite_stands K (spec_save a (sqlite_view K c)) c2"
    by (simp add: stands_for_def spec_save_def)
  then have s2: "sqlite_stands K (spec_save a (sqlite_view K c)) (c2\<lparr>faults := []\<rparr>)"
    by (simp add: stands_for_def sqlite_good_def sqlite_view_def)
  then have "sqlite_good K (c2\<lparr>faults := []\<rparr>)" by (simp add: stands_for_def)
  from find_assignment_free [OF this] obtain q where
    q: "sqlite_find_assignment K (a_profile_id a) (a_control a) (c2\<lparr>faults := []\<rparr>) = (Inr q, c2\<lparr>faults := []\<rparr>)"
    by auto
  from triple_Inr [OF sqlite_find_law s2 q] q assms(6) show ?thesis
    by (simp add: spec_save_def)
qed

theorem saved_survives_restart_witness:
  "\<exists>h2 c2. keyro_main OtherOs sample_deps (\<lambda>_ _ c. (Inr None, c))
       (sample_host\<lparr>h_disk := stored sample_conn (h_disk sample_host)\<rparr>) = (Inr (), h2) \<and> h_conn h2 = Some c2 \<and>
     fst (sqlite_find_assignment sample_deps (ProfileId 7) sample_control (c2\<lparr>faults := []\<rparr>)) =
       Inr (Some sample_assignment)"
proof -
  let ?h = "sample_host\<lparr>h_conn := Some empty_profile_conn\<rparr>"
  let ?h1 = "sample_host\<lparr>h_disk := stored sample_conn (h_disk sample_host)\<rparr>"
  have u: "uuid_text_ok (crates_of sample_deps)" by simp
  have ok: "store_ok sample_deps ?h"
    using empty_profile_good by (simp add: store_ok_def host_tables_def sqlite_good_def)
  have t: "host_tables ?h1 = db sample_conn"
    by (simp add: host_tables_def stored_def schema_rows_def sample_host_def)
  have wf: "wf_tables (crates_of sample_deps) (host_tables ?h1)"
    using sample_good t by (simp add: sqlite_good_def)
  have l: "lists_profiles (sqlite_view sample_deps sample_conn) [sample_profile]"
    using triple_Inr [OF sqlite_list_law _ sample_list] sample_good by (auto simp: stands_for_def)
  have new: "st_names (host_view sample_deps ?h1) (ProfileId 0) = None"
    using listed_profile_exists [OF l, of "ProfileId 0"] t by (simp add: host_view_def sqlite_view_def)
  have ready: "host_ready OtherOs sample_deps ?h1"
    using sample_host_ready wf new
    by (simp add: host_ready_def stored_def sample_host_def half_migrated_def)
  then obtain h2 where r: "keyro_main OtherOs sample_deps (\<lambda>_ _ c. (Inr None, c)) ?h1 = (Inr (), h2)"
    using keyro_main_free [OF _ u] by blast
  have h1: "h_conn ?h1 = None" "\<forall>f. lk_owner (h_lock ?h1) = Some f \<longrightarrow> f < lk_next (h_lock ?h1)"
    by (simp_all add: sample_host_def sample_instances_def)
  from keyro_main_data [OF r h1 u wf] obtain c2 where c2: "h_conn h2 = Some c2" by auto
  have "st_active (sqlite_view sample_deps sample_conn) \<noteq> None"
    using listed_active_find [OF l sqlite.wf_view [OF sample_good], symmetric] by simp
  moreover have "sqlite_stands sample_deps (spec_save sample_assignment (sqlite_view sample_deps empty_profile_conn)) sample_conn"
    using triple_Inr [OF sqlite_save_law [OF sample_assignment_wf] _ sample_save_run] empty_profile_good
    by (auto simp: stands_for_def)
  ultimately have act: "st_active (sqlite_view sample_deps empty_profile_conn) \<noteq> None"
    by (simp add: stands_for_def spec_save_def)
  have same: "same_store (?h\<lparr>h_conn := None, h_disk := stored sample_conn (h_disk ?h)\<rparr>) ?h1"
    by (simp add: same_store_def sample_host_def)
  from saved_survives_restart [OF ok _ u act sample_assignment_wf _ sample_save_run same h1(2) r c2] r c2
  show ?thesis by (auto simp: sample_assignment_def)
qed

end
